(* ===== verification/Prelude.thy ===== *)
theory Prelude
  imports Complex_Main
begin

text \<open>
  Shared vocabulary of the development: the collections of simplification rules that the
  component theories fill, the result type of fallible code, labelled transition systems
  with their reachable states, and the interface every invariant proof goes through.
\<close>

section \<open>Collections\<close>

named_theorems charger_defs \<open>operations of the Charger state machine\<close>
named_theorems auth_defs \<open>operations of the Auth module\<close>
named_theorems slac_defs \<open>operations of the SLAC state machine\<close>
named_theorems energy_defs \<open>operations of the energy market\<close>

section \<open>Types shared by the components\<close>

text \<open>
  A C++ \<open>float\<close> or \<open>double\<close> is modelled by the rational number it denotes; rounding of
  arithmetic is not modelled. Time points of the clocks are integers (milliseconds).
\<close>

type_synonym float_t = rat
type_synonym timepoint = int

text \<open>Fallible code returns \<open>Inl\<close> of an error or \<open>Inr\<close> of a value.\<close>

type_synonym ('e, 'a) result = "'e + 'a"

definition bind_res :: "('e, 'a) result \<Rightarrow> ('a \<Rightarrow> ('e, 'b) result) \<Rightarrow> ('e, 'b) result" where
  "bind_res m f = (case m of Inl e \<Rightarrow> Inl e | Inr x \<Rightarrow> f x)"

lemma bind_res_simps [simp]:
  "bind_res (Inl e) f = Inl e"
  "bind_res (Inr x) f = f x"
  by (simp_all add: bind_res_def)

lemma bind_res_Inr_iff: "bind_res m f = Inr y \<longleftrightarrow> (\<exists>x. m = Inr x \<and> f x = Inr y)"
  by (cases m) auto

lemma bind_res_Inl_iff: "bind_res m f = Inl e \<longleftrightarrow> m = Inl e \<or> (\<exists>x. m = Inr x \<and> f x = Inl e)"
  by (cases m) auto

section \<open>Labelled transition systems\<close>

text \<open>
  The reachable states of a system given by its initial states and a labelled step relation.
\<close>

inductive reach :: "('s \<Rightarrow> bool) \<Rightarrow> ('s \<Rightarrow> 'l \<Rightarrow> 's \<Rightarrow> bool) \<Rightarrow> 's \<Rightarrow> bool"
  for init :: "'s \<Rightarrow> bool" and step :: "'s \<Rightarrow> 'l \<Rightarrow> 's \<Rightarrow> bool" where
  reach_init: "init s \<Longrightarrow> reach init step s"
| reach_step: "reach init step s \<Longrightarrow> step s l t \<Longrightarrow> reach init step t"

text \<open>
  The contract of an invariant: it holds initially and every step keeps it. A client gets that
  it holds in every reachable state, and that it may be assumed when a further property is
  proved of the steps taken from reachable states.
\<close>

locale invariant_system =
  fixes init :: "'s \<Rightarrow> bool"
    and step :: "'s \<Rightarrow> 'l \<Rightarrow> 's \<Rightarrow> bool"
    and inv :: "'s \<Rightarrow> bool"
  assumes inv_init: "init s \<Longrightarrow> inv s"
    and inv_step: "inv s \<Longrightarrow> step s l t \<Longrightarrow> inv t"
begin

lemma reach_inv: "reach init step s \<Longrightarrow> inv s"
  by (induction rule: reach.induct) (auto intro: inv_init inv_step)

lemma reach_step_inv: "reach init step s \<Longrightarrow> step s l t \<Longrightarrow> inv s \<and> inv t"
  by (auto intro: reach_inv inv_step)

end

section \<open>Lists\<close>

definition count_in :: "'a \<Rightarrow> 'a list \<Rightarrow> nat" where
  "count_in x xs = length (filter (\<lambda>y. y = x) xs)"

lemma count_in_simps [simp]:
  "count_in x [] = 0"
  "count_in x (y # ys) = (if y = x then Suc (count_in x ys) else count_in x ys)"
  "count_in x (xs @ ys) = count_in x xs + count_in x ys"
  by (simp_all add: count_in_def)

text \<open>What an operation has appended to an output trace.\<close>

definition appended :: "'a list \<Rightarrow> 'a list \<Rightarrow> 'a list" where
  "appended xs ys = drop (length xs) ys"

lemma appended_simps [simp]:
  "appended xs xs = []"
  "appended xs (xs @ ys) = ys"
  "appended xs (xs @ ys @ zs) = ys @ zs"
  by (simp_all add: appended_def)

end
