(* ===== verification/Everest_Types.thy ===== *)
theory Everest_Types
  imports Prelude
begin

text \<open>
  The data types that the modules exchange, from the type definitions under \<open>src/types\<close>
  (\<open>board_support.yaml\<close>, \<open>evse_manager.yaml\<close>). The types of a single module are in its own theory.
  Enumerators carry a prefix where two enumerations share a name.
\<close>

section \<open>board_support\<close>

datatype bs_event =
    BS_CarPluggedIn | BS_CarRequestedPower | BS_PowerOn | BS_PowerOff
  | BS_CarRequestedStopPower | BS_CarUnplugged | BS_ErrorE | BS_ErrorDF | BS_ErrorRelais
  | BS_ErrorRCD | BS_ErrorVentilationNotAvailable | BS_ErrorOverCurrent | BS_EFtoBCD
  | BS_BCDtoEF | BS_PermanentFault | BS_EvseReplugStarted | BS_EvseReplugFinished

section \<open>evse_manager\<close>

datatype StopTransactionReason =
    EmergencyStop | EVDisconnected | HardReset | Local | OtherReason | PowerLoss | Reboot
  | Remote | SoftReset | UnlockCommand | DeAuthorized

datatype StartSessionReason = EVConnected | AuthorizedFirst

record StopTransactionRequest =
  reason :: StopTransactionReason
  id_tag :: "string option"

datatype SessionEventEnum =
    SE_Enabled | SE_Disabled | SE_SessionStarted | SE_AuthRequired | SE_TransactionStarted
  | SE_PrepareCharging | SE_ChargingStarted | SE_ChargingPausedEV | SE_ChargingPausedEVSE
  | SE_WaitingForEnergy | SE_ChargingResumed | SE_StoppingCharging | SE_ChargingFinished
  | SE_TransactionFinished | SE_SessionFinished | SE_Error | SE_AllErrorsCleared
  | SE_PermanentFault | SE_ReservationStart | SE_ReservationEnd | SE_ReplugStarted
  | SE_ReplugFinished

datatype evse_error =
    Err_Car | Err_CarDiodeFault | Err_Relais | Err_RCD | Err_VentilationNotAvailable
  | Err_OverCurrent | Err_Internal | Err_SLAC | Err_HLC

end
