(* ===== verification/Charger.thy ===== *)
theory Charger
  imports Everest_Types
begin

text \<open>
  The IEC 61851 / ISO 15118 charging logic of \<open>modules/EvseManager/Charger.cpp\<close>: the state of
  the class \<open>Charger\<close> as a record, one definition per method and one per case of the big
  switch of \<open>runStateMachine\<close>. Calls to the board support package and emitted signals are
  appended to the output \<open>trace\<close>; log output is left out. Every handler reads the clocks once,
  from its \<open>clock\<close> argument; the one \<open>sleep_for\<close> inside a handler advances that reading. The
  mutexes make each public method atomic, so an execution is a sequence of method calls.
\<close>

section \<open>Data\<close>

datatype ControlPilotEvent =
    CarPluggedIn | CarRequestedPower | PowerOn | PowerOff | CarRequestedStopPower
  | CarUnplugged | Error_E | Error_DF | Error_Relais | Error_RCD
  | Error_VentilationNotAvailable | Error_OverCurrent | EFtoBCD | BCDtoEF | PermanentFault
  | EvseReplugStarted | EvseReplugFinished | Invalid

datatype ChargeMode = AC | DC

datatype EvseState =
    Disabled | Idle | WaitingForAuthentication | PrepareCharging | WaitingForEnergy
  | Charging | ChargingPausedEV | ChargingPausedEVSE | StoppingCharging | Finished
  | Error | Faulted | T_step_EF | T_step_X1 | Replug

definition IEC62196Type2Cable :: string where
  "IEC62196Type2Cable = ''IEC62196Type2Cable''"

definition IEC62196Type2Socket :: string where
  "IEC62196Type2Socket = ''IEC62196Type2Socket''"

record evse_max_limits =
  EVSEMaximumCurrentLimit :: float_t
  EVSEMaximumPowerLimit :: float_t
  EVSEMaximumVoltageLimit :: float_t

text \<open>Calls to the board support package and signals, in the order they happen.\<close>

datatype effect =
    Bsp_enable bool | Bsp_pwm_on float_t | Bsp_pwm_off | Bsp_pwm_F
  | Bsp_allow_power_on bool | Bsp_evse_replug int | Bsp_switch_three_phases bool
  | Bsp_setup bool bool string bool | Bsp_force_unlock
  | SignalEvent SessionEventEnum | SignalMaxCurrent float_t | SignalState EvseState
  | SignalError evse_error | SignalACWithSoCTimeout | Signal_DC_supply_off

record charger =
  connector_type :: string
  maxCurrent :: float_t
  maxCurrentValidUntil :: timepoint
  maxCurrentCable :: float_t
  transaction_active :: bool
  session_active :: bool
  stop_transaction_id_tag :: string
  last_stop_transaction_reason :: StopTransactionReason
  last_start_session_reason :: StartSessionReason
  currentState :: EvseState
  lastState :: EvseState
  errorState :: evse_error
  currentStateStarted :: timepoint
  currentDrawnByVehicle :: "float_t \<times> float_t \<times> float_t"
  overCurrent :: bool
  lastOverCurrentEvent :: timepoint
  t_step_EF_returnState :: EvseState
  t_step_EF_returnPWM :: float_t
  t_step_X1_returnState :: EvseState
  t_step_X1_returnPWM :: float_t
  matching_started :: bool
  authorized :: bool
  authorized_pnc :: bool
  auth_tag :: string
  charge_mode :: ChargeMode
  ac_hlc_enabled :: bool
  ac_hlc_enabled_current_session :: bool
  ac_hlc_use_5percent :: bool
  hlc_use_5percent_current_session :: bool
  ac_enforce_hlc :: bool
  ac_with_soc_timeout :: bool
  ac_with_soc_timer :: int
  lastPwmUpdate :: timepoint
  update_pwm_last_dc :: float_t
  currentEvseMaxLimits :: evse_max_limits
  trace :: "effect list"

text \<open>The class constants.\<close>

definition softOverCurrentTimeout :: int where "softOverCurrentTimeout = 7000"
definition t_step_EF :: int where "t_step_EF = 4000"
definition t_step_X1 :: int where "t_step_X1 = 3000"
definition PWM_5_PERCENT :: float_t where "PWM_5_PERCENT = 5 / 100"
definition t_replug_ms :: int where "t_replug_ms = 4000"
definition SLEEP_BEFORE_ENABLING_PWM_HLC_MODE :: int where
  "SLEEP_BEFORE_ENABLING_PWM_HLC_MODE = 1000"
definition CHARGER_ABSOLUTE_MAX_CURRENT :: float_t where
  "CHARGER_ABSOLUTE_MAX_CURRENT = 80"

text \<open>One reading of \<open>std::chrono::system_clock\<close> and of \<open>date::utc_clock\<close>.\<close>

record clock =
  sys_now :: timepoint
  utc_now :: timepoint

definition after_sleep :: "int \<Rightarrow> clock \<Rightarrow> clock" where
  "after_sleep ms k = \<lparr>sys_now = sys_now k + ms, utc_now = utc_now k + ms\<rparr>"

definition emit :: "effect \<Rightarrow> charger \<Rightarrow> charger" where
  "emit e c = c\<lparr>trace := trace c @ [e]\<rparr>"

definition signalEvent :: "SessionEventEnum \<Rightarrow> charger \<Rightarrow> charger" where
  "signalEvent e = emit (SignalEvent e)"

section \<open>Construction and configuration\<close>

text \<open>
  The constructor runs on uninitialised memory \<open>u\<close>: the members it does not set, and that have
  no default initialiser, keep what \<open>u\<close> holds.
\<close>

definition Charger_new :: "charger \<Rightarrow> string \<Rightarrow> float_t \<Rightarrow> charger" where
  "Charger_new u ct pp_ampacity =
     emit (Bsp_enable False)
      (u\<lparr>connector_type := ct,
         maxCurrent := 6,
         maxCurrentCable := pp_ampacity,
         authorized := False,
         update_pwm_last_dc := 0,
         currentState := Disabled,
         lastState := Disabled,
         currentDrawnByVehicle := (0, 0, 0),
         t_step_EF_returnState := Faulted,
         t_step_X1_returnState := Faulted,
         matching_started := False,
         transaction_active := False,
         session_active := False,
         hlc_use_5percent_current_session := False,
         errorState := Err_Internal,
         charge_mode := AC,
         trace := []\<rparr>)"

definition Charger_delete :: "charger \<Rightarrow> charger" where
  "Charger_delete c = emit Bsp_pwm_F c"

definition setup_charger ::
  "bool \<Rightarrow> bool \<Rightarrow> string \<Rightarrow> bool \<Rightarrow> ChargeMode \<Rightarrow> bool \<Rightarrow> bool \<Rightarrow> bool \<Rightarrow> bool \<Rightarrow> charger \<Rightarrow> charger" where
  "setup_charger three_phases has_ventilation country_code rcd_enabled mode hlc_enabled use_5percent
         enforce_hlc with_soc_timeout c =
     (emit (Bsp_setup three_phases has_ventilation country_code rcd_enabled) c)
       \<lparr>charge_mode := mode,
        ac_hlc_enabled_current_session := hlc_enabled,
        ac_hlc_enabled := hlc_enabled,
        ac_hlc_use_5percent := use_5percent,
        ac_enforce_hlc := enforce_hlc,
        ac_with_soc_timeout := with_soc_timeout,
        ac_with_soc_timer := 3600000\<rparr>"

definition getMaxCurrent :: "charger \<Rightarrow> float_t" where
  "getMaxCurrent c = maxCurrent c"

definition getCurrentState :: "charger \<Rightarrow> EvseState" where
  "getCurrentState c = currentState c"

definition getErrorState :: "charger \<Rightarrow> evse_error" where
  "getErrorState c = errorState c"

definition getMatchingStarted :: "charger \<Rightarrow> bool" where
  "getMatchingStarted c = matching_started c"

definition setMatchingStarted :: "bool \<Rightarrow> charger \<Rightarrow> charger" where
  "setMatchingStarted m c = c\<lparr>matching_started := m\<rparr>"

definition inform_new_evse_max_hlc_limits :: "evse_max_limits \<Rightarrow> charger \<Rightarrow> charger" where
  "inform_new_evse_max_hlc_limits l c = c\<lparr>currentEvseMaxLimits := l\<rparr>"

definition setCurrentDrawnByVehicle :: "float_t \<Rightarrow> float_t \<Rightarrow> float_t \<Rightarrow> charger \<Rightarrow> charger" where
  "setCurrentDrawnByVehicle l1 l2 l3 c = c\<lparr>currentDrawnByVehicle := (l1, l2, l3)\<rparr>"

definition switchThreePhasesWhileCharging :: "bool \<Rightarrow> charger \<Rightarrow> bool \<times> charger" where
  "switchThreePhasesWhileCharging n c = (False, emit (Bsp_switch_three_phases n) c)"

text \<open>\<open>answer\<close> is what the board support package returns.\<close>

definition forceUnlock :: "bool \<Rightarrow> charger \<Rightarrow> bool \<times> charger" where
  "forceUnlock answer c = (answer, emit Bsp_force_unlock c)"

section \<open>PWM output\<close>

definition update_pwm_now :: "clock \<Rightarrow> float_t \<Rightarrow> charger \<Rightarrow> charger" where
  "update_pwm_now k dc c =
     (emit (Bsp_pwm_on dc) (c\<lparr>update_pwm_last_dc := dc\<rparr>))\<lparr>lastPwmUpdate := utc_now k\<rparr>"

definition update_pwm_max_every_5seconds :: "clock \<Rightarrow> float_t \<Rightarrow> charger \<Rightarrow> charger" where
  "update_pwm_max_every_5seconds k dc c =
     (if dc \<noteq> update_pwm_last_dc c then
        (let timeSinceLastUpdate = utc_now k - lastPwmUpdate c
         in if timeSinceLastUpdate \<ge> 5000 then update_pwm_now k dc c else c)
      else c)"

definition update_pwm_now_if_changed :: "clock \<Rightarrow> float_t \<Rightarrow> charger \<Rightarrow> charger" where
  "update_pwm_now_if_changed k dc c =
     (if update_pwm_last_dc c \<noteq> dc then update_pwm_now k dc c else c)"

definition pwm_off :: "charger \<Rightarrow> charger" where
  "pwm_off c = emit Bsp_pwm_off c"

definition pwm_F :: "charger \<Rightarrow> charger" where
  "pwm_F c = emit Bsp_pwm_F c"

definition ampereToDutyCycle :: "float_t \<Rightarrow> float_t" where
  "ampereToDutyCycle ampere =
     (if ampere < 59 / 10 then 1
      else if ampere \<le> 61 / 10 then 1 / 10
      else if ampere < 525 / 10 then
        (let ampere = (if ampere > 51 then 51 else ampere) in ampere / (6 / 10) / 100)
      else if ampere \<le> 80 then ((ampere / (25 / 10)) + 64) / 100
      else if ampere \<le> 801 / 10 then 97 / 100
      else 1)"

section \<open>Limits\<close>

text \<open>Both overloads first clip the requested value to the cable limit of a socket.\<close>

definition clip_to_cable :: "float_t \<Rightarrow> charger \<Rightarrow> float_t" where
  "clip_to_cable v c =
     (if connector_type c = IEC62196Type2Socket then
        (if maxCurrentCable c < v then maxCurrentCable c else v)
      else v)"

definition setMaxCurrent_until :: "clock \<Rightarrow> float_t \<Rightarrow> timepoint \<Rightarrow> charger \<Rightarrow> bool \<times> charger" where
  "setMaxCurrent_until k v validUntil c =
     (if v \<ge> 0 \<and> v \<le> CHARGER_ABSOLUTE_MAX_CURRENT then
        (let v = clip_to_cable v c
         in if validUntil > utc_now k
            then (True, emit (SignalMaxCurrent v)
                          (c\<lparr>maxCurrent := v, maxCurrentValidUntil := validUntil\<rparr>))
            else (False, c))
      else (False, c))"

definition setMaxCurrent :: "clock \<Rightarrow> float_t \<Rightarrow> charger \<Rightarrow> bool \<times> charger" where
  "setMaxCurrent k v c =
     (if v \<ge> 0 \<and> v \<le> CHARGER_ABSOLUTE_MAX_CURRENT then
        (let v = clip_to_cable v c
         in if maxCurrentValidUntil c > utc_now k
            then (True, emit (SignalMaxCurrent v) (c\<lparr>maxCurrent := v\<rparr>))
            else (False, c))
      else (False, c))"

definition powerAvailable :: "clock \<Rightarrow> charger \<Rightarrow> bool \<times> charger" where
  "powerAvailable k c =
     (let c' = (if maxCurrentValidUntil c < utc_now k
                then emit (SignalMaxCurrent 0) (c\<lparr>maxCurrent := 0\<rparr>)
                else c)
      in (getMaxCurrent c' > 59 / 10, c'))"

definition checkSoftOverCurrent :: "clock \<Rightarrow> charger \<Rightarrow> charger" where
  "checkSoftOverCurrent k c =
     (let limit = getMaxCurrent c * (11 / 10);
          (l1, l2, l3) = currentDrawnByVehicle c;
          c' = (if l1 > limit \<or> l2 > limit \<or> l3 > limit then
                  (if \<not> overCurrent c
                   then c\<lparr>overCurrent := True, lastOverCurrentEvent := utc_now k\<rparr>
                   else c)
                else c\<lparr>overCurrent := False\<rparr>);
          timeSinceOverCurrentStarted = utc_now k - lastOverCurrentEvent c'
      in if overCurrent c' \<and> timeSinceOverCurrentStarted \<ge> softOverCurrentTimeout
         then c'\<lparr>currentState := Error, errorState := Err_OverCurrent\<rparr>
         else c')"

section \<open>Sessions, transactions and authorization\<close>

definition transactionActive :: "charger \<Rightarrow> bool" where
  "transactionActive c = transaction_active c"

definition sessionActive :: "charger \<Rightarrow> bool" where
  "sessionActive c = session_active c"

definition startSession :: "bool \<Rightarrow> charger \<Rightarrow> charger" where
  "startSession authfirst c =
     signalEvent SE_SessionStarted
       (c\<lparr>session_active := True,
          authorized := False,
          last_start_session_reason := (if authfirst then AuthorizedFirst else EVConnected)\<rparr>)"

definition stopSession :: "charger \<Rightarrow> charger" where
  "stopSession c = signalEvent SE_SessionFinished (c\<lparr>session_active := False, authorized := False\<rparr>)"

definition startTransaction :: "charger \<Rightarrow> charger" where
  "startTransaction c =
     signalEvent SE_TransactionStarted
       (c\<lparr>stop_transaction_id_tag := [], transaction_active := True\<rparr>)"

definition stopTransaction :: "charger \<Rightarrow> charger" where
  "stopTransaction c =
     signalEvent SE_TransactionFinished (signalEvent SE_ChargingFinished
       (c\<lparr>transaction_active := False, last_stop_transaction_reason := EVDisconnected\<rparr>))"

definition cancelTransaction :: "StopTransactionRequest \<Rightarrow> charger \<Rightarrow> bool \<times> charger" where
  "cancelTransaction request c =
     (if transactionActive c then
        (let c1 = (if charge_mode c = DC then c\<lparr>currentState := StoppingCharging\<rparr>
                   else c\<lparr>currentState := ChargingPausedEVSE\<rparr>);
             c2 = c1\<lparr>transaction_active := False, last_stop_transaction_reason := reason request\<rparr>;
             c3 = (case id_tag request of Some t \<Rightarrow> c2\<lparr>stop_transaction_id_tag := t\<rparr> | None \<Rightarrow> c2)
         in (True, signalEvent SE_TransactionFinished (signalEvent SE_ChargingFinished c3)))
      else (False, c))"

definition getStopTransactionIdTag :: "charger \<Rightarrow> string" where
  "getStopTransactionIdTag c = stop_transaction_id_tag c"

definition getTransactionFinishedReason :: "charger \<Rightarrow> StopTransactionReason" where
  "getTransactionFinishedReason c = last_stop_transaction_reason c"

definition getSessionStartedReason :: "charger \<Rightarrow> StartSessionReason" where
  "getSessionStartedReason c = last_start_session_reason c"

definition Authorized_PnC :: "charger \<Rightarrow> bool" where
  "Authorized_PnC c \<longleftrightarrow> authorized c \<and> authorized_pnc c"

definition Authorized_EIM :: "charger \<Rightarrow> bool" where
  "Authorized_EIM c \<longleftrightarrow> authorized c \<and> \<not> authorized_pnc c"

definition ready_for_HLC :: "charger \<Rightarrow> bool" where
  "ready_for_HLC c \<longleftrightarrow> currentState c = ChargingPausedEV \<or> currentState c = ChargingPausedEVSE \<or>
     currentState c = Charging \<or> currentState c = WaitingForEnergy"

definition Authorized_PnC_ready_for_HLC :: "charger \<Rightarrow> bool" where
  "Authorized_PnC_ready_for_HLC c \<longleftrightarrow> (authorized c \<and> authorized_pnc c) \<and> ready_for_HLC c"

definition Authorized_EIM_ready_for_HLC :: "charger \<Rightarrow> bool" where
  "Authorized_EIM_ready_for_HLC c \<longleftrightarrow> (authorized c \<and> \<not> authorized_pnc c) \<and> ready_for_HLC c"

definition Authorize :: "bool \<Rightarrow> string \<Rightarrow> bool \<Rightarrow> charger \<Rightarrow> charger" where
  "Authorize a userid pnc c =
     (if a then
        (let c1 = (if \<not> sessionActive c then startSession True c else c)
         in c1\<lparr>authorized := True, authorized_pnc := pnc, auth_tag := userid\<rparr>)
      else
        (let c1 = (if sessionActive c then stopSession c else c)
         in c1\<lparr>authorized := False\<rparr>))"

definition getAuthTag :: "charger \<Rightarrow> string" where
  "getAuthTag c = (if authorized c then auth_tag c else [])"

definition AuthorizedEIM :: "charger \<Rightarrow> bool" where
  "AuthorizedEIM c \<longleftrightarrow> authorized c \<and> \<not> authorized_pnc c"

definition AuthorizedPnC :: "charger \<Rightarrow> bool" where
  "AuthorizedPnC c \<longleftrightarrow> authorized c \<and> authorized_pnc c"

definition DeAuthorize :: "charger \<Rightarrow> bool \<times> charger" where
  "DeAuthorize c =
     (if sessionActive c then
        (let s = getCurrentState c
         in if s = Disabled \<or> s = Idle \<or> s = WaitingForAuthentication \<or> s = Error \<or> s = Faulted
            then (if \<not> authorized c then (False, c)
                  else (True, stopSession (c\<lparr>authorized := False\<rparr>)))
            else (False, c))
      else (False, c))"

section \<open>Commands\<close>

definition disable :: "charger \<Rightarrow> bool \<times> charger" where
  "disable c = (True, signalEvent SE_Disabled (c\<lparr>currentState := Disabled\<rparr>))"

definition enable :: "charger \<Rightarrow> bool \<times> charger" where
  "enable c =
     (if currentState c = Disabled
      then (True, signalEvent SE_Enabled (c\<lparr>currentState := Idle\<rparr>))
      else (False, c))"

definition set_faulted :: "charger \<Rightarrow> charger" where
  "set_faulted c = signalEvent SE_PermanentFault (c\<lparr>currentState := Faulted\<rparr>)"

definition restart :: "charger \<Rightarrow> bool \<times> charger" where
  "restart c =
     (if currentState c = Finished then (True, c\<lparr>currentState := Idle\<rparr>) else (False, c))"

definition pauseCharging :: "charger \<Rightarrow> bool \<times> charger" where
  "pauseCharging c =
     (if currentState c = Charging then (True, c\<lparr>currentState := ChargingPausedEVSE\<rparr>)
      else (False, c))"

definition resumeCharging :: "charger \<Rightarrow> bool \<times> charger" where
  "resumeCharging c =
     (if transactionActive c \<and> currentState c = ChargingPausedEVSE
      then (True, c\<lparr>currentState := WaitingForEnergy\<rparr>) else (False, c))"

definition pauseChargingWaitForPower :: "charger \<Rightarrow> bool \<times> charger" where
  "pauseChargingWaitForPower c =
     (if currentState c = Charging then (True, c\<lparr>currentState := WaitingForEnergy\<rparr>)
      else (False, c))"

definition resumeChargingPowerAvailable :: "clock \<Rightarrow> charger \<Rightarrow> bool \<times> charger" where
  "resumeChargingPowerAvailable k c =
     (if transactionActive c \<and> currentState c = WaitingForEnergy then
        (let (avail, c1) = powerAvailable k c
         in if avail then (True, c1\<lparr>currentState := Charging\<rparr>) else (False, c1))
      else (False, c))"

definition evseReplug :: "charger \<Rightarrow> bool \<times> charger" where
  "evseReplug c = (True, emit (Bsp_evse_replug t_replug_ms) c)"

definition requestErrorSequence :: "charger \<Rightarrow> charger" where
  "requestErrorSequence c =
     (if currentState c = WaitingForAuthentication then
        (let c1 = c\<lparr>t_step_EF_returnState := WaitingForAuthentication,
                    currentState := T_step_EF\<rparr>
         in if ac_hlc_enabled_current_session c1 \<and> hlc_use_5percent_current_session c1
            then c1\<lparr>t_step_EF_returnPWM := PWM_5_PERCENT\<rparr>
            else c1\<lparr>t_step_EF_returnPWM := 0\<rparr>)
      else c)"

definition notifyCurrentDemandStarted :: "charger \<Rightarrow> charger" where
  "notifyCurrentDemandStarted c =
     (if currentState c = PrepareCharging
      then (signalEvent SE_ChargingStarted c)\<lparr>currentState := Charging\<rparr>
      else c)"

section \<open>Events of the control pilot\<close>

fun string_to_control_pilot_event :: "bs_event \<Rightarrow> ControlPilotEvent" where
  "string_to_control_pilot_event BS_CarPluggedIn = CarPluggedIn"
| "string_to_control_pilot_event BS_CarRequestedPower = CarRequestedPower"
| "string_to_control_pilot_event BS_PowerOn = PowerOn"
| "string_to_control_pilot_event BS_PowerOff = PowerOff"
| "string_to_control_pilot_event BS_CarRequestedStopPower = CarRequestedStopPower"
| "string_to_control_pilot_event BS_CarUnplugged = CarUnplugged"
| "string_to_control_pilot_event BS_ErrorE = Error_E"
| "string_to_control_pilot_event BS_ErrorDF = Error_DF"
| "string_to_control_pilot_event BS_ErrorRelais = Error_Relais"
| "string_to_control_pilot_event BS_ErrorRCD = Error_RCD"
| "string_to_control_pilot_event BS_ErrorVentilationNotAvailable = Error_VentilationNotAvailable"
| "string_to_control_pilot_event BS_ErrorOverCurrent = Error_OverCurrent"
| "string_to_control_pilot_event BS_BCDtoEF = BCDtoEF"
| "string_to_control_pilot_event BS_EFtoBCD = EFtoBCD"
| "string_to_control_pilot_event BS_PermanentFault = PermanentFault"
| "string_to_control_pilot_event BS_EvseReplugStarted = EvseReplugStarted"
| "string_to_control_pilot_event BS_EvseReplugFinished = EvseReplugFinished"

definition set_error :: "evse_error \<Rightarrow> charger \<Rightarrow> charger" where
  "set_error e c = c\<lparr>currentState := Error, errorState := e\<rparr>"

definition processCPEventsIndependent :: "ControlPilotEvent \<Rightarrow> charger \<Rightarrow> charger" where
  "processCPEventsIndependent cp_event c =
     (case cp_event of
        EvseReplugStarted \<Rightarrow> c\<lparr>currentState := Replug\<rparr>
      | EvseReplugFinished \<Rightarrow> c\<lparr>currentState := WaitingForAuthentication\<rparr>
      | CarUnplugged \<Rightarrow>
          (let c1 = (if currentState c = Error then signalEvent SE_AllErrorsCleared c else c)
           in if charge_mode c1 = AC then c1\<lparr>currentState := StoppingCharging\<rparr>
              else c1\<lparr>currentState := Finished\<rparr>)
      | Error_E \<Rightarrow> set_error Err_Car c
      | Error_DF \<Rightarrow> set_error Err_CarDiodeFault c
      | Error_Relais \<Rightarrow> set_error Err_Relais c
      | Error_RCD \<Rightarrow> set_error Err_RCD c
      | Error_VentilationNotAvailable \<Rightarrow> set_error Err_VentilationNotAvailable c
      | Error_OverCurrent \<Rightarrow> set_error Err_OverCurrent c
      | _ \<Rightarrow> c)"

definition processCPEventsState :: "clock \<Rightarrow> float_t \<Rightarrow> ControlPilotEvent \<Rightarrow> charger \<Rightarrow> charger" where
  "processCPEventsState k pp_ampacity cp_event c =
     (case currentState c of
        Idle \<Rightarrow>
          (if cp_event = CarPluggedIn
           then c\<lparr>maxCurrentCable := pp_ampacity, currentState := WaitingForAuthentication\<rparr>
           else c)
      | WaitingForAuthentication \<Rightarrow> c
      | PrepareCharging \<Rightarrow>
          (if charge_mode c = AC then
             (let c1 = signalEvent SE_ChargingStarted c
              in if cp_event = CarRequestedPower then
                   (let (avail, c2) = powerAvailable k c1
                    in if avail then c2\<lparr>currentState := Charging\<rparr>
                       else snd (pauseChargingWaitForPower (c2\<lparr>currentState := Charging\<rparr>)))
                 else c1)
           else
             (if cp_event = CarRequestedStopPower then c\<lparr>currentState := StoppingCharging\<rparr>
              else c))
      | Charging \<Rightarrow>
          (if cp_event = CarRequestedStopPower then c\<lparr>currentState := ChargingPausedEV\<rparr> else c)
      | ChargingPausedEV \<Rightarrow>
          (if cp_event = CarRequestedPower then c\<lparr>currentState := Charging\<rparr> else c)
      | _ \<Rightarrow> c)"

text \<open>\<open>pp_ampacity\<close> is what the board support package would read from the cable now.\<close>

definition processEvent :: "clock \<Rightarrow> float_t \<Rightarrow> bs_event \<Rightarrow> charger \<Rightarrow> charger" where
  "processEvent k pp_ampacity event c =
     (let cp_event = string_to_control_pilot_event event
      in processCPEventsState k pp_ampacity cp_event (processCPEventsIndependent cp_event c))"

section \<open>The periodic state machine\<close>

text \<open>One definition per case of the switch; \<open>new_in_state\<close> and \<open>timeInCurrentState\<close> as there.\<close>

definition run_Disabled :: "bool \<Rightarrow> charger \<Rightarrow> charger" where
  "run_Disabled new_in_state c =
     (if new_in_state then pwm_F (signalEvent SE_Disabled c) else c)"

definition run_Replug :: "bool \<Rightarrow> charger \<Rightarrow> charger" where
  "run_Replug new_in_state c =
     (if new_in_state then
        (let c1 = signalEvent SE_ReplugStarted c
         in if ac_with_soc_timeout c1 then c1\<lparr>ac_with_soc_timer := 120000\<rparr> else c1)
      else c)"

definition run_Idle :: "bool \<Rightarrow> charger \<Rightarrow> charger" where
  "run_Idle new_in_state c =
     (if new_in_state
      then (Authorize False [] False (pwm_off c))\<lparr>transaction_active := False\<rparr>
      else c)"

definition enter_WaitingForAuthentication :: "clock \<Rightarrow> charger \<Rightarrow> charger" where
  "enter_WaitingForAuthentication k c =
     (let c1 = emit (Bsp_allow_power_on False) c;
          c2 = (if lastState c1 = Replug then signalEvent SE_ReplugFinished c1
                else signalEvent SE_AuthRequired
                       (if \<not> sessionActive c1 then startSession False c1 else c1));
          c3 = c2\<lparr>hlc_use_5percent_current_session := False\<rparr>;
          c4 = (case charge_mode c3 of
                  AC \<Rightarrow>
                    (let d = c3\<lparr>ac_hlc_enabled_current_session := ac_hlc_enabled c3\<rparr>
                     in if ac_hlc_enabled_current_session d
                        then d\<lparr>hlc_use_5percent_current_session := ac_hlc_use_5percent d\<rparr>
                        else d)
                | DC \<Rightarrow> c3\<lparr>hlc_use_5percent_current_session := True\<rparr>)
      in if hlc_use_5percent_current_session c4
         then update_pwm_now (after_sleep SLEEP_BEFORE_ENABLING_PWM_HLC_MODE k) PWM_5_PERCENT c4
         else c4)"

definition authorized_by_EIM :: "charger \<Rightarrow> charger" where
  "authorized_by_EIM c0 =
     (let c = startTransaction c0; targetState = PrepareCharging
      in case charge_mode c of
           AC \<Rightarrow>
             (if ac_hlc_enabled_current_session c then
                (if ac_enforce_hlc c then
                   c\<lparr>hlc_use_5percent_current_session := True, currentState := targetState\<rparr>
                 else if \<not> getMatchingStarted c then
                   c\<lparr>t_step_EF_returnState := targetState,
                     t_step_EF_returnPWM := 0,
                     hlc_use_5percent_current_session := False,
                     currentState := T_step_EF\<rparr>
                 else if hlc_use_5percent_current_session c then
                   c\<lparr>t_step_X1_returnState := targetState,
                     t_step_X1_returnPWM := 0,
                     hlc_use_5percent_current_session := False,
                     currentState := T_step_X1\<rparr>
                 else c\<lparr>currentState := targetState\<rparr>)
              else c\<lparr>currentState := targetState\<rparr>)
         | DC \<Rightarrow> c\<lparr>currentState := targetState\<rparr>)"

definition authorized_by_PnC :: "charger \<Rightarrow> charger" where
  "authorized_by_PnC c0 =
     (let c = startTransaction c0; targetState = PrepareCharging
      in case charge_mode c of
           AC \<Rightarrow> c\<lparr>hlc_use_5percent_current_session := True, currentState := targetState\<rparr>
         | DC \<Rightarrow> c\<lparr>currentState := targetState\<rparr>)"

definition run_WaitingForAuthentication :: "clock \<Rightarrow> bool \<Rightarrow> charger \<Rightarrow> charger" where
  "run_WaitingForAuthentication k new_in_state c =
     (let c1 = (if new_in_state then enter_WaitingForAuthentication k c else c)
      in if charge_mode c1 = DC \<and>
            \<not> (EVSEMaximumCurrentLimit (currentEvseMaxLimits c1) > 0 \<and>
               EVSEMaximumPowerLimit (currentEvseMaxLimits c1) > 0)
         then c1
         else if AuthorizedEIM c1 then authorized_by_EIM c1
         else if AuthorizedPnC c1 then authorized_by_PnC c1
         else c1)"

definition run_T_step_EF :: "clock \<Rightarrow> bool \<Rightarrow> int \<Rightarrow> charger \<Rightarrow> charger" where
  "run_T_step_EF k new_in_state timeInCurrentState c =
     (let c1 = (if new_in_state then pwm_F c else c)
      in if timeInCurrentState \<ge> t_step_EF then
           (let c2 = (if t_step_EF_returnPWM c1 = 0 then pwm_off c1
                      else update_pwm_now k (t_step_EF_returnPWM c1) c1)
            in c2\<lparr>currentState := t_step_EF_returnState c2\<rparr>)
         else c1)"

definition run_T_step_X1 :: "clock \<Rightarrow> bool \<Rightarrow> int \<Rightarrow> charger \<Rightarrow> charger" where
  "run_T_step_X1 k new_in_state timeInCurrentState c =
     (let c1 = (if new_in_state then pwm_off c else c)
      in if timeInCurrentState \<ge> t_step_X1 then
           (let c2 = (if t_step_X1_returnPWM c1 = 0 then pwm_off c1
                      else update_pwm_now k (t_step_X1_returnPWM c1) c1)
            in c2\<lparr>currentState := t_step_X1_returnState c2\<rparr>)
         else c1)"

definition run_PrepareCharging :: "clock \<Rightarrow> bool \<Rightarrow> charger \<Rightarrow> charger" where
  "run_PrepareCharging k new_in_state c =
     (let c1 = (if new_in_state then
                  (let d = emit (Bsp_allow_power_on True) (signalEvent SE_PrepareCharging c)
                   in if hlc_use_5percent_current_session d then update_pwm_now k PWM_5_PERCENT d
                      else update_pwm_now k (ampereToDutyCycle 0) d)
                else c)
      in if \<not> hlc_use_5percent_current_session c1
         then update_pwm_now_if_changed k (ampereToDutyCycle (getMaxCurrent c1)) c1
         else c1)"

definition run_Charging :: "clock \<Rightarrow> bool \<Rightarrow> charger \<Rightarrow> charger" where
  "run_Charging k new_in_state c =
     (if charge_mode c = DC then c
      else
        (let (avail, c1) = powerAvailable k (checkSoftOverCurrent k c)
         in if \<not> avail then snd (pauseChargingWaitForPower c1)
            else if new_in_state \<and> lastState c1 \<noteq> PrepareCharging then
              (let d = emit (Bsp_allow_power_on True) (signalEvent SE_ChargingResumed c1)
               in if hlc_use_5percent_current_session d then update_pwm_now k PWM_5_PERCENT d
                  else update_pwm_now k (ampereToDutyCycle (getMaxCurrent d)) d)
            else if \<not> hlc_use_5percent_current_session c1 then
              update_pwm_max_every_5seconds k (ampereToDutyCycle (getMaxCurrent c1)) c1
            else c1))"

definition run_ChargingPausedEV :: "clock \<Rightarrow> bool \<Rightarrow> charger \<Rightarrow> charger" where
  "run_ChargingPausedEV k new_in_state c =
     (if charge_mode c = DC then
        (if new_in_state
         then (emit (Bsp_allow_power_on False) c)\<lparr>currentState := StoppingCharging\<rparr>
         else c)
      else
        (let (avail, c1) = powerAvailable k (checkSoftOverCurrent k c)
         in if \<not> avail then snd (pauseChargingWaitForPower c1)
            else if new_in_state then
              (let d = emit (Bsp_allow_power_on True) (signalEvent SE_ChargingPausedEV c1)
               in if hlc_use_5percent_current_session d then update_pwm_now k PWM_5_PERCENT d
                  else update_pwm_now k (ampereToDutyCycle (getMaxCurrent d)) d)
            else if \<not> hlc_use_5percent_current_session c1 then
              update_pwm_max_every_5seconds k (ampereToDutyCycle (getMaxCurrent c1)) c1
            else c1))"

definition run_ChargingPausedEVSE :: "bool \<Rightarrow> charger \<Rightarrow> charger" where
  "run_ChargingPausedEVSE new_in_state c =
     (if new_in_state then
        (let c1 = pwm_off (signalEvent SE_ChargingPausedEVSE c)
         in if charge_mode c1 = DC then emit Signal_DC_supply_off c1 else c1)
      else c)"

definition run_WaitingForEnergy :: "bool \<Rightarrow> charger \<Rightarrow> charger" where
  "run_WaitingForEnergy new_in_state c =
     (if new_in_state then
        (let c1 = signalEvent SE_WaitingForEnergy c
         in if \<not> hlc_use_5percent_current_session c1 then pwm_off c1 else c1)
      else c)"

definition run_StoppingCharging :: "bool \<Rightarrow> charger \<Rightarrow> charger" where
  "run_StoppingCharging new_in_state c =
     (if new_in_state then
        (let c1 = signalEvent SE_StoppingCharging c;
             c2 = (if transactionActive c1 then stopTransaction c1 else c1)
         in if charge_mode c2 = DC then emit Signal_DC_supply_off c2
            else (pwm_off c2)\<lparr>currentState := Finished\<rparr>)
      else c)"

definition run_Finished :: "bool \<Rightarrow> charger \<Rightarrow> charger" where
  "run_Finished new_in_state c =
     (let c1 = (if new_in_state
                then pwm_F (stopSession (if transactionActive c then stopTransaction c else c))
                else c)
      in snd (restart c1))"

definition run_Error :: "bool \<Rightarrow> charger \<Rightarrow> charger" where
  "run_Error new_in_state c = (if new_in_state then pwm_off (signalEvent SE_Error c) else c)"

definition run_Faulted :: "bool \<Rightarrow> charger \<Rightarrow> charger" where
  "run_Faulted new_in_state c =
     (if new_in_state then pwm_F (signalEvent SE_PermanentFault c) else c)"

definition enter_state :: "clock \<Rightarrow> charger \<Rightarrow> charger" where
  "enter_state k c =
     (let c1 = emit (SignalState (currentState c)) (c\<lparr>currentStateStarted := sys_now k\<rparr>)
      in if currentState c1 = Error then emit (SignalError (errorState c1)) c1 else c1)"

definition run_switch :: "clock \<Rightarrow> bool \<Rightarrow> charger \<Rightarrow> charger" where
  "run_switch k new_in_state c =
     (let timeInCurrentState = sys_now k - currentStateStarted c
      in case currentState c of
           Disabled \<Rightarrow> run_Disabled new_in_state c
         | Replug \<Rightarrow> run_Replug new_in_state c
         | Idle \<Rightarrow> run_Idle new_in_state c
         | WaitingForAuthentication \<Rightarrow> run_WaitingForAuthentication k new_in_state c
         | T_step_EF \<Rightarrow> run_T_step_EF k new_in_state timeInCurrentState c
         | T_step_X1 \<Rightarrow> run_T_step_X1 k new_in_state timeInCurrentState c
         | PrepareCharging \<Rightarrow> run_PrepareCharging k new_in_state c
         | Charging \<Rightarrow> run_Charging k new_in_state c
         | ChargingPausedEV \<Rightarrow> run_ChargingPausedEV k new_in_state c
         | ChargingPausedEVSE \<Rightarrow> run_ChargingPausedEVSE new_in_state c
         | WaitingForEnergy \<Rightarrow> run_WaitingForEnergy new_in_state c
         | StoppingCharging \<Rightarrow> run_StoppingCharging new_in_state c
         | Finished \<Rightarrow> run_Finished new_in_state c
         | Error \<Rightarrow> run_Error new_in_state c
         | Faulted \<Rightarrow> run_Faulted new_in_state c)"

definition runStateMachine :: "clock \<Rightarrow> charger \<Rightarrow> charger" where
  "runStateMachine k c =
     (let new_in_state = (lastState c \<noteq> currentState c);
          c1 = c\<lparr>lastState := currentState c\<rparr>;
          c2 = (if ac_with_soc_timeout c1
                then c1\<lparr>ac_with_soc_timer := ac_with_soc_timer c1 - 50\<rparr> else c1)
      in if ac_with_soc_timeout c2 \<and> ac_with_soc_timer c2 < 0
         then emit SignalACWithSoCTimeout
                (c2\<lparr>ac_with_soc_timeout := False, ac_with_soc_timer := 3600000\<rparr>)
         else run_switch k new_in_state (if new_in_state then enter_state k c2 else c2))"

definition mainThread_start :: "charger \<Rightarrow> charger" where
  "mainThread_start c =
     (let c1 = emit (Bsp_enable True) c;
          c2 = emit (SignalMaxCurrent (getMaxCurrent c1)) c1;
          c3 = emit (SignalState (currentState c2)) c2
      in emit (SignalError (errorState c3)) c3)"

definition mainThread_iteration :: "clock \<Rightarrow> charger \<Rightarrow> charger" where
  "mainThread_iteration k c = runStateMachine k (snd (powerAvailable k c))"

text \<open>The loop of the main thread, for the clock readings of its iterations.\<close>

fun mainThread_loop :: "clock list \<Rightarrow> charger \<Rightarrow> charger" where
  "mainThread_loop [] c = c"
| "mainThread_loop (k # ks) c = mainThread_loop ks (mainThread_iteration k c)"

fun evseStateToString :: "EvseState \<Rightarrow> string" where
  "evseStateToString Disabled = ''Disabled''"
| "evseStateToString Idle = ''Idle''"
| "evseStateToString WaitingForAuthentication = ''Wait for Auth''"
| "evseStateToString Charging = ''Charging''"
| "evseStateToString ChargingPausedEV = ''Car Paused''"
| "evseStateToString ChargingPausedEVSE = ''EVSE Paused''"
| "evseStateToString WaitingForEnergy = ''Wait for energy''"
| "evseStateToString Finished = ''Finished''"
| "evseStateToString Error = ''Error''"
| "evseStateToString Faulted = ''Faulted''"
| "evseStateToString T_step_EF = ''T_step_EF''"
| "evseStateToString T_step_X1 = ''T_step_X1''"
| "evseStateToString Replug = ''Replug''"
| "evseStateToString PrepareCharging = ''PrepareCharging''"
| "evseStateToString StoppingCharging = ''StoppingCharging''"

section \<open>Executions\<close>

text \<open>
  The methods that other components call, as commands; \<open>exec_command\<close> drops their return value.
\<close>

datatype command =
    SetMaxCurrentUntil clock float_t timepoint | SetMaxCurrent clock float_t
  | Setup bool bool string bool ChargeMode bool bool bool bool
  | Enable | Disable | SetFaulted | Restart
  | AuthorizeCmd bool string bool | DeAuthorizeCmd
  | SwitchThreePhases bool | ForceUnlock bool
  | PauseCharging | PauseChargingWaitForPower | ResumeCharging
  | ResumeChargingPowerAvailable clock
  | CancelTransaction StopTransactionRequest | EvseReplug
  | SetCurrentDrawn float_t float_t float_t
  | RequestErrorSequence | SetMatchingStarted bool | NotifyCurrentDemandStarted
  | InformMaxLimits evse_max_limits | MainThreadStart

fun exec_command :: "command \<Rightarrow> charger \<Rightarrow> charger" where
  "exec_command (SetMaxCurrentUntil k v t) c = snd (setMaxCurrent_until k v t c)"
| "exec_command (SetMaxCurrent k v) c = snd (setMaxCurrent k v c)"
| "exec_command (Setup p v cc r m h u e t) c = setup_charger p v cc r m h u e t c"
| "exec_command Enable c = snd (enable c)"
| "exec_command Disable c = snd (disable c)"
| "exec_command SetFaulted c = set_faulted c"
| "exec_command Restart c = snd (restart c)"
| "exec_command (AuthorizeCmd a u p) c = Authorize a u p c"
| "exec_command DeAuthorizeCmd c = snd (DeAuthorize c)"
| "exec_command (SwitchThreePhases n) c = snd (switchThreePhasesWhileCharging n c)"
| "exec_command (ForceUnlock a) c = snd (forceUnlock a c)"
| "exec_command PauseCharging c = snd (pauseCharging c)"
| "exec_command PauseChargingWaitForPower c = snd (pauseChargingWaitForPower c)"
| "exec_command ResumeCharging c = snd (resumeCharging c)"
| "exec_command (ResumeChargingPowerAvailable k) c = snd (resumeChargingPowerAvailable k c)"
| "exec_command (CancelTransaction r) c = snd (cancelTransaction r c)"
| "exec_command EvseReplug c = snd (evseReplug c)"
| "exec_command (SetCurrentDrawn l1 l2 l3) c = setCurrentDrawnByVehicle l1 l2 l3 c"
| "exec_command RequestErrorSequence c = requestErrorSequence c"
| "exec_command (SetMatchingStarted m) c = setMatchingStarted m c"
| "exec_command NotifyCurrentDemandStarted c = notifyCurrentDemandStarted c"
| "exec_command (InformMaxLimits l) c = inform_new_evse_max_hlc_limits l c"
| "exec_command MainThreadStart c = mainThread_start c"

datatype charger_label = Tick clock | CpEvent clock float_t bs_event | Command command

text \<open>
  One step is an iteration of the main thread, an event of the board support package or a
  method call. The ampacity that the board reads from the cable is never negative.
\<close>

inductive charger_step :: "charger \<Rightarrow> charger_label \<Rightarrow> charger \<Rightarrow> bool" where
  step_tick: "charger_step c (Tick k) (mainThread_iteration k c)"
| step_event: "0 \<le> pp \<Longrightarrow> charger_step c (CpEvent k pp e) (processEvent k pp e c)"
| step_command: "charger_step c (Command m) (exec_command m c)"

inductive_simps charger_step_simps:
  "charger_step c (Tick k) d" "charger_step c (CpEvent k pp e) d" "charger_step c (Command m) d"

inductive charger_init :: "charger \<Rightarrow> bool" where
  constructed: "0 \<le> pp \<Longrightarrow> charger_init (Charger_new u ct pp)"

abbreviation charger_reach :: "charger \<Rightarrow> bool" where
  "charger_reach \<equiv> reach charger_init charger_step"

section \<open>Rewriting\<close>

lemmas [charger_defs] =
  emit_def signalEvent_def Charger_new_def setup_charger_def getMaxCurrent_def
  getCurrentState_def getMatchingStarted_def setMatchingStarted_def
  inform_new_evse_max_hlc_limits_def setCurrentDrawnByVehicle_def
  switchThreePhasesWhileCharging_def forceUnlock_def update_pwm_now_def
  update_pwm_max_every_5seconds_def update_pwm_now_if_changed_def pwm_off_def pwm_F_def
  transactionActive_def sessionActive_def startSession_def stopSession_def startTransaction_def
  stopTransaction_def AuthorizedEIM_def AuthorizedPnC_def set_error_def
  pauseChargingWaitForPower_def restart_def

lemmas command_defs =
  setMaxCurrent_until_def setMaxCurrent_def clip_to_cable_def powerAvailable_def
  cancelTransaction_def Authorize_def DeAuthorize_def disable_def enable_def set_faulted_def
  pauseCharging_def resumeCharging_def resumeChargingPowerAvailable_def evseReplug_def
  requestErrorSequence_def notifyCurrentDemandStarted_def mainThread_start_def

lemmas run_defs =
  run_Disabled_def run_Replug_def run_Idle_def enter_WaitingForAuthentication_def
  authorized_by_EIM_def authorized_by_PnC_def run_WaitingForAuthentication_def
  run_T_step_EF_def run_T_step_X1_def run_PrepareCharging_def run_Charging_def
  run_ChargingPausedEV_def run_ChargingPausedEVSE_def run_WaitingForEnergy_def
  run_StoppingCharging_def run_Finished_def run_Error_def run_Faulted_def
  powerAvailable_def checkSoftOverCurrent_def Authorize_def

text \<open>The state the switch runs in, for each tick that is not a state-of-charge timeout.\<close>

definition prepared :: "clock \<Rightarrow> charger \<Rightarrow> charger" where
  "prepared k c =
     (let c1 = c\<lparr>lastState := currentState c\<rparr>;
          c2 = (if ac_with_soc_timeout c1
                then c1\<lparr>ac_with_soc_timer := ac_with_soc_timer c1 - 50\<rparr> else c1)
      in if lastState c \<noteq> currentState c then enter_state k c2 else c2)"

definition soc_timeout_due :: "charger \<Rightarrow> bool" where
  "soc_timeout_due c \<longleftrightarrow> ac_with_soc_timeout c \<and> ac_with_soc_timer c < 50"

lemma runStateMachine_switch:
  "\<not> soc_timeout_due c \<Longrightarrow>
     runStateMachine k c = run_switch k (lastState c \<noteq> currentState c) (prepared k c)"
  by (auto simp: runStateMachine_def prepared_def soc_timeout_due_def Let_def)

lemma runStateMachine_soc_timeout:
  "soc_timeout_due c \<Longrightarrow>
     runStateMachine k c =
       emit SignalACWithSoCTimeout
         (c\<lparr>lastState := currentState c, ac_with_soc_timeout := False,
            ac_with_soc_timer := 3600000\<rparr>)"
  by (simp add: runStateMachine_def soc_timeout_due_def Let_def)

lemma prepared_simps [simp]:
  "currentState (prepared k c) = currentState c"
  "lastState (prepared k c) = currentState c"
  "transaction_active (prepared k c) = transaction_active c"
  "session_active (prepared k c) = session_active c"
  "authorized (prepared k c) = authorized c"
  "authorized_pnc (prepared k c) = authorized_pnc c"
  "charge_mode (prepared k c) = charge_mode c"
  "maxCurrent (prepared k c) = maxCurrent c"
  "maxCurrentValidUntil (prepared k c) = maxCurrentValidUntil c"
  "maxCurrentCable (prepared k c) = maxCurrentCable c"
  "t_step_EF_returnState (prepared k c) = t_step_EF_returnState c"
  "t_step_X1_returnState (prepared k c) = t_step_X1_returnState c"
  "currentEvseMaxLimits (prepared k c) = currentEvseMaxLimits c"
  "currentDrawnByVehicle (prepared k c) = currentDrawnByVehicle c"
  "overCurrent (prepared k c) = overCurrent c"
  "lastOverCurrentEvent (prepared k c) = lastOverCurrentEvent c"
  "hlc_use_5percent_current_session (prepared k c) = hlc_use_5percent_current_session c"
  "ac_with_soc_timeout (prepared k c) = ac_with_soc_timeout c"
  "currentStateStarted (prepared k c) =
     (if lastState c \<noteq> currentState c then sys_now k else currentStateStarted c)"
  by (auto simp: prepared_def enter_state_def emit_def Let_def)

section \<open>What the output operations leave alone\<close>

lemma emit_frame [simp]:
  "connector_type (emit e c) = connector_type c"
  "maxCurrent (emit e c) = maxCurrent c"
  "maxCurrentValidUntil (emit e c) = maxCurrentValidUntil c"
  "maxCurrentCable (emit e c) = maxCurrentCable c"
  "transaction_active (emit e c) = transaction_active c"
  "session_active (emit e c) = session_active c"
  "stop_transaction_id_tag (emit e c) = stop_transaction_id_tag c"
  "last_stop_transaction_reason (emit e c) = last_stop_transaction_reason c"
  "last_start_session_reason (emit e c) = last_start_session_reason c"
  "currentState (emit e c) = currentState c"
  "lastState (emit e c) = lastState c"
  "errorState (emit e c) = errorState c"
  "currentStateStarted (emit e c) = currentStateStarted c"
  "currentDrawnByVehicle (emit e c) = currentDrawnByVehicle c"
  "overCurrent (emit e c) = overCurrent c"
  "lastOverCurrentEvent (emit e c) = lastOverCurrentEvent c"
  "t_step_EF_returnState (emit e c) = t_step_EF_returnState c"
  "t_step_EF_returnPWM (emit e c) = t_step_EF_returnPWM c"
  "t_step_X1_returnState (emit e c) = t_step_X1_returnState c"
  "t_step_X1_returnPWM (emit e c) = t_step_X1_returnPWM c"
  "matching_started (emit e c) = matching_started c"
  "authorized (emit e c) = authorized c"
  "authorized_pnc (emit e c) = authorized_pnc c"
  "auth_tag (emit e c) = auth_tag c"
  "charge_mode (emit e c) = charge_mode c"
  "ac_hlc_enabled (emit e c) = ac_hlc_enabled c"
  "ac_hlc_enabled_current_session (emit e c) = ac_hlc_enabled_current_session c"
  "ac_hlc_use_5percent (emit e c) = ac_hlc_use_5percent c"
  "hlc_use_5percent_current_session (emit e c) = hlc_use_5percent_current_session c"
  "ac_enforce_hlc (emit e c) = ac_enforce_hlc c"
  "ac_with_soc_timeout (emit e c) = ac_with_soc_timeout c"
  "ac_with_soc_timer (emit e c) = ac_with_soc_timer c"
  "lastPwmUpdate (emit e c) = lastPwmUpdate c"
  "update_pwm_last_dc (emit e c) = update_pwm_last_dc c"
  "currentEvseMaxLimits (emit e c) = currentEvseMaxLimits c"
  by (simp_all add: emit_def)

lemma signalEvent_frame [simp]:
  "connector_type (signalEvent e c) = connector_type c"
  "maxCurrent (signalEvent e c) = maxCurrent c"
  "maxCurrentValidUntil (signalEvent e c) = maxCurrentValidUntil c"
  "maxCurrentCable (signalEvent e c) = maxCurrentCable c"
  "transaction_active (signalEvent e c) = transaction_active c"
  "session_active (signalEvent e c) = session_active c"
  "stop_transaction_id_tag (signalEvent e c) = stop_transaction_id_tag c"
  "last_stop_transaction_reason (signalEvent e c) = last_stop_transaction_reason c"
  "last_start_session_reason (signalEvent e c) = last_start_session_reason c"
  "currentState (signalEvent e c) = currentState c"
  "lastState (signalEvent e c) = lastState c"
  "errorState (signalEvent e c) = errorState c"
  "currentStateStarted (signalEvent e c) = currentStateStarted c"
  "currentDrawnByVehicle (signalEvent e c) = currentDrawnByVehicle c"
  "overCurrent (signalEvent e c) = overCurrent c"
  "lastOverCurrentEvent (signalEvent e c) = lastOverCurrentEvent c"
  "t_step_EF_returnState (signalEvent e c) = t_step_EF_returnState c"
  "t_step_EF_returnPWM (signalEvent e c) = t_step_EF_returnPWM c"
  "t_step_X1_returnState (signalEvent e c) = t_step_X1_returnState c"
  "t_step_X1_returnPWM (signalEvent e c) = t_step_X1_returnPWM c"
  "matching_started (signalEvent e c) = matching_started c"
  "authorized (signalEvent e c) = authorized c"
  "authorized_pnc (signalEvent e c) = authorized_pnc c"
  "auth_tag (signalEvent e c) = auth_tag c"
  "charge_mode (signalEvent e c) = charge_mode c"
  "ac_hlc_enabled (signalEvent e c) = ac_hlc_enabled c"
  "ac_hlc_enabled_current_session (signalEvent e c) = ac_hlc_enabled_current_session c"
  "ac_hlc_use_5percent (signalEvent e c) = ac_hlc_use_5percent c"
  "hlc_use_5percent_current_session (signalEvent e c) = hlc_use_5percent_current_session c"
  "ac_enforce_hlc (signalEvent e c) = ac_enforce_hlc c"
  "ac_with_soc_timeout (signalEvent e c) = ac_with_soc_timeout c"
  "ac_with_soc_timer (signalEvent e c) = ac_with_soc_timer c"
  "lastPwmUpdate (signalEvent e c) = lastPwmUpdate c"
  "update_pwm_last_dc (signalEvent e c) = update_pwm_last_dc c"
  "currentEvseMaxLimits (signalEvent e c) = currentEvseMaxLimits c"
  by (simp_all add: signalEvent_def)

lemma pwm_off_frame [simp]:
  "connector_type (pwm_off c) = connector_type c"
  "maxCurrent (pwm_off c) = maxCurrent c"
  "maxCurrentValidUntil (pwm_off c) = maxCurrentValidUntil c"
  "maxCurrentCable (pwm_off c) = maxCurrentCable c"
  "transaction_active (pwm_off c) = transaction_active c"
  "session_active (pwm_off c) = session_active c"
  "stop_transaction_id_tag (pwm_off c) = stop_transaction_id_tag c"
  "last_stop_transaction_reason (pwm_off c) = last_stop_transaction_reason c"
  "last_start_session_reason (pwm_off c) = last_start_session_reason c"
  "currentState (pwm_off c) = currentState c"
  "lastState (pwm_off c) = lastState c"
  "errorState (pwm_off c) = errorState c"
  "currentStateStarted (pwm_off c) = currentStateStarted c"
  "currentDrawnByVehicle (pwm_off c) = currentDrawnByVehicle c"
  "overCurrent (pwm_off c) = overCurrent c"
  "lastOverCurrentEvent (pwm_off c) = lastOverCurrentEvent c"
  "t_step_EF_returnState (pwm_off c) = t_step_EF_returnState c"
  "t_step_EF_returnPWM (pwm_off c) = t_step_EF_returnPWM c"
  "t_step_X1_returnState (pwm_off c) = t_step_X1_returnState c"
  "t_step_X1_returnPWM (pwm_off c) = t_step_X1_returnPWM c"
  "matching_started (pwm_off c) = matching_started c"
  "authorized (pwm_off c) = authorized c"
  "authorized_pnc (pwm_off c) = authorized_pnc c"
  "auth_tag (pwm_off c) = auth_tag c"
  "charge_mode (pwm_off c) = charge_mode c"
  "ac_hlc_enabled (pwm_off c) = ac_hlc_enabled c"
  "ac_hlc_enabled_current_session (pwm_off c) = ac_hlc_enabled_current_session c"
  "ac_hlc_use_5percent (pwm_off c) = ac_hlc_use_5percent c"
  "hlc_use_5percent_current_session (pwm_off c) = hlc_use_5percent_current_session c"
  "ac_enforce_hlc (pwm_off c) = ac_enforce_hlc c"
  "ac_with_soc_timeout (pwm_off c) = ac_with_soc_timeout c"
  "ac_with_soc_timer (pwm_off c) = ac_with_soc_timer c"
  "lastPwmUpdate (pwm_off c) = lastPwmUpdate c"
  "update_pwm_last_dc (pwm_off c) = update_pwm_last_dc c"
  "currentEvseMaxLimits (pwm_off c) = currentEvseMaxLimits c"
  by (simp_all add: pwm_off_def)

lemma pwm_F_frame [simp]:
  "connector_type (pwm_F c) = connector_type c"
  "maxCurrent (pwm_F c) = maxCurrent c"
  "maxCurrentValidUntil (pwm_F c) = maxCurrentValidUntil c"
  "maxCurrentCable (pwm_F c) = maxCurrentCable c"
  "transaction_active (pwm_F c) = transaction_active c"
  "session_active (pwm_F c) = session_active c"
  "stop_transaction_id_tag (pwm_F c) = stop_transaction_id_tag c"
  "last_stop_transaction_reason (pwm_F c) = last_stop_transaction_reason c"
  "last_start_session_reason (pwm_F c) = last_start_session_reason c"
  "currentState (pwm_F c) = currentState c"
  "lastState (pwm_F c) = lastState c"
  "errorState (pwm_F c) = errorState c"
  "currentStateStarted (pwm_F c) = currentStateStarted c"
  "currentDrawnByVehicle (pwm_F c) = currentDrawnByVehicle c"
  "overCurrent (pwm_F c) = overCurrent c"
  "lastOverCurrentEvent (pwm_F c) = lastOverCurrentEvent c"
  "t_step_EF_returnState (pwm_F c) = t_step_EF_returnState c"
  "t_step_EF_returnPWM (pwm_F c) = t_step_EF_returnPWM c"
  "t_step_X1_returnState (pwm_F c) = t_step_X1_returnState c"
  "t_step_X1_returnPWM (pwm_F c) = t_step_X1_returnPWM c"
  "matching_started (pwm_F c) = matching_started c"
  "authorized (pwm_F c) = authorized c"
  "authorized_pnc (pwm_F c) = authorized_pnc c"
  "auth_tag (pwm_F c) = auth_tag c"
  "charge_mode (pwm_F c) = charge_mode c"
  "ac_hlc_enabled (pwm_F c) = ac_hlc_enabled c"
  "ac_hlc_enabled_current_session (pwm_F c) = ac_hlc_enabled_current_session c"
  "ac_hlc_use_5percent (pwm_F c) = ac_hlc_use_5percent c"
  "hlc_use_5percent_current_session (pwm_F c) = hlc_use_5percent_current_session c"
  "ac_enforce_hlc (pwm_F c) = ac_enforce_hlc c"
  "ac_with_soc_timeout (pwm_F c) = ac_with_soc_timeout c"
  "ac_with_soc_timer (pwm_F c) = ac_with_soc_timer c"
  "lastPwmUpdate (pwm_F c) = lastPwmUpdate c"
  "update_pwm_last_dc (pwm_F c) = update_pwm_last_dc c"
  "currentEvseMaxLimits (pwm_F c) = currentEvseMaxLimits c"
  by (simp_all add: pwm_F_def)

lemma update_pwm_now_frame [simp]:
  "connector_type (update_pwm_now k dc c) = connector_type c"
  "maxCurrent (update_pwm_now k dc c) = maxCurrent c"
  "maxCurrentValidUntil (update_pwm_now k dc c) = maxCurrentValidUntil c"
  "maxCurrentCable (update_pwm_now k dc c) = maxCurrentCable c"
  "transaction_active (update_pwm_now k dc c) = transaction_active c"
  "session_active (update_pwm_now k dc c) = session_active c"
  "stop_transaction_id_tag (update_pwm_now k dc c) = stop_transaction_id_tag c"
  "last_stop_transaction_reason (update_pwm_now k dc c) = last_stop_transaction_reason c"
  "last_start_session_reason (update_pwm_now k dc c) = last_start_session_reason c"
  "currentState (update_pwm_now k dc c) = currentState c"
  "lastState (update_pwm_now k dc c) = lastState c"
  "errorState (update_pwm_now k dc c) = errorState c"
  "currentStateStarted (update_pwm_now k dc c) = currentStateStarted c"
  "currentDrawnByVehicle (update_pwm_now k dc c) = currentDrawnByVehicle c"
  "overCurrent (update_pwm_now k dc c) = overCurrent c"
  "lastOverCurrentEvent (update_pwm_now k dc c) = lastOverCurrentEvent c"
  "t_step_EF_returnState (update_pwm_now k dc c) = t_step_EF_returnState c"
  "t_step_EF_returnPWM (update_pwm_now k dc c) = t_step_EF_returnPWM c"
  "t_step_X1_returnState (update_pwm_now k dc c) = t_step_X1_returnState c"
  "t_step_X1_returnPWM (update_pwm_now k dc c) = t_step_X1_returnPWM c"
  "matching_started (update_pwm_now k dc c) = matching_started c"
  "authorized (update_pwm_now k dc c) = authorized c"
  "authorized_pnc (update_pwm_now k dc c) = authorized_pnc c"
  "auth_tag (update_pwm_now k dc c) = auth_tag c"
  "charge_mode (update_pwm_now k dc c) = charge_mode c"
  "ac_hlc_enabled (update_pwm_now k dc c) = ac_hlc_enabled c"
  "ac_hlc_enabled_current_session (update_pwm_now k dc c) = ac_hlc_enabled_current_session c"
  "ac_hlc_use_5percent (update_pwm_now k dc c) = ac_hlc_use_5percent c"
  "hlc_use_5percent_current_session (update_pwm_now k dc c) = hlc_use_5percent_current_session c"
  "ac_enforce_hlc (update_pwm_now k dc c) = ac_enforce_hlc c"
  "ac_with_soc_timeout (update_pwm_now k dc c) = ac_with_soc_timeout c"
  "ac_with_soc_timer (update_pwm_now k dc c) = ac_with_soc_timer c"
  "currentEvseMaxLimits (update_pwm_now k dc c) = currentEvseMaxLimits c"
  by (simp_all add: update_pwm_now_def)

lemma update_pwm_max_every_5seconds_frame [simp]:
  "connector_type (update_pwm_max_every_5seconds k dc c) = connector_type c"
  "maxCurrent (update_pwm_max_every_5seconds k dc c) = maxCurrent c"
  "maxCurrentValidUntil (update_pwm_max_every_5seconds k dc c) = maxCurrentValidUntil c"
  "maxCurrentCable (update_pwm_max_every_5seconds k dc c) = maxCurrentCable c"
  "transaction_active (update_pwm_max_every_5seconds k dc c) = transaction_active c"
  "session_active (update_pwm_max_every_5seconds k dc c) = session_active c"
  "stop_transaction_id_tag (update_pwm_max_every_5seconds k dc c) = stop_transaction_id_tag c"
  "last_stop_transaction_reason (update_pwm_max_every_5seconds k dc c) = last_stop_transaction_reason c"
  "last_start_session_reason (update_pwm_max_every_5seconds k dc c) = last_start_session_reason c"
  "currentState (update_pwm_max_every_5seconds k dc c) = currentState c"
  "lastState (update_pwm_max_every_5seconds k dc c) = lastState c"
  "errorState (update_pwm_max_every_5seconds k dc c) = errorState c"
  "currentStateStarted (update_pwm_max_every_5seconds k dc c) = currentStateStarted c"
  "currentDrawnByVehicle (update_pwm_max_every_5seconds k dc c) = currentDrawnByVehicle c"
  "overCurrent (update_pwm_max_every_5seconds k dc c) = overCurrent c"
  "lastOverCurrentEvent (update_pwm_max_every_5seconds k dc c) = lastOverCurrentEvent c"
  "t_step_EF_returnState (update_pwm_max_every_5seconds k dc c) = t_step_EF_returnState c"
  "t_step_EF_returnPWM (update_pwm_max_every_5seconds k dc c) = t_step_EF_returnPWM c"
  "t_step_X1_returnState (update_pwm_max_every_5seconds k dc c) = t_step_X1_returnState c"
  "t_step_X1_returnPWM (update_pwm_max_every_5seconds k dc c) = t_step_X1_returnPWM c"
  "matching_started (update_pwm_max_every_5seconds k dc c) = matching_started c"
  "authorized (update_pwm_max_every_5seconds k dc c) = authorized c"
  "authorized_pnc (update_pwm_max_every_5seconds k dc c) = authorized_pnc c"
  "auth_tag (update_pwm_max_every_5seconds k dc c) = auth_tag c"
  "charge_mode (update_pwm_max_every_5seconds k dc c) = charge_mode c"
  "ac_hlc_enabled (update_pwm_max_every_5seconds k dc c) = ac_hlc_enabled c"
  "ac_hlc_enabled_current_session (update_pwm_max_every_5seconds k dc c) = ac_hlc_enabled_current_session c"
  "ac_hlc_use_5percent (update_pwm_max_every_5seconds k dc c) = ac_hlc_use_5percent c"
  "hlc_use_5percent_current_session (update_pwm_max_every_5seconds k dc c) = hlc_use_5percent_current_session c"
  "ac_enforce_hlc (update_pwm_max_every_5seconds k dc c) = ac_enforce_hlc c"
  "ac_with_soc_timeout (update_pwm_max_every_5seconds k dc c) = ac_with_soc_timeout c"
  "ac_with_soc_timer (update_pwm_max_every_5seconds k dc c) = ac_with_soc_timer c"
  "currentEvseMaxLimits (update_pwm_max_every_5seconds k dc c) = currentEvseMaxLimits c"
  by (simp_all add: update_pwm_max_every_5seconds_def Let_def)

lemma update_pwm_now_if_changed_frame [simp]:
  "connector_type (update_pwm_now_if_changed k dc c) = connector_type c"
  "maxCurrent (update_pwm_now_if_changed k dc c) = maxCurrent c"
  "maxCurrentValidUntil (update_pwm_now_if_changed k dc c) = maxCurrentValidUntil c"
  "maxCurrentCable (update_pwm_now_if_changed k dc c) = maxCurrentCable c"
  "transaction_active (update_pwm_now_if_changed k dc c) = transaction_active c"
  "session_active (update_pwm_now_if_changed k dc c) = session_active c"
  "stop_transaction_id_tag (update_pwm_now_if_changed k dc c) = stop_transaction_id_tag c"
  "last_stop_transaction_reason (update_pwm_now_if_changed k dc c) = last_stop_transaction_reason c"
  "last_start_session_reason (update_pwm_now_if_changed k dc c) = last_start_session_reason c"
  "currentState (update_pwm_now_if_changed k dc c) = currentState c"
  "lastState (update_pwm_now_if_changed k dc c) = lastState c"
  "errorState (update_pwm_now_if_changed k dc c) = errorState c"
  "currentStateStarted (update_pwm_now_if_changed k dc c) = currentStateStarted c"
  "currentDrawnByVehicle (update_pwm_now_if_changed k dc c) = currentDrawnByVehicle c"
  "overCurrent (update_pwm_now_if_changed k dc c) = overCurrent c"
  "lastOverCurrentEvent (update_pwm_now_if_changed k dc c) = lastOverCurrentEvent c"
  "t_step_EF_returnState (update_pwm_now_if_changed k dc c) = t_step_EF_returnState c"
  "t_step_EF_returnPWM (update_pwm_now_if_changed k dc c) = t_step_EF_returnPWM c"
  "t_step_X1_returnState (update_pwm_now_if_changed k dc c) = t_step_X1_returnState c"
  "t_step_X1_returnPWM (update_pwm_now_if_changed k dc c) = t_step_X1_returnPWM c"
  "matching_started (update_pwm_now_if_changed k dc c) = matching_started c"
  "authorized (update_pwm_now_if_changed k dc c) = authorized c"
  "authorized_pnc (update_pwm_now_if_changed k dc c) = authorized_pnc c"
  "auth_tag (update_pwm_now_if_changed k dc c) = auth_tag c"
  "charge_mode (update_pwm_now_if_changed k dc c) = charge_mode c"
  "ac_hlc_enabled (update_pwm_now_if_changed k dc c) = ac_hlc_enabled c"
  "ac_hlc_enabled_current_session (update_pwm_now_if_changed k dc c) = ac_hlc_enabled_current_session c"
  "ac_hlc_use_5percent (update_pwm_now_if_changed k dc c) = ac_hlc_use_5percent c"
  "hlc_use_5percent_current_session (update_pwm_now_if_changed k dc c) = hlc_use_5percent_current_session c"
  "ac_enforce_hlc (update_pwm_now_if_changed k dc c) = ac_enforce_hlc c"
  "ac_with_soc_timeout (update_pwm_now_if_changed k dc c) = ac_with_soc_timeout c"
  "ac_with_soc_timer (update_pwm_now_if_changed k dc c) = ac_with_soc_timer c"
  "currentEvseMaxLimits (update_pwm_now_if_changed k dc c) = currentEvseMaxLimits c"
  by (simp_all add: update_pwm_now_if_changed_def)

lemma powerAvailable_frame [simp]:
  "connector_type (snd (powerAvailable k c)) = connector_type c"
  "maxCurrentValidUntil (snd (powerAvailable k c)) = maxCurrentValidUntil c"
  "maxCurrentCable (snd (powerAvailable k c)) = maxCurrentCable c"
  "transaction_active (snd (powerAvailable k c)) = transaction_active c"
  "session_active (snd (powerAvailable k c)) = session_active c"
  "stop_transaction_id_tag (snd (powerAvailable k c)) = stop_transaction_id_tag c"
  "last_stop_transaction_reason (snd (powerAvailable k c)) = last_stop_transaction_reason c"
  "last_start_session_reason (snd (powerAvailable k c)) = last_start_session_reason c"
  "currentState (snd (powerAvailable k c)) = currentState c"
  "lastState (snd (powerAvailable k c)) = lastState c"
  "errorState (snd (powerAvailable k c)) = errorState c"
  "currentStateStarted (snd (powerAvailable k c)) = currentStateStarted c"
  "currentDrawnByVehicle (snd (powerAvailable k c)) = currentDrawnByVehicle c"
  "overCurrent (snd (powerAvailable k c)) = overCurrent c"
  "lastOverCurrentEvent (snd (powerAvailable k c)) = lastOverCurrentEvent c"
  "t_step_EF_returnState (snd (powerAvailable k c)) = t_step_EF_returnState c"
  "t_step_EF_returnPWM (snd (powerAvailable k c)) = t_step_EF_returnPWM c"
  "t_step_X1_returnState (snd (powerAvailable k c)) = t_step_X1_returnState c"
  "t_step_X1_returnPWM (snd (powerAvailable k c)) = t_step_X1_returnPWM c"
  "matching_started (snd (powerAvailable k c)) = matching_started c"
  "authorized (snd (powerAvailable k c)) = authorized c"
  "authorized_pnc (snd (powerAvailable k c)) = authorized_pnc c"
  "auth_tag (snd (powerAvailable k c)) = auth_tag c"
  "charge_mode (snd (powerAvailable k c)) = charge_mode c"
  "ac_hlc_enabled (snd (powerAvailable k c)) = ac_hlc_enabled c"
  "ac_hlc_enabled_current_session (snd (powerAvailable k c)) = ac_hlc_enabled_current_session c"
  "ac_hlc_use_5percent (snd (powerAvailable k c)) = ac_hlc_use_5percent c"
  "hlc_use_5percent_current_session (snd (powerAvailable k c)) = hlc_use_5percent_current_session c"
  "ac_enforce_hlc (snd (powerAvailable k c)) = ac_enforce_hlc c"
  "ac_with_soc_timeout (snd (powerAvailable k c)) = ac_with_soc_timeout c"
  "ac_with_soc_timer (snd (powerAvailable k c)) = ac_with_soc_timer c"
  "lastPwmUpdate (snd (powerAvailable k c)) = lastPwmUpdate c"
  "update_pwm_last_dc (snd (powerAvailable k c)) = update_pwm_last_dc c"
  "currentEvseMaxLimits (snd (powerAvailable k c)) = currentEvseMaxLimits c"
  by (simp_all add: powerAvailable_def Let_def)

lemma checkSoftOverCurrent_frame [simp]:
  "connector_type (checkSoftOverCurrent k c) = connector_type c"
  "maxCurrent (checkSoftOverCurrent k c) = maxCurrent c"
  "maxCurrentValidUntil (checkSoftOverCurrent k c) = maxCurrentValidUntil c"
  "maxCurrentCable (checkSoftOverCurrent k c) = maxCurrentCable c"
  "transaction_active (checkSoftOverCurrent k c) = transaction_active c"
  "session_active (checkSoftOverCurrent k c) = session_active c"
  "stop_transaction_id_tag (checkSoftOverCurrent k c) = stop_transaction_id_tag c"
  "last_stop_transaction_reason (checkSoftOverCurrent k c) = last_stop_transaction_reason c"
  "last_start_session_reason (checkSoftOverCurrent k c) = last_start_session_reason c"
  "lastState (checkSoftOverCurrent k c) = lastState c"
  "currentStateStarted (checkSoftOverCurrent k c) = currentStateStarted c"
  "currentDrawnByVehicle (checkSoftOverCurrent k c) = currentDrawnByVehicle c"
  "t_step_EF_returnState (checkSoftOverCurrent k c) = t_step_EF_returnState c"
  "t_step_EF_returnPWM (checkSoftOverCurrent k c) = t_step_EF_returnPWM c"
  "t_step_X1_returnState (checkSoftOverCurrent k c) = t_step_X1_returnState c"
  "t_step_X1_returnPWM (checkSoftOverCurrent k c) = t_step_X1_returnPWM c"
  "matching_started (checkSoftOverCurrent k c) = matching_started c"
  "authorized (checkSoftOverCurrent k c) = authorized c"
  "authorized_pnc (checkSoftOverCurrent k c) = authorized_pnc c"
  "auth_tag (checkSoftOverCurrent k c) = auth_tag c"
  "charge_mode (checkSoftOverCurrent k c) = charge_mode c"
  "ac_hlc_enabled (checkSoftOverCurrent k c) = ac_hlc_enabled c"
  "ac_hlc_enabled_current_session (checkSoftOverCurrent k c) = ac_hlc_enabled_current_session c"
  "ac_hlc_use_5percent (checkSoftOverCurrent k c) = ac_hlc_use_5percent c"
  "hlc_use_5percent_current_session (checkSoftOverCurrent k c) = hlc_use_5percent_current_session c"
  "ac_enforce_hlc (checkSoftOverCurrent k c) = ac_enforce_hlc c"
  "ac_with_soc_timeout (checkSoftOverCurrent k c) = ac_with_soc_timeout c"
  "ac_with_soc_timer (checkSoftOverCurrent k c) = ac_with_soc_timer c"
  "lastPwmUpdate (checkSoftOverCurrent k c) = lastPwmUpdate c"
  "update_pwm_last_dc (checkSoftOverCurrent k c) = update_pwm_last_dc c"
  "currentEvseMaxLimits (checkSoftOverCurrent k c) = currentEvseMaxLimits c"
  "trace (checkSoftOverCurrent k c) = trace c"
  by (simp_all add: checkSoftOverCurrent_def Let_def split_beta)

lemma startTransaction_frame [simp]:
  "connector_type (startTransaction c) = connector_type c"
  "maxCurrent (startTransaction c) = maxCurrent c"
  "maxCurrentValidUntil (startTransaction c) = maxCurrentValidUntil c"
  "maxCurrentCable (startTransaction c) = maxCurrentCable c"
  "session_active (startTransaction c) = session_active c"
  "last_stop_transaction_reason (startTransaction c) = last_stop_transaction_reason c"
  "last_start_session_reason (startTransaction c) = last_start_session_reason c"
  "currentState (startTransaction c) = currentState c"
  "lastState (startTransaction c) = lastState c"
  "errorState (startTransaction c) = errorState c"
  "currentStateStarted (startTransaction c) = currentStateStarted c"
  "currentDrawnByVehicle (startTransaction c) = currentDrawnByVehicle c"
  "overCurrent (startTransaction c) = overCurrent c"
  "lastOverCurrentEvent (startTransaction c) = lastOverCurrentEvent c"
  "t_step_EF_returnState (startTransaction c) = t_step_EF_returnState c"
  "t_step_EF_returnPWM (startTransaction c) = t_step_EF_returnPWM c"
  "t_step_X1_returnState (startTransaction c) = t_step_X1_returnState c"
  "t_step_X1_returnPWM (startTransaction c) = t_step_X1_returnPWM c"
  "matching_started (startTransaction c) = matching_started c"
  "authorized (startTransaction c) = authorized c"
  "authorized_pnc (startTransaction c) = authorized_pnc c"
  "auth_tag (startTransaction c) = auth_tag c"
  "charge_mode (startTransaction c) = charge_mode c"
  "ac_hlc_enabled (startTransaction c) = ac_hlc_enabled c"
  "ac_hlc_enabled_current_session (startTransaction c) = ac_hlc_enabled_current_session c"
  "ac_hlc_use_5percent (startTransaction c) = ac_hlc_use_5percent c"
  "hlc_use_5percent_current_session (startTransaction c) = hlc_use_5percent_current_session c"
  "ac_enforce_hlc (startTransaction c) = ac_enforce_hlc c"
  "ac_with_soc_timeout (startTransaction c) = ac_with_soc_timeout c"
  "ac_with_soc_timer (startTransaction c) = ac_with_soc_timer c"
  "lastPwmUpdate (startTransaction c) = lastPwmUpdate c"
  "update_pwm_last_dc (startTransaction c) = update_pwm_last_dc c"
  "currentEvseMaxLimits (startTransaction c) = currentEvseMaxLimits c"
  by (simp_all add: startTransaction_def)

lemma stopTransaction_frame [simp]:
  "connector_type (stopTransaction c) = connector_type c"
  "maxCurrent (stopTransaction c) = maxCurrent c"
  "maxCurrentValidUntil (stopTransaction c) = maxCurrentValidUntil c"
  "maxCurrentCable (stopTransaction c) = maxCurrentCable c"
  "session_active (stopTransaction c) = session_active c"
  "stop_transaction_id_tag (stopTransaction c) = stop_transaction_id_tag c"
  "last_start_session_reason (stopTransaction c) = last_start_session_reason c"
  "currentState (stopTransaction c) = currentState c"
  "lastState (stopTransaction c) = lastState c"
  "errorState (stopTransaction c) = errorState c"
  "currentStateStarted (stopTransaction c) = currentStateStarted c"
  "currentDrawnByVehicle (stopTransaction c) = currentDrawnByVehicle c"
  "overCurrent (stopTransaction c) = overCurrent c"
  "lastOverCurrentEvent (stopTransaction c) = lastOverCurrentEvent c"
  "t_step_EF_returnState (stopTransaction c) = t_step_EF_returnState c"
  "t_step_EF_returnPWM (stopTransaction c) = t_step_EF_returnPWM c"
  "t_step_X1_returnState (stopTransaction c) = t_step_X1_returnState c"
  "t_step_X1_returnPWM (stopTransaction c) = t_step_X1_returnPWM c"
  "matching_started (stopTransaction c) = matching_started c"
  "authorized (stopTransaction c) = authorized c"
  "authorized_pnc (stopTransaction c) = authorized_pnc c"
  "auth_tag (stopTransaction c) = auth_tag c"
  "charge_mode (stopTransaction c) = charge_mode c"
  "ac_hlc_enabled (stopTransaction c) = ac_hlc_enabled c"
  "ac_hlc_enabled_current_session (stopTransaction c) = ac_hlc_enabled_current_session c"
  "ac_hlc_use_5percent (stopTransaction c) = ac_hlc_use_5percent c"
  "hlc_use_5percent_current_session (stopTransaction c) = hlc_use_5percent_current_session c"
  "ac_enforce_hlc (stopTransaction c) = ac_enforce_hlc c"
  "ac_with_soc_timeout (stopTransaction c) = ac_with_soc_timeout c"
  "ac_with_soc_timer (stopTransaction c) = ac_with_soc_timer c"
  "lastPwmUpdate (stopTransaction c) = lastPwmUpdate c"
  "update_pwm_last_dc (stopTransaction c) = update_pwm_last_dc c"
  "currentEvseMaxLimits (stopTransaction c) = currentEvseMaxLimits c"
  by (simp_all add: stopTransaction_def)

lemma startSession_frame [simp]:
  "connector_type (startSession a c) = connector_type c"
  "maxCurrent (startSession a c) = maxCurrent c"
  "maxCurrentValidUntil (startSession a c) = maxCurrentValidUntil c"
  "maxCurrentCable (startSession a c) = maxCurrentCable c"
  "transaction_active (startSession a c) = transaction_active c"
  "stop_transaction_id_tag (startSession a c) = stop_transaction_id_tag c"
  "last_stop_transaction_reason (startSession a c) = last_stop_transaction_reason c"
  "currentState (startSession a c) = currentState c"
  "lastState (startSession a c) = lastState c"
  "errorState (startSession a c) = errorState c"
  "currentStateStarted (startSession a c) = currentStateStarted c"
  "currentDrawnByVehicle (startSession a c) = currentDrawnByVehicle c"
  "overCurrent (startSession a c) = overCurrent c"
  "lastOverCurrentEvent (startSession a c) = lastOverCurrentEvent c"
  "t_step_EF_returnState (startSession a c) = t_step_EF_returnState c"
  "t_step_EF_returnPWM (startSession a c) = t_step_EF_returnPWM c"
  "t_step_X1_returnState (startSession a c) = t_step_X1_returnState c"
  "t_step_X1_returnPWM (startSession a c) = t_step_X1_returnPWM c"
  "matching_started (startSession a c) = matching_started c"
  "authorized_pnc (startSession a c) = authorized_pnc c"
  "auth_tag (startSession a c) = auth_tag c"
  "charge_mode (startSession a c) = charge_mode c"
  "ac_hlc_enabled (startSession a c) = ac_hlc_enabled c"
  "ac_hlc_enabled_current_session (startSession a c) = ac_hlc_enabled_current_session c"
  "ac_hlc_use_5percent (startSession a c) = ac_hlc_use_5percent c"
  "hlc_use_5percent_current_session (startSession a c) = hlc_use_5percent_current_session c"
  "ac_enforce_hlc (startSession a c) = ac_enforce_hlc c"
  "ac_with_soc_timeout (startSession a c) = ac_with_soc_timeout c"
  "ac_with_soc_timer (startSession a c) = ac_with_soc_timer c"
  "lastPwmUpdate (startSession a c) = lastPwmUpdate c"
  "update_pwm_last_dc (startSession a c) = update_pwm_last_dc c"
  "currentEvseMaxLimits (startSession a c) = currentEvseMaxLimits c"
  by (simp_all add: startSession_def)

lemma stopSession_frame [simp]:
  "connector_type (stopSession c) = connector_type c"
  "maxCurrent (stopSession c) = maxCurrent c"
  "maxCurrentValidUntil (stopSession c) = maxCurrentValidUntil c"
  "maxCurrentCable (stopSession c) = maxCurrentCable c"
  "transaction_active (stopSession c) = transaction_active c"
  "stop_transaction_id_tag (stopSession c) = stop_transaction_id_tag c"
  "last_stop_transaction_reason (stopSession c) = last_stop_transaction_reason c"
  "last_start_session_reason (stopSession c) = last_start_session_reason c"
  "currentState (stopSession c) = currentState c"
  "lastState (stopSession c) = lastState c"
  "errorState (stopSession c) = errorState c"
  "currentStateStarted (stopSession c) = currentStateStarted c"
  "currentDrawnByVehicle (stopSession c) = currentDrawnByVehicle c"
  "overCurrent (stopSession c) = overCurrent c"
  "lastOverCurrentEvent (stopSession c) = lastOverCurrentEvent c"
  "t_step_EF_returnState (stopSession c) = t_step_EF_returnState c"
  "t_step_EF_returnPWM (stopSession c) = t_step_EF_returnPWM c"
  "t_step_X1_returnState (stopSession c) = t_step_X1_returnState c"
  "t_step_X1_returnPWM (stopSession c) = t_step_X1_returnPWM c"
  "matching_started (stopSession c) = matching_started c"
  "authorized_pnc (stopSession c) = authorized_pnc c"
  "auth_tag (stopSession c) = auth_tag c"
  "charge_mode (stopSession c) = charge_mode c"
  "ac_hlc_enabled (stopSession c) = ac_hlc_enabled c"
  "ac_hlc_enabled_current_session (stopSession c) = ac_hlc_enabled_current_session c"
  "ac_hlc_use_5percent (stopSession c) = ac_hlc_use_5percent c"
  "hlc_use_5percent_current_session (stopSession c) = hlc_use_5percent_current_session c"
  "ac_enforce_hlc (stopSession c) = ac_enforce_hlc c"
  "ac_with_soc_timeout (stopSession c) = ac_with_soc_timeout c"
  "ac_with_soc_timer (stopSession c) = ac_with_soc_timer c"
  "lastPwmUpdate (stopSession c) = lastPwmUpdate c"
  "update_pwm_last_dc (stopSession c) = update_pwm_last_dc c"
  "currentEvseMaxLimits (stopSession c) = currentEvseMaxLimits c"
  by (simp_all add: stopSession_def)

lemma session_transaction_flags [simp]:
  "transaction_active (startTransaction c)"
  "\<not> transaction_active (stopTransaction c)"
  "session_active (startSession a c)"
  "\<not> session_active (stopSession c)"
  "\<not> authorized (startSession a c)"
  "\<not> authorized (stopSession c)"
  by (simp_all add: startTransaction_def stopTransaction_def startSession_def stopSession_def)

lemma output_traces [simp]:
  "trace (emit e c) = trace c @ [e]"
  "trace (signalEvent ev c) = trace c @ [SignalEvent ev]"
  "trace (pwm_off c) = trace c @ [Bsp_pwm_off]"
  "trace (pwm_F c) = trace c @ [Bsp_pwm_F]"
  "trace (update_pwm_now k dc c) = trace c @ [Bsp_pwm_on dc]"
  "trace (startTransaction c) = trace c @ [SignalEvent SE_TransactionStarted]"
  "trace (stopTransaction c) =
     trace c @ [SignalEvent SE_ChargingFinished, SignalEvent SE_TransactionFinished]"
  "trace (startSession a c) = trace c @ [SignalEvent SE_SessionStarted]"
  "trace (stopSession c) = trace c @ [SignalEvent SE_SessionFinished]"
  by (simp_all add: charger_defs)

lemma checkSoftOverCurrent_currentState:
  "currentState (checkSoftOverCurrent k c) = Error \<or>
   currentState (checkSoftOverCurrent k c) = currentState c"
  by (simp add: checkSoftOverCurrent_def Let_def split_beta)

text \<open>The result of \<open>powerAvailable\<close> by its two components.\<close>

lemma powerAvailable_split:
  "(case powerAvailable k c of (avail, d) \<Rightarrow> f avail d) =
   f (fst (powerAvailable k c)) (snd (powerAvailable k c))"
  by (simp add: split_beta)

lemma fst_powerAvailable:
  "fst (powerAvailable k c) \<longleftrightarrow> maxCurrent (snd (powerAvailable k c)) > 59 / 10"
  by (simp add: powerAvailable_def getMaxCurrent_def Let_def)

end
