(* ===== verification/Charger_Invariants.thy ===== *)
theory Charger_Invariants
  imports Charger
begin

text \<open>
  Safety of the charging state machine over all interleavings of main-thread iterations,
  control-pilot events and method calls.
\<close>

section \<open>Energy transfer needs a running transaction\<close>

definition needs_transaction :: "EvseState \<Rightarrow> bool" where
  "needs_transaction s \<longleftrightarrow>
     s = PrepareCharging \<or> s = Charging \<or> s = WaitingForEnergy \<or> s = ChargingPausedEV"

definition transaction_inv :: "charger \<Rightarrow> bool" where
  "transaction_inv c \<longleftrightarrow>
     (needs_transaction (currentState c) \<longrightarrow> transaction_active c) \<and>
     (currentState c = T_step_EF \<longrightarrow>
        t_step_EF_returnState c = WaitingForAuthentication \<or>
        t_step_EF_returnState c = PrepareCharging \<and> transaction_active c) \<and>
     (currentState c = T_step_X1 \<longrightarrow>
        t_step_X1_returnState c = PrepareCharging \<and> transaction_active c)"

lemmas transaction_inv_unfold = transaction_inv_def needs_transaction_def

lemma transaction_inv_command: "transaction_inv c \<Longrightarrow> transaction_inv (exec_command m c)"
  by (cases m)
     (auto simp: transaction_inv_unfold charger_defs command_defs Let_def
           split: option.splits)

lemma transaction_inv_event: "transaction_inv c \<Longrightarrow> transaction_inv (processEvent k pp e c)"
  by (cases e)
     (auto simp: transaction_inv_unfold charger_defs command_defs Let_def processEvent_def
        processCPEventsState_def processCPEventsIndependent_def split: EvseState.splits)

lemma run_Charging_transaction [simp]:
  "transaction_active (run_Charging k n c) = transaction_active c"
  "transaction_active (run_ChargingPausedEV k n c) = transaction_active c"
  by (simp_all add: run_Charging_def run_ChargingPausedEV_def powerAvailable_split Let_def
        pauseChargingWaitForPower_def if_distrib [of transaction_active] if_distrib [of snd])

lemma run_Charging_currentState:
  "currentState (run_Charging k n c) \<in> {currentState c, Error, WaitingForEnergy}"
  using checkSoftOverCurrent_currentState [of k c]
  by (elim disjE; simp add: run_Charging_def powerAvailable_split Let_def
        pauseChargingWaitForPower_def if_distrib [of currentState] if_distrib [of snd])

lemma run_ChargingPausedEV_currentState:
  "currentState (run_ChargingPausedEV k n c)
     \<in> {currentState c, Error, WaitingForEnergy, StoppingCharging}"
  using checkSoftOverCurrent_currentState [of k c]
  by (elim disjE; simp add: run_ChargingPausedEV_def powerAvailable_split Let_def
        pauseChargingWaitForPower_def if_distrib [of currentState] if_distrib [of snd])

lemma enter_WaitingForAuthentication_frame [simp]:
  "currentState (enter_WaitingForAuthentication k c) = currentState c"
  "transaction_active (enter_WaitingForAuthentication k c) = transaction_active c"
  "charge_mode (enter_WaitingForAuthentication k c) = charge_mode c"
  "currentEvseMaxLimits (enter_WaitingForAuthentication k c) = currentEvseMaxLimits c"
  "maxCurrent (enter_WaitingForAuthentication k c) = maxCurrent c"
  "maxCurrentCable (enter_WaitingForAuthentication k c) = maxCurrentCable c"
  by (cases "charge_mode c"; simp add: enter_WaitingForAuthentication_def Let_def
        if_distrib [of currentState] if_distrib [of transaction_active]
        if_distrib [of charge_mode] if_distrib [of currentEvseMaxLimits]
        if_distrib [of maxCurrent] if_distrib [of maxCurrentCable])+

lemma transaction_inv_activeI:
  "transaction_active c \<Longrightarrow> currentState c \<notin> {T_step_EF, T_step_X1} \<Longrightarrow> transaction_inv c"
  by (simp add: transaction_inv_unfold)

lemma transaction_inv_charging:
  assumes "transaction_inv c" and "currentState c = Charging \<or> currentState c = ChargingPausedEV"
  shows "transaction_inv (run_Charging k n c)" and "transaction_inv (run_ChargingPausedEV k n c)"
proof -
  from assms have "transaction_active c"
    by (auto simp: transaction_inv_unfold)
  moreover have "currentState (run_Charging k n c) \<notin> {T_step_EF, T_step_X1}"
    using run_Charging_currentState [of k n c] assms(2) by auto
  moreover have "currentState (run_ChargingPausedEV k n c) \<notin> {T_step_EF, T_step_X1}"
    using run_ChargingPausedEV_currentState [of k n c] assms(2) by auto
  ultimately show "transaction_inv (run_Charging k n c)" "transaction_inv (run_ChargingPausedEV k n c)"
    by (auto intro: transaction_inv_activeI)
qed

lemma transaction_inv_authorized:
  "transaction_inv (authorized_by_EIM c)" "transaction_inv (authorized_by_PnC c)"
  by (cases "charge_mode c"; simp add: authorized_by_EIM_def authorized_by_PnC_def Let_def;
      simp add: transaction_inv_unfold)+

lemma transaction_inv_WaitingForAuthentication:
  assumes "currentState c = WaitingForAuthentication"
  shows "transaction_inv (run_WaitingForAuthentication k n c)"
proof -
  have "transaction_inv d" if "currentState d = WaitingForAuthentication" for d
    using that by (simp add: transaction_inv_unfold)
  with assms show ?thesis
    by (simp add: run_WaitingForAuthentication_def Let_def transaction_inv_authorized)
qed

lemma transaction_inv_switch:
  assumes "transaction_inv c"
  shows "transaction_inv (run_switch k n c)"
proof (cases "currentState c")
  case WaitingForAuthentication
  then show ?thesis by (simp add: run_switch_def transaction_inv_WaitingForAuthentication)
next
  case Charging
  with assms show ?thesis by (simp add: run_switch_def transaction_inv_charging)
next
  case ChargingPausedEV
  with assms show ?thesis by (simp add: run_switch_def transaction_inv_charging)
qed (use assms in \<open>auto simp: run_switch_def transaction_inv_unfold Let_def run_Disabled_def
   run_Replug_def run_Idle_def Authorize_def run_T_step_EF_def run_T_step_X1_def
   run_PrepareCharging_def run_ChargingPausedEVSE_def run_WaitingForEnergy_def
   run_StoppingCharging_def run_Finished_def restart_def run_Error_def run_Faulted_def\<close>)

lemma transaction_inv_tick:
  assumes "transaction_inv c"
  shows "transaction_inv (mainThread_iteration k c)"
proof -
  let ?d = "snd (powerAvailable k c)"
  have d: "transaction_inv ?d"
    using assms by (simp add: transaction_inv_unfold)
  show ?thesis
  proof (cases "soc_timeout_due ?d")
    case True
    with d show ?thesis
      by (simp add: mainThread_iteration_def runStateMachine_soc_timeout transaction_inv_unfold)
  next
    case False
    from d have "transaction_inv (prepared k ?d)"
      by (simp add: transaction_inv_unfold)
    with False show ?thesis
      by (simp add: mainThread_iteration_def runStateMachine_switch transaction_inv_switch)
  qed
qed

interpretation transaction: invariant_system charger_init charger_step transaction_inv
proof unfold_locales
  fix s assume "charger_init s"
  then show "transaction_inv s"
    by (auto elim!: charger_init.cases simp: transaction_inv_unfold Charger_new_def)
next
  fix s l t assume "transaction_inv s" "charger_step s l t"
  then show "transaction_inv t"
    by (cases l)
       (auto simp: charger_step_simps transaction_inv_tick transaction_inv_event
          transaction_inv_command)
qed

section \<open>Which outputs an operation can produce\<close>

text \<open>The trace of \<open>d\<close> extends the trace of \<open>c\<close>, and only by effects that satisfy \<open>P\<close>.\<close>

definition extends_by :: "(effect \<Rightarrow> bool) \<Rightarrow> charger \<Rightarrow> charger \<Rightarrow> bool" where
  "extends_by P c d \<longleftrightarrow> (\<exists>es. trace d = trace c @ es \<and> list_all P es)"

lemma extends_by_sameI: "trace d = trace c \<Longrightarrow> extends_by P c d"
  by (simp add: extends_by_def)

lemma extends_by_refl [simp]: "extends_by P c c"
  by (simp add: extends_by_sameI)

lemma extends_by_snocI: "extends_by P c d \<Longrightarrow> trace d' = trace d @ es \<Longrightarrow> list_all P es \<Longrightarrow> extends_by P c d'"
  by (auto simp: extends_by_def)

lemma extends_by_trans: "extends_by P c d \<Longrightarrow> extends_by P d e \<Longrightarrow> extends_by P c e"
  by (auto simp: extends_by_def)

lemma extends_by_appended:
  "extends_by P c d \<Longrightarrow> e \<in> set (appended (trace c) (trace d)) \<Longrightarrow> P e"
  by (auto simp: extends_by_def list_all_iff)

lemma extends_by_update [simp]:
  "extends_by P c (d\<lparr>connector_type := v0\<rparr>) = extends_by P c d"
  "extends_by P c (d\<lparr>maxCurrent := v1\<rparr>) = extends_by P c d"
  "extends_by P c (d\<lparr>maxCurrentValidUntil := v2\<rparr>) = extends_by P c d"
  "extends_by P c (d\<lparr>maxCurrentCable := v3\<rparr>) = extends_by P c d"
  "extends_by P c (d\<lparr>transaction_active := v4\<rparr>) = extends_by P c d"
  "extends_by P c (d\<lparr>session_active := v5\<rparr>) = extends_by P c d"
  "extends_by P c (d\<lparr>stop_transaction_id_tag := v6\<rparr>) = extends_by P c d"
  "extends_by P c (d\<lparr>last_stop_transaction_reason := v7\<rparr>) = extends_by P c d"
  "extends_by P c (d\<lparr>last_start_session_reason := v8\<rparr>) = extends_by P c d"
  "extends_by P c (d\<lparr>currentState := v9\<rparr>) = extends_by P c d"
  "extends_by P c (d\<lparr>lastState := v10\<rparr>) = extends_by P c d"
  "extends_by P c (d\<lparr>errorState := v11\<rparr>) = extends_by P c d"
  "extends_by P c (d\<lparr>currentStateStarted := v12\<rparr>) = extends_by P c d"
  "extends_by P c (d\<lparr>currentDrawnByVehicle := v13\<rparr>) = extends_by P c d"
  "extends_by P c (d\<lparr>overCurrent := v14\<rparr>) = extends_by P c d"
  "extends_by P c (d\<lparr>lastOverCurrentEvent := v15\<rparr>) = extends_by P c d"
  "extends_by P c (d\<lparr>t_step_EF_returnState := v16\<rparr>) = extends_by P c d"
  "extends_by P c (d\<lparr>t_step_EF_returnPWM := v17\<rparr>) = extends_by P c d"
  "extends_by P c (d\<lparr>t_step_X1_returnState := v18\<rparr>) = extends_by P c d"
  "extends_by P c (d\<lparr>t_step_X1_returnPWM := v19\<rparr>) = extends_by P c d"
  "extends_by P c (d\<lparr>matching_started := v20\<rparr>) = extends_by P c d"
  "extends_by P c (d\<lparr>authorized := v21\<rparr>) = extends_by P c d"
  "extends_by P c (d\<lparr>authorized_pnc := v22\<rparr>) = extends_by P c d"
  "extends_by P c (d\<lparr>auth_tag := v23\<rparr>) = extends_by P c d"
  "extends_by P c (d\<lparr>charge_mode := v24\<rparr>) = extends_by P c d"
  "extends_by P c (d\<lparr>ac_hlc_enabled := v25\<rparr>) = extends_by P c d"
  "extends_by P c (d\<lparr>ac_hlc_enabled_current_session := v26\<rparr>) = extends_by P c d"
  "extends_by P c (d\<lparr>ac_hlc_use_5percent := v27\<rparr>) = extends_by P c d"
  "extends_by P c (d\<lparr>hlc_use_5percent_current_session := v28\<rparr>) = extends_by P c d"
  "extends_by P c (d\<lparr>ac_enforce_hlc := v29\<rparr>) = extends_by P c d"
  "extends_by P c (d\<lparr>ac_with_soc_timeout := v30\<rparr>) = extends_by P c d"
  "extends_by P c (d\<lparr>ac_with_soc_timer := v31\<rparr>) = extends_by P c d"
  "extends_by P c (d\<lparr>lastPwmUpdate := v32\<rparr>) = extends_by P c d"
  "extends_by P c (d\<lparr>update_pwm_last_dc := v33\<rparr>) = extends_by P c d"
  "extends_by P c (d\<lparr>currentEvseMaxLimits := v34\<rparr>) = extends_by P c d"
  by (simp_all add: extends_by_def)

lemma extends_by_output [simp]:
  "P e \<Longrightarrow> extends_by P c d \<Longrightarrow> extends_by P c (emit e d)"
  "P (SignalEvent ev) \<Longrightarrow> extends_by P c d \<Longrightarrow> extends_by P c (signalEvent ev d)"
  "P Bsp_pwm_off \<Longrightarrow> extends_by P c d \<Longrightarrow> extends_by P c (pwm_off d)"
  "P Bsp_pwm_F \<Longrightarrow> extends_by P c d \<Longrightarrow> extends_by P c (pwm_F d)"
  "P (Bsp_pwm_on dc) \<Longrightarrow> extends_by P c d \<Longrightarrow> extends_by P c (update_pwm_now k dc d)"
  "P (SignalEvent SE_SessionStarted) \<Longrightarrow> extends_by P c d \<Longrightarrow> extends_by P c (startSession a d)"
  "P (SignalEvent SE_SessionFinished) \<Longrightarrow> extends_by P c d \<Longrightarrow> extends_by P c (stopSession d)"
  "P (SignalEvent SE_TransactionStarted) \<Longrightarrow> extends_by P c d \<Longrightarrow> extends_by P c (startTransaction d)"
  "P (SignalEvent SE_ChargingFinished) \<Longrightarrow> P (SignalEvent SE_TransactionFinished) \<Longrightarrow>
     extends_by P c d \<Longrightarrow> extends_by P c (stopTransaction d)"
  by (auto simp: extends_by_def)

lemma extends_by_pwm [simp]:
  "P (Bsp_pwm_on dc) \<Longrightarrow> extends_by P c d \<Longrightarrow> extends_by P c (update_pwm_max_every_5seconds k dc d)"
  "P (Bsp_pwm_on dc) \<Longrightarrow> extends_by P c d \<Longrightarrow> extends_by P c (update_pwm_now_if_changed k dc d)"
  by (simp_all add: update_pwm_max_every_5seconds_def update_pwm_now_if_changed_def Let_def)

lemma extends_by_limits [simp]:
  "P (SignalMaxCurrent 0) \<Longrightarrow> extends_by P c d \<Longrightarrow> extends_by P c (snd (powerAvailable k d))"
  "extends_by P c (checkSoftOverCurrent k d) = extends_by P c d"
  by (simp_all add: powerAvailable_def checkSoftOverCurrent_def Let_def split_beta)

lemma extends_by_prepared [simp]:
  "(\<And>s. P (SignalState s)) \<Longrightarrow> (\<And>e. P (SignalError e)) \<Longrightarrow> extends_by P c d \<Longrightarrow>
     extends_by P c (prepared k d)"
  by (simp add: prepared_def enter_state_def Let_def)

text \<open>Effects that no main-thread iteration, event or command may hide from a property.\<close>

definition benign :: "effect \<Rightarrow> bool" where
  "benign e \<longleftrightarrow> e \<noteq> Bsp_allow_power_on True \<and> e \<noteq> SignalEvent SE_TransactionStarted \<and>
     e \<noteq> SignalEvent SE_ReplugFinished"

lemma benign_command: "extends_by benign c (exec_command m c)"
  by (cases m)
     (auto simp: benign_def command_defs setup_charger_def setMatchingStarted_def
        inform_new_evse_max_hlc_limits_def setCurrentDrawnByVehicle_def forceUnlock_def
        switchThreePhasesWhileCharging_def restart_def pauseChargingWaitForPower_def Let_def
        transactionActive_def sessionActive_def
        split: option.splits)

lemma benign_event: "extends_by benign c (processEvent k pp e c)"
  by (cases e)
     (auto simp: benign_def processEvent_def processCPEventsState_def
        processCPEventsIndependent_def set_error_def pauseChargingWaitForPower_def
        powerAvailable_split Let_def split: EvseState.splits)

lemma benign_switch:
  assumes "currentState c \<notin>
     {PrepareCharging, Charging, ChargingPausedEV, WaitingForAuthentication}"
  shows "extends_by benign c (run_switch k n c)"
  using assms
  by (cases "currentState c")
     (simp_all add: run_switch_def benign_def run_Disabled_def run_Replug_def run_Idle_def
        Authorize_def run_T_step_EF_def run_T_step_X1_def run_ChargingPausedEVSE_def
        run_WaitingForEnergy_def run_StoppingCharging_def run_Finished_def restart_def
        run_Error_def run_Faulted_def Let_def)

definition no_start :: "effect \<Rightarrow> bool" where
  "no_start e \<longleftrightarrow> e \<noteq> SignalEvent SE_TransactionStarted \<and> e \<noteq> SignalEvent SE_ReplugFinished"

lemma no_start_charging:
  "extends_by no_start c (run_PrepareCharging k n c)"
  "extends_by no_start c (run_Charging k n c)"
  "extends_by no_start c (run_ChargingPausedEV k n c)"
  by (simp_all add: run_PrepareCharging_def run_Charging_def run_ChargingPausedEV_def no_start_def
        powerAvailable_split pauseChargingWaitForPower_def Let_def)

lemma authorized_enter_WaitingForAuthentication:
  "authorized (enter_WaitingForAuthentication k c) \<Longrightarrow> authorized c"
  by (cases "charge_mode c"; cases "lastState c = Replug"; cases "session_active c")
     (simp_all add: enter_WaitingForAuthentication_def sessionActive_def Let_def split: if_splits)

lemma enter_WaitingForAuthentication_output:
  "lastState c \<noteq> Replug \<Longrightarrow> extends_by benign c (enter_WaitingForAuthentication k c)"
  by (cases "charge_mode c")
     (simp_all add: enter_WaitingForAuthentication_def benign_def sessionActive_def Let_def)

definition no_power :: "effect \<Rightarrow> bool" where
  "no_power e \<longleftrightarrow> e \<noteq> Bsp_allow_power_on True \<and> e \<noteq> SignalEvent SE_ReplugFinished"

lemma extends_by_mono: "extends_by P c d \<Longrightarrow> (\<And>e. P e \<Longrightarrow> Q e) \<Longrightarrow> extends_by Q c d"
  by (auto simp: extends_by_def list_all_iff)

lemma benign_weaken: "benign e \<Longrightarrow> no_start e" "benign e \<Longrightarrow> no_power e"
  by (simp_all add: benign_def no_start_def no_power_def)

lemma authorized_by_output:
  "extends_by no_power c (authorized_by_EIM c)" "extends_by no_power c (authorized_by_PnC c)"
  by (cases "charge_mode c"; simp add: authorized_by_EIM_def authorized_by_PnC_def
        no_power_def Let_def)+

lemma run_WaitingForAuthentication_output:
  assumes "lastState c \<noteq> Replug"
  shows "extends_by no_power c (run_WaitingForAuthentication k n c)"
proof -
  let ?d = "if n then enter_WaitingForAuthentication k c else c"
  have "extends_by no_power c ?d"
    using enter_WaitingForAuthentication_output [OF assms]
    by (auto intro: extends_by_mono benign_weaken)
  then show ?thesis
    by (auto simp: run_WaitingForAuthentication_def Let_def
        intro: extends_by_trans authorized_by_output)
qed

lemma run_WaitingForAuthentication_unauthorized:
  assumes "lastState c \<noteq> Replug" and "\<not> authorized c"
  shows "extends_by benign c (run_WaitingForAuthentication k n c)"
  using assms enter_WaitingForAuthentication_output [of c k]
    authorized_enter_WaitingForAuthentication [of k c]
  by (auto simp: run_WaitingForAuthentication_def Let_def AuthorizedEIM_def AuthorizedPnC_def)

text \<open>
  An iteration of the main thread either reports the state-of-charge timeout or runs the switch,
  in a state that agrees with the old one in everything but limits, timers and outputs.
\<close>

lemma tick_cases:
  obtains (timeout) "extends_by benign c (mainThread_iteration k c)"
      "currentState (mainThread_iteration k c) = currentState c"
      "transaction_active (mainThread_iteration k c) = transaction_active c"
  | (switch) n c' where "mainThread_iteration k c = run_switch k n c'"
      "extends_by benign c c'" "currentState c' = currentState c" "lastState c' = currentState c"
      "transaction_active c' = transaction_active c" "authorized c' = authorized c"
proof (cases "soc_timeout_due (snd (powerAvailable k c))")
  case True
  let ?d = "snd (powerAvailable k c)"
  have "extends_by benign c ?d"
    by (simp add: benign_def)
  then have "extends_by benign c (runStateMachine k ?d)"
    by (rule extends_by_snocI [where es = "[SignalACWithSoCTimeout]"])
       (simp_all add: runStateMachine_soc_timeout [OF True] benign_def)
  with True show thesis
    by (intro timeout) (simp_all add: mainThread_iteration_def runStateMachine_soc_timeout)
next
  case False
  then show thesis
    by (intro switch [of _ "prepared k (snd (powerAvailable k c))"])
       (auto simp: mainThread_iteration_def runStateMachine_switch benign_def)
qed

section \<open>Effects of one step\<close>

definition new_effects :: "charger \<Rightarrow> charger \<Rightarrow> effect set" where
  "new_effects c d = set (appended (trace c) (trace d))"

lemma new_effects_extends: "extends_by P c d \<Longrightarrow> e \<in> new_effects c d \<Longrightarrow> P e"
  by (simp add: new_effects_def extends_by_appended)

lemma event_effects: "e \<in> new_effects c (processEvent k pp ev c) \<Longrightarrow> benign e"
  by (rule new_effects_extends [OF benign_event])

lemma command_effects: "e \<in> new_effects c (exec_command m c) \<Longrightarrow> benign e"
  by (rule new_effects_extends [OF benign_command])

lemma run_switch_unauthorized:
  assumes "currentState c \<notin> {PrepareCharging, Charging, ChargingPausedEV}"
    and "currentState c \<noteq> WaitingForAuthentication \<or> lastState c \<noteq> Replug \<and> \<not> authorized c"
  shows "extends_by benign c (run_switch k n c)"
proof (cases "currentState c = WaitingForAuthentication")
  case True
  with assms show ?thesis by (simp add: run_switch_def run_WaitingForAuthentication_unauthorized)
next
  case False
  with assms show ?thesis by (simp add: benign_switch)
qed

lemma tick_power_on:
  assumes "Bsp_allow_power_on True \<in> new_effects c (mainThread_iteration k c)"
  shows "currentState c \<in> {PrepareCharging, Charging, ChargingPausedEV}"
proof (cases k c rule: tick_cases)
  case timeout
  with new_effects_extends [OF timeout(1) assms] show ?thesis by (simp add: benign_def)
next
  case (switch n c')
  show ?thesis
  proof (rule ccontr)
    assume out: "currentState c \<notin> {PrepareCharging, Charging, ChargingPausedEV}"
    have "extends_by no_power c' (run_switch k n c')"
    proof (cases "currentState c = WaitingForAuthentication")
      case True
      with switch show ?thesis
        by (simp add: run_switch_def run_WaitingForAuthentication_output)
    next
      case False
      with out switch have "extends_by benign c' (run_switch k n c')"
        by (intro benign_switch) auto
      then show ?thesis by (auto elim: extends_by_mono intro: benign_weaken)
    qed
    with switch have "extends_by no_power c (mainThread_iteration k c)"
      by (auto intro: extends_by_trans extends_by_mono benign_weaken)
    from new_effects_extends [OF this assms] show False by (simp add: no_power_def)
  qed
qed

lemma tick_transaction_start:
  assumes "SignalEvent SE_TransactionStarted \<in> new_effects c (mainThread_iteration k c)"
  shows "currentState c = WaitingForAuthentication \<and> authorized c"
proof (cases k c rule: tick_cases)
  case timeout
  with new_effects_extends [OF timeout(1) assms] show ?thesis by (simp add: benign_def)
next
  case (switch n c')
  show ?thesis
  proof (rule ccontr)
    assume out: "\<not> ?thesis"
    have "extends_by no_start c' (run_switch k n c')"
    proof (cases "currentState c \<in> {PrepareCharging, Charging, ChargingPausedEV}")
      case True
      with switch show ?thesis by (auto simp: run_switch_def no_start_charging)
    next
      case False
      with out switch have "extends_by benign c' (run_switch k n c')"
        by (intro run_switch_unauthorized) auto
      then show ?thesis by (auto elim: extends_by_mono intro: benign_weaken)
    qed
    with switch have "extends_by no_start c (mainThread_iteration k c)"
      by (auto intro: extends_by_trans extends_by_mono benign_weaken)
    from new_effects_extends [OF this assms] show False by (simp add: no_start_def)
  qed
qed

definition no_replug :: "effect \<Rightarrow> bool" where
  "no_replug e \<longleftrightarrow> e \<noteq> SignalEvent SE_ReplugFinished"

lemma no_replug_weaken:
  "extends_by benign c d \<Longrightarrow> extends_by no_replug c d"
  "extends_by no_start c d \<Longrightarrow> extends_by no_replug c d"
  "extends_by no_power c d \<Longrightarrow> extends_by no_replug c d"
  by (erule extends_by_mono, simp add: benign_def no_start_def no_power_def no_replug_def)+

lemma run_switch_no_replug:
  assumes "lastState c = currentState c"
  shows "extends_by no_replug c (run_switch k n c)"
proof (cases "currentState c \<in> {PrepareCharging, Charging, ChargingPausedEV}")
  case True
  then show ?thesis by (auto simp: run_switch_def no_start_charging no_replug_weaken(2))
next
  case False
  with assms show ?thesis
    by (cases "currentState c = WaitingForAuthentication")
       (simp_all add: run_switch_def [of k n c] run_WaitingForAuthentication_output
          no_replug_weaken(3) no_replug_weaken(1) [OF benign_switch, unfolded run_switch_def])
qed

lemma tick_no_replug_finished:
  "SignalEvent SE_ReplugFinished \<notin> new_effects c (mainThread_iteration k c)"
proof -
  have "extends_by no_replug c (mainThread_iteration k c)"
  proof (cases k c rule: tick_cases)
    case timeout
    then show ?thesis by (intro no_replug_weaken(1))
  next
    case (switch n c')
    then show ?thesis
      using extends_by_trans [OF no_replug_weaken(1) [OF switch(2)] run_switch_no_replug]
      by simp
  qed
  then show ?thesis by (auto dest: new_effects_extends simp: no_replug_def)
qed

section \<open>A concrete execution\<close>

text \<open>Running a list of labels; used to exhibit reachable states.\<close>

fun label_ok :: "charger_label \<Rightarrow> bool" where
  "label_ok (CpEvent k pp e) \<longleftrightarrow> 0 \<le> pp"
| "label_ok _ \<longleftrightarrow> True"

fun charger_do :: "charger_label \<Rightarrow> charger \<Rightarrow> charger" where
  "charger_do (Tick k) c = mainThread_iteration k c"
| "charger_do (CpEvent k pp e) c = processEvent k pp e c"
| "charger_do (Command m) c = exec_command m c"

lemma charger_step_iff: "charger_step c l d \<longleftrightarrow> label_ok l \<and> d = charger_do l c"
  by (cases l) (auto simp: charger_step_simps)

lemma reach_fold_charger_do:
  "charger_reach c \<Longrightarrow> list_all label_ok ls \<Longrightarrow> charger_reach (fold charger_do ls c)"
proof (induction ls arbitrary: c)
  case (Cons l ls)
  then have "charger_step c l (charger_do l c)"
    by (simp add: charger_step_iff)
  with Cons.prems(1) have "charger_reach (charger_do l c)"
    by (rule reach_step)
  with Cons show ?case by simp
qed simp

definition sample_memory :: charger where
  "sample_memory =
     \<lparr>connector_type = [], maxCurrent = 0, maxCurrentValidUntil = 0, maxCurrentCable = 0,
      transaction_active = False, session_active = False, stop_transaction_id_tag = [],
      last_stop_transaction_reason = Local, last_start_session_reason = EVConnected,
      currentState = Disabled, lastState = Disabled, errorState = Err_Internal,
      currentStateStarted = 0, currentDrawnByVehicle = (0, 0, 0), overCurrent = False,
      lastOverCurrentEvent = 0, t_step_EF_returnState = Faulted, t_step_EF_returnPWM = 0,
      t_step_X1_returnState = Faulted, t_step_X1_returnPWM = 0, matching_started = False,
      authorized = False, authorized_pnc = False, auth_tag = [], charge_mode = AC,
      ac_hlc_enabled = False, ac_hlc_enabled_current_session = False,
      ac_hlc_use_5percent = False, hlc_use_5percent_current_session = False,
      ac_enforce_hlc = False, ac_with_soc_timeout = False, ac_with_soc_timer = 0,
      lastPwmUpdate = 0, update_pwm_last_dc = 0,
      currentEvseMaxLimits = \<lparr>EVSEMaximumCurrentLimit = 0, EVSEMaximumPowerLimit = 0,
        EVSEMaximumVoltageLimit = 0\<rparr>,
      trace = []\<rparr>"

abbreviation at_ms :: "int \<Rightarrow> clock" where
  "at_ms t \<equiv> \<lparr>sys_now = t, utc_now = t\<rparr>"

text \<open>From power-up to an authorized AC session that waits for the relais.\<close>

definition sample_run :: "charger_label list" where
  "sample_run =
    [Command (Setup True False ''DE'' True AC False False False False),
     Command MainThreadStart, Command Enable, Tick (at_ms 50),
     Command (SetMaxCurrentUntil (at_ms 60) 16 10000),
     CpEvent (at_ms 70) 32 BS_CarPluggedIn, Tick (at_ms 100),
     Command (AuthorizeCmd True ''TAG'' False), Tick (at_ms 150)]"

definition sample_new :: charger where
  "sample_new = Charger_new sample_memory IEC62196Type2Socket 32"

lemma sample_prefix_reach:
  "charger_reach (fold charger_do (take n sample_run) sample_new)"
proof (rule reach_fold_charger_do)
  show "charger_reach sample_new"
    unfolding sample_new_def by (rule reach_init, rule constructed) simp
  have "list_all label_ok sample_run"
    by (simp add: sample_run_def)
  then show "list_all label_ok (take n sample_run)"
    by (simp add: list_all_length)
qed

section \<open>Properties of all executions\<close>

text \<open>
  C1: in every execution, whenever a step lets the board switch the relais on, a transaction is
  running and the charger is in a state that transfers energy or is about to.
\<close>

theorem power_on_needs_transaction:
  assumes "charger_reach c" and "charger_step c l d"
    and "Bsp_allow_power_on True \<in> new_effects c d"
  shows "transaction_active c \<and> currentState c \<in> {PrepareCharging, Charging, ChargingPausedEV}"
  using assms(2)
proof cases
  case (step_tick k)
  with assms(3) have "currentState c \<in> {PrepareCharging, Charging, ChargingPausedEV}"
    by (intro tick_power_on) simp
  with transaction.reach_inv [OF assms(1)] show ?thesis
    by (auto simp: transaction_inv_unfold)
next
  case (step_event pp k e)
  with assms(3) show ?thesis by (auto dest: event_effects simp: benign_def)
next
  case (step_command m)
  with assms(3) show ?thesis by (auto dest: command_effects simp: benign_def)
qed

theorem power_on_needs_transaction_witness:
  "transaction_active (fold charger_do sample_run sample_new) \<and>
   currentState (fold charger_do sample_run sample_new)
     \<in> {PrepareCharging, Charging, ChargingPausedEV}"
proof -
  let ?c = "fold charger_do sample_run sample_new" and ?l = "Tick (at_ms 200)"
  have "charger_reach ?c"
    using sample_prefix_reach [of 9] by (simp add: sample_run_def)
  moreover have "charger_step ?c ?l (charger_do ?l ?c)"
    by (simp add: charger_step_iff)
  moreover have "Bsp_allow_power_on True \<in> new_effects ?c (charger_do ?l ?c)"
    by code_simp
  ultimately show ?thesis by (rule power_on_needs_transaction)
qed

text \<open>
  C2: a transaction is started only by an iteration of the main thread, in the state that waits
  for authentication, and only if the charger has been authorized.
\<close>

theorem transaction_start_needs_authorization:
  assumes "charger_step c l d" and "SignalEvent SE_TransactionStarted \<in> new_effects c d"
  shows "(\<exists>k. l = Tick k) \<and> currentState c = WaitingForAuthentication \<and> authorized c"
  using assms(1)
proof cases
  case (step_tick k)
  with assms(2) tick_transaction_start show ?thesis by auto
next
  case (step_event pp k e)
  with assms(2) show ?thesis by (auto dest: event_effects simp: benign_def)
next
  case (step_command m)
  with assms(2) show ?thesis by (auto dest: command_effects simp: benign_def)
qed

theorem transaction_start_needs_authorization_witness:
  "currentState (fold charger_do (take 8 sample_run) sample_new) = WaitingForAuthentication \<and>
   authorized (fold charger_do (take 8 sample_run) sample_new)"
proof -
  let ?c = "fold charger_do (take 8 sample_run) sample_new" and ?l = "Tick (at_ms 150)"
  have "charger_step ?c ?l (charger_do ?l ?c)"
    by (simp add: charger_step_iff)
  moreover have "SignalEvent SE_TransactionStarted \<in> new_effects ?c (charger_do ?l ?c)"
    by code_simp
  ultimately show ?thesis by (simp add: transaction_start_needs_authorization)
qed

text \<open>
  No step ever signals that a replug has finished, because the previous state has been
  overwritten before the entry action compares it.
\<close>

theorem replug_finished_never_signalled:
  assumes "charger_step c l d"
  shows "SignalEvent SE_ReplugFinished \<notin> new_effects c d"
  using assms
proof cases
  case (step_tick k)
  then show ?thesis by (simp add: tick_no_replug_finished)
next
  case (step_event pp k e)
  then show ?thesis by (auto dest: event_effects simp: benign_def)
next
  case (step_command m)
  then show ?thesis by (auto dest: command_effects simp: benign_def)
qed

theorem replug_finished_never_signalled_witness:
  "SignalEvent SE_ReplugFinished \<notin>
     new_effects (fold charger_do sample_run sample_new)
       (processEvent (at_ms 200) 32 BS_EvseReplugFinished (fold charger_do sample_run sample_new))"
  by (rule replug_finished_never_signalled [OF step_event]) simp

end
