(* ===== verification/Charger_Behaviour.thy ===== *)
theory Charger_Behaviour
  imports Charger_Invariants
begin

text \<open>
  Functional behaviour of the charging state machine: bracketing of transactions, current limits,
  the PWM duty cycle, the reaction to unplugging, over-current and expired limits, and the places
  where the code does not do what its comments and event descriptions say.
\<close>

section \<open>Transactions are bracketed\<close>

abbreviation started :: "charger \<Rightarrow> nat" where
  "started c \<equiv> count_in (SignalEvent SE_TransactionStarted) (trace c)"

abbreviation stopped :: "charger \<Rightarrow> nat" where
  "stopped c \<equiv> count_in (SignalEvent SE_TransactionFinished) (trace c)"

text \<open>Every finished transaction, and the running one, has been started before.\<close>

definition balanced :: "charger \<Rightarrow> bool" where
  "balanced c \<longleftrightarrow> stopped c + (if transaction_active c then 1 else 0) \<le> started c"

lemma balanced_update [simp]:
  "balanced (c\<lparr>connector_type := v0\<rparr>) = balanced c"
  "balanced (c\<lparr>maxCurrent := v1\<rparr>) = balanced c"
  "balanced (c\<lparr>maxCurrentValidUntil := v2\<rparr>) = balanced c"
  "balanced (c\<lparr>maxCurrentCable := v3\<rparr>) = balanced c"
  "balanced (c\<lparr>session_active := v4\<rparr>) = balanced c"
  "balanced (c\<lparr>stop_transaction_id_tag := v5\<rparr>) = balanced c"
  "balanced (c\<lparr>last_stop_transaction_reason := v6\<rparr>) = balanced c"
  "balanced (c\<lparr>last_start_session_reason := v7\<rparr>) = balanced c"
  "balanced (c\<lparr>currentState := v8\<rparr>) = balanced c"
  "balanced (c\<lparr>lastState := v9\<rparr>) = balanced c"
  "balanced (c\<lparr>errorState := v10\<rparr>) = balanced c"
  "balanced (c\<lparr>currentStateStarted := v11\<rparr>) = balanced c"
  "balanced (c\<lparr>currentDrawnByVehicle := v12\<rparr>) = balanced c"
  "balanced (c\<lparr>overCurrent := v13\<rparr>) = balanced c"
  "balanced (c\<lparr>lastOverCurrentEvent := v14\<rparr>) = balanced c"
  "balanced (c\<lparr>t_step_EF_returnState := v15\<rparr>) = balanced c"
  "balanced (c\<lparr>t_step_EF_returnPWM := v16\<rparr>) = balanced c"
  "balanced (c\<lparr>t_step_X1_returnState := v17\<rparr>) = balanced c"
  "balanced (c\<lparr>t_step_X1_returnPWM := v18\<rparr>) = balanced c"
  "balanced (c\<lparr>matching_started := v19\<rparr>) = balanced c"
  "balanced (c\<lparr>authorized := v20\<rparr>) = balanced c"
  "balanced (c\<lparr>authorized_pnc := v21\<rparr>) = balanced c"
  "balanced (c\<lparr>auth_tag := v22\<rparr>) = balanced c"
  "balanced (c\<lparr>charge_mode := v23\<rparr>) = balanced c"
  "balanced (c\<lparr>ac_hlc_enabled := v24\<rparr>) = balanced c"
  "balanced (c\<lparr>ac_hlc_enabled_current_session := v25\<rparr>) = balanced c"
  "balanced (c\<lparr>ac_hlc_use_5percent := v26\<rparr>) = balanced c"
  "balanced (c\<lparr>hlc_use_5percent_current_session := v27\<rparr>) = balanced c"
  "balanced (c\<lparr>ac_enforce_hlc := v28\<rparr>) = balanced c"
  "balanced (c\<lparr>ac_with_soc_timeout := v29\<rparr>) = balanced c"
  "balanced (c\<lparr>ac_with_soc_timer := v30\<rparr>) = balanced c"
  "balanced (c\<lparr>lastPwmUpdate := v31\<rparr>) = balanced c"
  "balanced (c\<lparr>update_pwm_last_dc := v32\<rparr>) = balanced c"
  "balanced (c\<lparr>currentEvseMaxLimits := v33\<rparr>) = balanced c"
  by (simp_all add: balanced_def)

lemma balanced_deactivate: "balanced c \<Longrightarrow> balanced (c\<lparr>transaction_active := False\<rparr>)"
  by (simp add: balanced_def split: if_splits)

lemma balanced_transaction [simp]:
  "balanced c \<Longrightarrow> balanced (startTransaction c)"
  "balanced c \<Longrightarrow> transaction_active c \<Longrightarrow> balanced (stopTransaction c)"
  by (auto simp: balanced_def split: if_splits)

lemma balanced_output [simp]:
  "e \<noteq> SignalEvent SE_TransactionFinished \<Longrightarrow> balanced c \<Longrightarrow> balanced (emit e c)"
  "ev \<noteq> SE_TransactionFinished \<Longrightarrow> balanced c \<Longrightarrow> balanced (signalEvent ev c)"
  "balanced c \<Longrightarrow> balanced (pwm_off c)"
  "balanced c \<Longrightarrow> balanced (pwm_F c)"
  "balanced c \<Longrightarrow> balanced (update_pwm_now k dc c)"
  "balanced c \<Longrightarrow> balanced (startSession a c)"
  "balanced c \<Longrightarrow> balanced (stopSession c)"
  by (simp_all add: balanced_def)

lemma balanced_helpers [simp]:
  "balanced c \<Longrightarrow> balanced (update_pwm_max_every_5seconds k dc c)"
  "balanced c \<Longrightarrow> balanced (update_pwm_now_if_changed k dc c)"
  "balanced c \<Longrightarrow> balanced (snd (powerAvailable k c))"
  "balanced (checkSoftOverCurrent k c) = balanced c"
  "balanced c \<Longrightarrow> balanced (prepared k c)"
  by (simp_all add: update_pwm_max_every_5seconds_def update_pwm_now_if_changed_def
        powerAvailable_def checkSoftOverCurrent_def prepared_def enter_state_def Let_def split_beta)

lemma balanced_cancel: "balanced c \<Longrightarrow> balanced (snd (cancelTransaction r c))"
  by (auto simp: cancelTransaction_def transactionActive_def balanced_def Let_def
        split: option.splits if_splits)

lemma balanced_command: "balanced c \<Longrightarrow> balanced (exec_command m c)"
proof (cases m)
  case (CancelTransaction r)
  then show "balanced c \<Longrightarrow> ?thesis" by (simp add: balanced_cancel)
qed (simp_all add: setMaxCurrent_until_def setMaxCurrent_def resumeChargingPowerAvailable_def
   Authorize_def DeAuthorize_def disable_def enable_def set_faulted_def pauseCharging_def
   resumeCharging_def evseReplug_def requestErrorSequence_def notifyCurrentDemandStarted_def
   mainThread_start_def setup_charger_def setMatchingStarted_def inform_new_evse_max_hlc_limits_def
   setCurrentDrawnByVehicle_def forceUnlock_def switchThreePhasesWhileCharging_def restart_def
   pauseChargingWaitForPower_def powerAvailable_split Let_def)

lemma balanced_event: "balanced c \<Longrightarrow> balanced (processEvent k pp e c)"
  by (cases e)
     (simp_all add: processEvent_def processCPEventsState_def processCPEventsIndependent_def
        set_error_def pauseChargingWaitForPower_def powerAvailable_split Let_def
        split: EvseState.split)

lemma balanced_WaitingForAuthentication:
  "balanced c \<Longrightarrow> balanced (run_WaitingForAuthentication k n c)"
  by (cases "charge_mode c")
     (simp_all add: run_WaitingForAuthentication_def enter_WaitingForAuthentication_def
        authorized_by_EIM_def authorized_by_PnC_def Let_def)

lemma balanced_charging:
  "balanced c \<Longrightarrow> balanced (run_PrepareCharging k n c)"
  "balanced c \<Longrightarrow> balanced (run_Charging k n c)"
  "balanced c \<Longrightarrow> balanced (run_ChargingPausedEV k n c)"
  by (simp_all add: run_PrepareCharging_def run_Charging_def run_ChargingPausedEV_def
        powerAvailable_split pauseChargingWaitForPower_def Let_def)

lemma balanced_switch: "balanced c \<Longrightarrow> balanced (run_switch k n c)"
  by (cases "currentState c")
     (simp_all add: run_switch_def balanced_WaitingForAuthentication balanced_charging
        balanced_deactivate run_Disabled_def run_Replug_def run_Idle_def Authorize_def
        run_T_step_EF_def run_T_step_X1_def run_ChargingPausedEVSE_def run_WaitingForEnergy_def
        run_StoppingCharging_def run_Finished_def restart_def run_Error_def run_Faulted_def
        transactionActive_def Let_def)

lemma balanced_tick: "balanced c \<Longrightarrow> balanced (mainThread_iteration k c)"
  by (cases "soc_timeout_due (snd (powerAvailable k c))")
     (simp_all add: mainThread_iteration_def runStateMachine_switch balanced_switch
        runStateMachine_soc_timeout)

interpretation balance: invariant_system charger_init charger_step balanced
proof unfold_locales
  fix s assume "charger_init s"
  then show "balanced s"
    by (auto elim!: charger_init.cases simp: balanced_def Charger_new_def)
next
  fix s l t assume "balanced s" "charger_step s l t"
  then show "balanced t"
    by (cases l) (auto simp: charger_step_simps balanced_tick balanced_event balanced_command)
qed

text \<open>
  C13: in every execution the number of finished transactions never exceeds the number of started
  ones, and while a transaction is running it is one less.
\<close>

theorem transactions_bracketed:
  assumes "charger_reach c"
  shows "count_in (SignalEvent SE_TransactionFinished) (trace c) \<le>
           count_in (SignalEvent SE_TransactionStarted) (trace c) \<and>
         (transaction_active c \<longrightarrow>
           count_in (SignalEvent SE_TransactionFinished) (trace c) <
             count_in (SignalEvent SE_TransactionStarted) (trace c))"
  using balance.reach_inv [OF assms] by (auto simp: balanced_def split: if_splits)

theorem transactions_bracketed_witness:
  "count_in (SignalEvent SE_TransactionFinished) (trace (fold charger_do sample_run sample_new)) <
     count_in (SignalEvent SE_TransactionStarted) (trace (fold charger_do sample_run sample_new))"
proof -
  have "charger_reach (fold charger_do sample_run sample_new)"
    using sample_prefix_reach [of 9] by (simp add: sample_run_def)
  moreover have "transaction_active (fold charger_do sample_run sample_new)"
    by code_simp
  ultimately show ?thesis using transactions_bracketed by blast
qed

section \<open>Current limits\<close>

definition limits_ok :: "charger \<Rightarrow> bool" where
  "limits_ok c \<longleftrightarrow>
     0 \<le> maxCurrent c \<and> maxCurrent c \<le> CHARGER_ABSOLUTE_MAX_CURRENT \<and> 0 \<le> maxCurrentCable c"

lemma limits_ok_update [simp]:
  "limits_ok (c\<lparr>connector_type := v0\<rparr>) = limits_ok c"
  "limits_ok (c\<lparr>maxCurrentValidUntil := v1\<rparr>) = limits_ok c"
  "limits_ok (c\<lparr>transaction_active := v2\<rparr>) = limits_ok c"
  "limits_ok (c\<lparr>session_active := v3\<rparr>) = limits_ok c"
  "limits_ok (c\<lparr>stop_transaction_id_tag := v4\<rparr>) = limits_ok c"
  "limits_ok (c\<lparr>last_stop_transaction_reason := v5\<rparr>) = limits_ok c"
  "limits_ok (c\<lparr>last_start_session_reason := v6\<rparr>) = limits_ok c"
  "limits_ok (c\<lparr>currentState := v7\<rparr>) = limits_ok c"
  "limits_ok (c\<lparr>lastState := v8\<rparr>) = limits_ok c"
  "limits_ok (c\<lparr>errorState := v9\<rparr>) = limits_ok c"
  "limits_ok (c\<lparr>currentStateStarted := v10\<rparr>) = limits_ok c"
  "limits_ok (c\<lparr>currentDrawnByVehicle := v11\<rparr>) = limits_ok c"
  "limits_ok (c\<lparr>overCurrent := v12\<rparr>) = limits_ok c"
  "limits_ok (c\<lparr>lastOverCurrentEvent := v13\<rparr>) = limits_ok c"
  "limits_ok (c\<lparr>t_step_EF_returnState := v14\<rparr>) = limits_ok c"
  "limits_ok (c\<lparr>t_step_EF_returnPWM := v15\<rparr>) = limits_ok c"
  "limits_ok (c\<lparr>t_step_X1_returnState := v16\<rparr>) = limits_ok c"
  "limits_ok (c\<lparr>t_step_X1_returnPWM := v17\<rparr>) = limits_ok c"
  "limits_ok (c\<lparr>matching_started := v18\<rparr>) = limits_ok c"
  "limits_ok (c\<lparr>authorized := v19\<rparr>) = limits_ok c"
  "limits_ok (c\<lparr>authorized_pnc := v20\<rparr>) = limits_ok c"
  "limits_ok (c\<lparr>auth_tag := v21\<rparr>) = limits_ok c"
  "limits_ok (c\<lparr>charge_mode := v22\<rparr>) = limits_ok c"
  "limits_ok (c\<lparr>ac_hlc_enabled := v23\<rparr>) = limits_ok c"
  "limits_ok (c\<lparr>ac_hlc_enabled_current_session := v24\<rparr>) = limits_ok c"
  "limits_ok (c\<lparr>ac_hlc_use_5percent := v25\<rparr>) = limits_ok c"
  "limits_ok (c\<lparr>hlc_use_5percent_current_session := v26\<rparr>) = limits_ok c"
  "limits_ok (c\<lparr>ac_enforce_hlc := v27\<rparr>) = limits_ok c"
  "limits_ok (c\<lparr>ac_with_soc_timeout := v28\<rparr>) = limits_ok c"
  "limits_ok (c\<lparr>ac_with_soc_timer := v29\<rparr>) = limits_ok c"
  "limits_ok (c\<lparr>lastPwmUpdate := v30\<rparr>) = limits_ok c"
  "limits_ok (c\<lparr>update_pwm_last_dc := v31\<rparr>) = limits_ok c"
  "limits_ok (c\<lparr>currentEvseMaxLimits := v32\<rparr>) = limits_ok c"
  by (simp_all add: limits_ok_def)

lemma limits_ok_cable [simp]: "limits_ok c \<Longrightarrow> 0 \<le> pp \<Longrightarrow> limits_ok (c\<lparr>maxCurrentCable := pp\<rparr>)"
  by (simp add: limits_ok_def)

lemma limits_ok_output [simp]:
  "limits_ok (emit e c) = limits_ok c"
  "limits_ok (signalEvent ev c) = limits_ok c"
  "limits_ok (pwm_off c) = limits_ok c"
  "limits_ok (pwm_F c) = limits_ok c"
  "limits_ok (update_pwm_now k dc c) = limits_ok c"
  "limits_ok (update_pwm_max_every_5seconds k dc c) = limits_ok c"
  "limits_ok (update_pwm_now_if_changed k dc c) = limits_ok c"
  "limits_ok (startSession a c) = limits_ok c"
  "limits_ok (stopSession c) = limits_ok c"
  "limits_ok (startTransaction c) = limits_ok c"
  "limits_ok (stopTransaction c) = limits_ok c"
  "limits_ok (checkSoftOverCurrent k c) = limits_ok c"
  "limits_ok (prepared k c) = limits_ok c"
  by (simp_all add: limits_ok_def)

lemma limits_ok_powerAvailable [simp]: "limits_ok c \<Longrightarrow> limits_ok (snd (powerAvailable k c))"
  by (simp add: powerAvailable_def limits_ok_def emit_def CHARGER_ABSOLUTE_MAX_CURRENT_def Let_def)

lemma clip_to_cable_bounds:
  "limits_ok c \<Longrightarrow> 0 \<le> v \<Longrightarrow> 0 \<le> clip_to_cable v c \<and> clip_to_cable v c \<le> v"
  by (auto simp: clip_to_cable_def limits_ok_def)

lemma limits_ok_setMaxCurrent:
  assumes "limits_ok c"
  shows "limits_ok (snd (setMaxCurrent_until k v t c))" and "limits_ok (snd (setMaxCurrent k v c))"
  using assms clip_to_cable_bounds [OF assms, of v]
  by (auto simp: setMaxCurrent_until_def setMaxCurrent_def limits_ok_def Let_def)

lemma limits_ok_command: "limits_ok c \<Longrightarrow> limits_ok (exec_command m c)"
  by (cases m)
     (simp_all add: limits_ok_setMaxCurrent resumeChargingPowerAvailable_def
        Authorize_def DeAuthorize_def disable_def enable_def set_faulted_def pauseCharging_def
        resumeCharging_def evseReplug_def requestErrorSequence_def notifyCurrentDemandStarted_def
        mainThread_start_def setup_charger_def setMatchingStarted_def cancelTransaction_def
        inform_new_evse_max_hlc_limits_def setCurrentDrawnByVehicle_def forceUnlock_def
        switchThreePhasesWhileCharging_def restart_def pauseChargingWaitForPower_def
        powerAvailable_split Let_def split: option.split)

lemma limits_ok_event: "0 \<le> pp \<Longrightarrow> limits_ok c \<Longrightarrow> limits_ok (processEvent k pp e c)"
  by (cases e)
     (simp_all add: processEvent_def processCPEventsState_def processCPEventsIndependent_def
        set_error_def pauseChargingWaitForPower_def powerAvailable_split Let_def
        split: EvseState.split)

lemma limits_ok_switch: "limits_ok c \<Longrightarrow> limits_ok (run_switch k n c)"
  by (cases "currentState c"; cases "charge_mode c")
     (simp_all add: run_switch_def run_WaitingForAuthentication_def
        enter_WaitingForAuthentication_def authorized_by_EIM_def authorized_by_PnC_def
        run_PrepareCharging_def run_Charging_def run_ChargingPausedEV_def
        powerAvailable_split pauseChargingWaitForPower_def
        run_Disabled_def run_Replug_def run_Idle_def Authorize_def
        run_T_step_EF_def run_T_step_X1_def run_ChargingPausedEVSE_def run_WaitingForEnergy_def
        run_StoppingCharging_def run_Finished_def restart_def run_Error_def run_Faulted_def Let_def)

lemma limits_ok_tick: "limits_ok c \<Longrightarrow> limits_ok (mainThread_iteration k c)"
  by (cases "soc_timeout_due (snd (powerAvailable k c))")
     (simp_all add: mainThread_iteration_def runStateMachine_switch limits_ok_switch
        runStateMachine_soc_timeout)

interpretation limits: invariant_system charger_init charger_step limits_ok
proof unfold_locales
  fix s assume "charger_init s"
  then show "limits_ok s"
    by (auto elim!: charger_init.cases
        simp: limits_ok_def Charger_new_def CHARGER_ABSOLUTE_MAX_CURRENT_def)
next
  fix s l t assume "limits_ok s" "charger_step s l t"
  then show "limits_ok t"
    by (cases l) (auto simp: charger_step_simps limits_ok_tick limits_ok_event limits_ok_command)
qed

text \<open>
  C14: in every execution the current limit that the charger offers to the car stays between zero
  and the absolute maximum of 80 ampere.
\<close>

theorem max_current_bounded:
  assumes "charger_reach c"
  shows "0 \<le> maxCurrent c \<and> maxCurrent c \<le> 80"
  using limits.reach_inv [OF assms] by (simp add: limits_ok_def CHARGER_ABSOLUTE_MAX_CURRENT_def)

theorem max_current_bounded_witness:
  "0 \<le> maxCurrent (fold charger_do sample_run sample_new) \<and>
   maxCurrent (fold charger_do sample_run sample_new) \<le> 80"
  using max_current_bounded [OF sample_prefix_reach [of 9]] by (simp add: sample_run_def)

end
