(* ===== verification/Charger_Reactions.thy ===== *)
theory Charger_Reactions
  imports Charger_Behaviour
begin

text \<open>
  What single iterations and events of the charger do: the PWM duty cycle of IEC 61851, setting
  and expiry of limits, soft over-current, unplugging, and three defects of the entry actions.
\<close>

section \<open>Duty cycle\<close>

text \<open>
  for every current that the code accepts, from 5.9 to 80.1 ampere, the duty cycle lies
  between 10 and 97 percent; outside that range it is 100 percent, the signal for no power.
\<close>

theorem duty_cycle_range:
  "if 59 / 10 \<le> a \<and> a \<le> 801 / 10
   then 1 / 10 \<le> ampereToDutyCycle a \<and> ampereToDutyCycle a \<le> 97 / 100
   else ampereToDutyCycle a = 1"
  by (auto simp: ampereToDutyCycle_def Let_def)

text \<open>
  Within the accepted range a higher current never gives a smaller duty cycle, across the
  gap of the standard between 51 and 52.5 ampere too.
\<close>

theorem duty_cycle_monotone:
  assumes "59 / 10 \<le> a" and "a \<le> b" and "b \<le> 801 / 10"
  shows "ampereToDutyCycle a \<le> ampereToDutyCycle b"
  using assms by (simp add: ampereToDutyCycle_def Let_def field_simps)

theorem duty_cycle_monotone_witness:
  "ampereToDutyCycle 16 \<le> ampereToDutyCycle 52"
  by (rule duty_cycle_monotone) simp_all

section \<open>Limits\<close>

text \<open>
  A new limit with an expiry is accepted exactly if it lies between 0 and 80 ampere and has
  not expired; the accepted value is the requested one, cut to the ampacity of the cable where
  the connector is a socket, and it is announced; otherwise nothing changes.
\<close>

theorem setMaxCurrent_until_behaviour:
  "setMaxCurrent_until k v t c =
     (if 0 \<le> v \<and> v \<le> 80 \<and> utc_now k < t
      then (let w = (if connector_type c = IEC62196Type2Socket then min (maxCurrentCable c) v else v)
            in (True, c\<lparr>maxCurrent := w, maxCurrentValidUntil := t,
                        trace := trace c @ [SignalMaxCurrent w]\<rparr>))
      else (False, c))"
  by (simp add: setMaxCurrent_until_def clip_to_cable_def emit_def CHARGER_ABSOLUTE_MAX_CURRENT_def
        Let_def min_def)

section \<open>Iterations in the charging states\<close>

lemma runStateMachine_Charging_AC:
  assumes "currentState c = Charging" and "charge_mode c = AC" and "\<not> soc_timeout_due c"
  shows "runStateMachine k c = run_Charging k (lastState c \<noteq> Charging) (prepared k c)"
  using assms by (simp add: runStateMachine_switch run_switch_def)

definition draws_more_than :: "float_t \<Rightarrow> charger \<Rightarrow> bool" where
  "draws_more_than limit c \<longleftrightarrow>
     (case currentDrawnByVehicle c of (l1, l2, l3) \<Rightarrow> l1 > limit \<or> l2 > limit \<or> l3 > limit)"

lemma checkSoftOverCurrent_trips:
  assumes "draws_more_than (maxCurrent c * (11 / 10)) c" and "overCurrent c"
    and "7000 \<le> utc_now k - lastOverCurrentEvent c"
  shows "checkSoftOverCurrent k c = c\<lparr>currentState := Error, errorState := Err_OverCurrent\<rparr>"
  using assms
  by (auto simp: checkSoftOverCurrent_def draws_more_than_def getMaxCurrent_def
        softOverCurrentTimeout_def Let_def)

lemma checkSoftOverCurrent_within_limit:
  assumes "\<not> draws_more_than (maxCurrent c * (11 / 10)) c"
  shows "checkSoftOverCurrent k c = c\<lparr>overCurrent := False\<rparr>"
  using assms
  by (auto simp: checkSoftOverCurrent_def draws_more_than_def getMaxCurrent_def Let_def)

lemma run_Charging_keeps_Error:
  assumes "charge_mode c = AC" and "currentState (checkSoftOverCurrent k c) = Error"
  shows "currentState (run_Charging k n c) = Error \<and>
         errorState (run_Charging k n c) = errorState (checkSoftOverCurrent k c)"
  using assms
  by (simp add: run_Charging_def powerAvailable_split pauseChargingWaitForPower_def Let_def)

text \<open>
  a car that keeps drawing more than 110 percent of the limit on some phase for seven seconds
  is stopped by the next iteration, with the over-current error.
\<close>

theorem soft_over_current_trips:
  assumes "currentState c = Charging" and "charge_mode c = AC" and "\<not> soc_timeout_due c"
    and "draws_more_than (maxCurrent c * (11 / 10)) c"
    and "overCurrent c" and "7000 \<le> utc_now k - lastOverCurrentEvent c"
  shows "currentState (runStateMachine k c) = Error \<and>
         errorState (runStateMachine k c) = Err_OverCurrent"
proof -
  have "checkSoftOverCurrent k (prepared k c) =
          (prepared k c)\<lparr>currentState := Error, errorState := Err_OverCurrent\<rparr>"
    using assms by (intro checkSoftOverCurrent_trips) (simp_all add: draws_more_than_def)
  then show ?thesis
    using assms run_Charging_keeps_Error [of "prepared k c" k]
    by (simp add: runStateMachine_Charging_AC)
qed

definition sample_overload :: charger where
  "sample_overload =
     (fold charger_do sample_run sample_new)
       \<lparr>currentState := Charging, currentDrawnByVehicle := (20, 0, 0), overCurrent := True,
        lastOverCurrentEvent := 1000\<rparr>"

theorem soft_over_current_trips_witness:
  "currentState (runStateMachine (at_ms 9000) sample_overload) = Error \<and>
   errorState (runStateMachine (at_ms 9000) sample_overload) = Err_OverCurrent"
  by (rule soft_over_current_trips) code_simp+

text \<open>
  an AC charging iteration whose limit has expired offers zero current afterwards and leaves
  the charging state, for the wait for energy or, if the car draws too much, for the error state.
\<close>

theorem expired_limit_stops_charging:
  assumes "currentState c = Charging" and "charge_mode c = AC" and "\<not> soc_timeout_due c"
    and "maxCurrentValidUntil c < utc_now k"
  shows "maxCurrent (runStateMachine k c) = 0 \<and>
         currentState (runStateMachine k c) \<in> {WaitingForEnergy, Error}"
proof -
  let ?d = "checkSoftOverCurrent k (prepared k c)"
  have "\<not> fst (powerAvailable k ?d)" "maxCurrent (snd (powerAvailable k ?d)) = 0"
    using assms(4) by (simp_all add: powerAvailable_def getMaxCurrent_def Let_def emit_def)
  with assms(1-3) checkSoftOverCurrent_currentState [of k "prepared k c"] show ?thesis
    by (auto simp: runStateMachine_Charging_AC run_Charging_def powerAvailable_split
        pauseChargingWaitForPower_def)
qed

theorem expired_limit_stops_charging_witness:
  "maxCurrent (runStateMachine (at_ms 20000) sample_overload) = 0 \<and>
   currentState (runStateMachine (at_ms 20000) sample_overload) \<in> {WaitingForEnergy, Error}"
  by (rule expired_limit_stops_charging) code_simp+

section \<open>Unplugging\<close>

lemma snd_powerAvailable_soc [simp]:
  "soc_timeout_due (snd (powerAvailable k c)) = soc_timeout_due c"
  by (simp add: soc_timeout_due_def)

lemma tick_switch:
  "\<not> soc_timeout_due c \<Longrightarrow>
     mainThread_iteration k c =
       run_switch k (lastState c \<noteq> currentState c) (prepared k (snd (powerAvailable k c)))"
  by (simp add: mainThread_iteration_def runStateMachine_switch)

lemma tick_soc_timeout:
  "soc_timeout_due c \<Longrightarrow>
     mainThread_iteration k c =
       emit SignalACWithSoCTimeout
         ((snd (powerAvailable k c))\<lparr>lastState := currentState c, ac_with_soc_timeout := False,
            ac_with_soc_timer := 3600000\<rparr>)"
  by (simp add: mainThread_iteration_def runStateMachine_soc_timeout)

lemma ac_with_soc_timer_prepared [simp]:
  "ac_with_soc_timer (prepared k c) =
     (if ac_with_soc_timeout c then ac_with_soc_timer c - 50 else ac_with_soc_timer c)"
  by (simp add: prepared_def enter_state_def Let_def)

lemma soc_timeout_due_iff:
  "soc_timeout_due (d\<lparr>currentState := s\<rparr>) = soc_timeout_due d"
  by (simp add: soc_timeout_due_def)

lemma tick_StoppingCharging_AC:
  assumes "currentState c = StoppingCharging" "lastState c \<noteq> StoppingCharging"
    "charge_mode c = AC" "\<not> soc_timeout_due c"
  shows "currentState (mainThread_iteration k c) = Finished"
    and "lastState (mainThread_iteration k c) = StoppingCharging"
    and "ac_with_soc_timeout (mainThread_iteration k c) = ac_with_soc_timeout c"
    and "ac_with_soc_timer (mainThread_iteration k c) \<ge> ac_with_soc_timer c - 50"
  using assms
  by (simp_all add: tick_switch run_switch_def run_StoppingCharging_def transactionActive_def Let_def)

lemma tick_Finished:
  assumes "currentState c = Finished" "lastState c \<noteq> Finished" "\<not> soc_timeout_due c"
  shows "currentState (mainThread_iteration k c) = Idle"
    and "\<not> session_active (mainThread_iteration k c)"
    and "\<not> authorized (mainThread_iteration k c)"
    and "\<not> transaction_active (mainThread_iteration k c)"
  using assms
  by (simp_all add: tick_switch run_switch_def run_Finished_def restart_def transactionActive_def
        Let_def)



text \<open>
  a second unplug event that arrives between the iteration that handled the first one and
  the next iteration leaves an AC charger in the state StoppingCharging for good: no number of
  iterations brings it back to idle.
\<close>

theorem second_unplug_stuck:
  assumes "currentState c = Finished" and "lastState c = StoppingCharging" and "charge_mode c = AC"
  shows "currentState (mainThread_loop ks (processEvent k pp BS_CarUnplugged c)) = StoppingCharging"
proof -
  let ?u = "processEvent k pp BS_CarUnplugged c"
  have tick: "currentState (mainThread_iteration k' e) = StoppingCharging \<and>
              lastState (mainThread_iteration k' e) = StoppingCharging"
    if "currentState e = StoppingCharging" "lastState e = StoppingCharging" for e k'
    using that
    by (cases "soc_timeout_due e")
       (simp_all add: tick_switch run_switch_def run_StoppingCharging_def tick_soc_timeout)
  have "currentState (mainThread_loop ks e) = StoppingCharging"
    if "currentState e = StoppingCharging" "lastState e = StoppingCharging" for e
    using that by (induction ks arbitrary: e) (simp_all add: tick)
  moreover have "currentState ?u = StoppingCharging" "lastState ?u = StoppingCharging"
    using assms
    by (simp_all add: processEvent_def processCPEventsIndependent_def processCPEventsState_def Let_def)
  ultimately show ?thesis by simp
qed

definition sample_unplugged :: charger where
  "sample_unplugged = mainThread_iteration (at_ms 300)
     (processEvent (at_ms 250) 32 BS_CarUnplugged (fold charger_do sample_run sample_new))"

theorem second_unplug_stuck_witness:
  "currentState (mainThread_loop [at_ms 350, at_ms 400, at_ms 450]
     (processEvent (at_ms 310) 32 BS_CarUnplugged sample_unplugged)) = StoppingCharging"
  by (rule second_unplug_stuck) code_simp+

section \<open>Entry actions\<close>

text \<open>
  The very first change from preparing to charging is announced as a resumption: the guard
  that should tell it apart compares a state that has already been overwritten.
\<close>

theorem first_charging_signals_resumed:
  assumes "currentState c = Charging" and "lastState c = PrepareCharging" and "charge_mode c = AC"
    and "\<not> soc_timeout_due c" and "fst (powerAvailable k (checkSoftOverCurrent k (prepared k c)))"
  shows "SignalEvent SE_ChargingResumed \<in> set (trace (runStateMachine k c))"
proof -
  have "runStateMachine k c = run_Charging k True (prepared k c)"
    using assms by (simp add: runStateMachine_Charging_AC)
  then show ?thesis
    using assms by (simp add: run_Charging_def powerAvailable_split Let_def)
qed

definition sample_first_charging :: charger where
  "sample_first_charging =
     processEvent (at_ms 260) 32 BS_CarRequestedPower
       (mainThread_iteration (at_ms 200) (fold charger_do sample_run sample_new))"

theorem first_charging_signals_resumed_witness:
  "SignalEvent SE_ChargingResumed
     \<in> set (trace (runStateMachine (at_ms 300) sample_first_charging))"
  by (rule first_charging_signals_resumed) code_simp+

text \<open>
  when the state-of-charge timeout falls into the iteration that should enter a new state,
  the entry actions of that state are lost: a charger that has gone to the error state neither
  switches the PWM off nor announces the error, in this iteration or in any later one.
\<close>

theorem soc_timeout_swallows_error_entry:
  assumes "currentState c = Error" and "soc_timeout_due c"
  shows "extends_by (\<lambda>e. e \<noteq> Bsp_pwm_off \<and> e \<noteq> SignalEvent SE_Error) c (mainThread_loop ks c)"
proof -
  let ?P = "\<lambda>e. e \<noteq> Bsp_pwm_off \<and> e \<noteq> SignalEvent SE_Error"
  have later: "extends_by ?P e (mainThread_loop ks e)"
    if "currentState e = Error" "lastState e = Error" for e ks
    using that
  proof (induction ks arbitrary: e)
    case (Cons k ks)
    have step: "extends_by ?P e (mainThread_iteration k e)"
      "currentState (mainThread_iteration k e) = Error"
      "lastState (mainThread_iteration k e) = Error"
      using Cons.prems
      by (cases "soc_timeout_due e"; simp add: tick_switch run_switch_def run_Error_def tick_soc_timeout)+
    from extends_by_trans [OF step(1) Cons.IH [OF step(2,3)]] show ?case by simp
  qed simp
  show ?thesis
  proof (cases ks)
    case (Cons k ks')
    have step: "extends_by ?P c (mainThread_iteration k c)"
      "currentState (mainThread_iteration k c) = Error"
      "lastState (mainThread_iteration k c) = Error"
      using assms by (simp_all add: tick_soc_timeout)
    from extends_by_trans [OF step(1) later [OF step(2,3)]] Cons show ?thesis by simp
  qed simp
qed

definition sample_soc_error :: charger where
  "sample_soc_error =
     processEvent (at_ms 210) 32 BS_ErrorDF
       ((fold charger_do sample_run sample_new)\<lparr>ac_with_soc_timeout := True, ac_with_soc_timer := 20\<rparr>)"

theorem soc_timeout_swallows_error_entry_witness:
  "extends_by (\<lambda>e. e \<noteq> Bsp_pwm_off \<and> e \<noteq> SignalEvent SE_Error) sample_soc_error
     (mainThread_loop [at_ms 250, at_ms 300] sample_soc_error)"
  by (rule soc_timeout_swallows_error_entry) code_simp+

end
