(* ===== verification/Serial_Modbus.thy ===== *)
theory Serial_Modbus
  imports Prelude "HOL-Library.Word"
begin

text \<open>
  The Modbus RTU client of \<open>modules/SerialCommHub\<close>: the checksum of \<open>crc16.cpp\<close>, framing and
  reply decoding of \<open>tiny_modbus_rtu.cpp\<close>, and the command handlers of
  \<open>main/serial_communication_hubImpl.cpp\<close> with their retry loops. Bytes and registers are
  words of their C++ width. The host is little-endian, so \<open>memcpy\<close> of a \<open>uint16_t\<close> writes the
  low byte first and \<open>htobe16\<close> / \<open>be16toh\<close> swap. A buffer is the list of its bytes; what
  uninitialised memory holds is a parameter. The serial line is a script of what the
  successive \<open>select\<close> calls report.
\<close>

unbundle bit_operations_syntax

type_synonym byte = "8 word"
type_synonym uint16 = "16 word"

section \<open>Checksum\<close>

definition crc_bit :: "uint16 \<Rightarrow> uint16" where
  "crc_bit crc = (if crc AND 1 \<noteq> 0 then drop_bit 1 crc XOR 0xA001 else drop_bit 1 crc)"

definition crc_byte :: "uint16 \<Rightarrow> byte \<Rightarrow> uint16" where
  "crc_byte crc b = (crc_bit ^^ 8) (crc XOR ucast b)"

fun crc_loop :: "uint16 \<Rightarrow> byte list \<Rightarrow> uint16" where
  "crc_loop crc [] = crc"
| "crc_loop crc (b # bs) = crc_loop (crc_byte crc b) bs"

definition calculate_modbus_crc16 :: "byte list \<Rightarrow> nat \<Rightarrow> uint16" where
  "calculate_modbus_crc16 buf len = crc_loop 0xFFFF (take len buf)"

section \<open>Byte order\<close>

definition low_byte :: "uint16 \<Rightarrow> byte" where "low_byte w = ucast w"
definition high_byte :: "uint16 \<Rightarrow> byte" where "high_byte w = ucast (drop_bit 8 w)"

definition to_uint16 :: "byte \<Rightarrow> byte \<Rightarrow> uint16" where
  "to_uint16 lo hi = ucast lo OR push_bit 8 (ucast hi)"

definition htobe16 :: "uint16 \<Rightarrow> uint16" where
  "htobe16 w = to_uint16 (high_byte w) (low_byte w)"

definition be16toh :: "uint16 \<Rightarrow> uint16" where
  "be16toh w = to_uint16 (high_byte w) (low_byte w)"

text \<open>\<open>memcpy\<close> of a \<open>uint16_t\<close> into and out of a byte buffer.\<close>

definition put16 :: "nat \<Rightarrow> uint16 \<Rightarrow> byte list \<Rightarrow> byte list" where
  "put16 i w buf = buf[i := low_byte w, i + 1 := high_byte w]"

definition get16 :: "nat \<Rightarrow> byte list \<Rightarrow> uint16" where
  "get16 i buf = to_uint16 (buf ! i) (buf ! (i + 1))"

section \<open>Constants\<close>

definition DEVICE_ADDRESS_POS :: nat where "DEVICE_ADDRESS_POS = 0x00"
definition FUNCTION_CODE_POS :: nat where "FUNCTION_CODE_POS = 0x01"
definition REQ_TX_FIRST_REGISTER_ADDR_POS :: nat where "REQ_TX_FIRST_REGISTER_ADDR_POS = 0x02"
definition REQ_TX_QUANTITY_POS :: nat where "REQ_TX_QUANTITY_POS = 0x04"
definition REQ_TX_MULTIPLE_REG_BYTE_COUNT_POS :: nat where
  "REQ_TX_MULTIPLE_REG_BYTE_COUNT_POS = 0x06"
definition RES_RX_LEN_POS :: nat where "RES_RX_LEN_POS = 0x02"
definition RES_RX_START_OF_PAYLOAD :: nat where "RES_RX_START_OF_PAYLOAD = 0x03"
definition RES_TX_START_OF_PAYLOAD :: nat where "RES_TX_START_OF_PAYLOAD = 0x02"
definition MODBUS_MAX_REPLY_SIZE :: nat where "MODBUS_MAX_REPLY_SIZE = 255 + 6"
definition MODBUS_MIN_REPLY_SIZE :: nat where "MODBUS_MIN_REPLY_SIZE = 5"
definition MODBUS_BASE_PAYLOAD_SIZE :: nat where "MODBUS_BASE_PAYLOAD_SIZE = 8"

lemmas modbus_consts =
  DEVICE_ADDRESS_POS_def FUNCTION_CODE_POS_def REQ_TX_FIRST_REGISTER_ADDR_POS_def
  REQ_TX_QUANTITY_POS_def REQ_TX_MULTIPLE_REG_BYTE_COUNT_POS_def RES_RX_LEN_POS_def
  RES_RX_START_OF_PAYLOAD_def RES_TX_START_OF_PAYLOAD_def MODBUS_MAX_REPLY_SIZE_def
  MODBUS_MIN_REPLY_SIZE_def MODBUS_BASE_PAYLOAD_SIZE_def

datatype FunctionCode =
    READ_COILS | READ_DISCRETE_INPUTS | READ_MULTIPLE_HOLDING_REGISTERS | READ_INPUT_REGISTERS
  | WRITE_SINGLE_COIL | WRITE_SINGLE_HOLDING_REGISTER | WRITE_MULTIPLE_COILS
  | WRITE_MULTIPLE_HOLDING_REGISTERS

fun function_code :: "FunctionCode \<Rightarrow> byte" where
  "function_code READ_COILS = 0x01"
| "function_code READ_DISCRETE_INPUTS = 0x02"
| "function_code READ_MULTIPLE_HOLDING_REGISTERS = 0x03"
| "function_code READ_INPUT_REGISTERS = 0x04"
| "function_code WRITE_SINGLE_COIL = 0x05"
| "function_code WRITE_SINGLE_HOLDING_REGISTER = 0x06"
| "function_code WRITE_MULTIPLE_COILS = 0x0F"
| "function_code WRITE_MULTIPLE_HOLDING_REGISTERS = 0x10"

section \<open>Frames\<close>

definition check_for_exception :: "byte \<Rightarrow> bool" where
  "check_for_exception received_function_code = (received_function_code AND push_bit 7 1 \<noteq> 0)"

definition clear_exception_bit :: "byte \<Rightarrow> byte" where
  "clear_exception_bit received_function_code = received_function_code AND NOT (push_bit 7 1)"

definition append_checksum :: "byte list \<Rightarrow> nat \<Rightarrow> byte list" where
  "append_checksum msg msg_len =
     (if msg_len < 5 then msg
      else put16 (msg_len - 2) (calculate_modbus_crc16 msg (msg_len - 2)) msg)"

definition validate_checksum :: "byte list \<Rightarrow> nat \<Rightarrow> bool" where
  "validate_checksum msg msg_len =
     (if msg_len < 5 then False
      else get16 (msg_len - 2) msg = calculate_modbus_crc16 msg (msg_len - 2))"

text \<open>
  The copy loop of \<open>decode_reply\<close>: from \<open>i\<close> in steps of two while \<open>i < stop\<close>.
\<close>

function decode_payload :: "byte list \<Rightarrow> nat \<Rightarrow> nat \<Rightarrow> uint16 list" where
  "decode_payload buf i stop =
     (if i < stop then be16toh (get16 i buf) # decode_payload buf (i + 2) stop else [])"
  by auto
termination by (relation "measure (\<lambda>(buf, i, stop). stop - i)") auto

declare decode_payload.simps [simp del]

text \<open>
  The fourth disjunct of the test for a read reply is the enumerator
  \<open>READ_INPUT_REGISTERS\<close> itself, converted to \<open>bool\<close>.
\<close>

definition is_read_reply :: "FunctionCode \<Rightarrow> bool" where
  "is_read_reply function =
     (function = READ_COILS \<or> function = READ_DISCRETE_INPUTS
      \<or> function = READ_MULTIPLE_HOLDING_REGISTERS
      \<or> function_code READ_INPUT_REGISTERS \<noteq> 0)"

definition decode_reply :: "byte list \<Rightarrow> nat \<Rightarrow> byte \<Rightarrow> FunctionCode \<Rightarrow> uint16 list" where
  "decode_reply buf len expected_device_address function =
    (if len < MODBUS_MIN_REPLY_SIZE then []
     else if expected_device_address \<noteq> buf ! DEVICE_ADDRESS_POS then []
     else
       let received = buf ! FUNCTION_CODE_POS;
           exception = check_for_exception received;
           function_code_recvd = (if exception then clear_exception_bit received else received)
       in if function_code function \<noteq> function_code_recvd then []
          else if \<not> validate_checksum buf len then []
          else if \<not> exception then
            (let (byte_cnt, start_of_result) =
                (if is_read_reply function
                 then (unat (buf ! RES_RX_LEN_POS), RES_RX_START_OF_PAYLOAD)
                 else (4, RES_TX_START_OF_PAYLOAD))
             in if start_of_result + byte_cnt > len then []
                else decode_payload buf start_of_result (start_of_result + byte_cnt))
          else [])"

section \<open>Serial line\<close>

text \<open>
  What one call of \<open>select\<close> reports: an error, a timeout, readable with \<open>bs\<close> waiting in the
  kernel (an empty list: \<open>read\<close> returns no byte). \<open>read\<close> takes at most the space that is left;
  bytes it leaves behind are reported readable by the next \<open>select\<close>. An exhausted script is
  an environment that has not answered yet: the loop is still running, the result is \<open>None\<close>.
\<close>

datatype select_result = Select_error | Select_timeout | Readable "byte list"

primrec waiting :: "select_result \<Rightarrow> nat" where
  "waiting Select_error = 0"
| "waiting Select_timeout = 0"
| "waiting (Readable bs) = length bs"

definition left_over :: "nat \<Rightarrow> byte list \<Rightarrow> select_result list \<Rightarrow> select_result list" where
  "left_over n bs rest = (if n < length bs then Readable (drop n bs) # rest else rest)"

definition store_bytes :: "nat \<Rightarrow> byte list \<Rightarrow> byte list \<Rightarrow> byte list" where
  "store_bytes i bs buf = take i buf @ bs @ drop (i + length bs) buf"

function (sequential) read_reply_loop ::
    "select_result list \<Rightarrow> byte list \<Rightarrow> nat \<Rightarrow> nat \<Rightarrow> (byte list \<times> nat \<times> select_result list) option"
where
  "read_reply_loop [] rxbuf rxbuf_len bytes_read_total = None"
| "read_reply_loop (Select_error # rest) rxbuf rxbuf_len bytes_read_total =
     Some (rxbuf, bytes_read_total, rest)"
| "read_reply_loop (Select_timeout # rest) rxbuf rxbuf_len bytes_read_total =
     Some (rxbuf, bytes_read_total, rest)"
| "read_reply_loop (Readable bs # rest) rxbuf rxbuf_len bytes_read_total =
     (if bytes_read_total \<ge> rxbuf_len then Some (rxbuf, bytes_read_total, Readable bs # rest)
      else
        let n = rxbuf_len - bytes_read_total; got = take n bs
        in read_reply_loop (left_over n bs rest) (store_bytes bytes_read_total got rxbuf)
             rxbuf_len (bytes_read_total + length got))"
  by pat_completeness auto
termination
  by (relation "measure (\<lambda>(script, _). sum_list (map (\<lambda>s. Suc (waiting s)) script))")
     (auto simp: left_over_def)

definition read_reply ::
    "select_result list \<Rightarrow> byte list \<Rightarrow> nat \<Rightarrow> (byte list \<times> nat \<times> select_result list) option" where
  "read_reply script rxbuf rxbuf_len = read_reply_loop script rxbuf rxbuf_len 0"

text \<open>
  Configuration of the port. \<open>open\<close>, \<open>tcgetattr\<close> and \<open>tcsetattr\<close> are answered by the
  environment; the flag values are those of Linux.
\<close>

record termios =
  c_iflag :: "32 word"
  c_oflag :: "32 word"
  c_cflag :: "32 word"
  c_lflag :: "32 word"
  c_cc_VMIN :: byte
  c_cc_VTIME :: byte
  speed :: nat

record open_env =
  open_fd :: int
  tcgetattr_answer :: "int \<times> termios"
  tcsetattr_answer :: int

record TinyModbusRTU =
  fd :: int
  ignore_echo :: bool
  line_settings :: "termios option"

definition default_modbus :: TinyModbusRTU where
  "default_modbus = \<lparr>fd = 0, ignore_echo = False, line_settings = None\<rparr>"

definition CSIZE :: "32 word" where "CSIZE = 0x30"
definition CS8 :: "32 word" where "CS8 = 0x30"
definition IFLAGS_CLEARED :: "32 word" where
  "IFLAGS_CLEARED = 0x1 OR 0x2 OR 0x8 OR 0x20 OR 0x40 OR 0x80 OR 0x100 OR 0x400 OR 0x1000 OR 0x800"
definition CLOCAL :: "32 word" where "CLOCAL = 0x800"
definition CREAD :: "32 word" where "CREAD = 0x80"
definition PARENB :: "32 word" where "PARENB = 0x100"
definition PARODD :: "32 word" where "PARODD = 0x200"
definition CSTOPB :: "32 word" where "CSTOPB = 0x40"
definition CRTSCTS :: "32 word" where "CRTSCTS = 0x80000000"

definition supported_baud :: "int \<Rightarrow> nat option" where
  "supported_baud b =
     (if b \<in> set [9600, 19200, 38400, 57600, 115200, 230400] then Some (nat b) else None)"

definition configure_tty :: "nat \<Rightarrow> termios \<Rightarrow> termios" where
  "configure_tty baud tty = tty\<lparr>
     speed := baud,
     c_iflag := c_iflag tty AND NOT IFLAGS_CLEARED,
     c_lflag := 0,
     c_oflag := 0,
     c_cc_VMIN := 1,
     c_cc_VTIME := 1,
     c_cflag := ((((c_cflag tty AND NOT CSIZE) OR CS8) OR (CLOCAL OR CREAD))
                 AND NOT (PARENB OR PARODD)) AND NOT CSTOPB AND NOT CRTSCTS\<rparr>"

definition open_device ::
    "open_env \<Rightarrow> int \<Rightarrow> bool \<Rightarrow> TinyModbusRTU \<Rightarrow> bool \<times> TinyModbusRTU" where
  "open_device e baud echo m =
    (let m = m\<lparr>ignore_echo := echo, fd := open_fd e\<rparr>
     in if fd m < 0 then (False, m)
        else case supported_baud baud of
          None \<Rightarrow> (False, m)
        | Some b \<Rightarrow>
            let (rc, tty) = tcgetattr_answer e
            in if rc \<noteq> 0 then (False, m)
               else if tcsetattr_answer e \<noteq> 0 then (False, m)
               else (True, m\<lparr>line_settings := Some (configure_tty b tty)\<rparr>))"

section \<open>Transmission\<close>

fun put_registers :: "nat \<Rightarrow> uint16 list \<Rightarrow> byte list \<Rightarrow> byte list" where
  "put_registers i [] buf = buf"
| "put_registers i (r # rs) buf = put_registers (i + 2) rs (put16 i (htobe16 r) buf)"

definition request_length :: "uint16 list \<Rightarrow> nat" where
  "request_length request =
     (if length request = 0 then 0 else 2 * length request + 1) + MODBUS_BASE_PAYLOAD_SIZE"

text \<open>The frame that \<open>txrx\<close> writes; \<open>mem\<close> is the content of the fresh buffer.\<close>

definition build_request ::
    "(nat \<Rightarrow> byte) \<Rightarrow> byte \<Rightarrow> FunctionCode \<Rightarrow> uint16 \<Rightarrow> uint16 \<Rightarrow> uint16 list \<Rightarrow> byte list" where
  "build_request mem device_address function first_register_address register_quantity request =
    (let req_len = request_length request;
         req = map mem [0..<req_len];
         req = req[DEVICE_ADDRESS_POS := device_address];
         req = req[FUNCTION_CODE_POS := function_code function];
         req = put16 REQ_TX_FIRST_REGISTER_ADDR_POS (htobe16 first_register_address) req;
         req = put16 REQ_TX_QUANTITY_POS (htobe16 register_quantity) req;
         req = (if function = WRITE_MULTIPLE_HOLDING_REGISTERS
                then put_registers (REQ_TX_MULTIPLE_REG_BYTE_COUNT_POS + 1) request
                       (req[REQ_TX_MULTIPLE_REG_BYTE_COUNT_POS := of_nat (length request * 2)])
                else req)
     in append_checksum req req_len)"

text \<open>
  \<open>txrx\<close> on a line whose script starts after the flush: the bytes written, the decoded
  registers, and what the line has left. \<open>rxmem\<close> is the content of the reply buffer on entry.
\<close>

definition txrx ::
    "TinyModbusRTU \<Rightarrow> (nat \<Rightarrow> byte) \<Rightarrow> (nat \<Rightarrow> byte) \<Rightarrow> select_result list
     \<Rightarrow> byte \<Rightarrow> FunctionCode \<Rightarrow> uint16 \<Rightarrow> uint16 \<Rightarrow> bool \<Rightarrow> uint16 list
     \<Rightarrow> (byte list \<times> uint16 list) option" where
  "txrx m mem rxmem script device_address function first_register_address register_quantity
        wait_for_reply request =
    (let req = build_request mem device_address function first_register_address register_quantity
                 request
     in case (if ignore_echo m then map_option (\<lambda>(_, _, s). s) (read_reply script req (length req))
              else Some script) of
          None \<Rightarrow> None
        | Some script \<Rightarrow>
            if wait_for_reply then
              (case read_reply script (map rxmem [0..<MODBUS_MAX_REPLY_SIZE]) MODBUS_MAX_REPLY_SIZE of
                 None \<Rightarrow> None
               | Some (rxbuf, bytes_read_total, _) \<Rightarrow>
                   Some (req, decode_reply rxbuf bytes_read_total device_address function))
            else Some (req, []))"

section \<open>Command handlers\<close>

datatype StatusCodeEnum = Success | Error_status

record hub_result =
  status_code :: StatusCodeEnum
  result_value :: "int list option"

definition num_resends_on_error :: byte where "num_resends_on_error = 3"

definition vector_to_int :: "uint16 list \<Rightarrow> int list" where
  "vector_to_int response = map uint response"

definition append_array :: "uint16 list \<Rightarrow> int list \<Rightarrow> uint16 list" where
  "append_array m a = m @ map word_of_int a"

text \<open>
  The two shapes of the retry loop. \<open>attempt k\<close> is the outcome of the \<open>k\<close>-th transmission.
  The loops return the last response and the number of transmissions.
\<close>

function retry_before :: "(nat \<Rightarrow> 'a list option) \<Rightarrow> byte \<Rightarrow> nat \<Rightarrow> 'a list \<Rightarrow> ('a list \<times> nat) option"
where
  "retry_before attempt retry_counter k response =
     (if retry_counter > 0 then
        (case attempt k of
           None \<Rightarrow> None
         | Some r \<Rightarrow> if length r > 0 then Some (r, k + 1)
                     else retry_before attempt (retry_counter - 1) (k + 1) r)
      else Some (response, k))"
  by auto
termination
  by (relation "measure (\<lambda>(_, c, _). unat c)") (auto simp: unat_minus_one word_gt_0 unat_gt_0)

function retry_after :: "(nat \<Rightarrow> 'a list option) \<Rightarrow> byte \<Rightarrow> nat \<Rightarrow> 'a list \<Rightarrow> ('a list \<times> nat) option"
where
  "retry_after attempt retry_counter k response =
     (let old = retry_counter; retry_counter = retry_counter - 1
      in if old > 0 then
           (case attempt k of
              None \<Rightarrow> None
            | Some r \<Rightarrow> if length r > 0 then Some (r, k + 1)
                        else retry_after attempt retry_counter (k + 1) r)
         else Some (response, k))"
  by auto
termination
  by (relation "measure (\<lambda>(_, c, _). unat c)") (auto simp: unat_minus_one word_gt_0 unat_gt_0)

declare retry_before.simps [simp del] retry_after.simps [simp del]

text \<open>
  The environment of a handler call: what fresh buffers hold and how the line answers each
  transmission.
\<close>

record hub_env =
  req_mem :: "nat \<Rightarrow> nat \<Rightarrow> byte"
  rx_mem :: "nat \<Rightarrow> nat \<Rightarrow> byte"
  line_script :: "nat \<Rightarrow> select_result list"

definition hub_attempt ::
    "TinyModbusRTU \<Rightarrow> hub_env \<Rightarrow> int \<Rightarrow> FunctionCode \<Rightarrow> int \<Rightarrow> int \<Rightarrow> uint16 list
     \<Rightarrow> nat \<Rightarrow> uint16 list option" where
  "hub_attempt m e target_device_id function first_register_address quantity request k =
     map_option snd
       (txrx m (req_mem e k) (rx_mem e k) (line_script e k) (word_of_int target_device_id) function
          (word_of_int first_register_address) (word_of_int quantity) True request)"

definition process_response :: "uint16 list \<Rightarrow> hub_result" where
  "process_response response =
     (if length response > 0
      then \<lparr>status_code = Success, result_value = Some (vector_to_int response)\<rparr>
      else \<lparr>status_code = Error_status, result_value = None\<rparr>)"

definition handle_modbus_read_holding_registers ::
    "TinyModbusRTU \<Rightarrow> hub_env \<Rightarrow> int \<Rightarrow> int \<Rightarrow> int \<Rightarrow> (hub_result \<times> nat) option" where
  "handle_modbus_read_holding_registers m e target_device_id first_register_address
       num_registers_to_read =
     map_option (apfst process_response)
       (retry_before
          (hub_attempt m e target_device_id READ_MULTIPLE_HOLDING_REGISTERS first_register_address
             num_registers_to_read [])
          num_resends_on_error 0 [])"

definition handle_modbus_read_input_registers ::
    "TinyModbusRTU \<Rightarrow> hub_env \<Rightarrow> int \<Rightarrow> int \<Rightarrow> int \<Rightarrow> (hub_result \<times> nat) option" where
  "handle_modbus_read_input_registers m e target_device_id first_register_address
       num_registers_to_read =
     map_option (apfst process_response)
       (retry_after
          (hub_attempt m e target_device_id READ_INPUT_REGISTERS first_register_address
             num_registers_to_read [])
          num_resends_on_error 0 [])"

definition handle_modbus_write_multiple_registers ::
    "TinyModbusRTU \<Rightarrow> hub_env \<Rightarrow> int \<Rightarrow> int \<Rightarrow> int list \<Rightarrow> (StatusCodeEnum \<times> nat) option" where
  "handle_modbus_write_multiple_registers m e target_device_id first_register_address data_raw =
    (let data = append_array [] data_raw
     in map_option (apfst (\<lambda>response. if length response > 0 then Success else Error_status))
          (retry_after
             (hub_attempt m e target_device_id WRITE_MULTIPLE_HOLDING_REGISTERS
                first_register_address (int (length data)) data)
             num_resends_on_error 0 []))"

definition handle_nonstd_read :: "int \<Rightarrow> int \<Rightarrow> int \<Rightarrow> hub_result" where
  "handle_nonstd_read target_device_id first_register_address num_registers_to_read =
     \<lparr>status_code = Error_status, result_value = None\<rparr>"

definition hub_init ::
    "open_env \<Rightarrow> int \<Rightarrow> bool \<Rightarrow> (string, TinyModbusRTU) result" where
  "hub_init e baudrate echo =
    (let (ok, m) = open_device e baudrate echo default_modbus
     in if ok then Inr m else Inl ''Cannot open serial port'')"

end
