(* ===== verification/Checksum.thy ===== *)
theory Checksum
  imports Prelude "HOL-Library.Word"
begin

text \<open>
  Checksums that the serial protocols share: registers that are updated symbol by symbol, and the
  reflected cyclic redundancy checks, of any width, as instances of them.
\<close>

unbundle bit_operations_syntax

section \<open>Injective registers\<close>

text \<open>
  A checksum register that is updated symbol by symbol, injectively in its state and in the
  symbol, tells apart two messages that differ in exactly one symbol.
\<close>

locale injective_register =
  fixes update :: "'s \<Rightarrow> 'b \<Rightarrow> 's"
  assumes inj_state: "update s b = update t b \<Longrightarrow> s = t"
    and inj_symbol: "update s b = update s c \<Longrightarrow> b = c"
begin

lemma fold_inj: "foldl update s bs = foldl update t bs \<Longrightarrow> s = t"
  by (induction bs arbitrary: s t) (auto dest: inj_state)

lemma fold_single_change:
  assumes "i < length bs" "foldl update s (bs[i := b]) = foldl update s bs"
  shows "b = bs ! i"
proof -
  have split: "bs = take i bs @ bs ! i # drop (Suc i) bs"
    using assms(1) by (rule id_take_nth_drop)
  have "bs[i := b] = take i bs @ b # drop (Suc i) bs"
    using assms(1) by (rule upd_conv_take_nth_drop)
  with assms(2) split have
    "foldl update (update (foldl update s (take i bs)) b) (drop (Suc i) bs)
     = foldl update (update (foldl update s (take i bs)) (bs ! i)) (drop (Suc i) bs)"
    by (metis foldl_Cons foldl_append)
  then show ?thesis by (auto dest: fold_inj inj_symbol)
qed

end

section \<open>Reflected cyclic redundancy checks\<close>

lemma xor_cancel: "(a :: 'a::semiring_bit_operations) XOR c = b XOR c \<Longrightarrow> a = b"
  by (auto simp: bit_eq_iff bit_xor_iff)

lemma funpow_inj_on: fixes f :: "'a \<Rightarrow> 'a" shows "(\<And>a b. f a = f b \<Longrightarrow> a = b) \<Longrightarrow> (f ^^ n) a = (f ^^ n) b \<Longrightarrow> a = b"
proof (induction n)
  case (Suc n)
  from Suc.prems(2) have "f ((f ^^ n) a) = f ((f ^^ n) b)" by simp
  then have "(f ^^ n) a = (f ^^ n) b" by (rule Suc.prems(1))
  then show ?case using Suc.IH Suc.prems(1) by blast
qed simp

text \<open>
  The register shifts to the right and the polynomial, whose top bit is set, is added when a one
  was shifted out; a byte is added to the low end and then shifted through.
\<close>

locale reflected_crc =
  fixes step :: "'w::len word \<Rightarrow> 'w word" and poly :: "'w word" and update :: "'w word \<Rightarrow> 8 word \<Rightarrow> 'w word"
  assumes step_eq: "step c = (if odd c then drop_bit 1 c XOR poly else drop_bit 1 c)"
    and top_bit: "bit poly (LENGTH('w) - 1)"
    and wide: "8 \<le> LENGTH('w)"
    and update_eq: "update c b = (step ^^ 8) (c XOR ucast b)"
begin

lemma step_top: "bit (step c) (LENGTH('w) - 1) \<longleftrightarrow> odd c"
  using wide top_bit by (auto simp: step_eq bit_simps dest: bit_imp_le_length)

lemma step_inj: "step a = step b \<Longrightarrow> a = b"
proof -
  assume eq: "step a = step b"
  then have par: "odd a = odd b" by (metis step_top)
  then have "drop_bit 1 a = drop_bit 1 b"
    using eq by (auto simp: step_eq dest: xor_cancel split: if_splits)
  then show "a = b" using par by (simp add: drop_bit_Suc bit_eq_rec [of a b])
qed

lemma update_inj:
  "update s b = update t b \<Longrightarrow> s = t"
  "update s b = update s c \<Longrightarrow> b = c"
proof -
  assume "update s b = update t b"
  then show "s = t"
    unfolding update_eq using funpow_inj_on [OF step_inj] xor_cancel by blast
next
  assume "update s b = update s c"
  then have "s XOR ucast b = s XOR (ucast c :: 'w word)"
    unfolding update_eq using funpow_inj_on [OF step_inj] by blast
  then have "(ucast b :: 'w word) = ucast c" by (metis xor.commute xor_cancel)
  then show "b = c" using wide by (auto simp: bit_eq_iff bit_simps dest: bit_imp_le_length)
qed

lemma steps_even: "(\<And>i. i < n \<Longrightarrow> \<not> bit c i) \<Longrightarrow> (step ^^ n) c = drop_bit n c"
proof (induction n)
  case (Suc n)
  then have "even (drop_bit n c)" by (simp add: bit_iff_odd_drop_bit)
  with Suc show ?case by (simp add: step_eq drop_bit_drop_bit)
qed simp

text \<open>A register that is given its own low byte shifts it out.\<close>

lemma own_low_byte: "update c (ucast c) = drop_bit 8 c"
proof -
  have "(step ^^ 8) (c XOR ucast (ucast c :: 8 word)) = drop_bit 8 (c XOR ucast (ucast c :: 8 word))"
    using wide by (intro steps_even) (simp add: bit_simps)
  also have "\<dots> = drop_bit 8 c"
    by (rule bit_word_eqI) (simp add: bit_simps)
  finally show ?thesis by (simp add: update_eq)
qed

text \<open>
  A register whose high bits are clear after some bytes had them clear before, further up: a
  message shorter than the register cannot clear it.
\<close>

lemma step_small:
  assumes "\<And>i. k \<le> i \<Longrightarrow> \<not> bit (step c) i" "k < LENGTH('w)"
  shows "Suc k \<le> i \<Longrightarrow> \<not> bit c i"
proof -
  have "\<not> odd c" using assms(1)[of "LENGTH('w) - 1"] assms(2) step_top[of c] by simp
  moreover assume "Suc k \<le> i"
  ultimately show ?thesis using assms(1)[of "i - 1"] by (simp add: step_eq bit_simps)
qed

lemma steps_small:
  "(\<And>i. k \<le> i \<Longrightarrow> \<not> bit ((step ^^ n) c) i) \<Longrightarrow> k + n \<le> LENGTH('w) \<Longrightarrow> k + n \<le> i \<Longrightarrow> \<not> bit c i"
proof (induction n arbitrary: c i)
  case (Suc n)
  have "\<not> bit (step c) j" if "k + n \<le> j" for j
    using Suc.IH[of "step c" j] Suc.prems that by (simp add: funpow_swap1)
  from step_small[OF this] Suc.prems show ?case by simp
qed simp

lemma fold_small:
  "(\<And>i. k \<le> i \<Longrightarrow> \<not> bit (foldl update c bs) i) \<Longrightarrow> k + 8 * length bs \<le> LENGTH('w)
    \<Longrightarrow> k + 8 * length bs \<le> i \<Longrightarrow> \<not> bit c i"
proof (induction bs arbitrary: c i)
  case (Cons b bs)
  let ?k = "k + 8 * length bs"
  have "\<not> bit ((step ^^ 8) (c XOR ucast b)) j" if "?k \<le> j" for j
    using Cons.IH[of "update c b" j] Cons.prems that by (simp add: update_eq)
  then have "\<not> bit (c XOR ucast b) i" using steps_small[of ?k 8 "c XOR ucast b" i] Cons.prems by simp
  then show ?case using Cons.prems by (auto simp: bit_simps dest: bit_imp_le_length)
qed simp

end

sublocale reflected_crc \<subseteq> injective_register update
  by unfold_locales (rule update_inj, assumption)+

end
