(* ===== verification/Serial_Modbus_Correct.thy ===== *)
theory Serial_Modbus_Correct
  imports Serial_Modbus Checksum
begin

text \<open>
  Correctness of the Modbus client: the checksum tells a corrupted message apart, a request is the
  frame of the Modbus standard, a reply is decoded to the registers that were sent, and the reader
  of replies ends and stays within its buffer whatever the line delivers.
\<close>

section \<open>The checksum detects corruption\<close>

lemma crc_bit_eq: "crc_bit c = (if odd c then drop_bit 1 c XOR 0xA001 else drop_bit 1 c)"
  by (auto simp: crc_bit_def and_one_eq odd_iff_mod_2_eq_one)

interpretation crc: reflected_crc crc_bit "0xA001" crc_byte
  by unfold_locales (simp_all add: crc_bit_eq crc_byte_def)

lemma crc_loop_foldl: "crc_loop s bs = foldl crc_byte s bs"
  by (induction bs arbitrary: s) auto

lemma byte_order [simp]:
  "to_uint16 (low_byte w) (high_byte w) = w"
  "low_byte (to_uint16 lo hi) = lo"
  "high_byte (to_uint16 lo hi) = hi"
  by (auto simp: to_uint16_def low_byte_def high_byte_def bit_eq_iff bit_simps not_less
      dest: bit_imp_le_length)

lemma to_uint16_inj [simp]: "to_uint16 a b = to_uint16 c d \<longleftrightarrow> a = c \<and> b = d"
  by (metis byte_order(2,3))

lemma endian_inverse [simp]: "be16toh (htobe16 w) = w"
  by (simp add: be16toh_def htobe16_def)

lemma get_put16 [simp]: "i + 1 < length buf \<Longrightarrow> get16 i (put16 i w buf) = w"
  by (simp add: get16_def put16_def)

lemma length_put16 [simp]: "length (put16 i w buf) = length buf"
  by (simp add: put16_def)

lemma take_put16 [simp]: "n \<le> i \<Longrightarrow> take n (put16 i w buf) = take n buf"
  by (simp add: put16_def)

lemma length_append_checksum [simp]: "length (append_checksum msg n) = length msg"
  by (simp add: append_checksum_def)

lemma append_checksum_valid:
  "5 \<le> n \<Longrightarrow> n \<le> length msg \<Longrightarrow> validate_checksum (append_checksum msg n) n"
  by (simp add: append_checksum_def validate_checksum_def calculate_modbus_crc16_def)

text \<open>
  C16: a message with a valid checksum no longer has one after any single byte of it, payload or
  checksum, has been changed.
\<close>

theorem single_byte_corruption_detected:
  assumes "validate_checksum msg len" "len \<le> length msg" "i < len" "b \<noteq> msg ! i"
  shows "\<not> validate_checksum (msg[i := b]) len"
proof (cases "i < len - 2")
  case True
  have "foldl crc_byte 0xFFFF ((take (len - 2) msg)[i := b]) \<noteq> foldl crc_byte 0xFFFF (take (len - 2) msg)"
    using crc.fold_single_change [of i "take (len - 2) msg" "0xFFFF" b] assms True by auto
  then show ?thesis
    using assms True
    by (auto simp: validate_checksum_def calculate_modbus_crc16_def crc_loop_foldl get16_def
        take_update_swap split: if_splits)
next
  case False
  with assms have "i = len - 2 \<or> i = len - 1" "5 \<le> len"
    by (auto simp: validate_checksum_def split: if_splits)
  moreover from this have "Suc (len - 2) = len - 1" "len - 2 \<noteq> len - 1" by auto
  ultimately show ?thesis
    using assms
    by (auto simp: validate_checksum_def calculate_modbus_crc16_def get16_def nth_list_update
        dest: sym)
qed

theorem single_byte_corruption_detected_witness:
  "validate_checksum (append_checksum [1, 3, 2, 0, 7, 0, 0] 7) 7
   \<and> \<not> validate_checksum ((append_checksum [1, 3, 2, 0, 7, 0, 0] 7)[4 := 6]) 7"
proof -
  have "validate_checksum (append_checksum [1, 3, 2, 0, 7, 0, 0] 7) 7"
    by (rule append_checksum_valid) simp_all
  moreover have "append_checksum [1, 3, 2, 0, 7, 0, 0] 7 ! 4 = 7"
    by (simp add: append_checksum_def put16_def)
  ultimately show ?thesis
    using single_byte_corruption_detected
      [of "append_checksum [1, 3, 2, 0, 7, 0, 0] 7" 7 4 6] by simp
qed

section \<open>Request frames\<close>

lemma length_put_registers [simp]: "length (put_registers i rs buf) = length buf"
  by (induction i rs buf rule: put_registers.induct) simp_all

lemma put_registers_append:
  "length pre = i \<Longrightarrow> 2 * length rs \<le> length buf \<Longrightarrow>
   put_registers i rs (pre @ buf)
   = pre @ concat (map (\<lambda>r. [high_byte r, low_byte r]) rs) @ drop (2 * length rs) buf"
proof (induction rs arbitrary: pre buf i)
  case (Cons r rs)
  then obtain x y buf' where buf: "buf = x # y # buf'"
    by (cases buf; cases "tl buf") auto
  have "put16 i (htobe16 r) (pre @ buf) = (pre @ [high_byte r, low_byte r]) @ buf'"
    using Cons.prems buf by (simp add: put16_def htobe16_def list_update_append)
  then show ?case
    using Cons.IH [of "pre @ [high_byte r, low_byte r]" "i + 2" buf'] Cons.prems buf by simp
qed simp

text \<open>The frames of the Modbus RTU specification: big-endian registers, checksum low byte first.\<close>

definition with_crc :: "byte list \<Rightarrow> byte list" where
  "with_crc body = (let crc = crc_loop 0xFFFF body in body @ [low_byte crc, high_byte crc])"

definition be_bytes :: "uint16 list \<Rightarrow> byte list" where
  "be_bytes rs = concat (map (\<lambda>r. [high_byte r, low_byte r]) rs)"

definition request_frame :: "byte \<Rightarrow> FunctionCode \<Rightarrow> uint16 \<Rightarrow> uint16 \<Rightarrow> uint16 list \<Rightarrow> byte list" where
  "request_frame dev f first qty rs =
     with_crc ([dev, function_code f] @ be_bytes [first, qty]
               @ (if rs = [] then [] else of_nat (2 * length rs) # be_bytes rs))"

definition read_frame :: "byte \<Rightarrow> FunctionCode \<Rightarrow> uint16 list \<Rightarrow> byte list" where
  "read_frame dev f rs = with_crc ([dev, function_code f, of_nat (2 * length rs)] @ be_bytes rs)"

definition write_ack_frame :: "byte \<Rightarrow> uint16 \<Rightarrow> uint16 \<Rightarrow> byte list" where
  "write_ack_frame dev first qty =
     with_crc ([dev, function_code WRITE_MULTIPLE_HOLDING_REGISTERS] @ be_bytes [first, qty])"

lemma length_be_bytes [simp]: "length (be_bytes rs) = 2 * length rs"
  by (induction rs) (simp_all add: be_bytes_def)

lemma be_bytes_simps [simp]:
  "be_bytes [] = []"
  "be_bytes (r # rs) = high_byte r # low_byte r # be_bytes rs"
  by (simp_all add: be_bytes_def)

lemma length_with_crc [simp]: "length (with_crc body) = length body + 2"
  by (simp add: with_crc_def Let_def)

lemma append_checksum_body:
  "3 \<le> length body \<Longrightarrow> n = length body + 2 \<Longrightarrow> append_checksum (body @ [x, y]) n = with_crc body"
  by (simp add: append_checksum_def with_crc_def Let_def put16_def calculate_modbus_crc16_def
      list_update_append)

lemma build_read_request:
  "build_request mem dev f first qty [] = request_frame dev f first qty []"
proof -
  have "[0..<8] = [0, 1, 2, 3, 4, 5, 6, 7]" by (simp add: upt_rec)
  then show ?thesis
    using append_checksum_body
      [of "[dev, function_code f, high_byte first, low_byte first, high_byte qty, low_byte qty]" 8]
    by (auto simp: build_request_def request_length_def modbus_consts put16_def htobe16_def Let_def
        request_frame_def)
qed

lemma build_write_request:
  assumes "rs \<noteq> []"
  shows "build_request mem dev WRITE_MULTIPLE_HOLDING_REGISTERS first qty rs
         = request_frame dev WRITE_MULTIPLE_HOLDING_REGISTERS first qty rs"
proof -
  let ?hdr = "[dev, function_code WRITE_MULTIPLE_HOLDING_REGISTERS, high_byte first, low_byte first,
    high_byte qty, low_byte qty, of_nat (length rs * 2)]"
  let ?n = "2 * length rs"
  have upt: "[0..<9 + ?n] = [0, 1, 2, 3, 4, 5, 6] @ [7..<7 + ?n] @ [7 + ?n, 8 + ?n]"
  proof -
    have "[0..<9 + ?n] = [0..<7] @ [7..<7 + ?n] @ [7 + ?n..<7 + ?n + 2]"
      using upt_add_eq_append [of 0 7 "?n + 2"] upt_add_eq_append [of 7 "7 + ?n" 2]
      by (simp add: algebra_simps)
    then show ?thesis by (simp add: upt_rec [of 0] upt_rec [of "Suc _"] upt_rec [of "numeral _" "numeral _"] upt_rec [of "_ + _"])
  qed
  have "put_registers 7 rs (?hdr @ map mem [7..<7 + ?n] @ [mem (7 + ?n), mem (8 + ?n)])
      = ?hdr @ be_bytes rs @ [mem (7 + ?n), mem (8 + ?n)]"
    using put_registers_append [of ?hdr 7 rs "map mem [7..<7 + ?n] @ [mem (7 + ?n), mem (8 + ?n)]"]
    by (simp add: be_bytes_def)
  then show ?thesis
    using append_checksum_body [of "?hdr @ be_bytes rs" "9 + ?n" "mem (7 + ?n)" "mem (8 + ?n)"] assms upt
    by (simp add: build_request_def request_length_def modbus_consts put16_def htobe16_def Let_def
        request_frame_def mult.commute)
qed

text \<open>
  the frame that txrx puts on the line is the one of the Modbus specification for every
  request the handlers make, independently of what the fresh buffer held.
\<close>

theorem build_request_is_modbus_frame:
  assumes "request = [] \<or> function = WRITE_MULTIPLE_HOLDING_REGISTERS"
  shows "build_request mem dev function first qty request
         = request_frame dev function first qty request"
  using assms build_read_request build_write_request by (cases "request = []") auto

theorem build_request_is_modbus_frame_witness:
  "build_request (\<lambda>_. 0xCC) 1 WRITE_MULTIPLE_HOLDING_REGISTERS 0x0102 2 [7, 8]
   = with_crc [1, 0x10, 1, 2, 0, 2, 4, 0, 7, 0, 8]"
proof -
  have [simp]: "(0x102 :: byte) = 2" by (simp add: word_uint_eq_iff)
  show ?thesis
    by (subst build_request_is_modbus_frame)
     (simp_all add: request_frame_def high_byte_def low_byte_def drop_bit_eq_div)
qed

section \<open>Replies\<close>

lemma validate_with_crc:
  "3 \<le> length body \<Longrightarrow> validate_checksum (with_crc body @ rest) (length body + 2)"
  by (simp add: validate_checksum_def with_crc_def Let_def get16_def nth_append
      calculate_modbus_crc16_def)

lemma decode_payload_be_bytes:
  "length pre = i \<Longrightarrow> decode_payload (pre @ be_bytes rs @ post) i (i + 2 * length rs) = rs"
proof (induction rs arbitrary: pre i)
  case (Cons r rs)
  have "get16 i (pre @ be_bytes (r # rs) @ post) = to_uint16 (high_byte r) (low_byte r)"
    using Cons.prems by (auto simp: get16_def nth_append)
  then show ?case
    using Cons.IH [of "pre @ [high_byte r, low_byte r]" "i + 2"] Cons.prems
    by (subst decode_payload.simps) (simp add: be16toh_def)
qed (simp add: decode_payload.simps)

lemma no_exception_bit [simp]: "\<not> check_for_exception (function_code f)"
  by (cases f) (simp_all add: check_for_exception_def push_bit_eq_mult)

lemma is_read_reply_always [simp]: "is_read_reply f"
  by (simp add: is_read_reply_def)

lemma decode_read_frame:
  assumes "length rs \<le> 127"
  shows "decode_reply (read_frame dev f rs @ rest) (length (read_frame dev f rs)) dev f = rs"
proof -
  let ?body = "[dev, function_code f, of_nat (2 * length rs)] @ be_bytes rs"
  let ?crc = "crc_loop 0xFFFF ?body"
  have cnt: "unat (of_nat (2 * length rs) :: byte) = 2 * length rs"
    using assms by (simp add: unat_of_nat del: of_nat_mult)
  have "validate_checksum (with_crc ?body @ rest) (length ?body + 2)"
    by (rule validate_with_crc) simp
  moreover have "decode_payload (with_crc ?body @ rest) 3 (3 + 2 * length rs) = rs"
    using decode_payload_be_bytes [of "take 3 ?body" 3 rs "[low_byte ?crc, high_byte ?crc] @ rest"]
    by (simp add: with_crc_def Let_def)
  moreover have "with_crc ?body ! 0 = dev" "with_crc ?body ! 1 = function_code f"
    "with_crc ?body ! 2 = of_nat (2 * length rs)"
    by (simp_all add: with_crc_def Let_def)
  ultimately show ?thesis
    using cnt
    by (simp add: decode_reply_def read_frame_def modbus_consts Let_def nth_append
        del: of_nat_mult)
qed

lemma decode_write_ack:
  assumes "first < 0x100"
  shows "decode_reply (write_ack_frame dev first qty @ rest) (length (write_ack_frame dev first qty))
           dev WRITE_MULTIPLE_HOLDING_REGISTERS = []"
proof -
  have "high_byte first = 0"
    using assms by (simp add: high_byte_def drop_bit_eq_div div_word_less)
  then show ?thesis
    by (simp add: decode_reply_def write_ack_frame_def with_crc_def modbus_consts Let_def
        decode_payload.simps)
qed

section \<open>Reading from the line\<close>

lemma length_store_bytes [simp]:
  "i + length bs \<le> length buf \<Longrightarrow> length (store_bytes i bs buf) = length buf"
  by (simp add: store_bytes_def)

lemma store_bytes_append:
  "i + length a \<le> length buf \<Longrightarrow>
   store_bytes (i + length a) b (store_bytes i a buf) = store_bytes i (a @ b) buf"
  by (simp add: store_bytes_def ac_simps)

lemma read_reply_loop_chunks:
  "t + length (concat chunks) < n \<Longrightarrow> n \<le> length buf \<Longrightarrow>
   read_reply_loop (map Readable chunks @ Select_timeout # rest) buf n t
   = Some (store_bytes t (concat chunks) buf, t + length (concat chunks), rest)"
proof (induction chunks arbitrary: t buf)
  case (Cons c chunks)
  have "read_reply_loop (map Readable chunks @ Select_timeout # rest) (store_bytes t c buf) n
      (t + length c)
    = Some (store_bytes (t + length c) (concat chunks) (store_bytes t c buf),
        t + length c + length (concat chunks), rest)"
    using Cons.prems by (intro Cons.IH) (simp_all add: add.assoc)
  moreover have "\<not> n \<le> t" "length c \<le> n - t" "t + length c \<le> length buf"
    using Cons.prems by simp_all
  ultimately show ?case
    by (simp add: left_over_def store_bytes_append Let_def)
qed (simp add: store_bytes_def)

lemma read_reply_chunks:
  "length (concat chunks) < n \<Longrightarrow> n \<le> length buf \<Longrightarrow>
   read_reply (map Readable chunks @ Select_timeout # rest) buf n
   = Some (concat chunks @ drop (length (concat chunks)) buf, length (concat chunks), rest)"
  using read_reply_loop_chunks [of 0 chunks n buf rest]
  by (simp add: read_reply_def store_bytes_def)

lemma read_reply_echo:
  "req \<noteq> [] \<Longrightarrow> read_reply (Readable req # Readable c # rest) req (length req)
   = Some (req, length req, Readable c # rest)"
  by (simp add: read_reply_def left_over_def store_bytes_def Let_def)

definition ends_silence :: "select_result \<Rightarrow> bool" where
  "ends_silence s = (s = Select_error \<or> s = Select_timeout)"

lemma read_reply_loop_returns:
  "\<exists>s\<in>set script. ends_silence s \<Longrightarrow> n \<le> length buf \<Longrightarrow> t \<le> n \<Longrightarrow>
   \<exists>buf' t' rest. read_reply_loop script buf n t = Some (buf', t', rest)
     \<and> t' \<le> n \<and> length buf' = length buf"
proof (induction script buf n t rule: read_reply_loop.induct)
  case (4 bs rest rxbuf n t)
  show ?case
  proof (cases "t \<ge> n")
    case False
    have "\<exists>s\<in>set (left_over (n - t) bs rest). ends_silence s"
      using 4(2) by (auto simp: left_over_def ends_silence_def)
    then show ?thesis
      using 4(1) [OF False refl refl] 4(3) False by (auto simp: Let_def min_def split: if_splits)
  qed (use 4 in simp)
qed (auto simp: ends_silence_def)

text \<open>
  C37: as soon as the line falls silent or select fails, read_reply returns; it has never
  written outside the buffer it was given, and the count it returns is within its size.
\<close>

theorem read_reply_returns_in_bounds:
  assumes "Select_timeout \<in> set script \<or> Select_error \<in> set script" "rxbuf_len \<le> length rxbuf"
  shows "\<exists>buf total rest. read_reply script rxbuf rxbuf_len = Some (buf, total, rest)
     \<and> total \<le> rxbuf_len \<and> length buf = length rxbuf"
  using assms read_reply_loop_returns [of script rxbuf_len rxbuf 0]
  by (auto simp: read_reply_def ends_silence_def)

theorem read_reply_returns_in_bounds_witness:
  "\<exists>buf total rest. read_reply [Readable [1, 2, 3], Readable [4], Select_timeout] [0, 0] 2
     = Some (buf, total, rest) \<and> total \<le> 2 \<and> length buf = length [0, 0 :: byte]"
  using read_reply_returns_in_bounds
    [of "[Readable [1, 2, 3], Readable [4], Select_timeout]" 2 "[0, 0]"] by simp

text \<open>
  If the descriptor stays readable and \<open>read\<close> delivers no byte (the adapter has been
  removed), \<open>read_reply\<close> does not return, however often it polls.
\<close>

lemma read_reply_spins_on_hangup:
  assumes "0 < rxbuf_len"
  shows "read_reply (replicate n (Readable [])) rxbuf rxbuf_len = None"
proof -
  have "read_reply_loop (replicate n (Readable [])) buf rxbuf_len 0 = None" for buf
    using assms by (induction n arbitrary: buf) (simp_all add: left_over_def Let_def)
  then show ?thesis by (simp add: read_reply_def)
qed

lemma read_reply_spins_1000:
  "read_reply (replicate 1000 (Readable [])) [0, 0, 0] 3 = None"
  by (rule read_reply_spins_on_hangup) simp

section \<open>Handlers\<close>

text \<open>A line that, after an echo if the hardware has one, delivers \<open>frame\<close> in any chunks.\<close>

definition delivers :: "TinyModbusRTU \<Rightarrow> byte list \<Rightarrow> byte list \<Rightarrow> select_result list \<Rightarrow> bool" where
  "delivers m req frame script \<longleftrightarrow>
     (\<exists>chunks rest. concat chunks = frame
        \<and> script = (if ignore_echo m then [Readable req] else []) @ map Readable chunks
                   @ Select_timeout # rest)"

lemma txrx_delivered:
  assumes "delivers m (build_request mem dev f first qty request) frame script"
    "frame \<noteq> []" "length frame < MODBUS_MAX_REPLY_SIZE"
    "\<And>rest. decode_reply (frame @ rest) (length frame) dev f = rs"
  shows "txrx m mem rxmem script dev f first qty True request
         = Some (build_request mem dev f first qty request, rs)"
proof -
  let ?req = "build_request mem dev f first qty request"
  obtain chunks rest where ch: "concat chunks = frame"
    "script = (if ignore_echo m then [Readable ?req] else []) @ map Readable chunks
       @ Select_timeout # rest"
    using assms(1) unfolding delivers_def by blast
  have "length ?req = request_length request" by (simp add: build_request_def Let_def)
  then have "?req \<noteq> []" by (auto simp: request_length_def modbus_consts)
  then have echo: "ignore_echo m \<Longrightarrow> map_option (\<lambda>(_, _, s). s) (read_reply script ?req (length ?req))
      = Some (map Readable chunks @ Select_timeout # rest)"
    using ch assms(2) by (cases chunks) (simp_all add: read_reply_echo)
  have "read_reply (map Readable chunks @ Select_timeout # rest)
      (map rxmem [0..<MODBUS_MAX_REPLY_SIZE]) MODBUS_MAX_REPLY_SIZE
    = Some (frame @ drop (length frame) (map rxmem [0..<MODBUS_MAX_REPLY_SIZE]), length frame, rest)"
    using read_reply_chunks [of chunks] ch(1) assms(3) by simp
  then show ?thesis
    using ch assms(4) echo by (auto simp: txrx_def Let_def)
qed

lemma retry_loops_agree: "retry_after attempt c k r = retry_before attempt c k r"
proof (induction attempt c k r rule: retry_before.induct)
  case (1 attempt c k r)
  then show ?case
    by (subst retry_before.simps, subst retry_after.simps) (auto simp: Let_def split: option.splits)
qed

lemma retry_before_three:
  "retry_before attempt 3 0 [] =
     (case attempt 0 of None \<Rightarrow> None | Some r0 \<Rightarrow> if r0 \<noteq> [] then Some (r0, 1) else
      case attempt 1 of None \<Rightarrow> None | Some r1 \<Rightarrow> if r1 \<noteq> [] then Some (r1, 2) else
      case attempt (Suc (Suc 0)) of None \<Rightarrow> None | Some r2 \<Rightarrow> Some (r2, 3))"
proof -
  have "(3 :: byte) - 1 = 2" "(2 :: byte) - 1 = 1" by simp_all
  then show ?thesis
    by (subst retry_before.simps, subst retry_before.simps, subst retry_before.simps,
        subst retry_before.simps)
       (auto split: option.splits)
qed

lemmas hub_retry = retry_loops_agree retry_before_three num_resends_on_error_def

lemma hub_attempt_delivered:
  assumes "delivers m (build_request (req_mem e k) (word_of_int dev) f (word_of_int first)
      (word_of_int qty) request) frame (line_script e k)"
    "frame \<noteq> []" "length frame < MODBUS_MAX_REPLY_SIZE"
    "\<And>rest. decode_reply (frame @ rest) (length frame) (word_of_int dev) f = rs"
  shows "hub_attempt m e dev f first qty request k = Some rs"
  using txrx_delivered [OF assms] by (simp add: hub_attempt_def)

lemma read_frame_size: "length rs \<le> 127 \<Longrightarrow>
   read_frame dev f rs \<noteq> [] \<and> length (read_frame dev f rs) < MODBUS_MAX_REPLY_SIZE"
  by (auto simp: read_frame_def with_crc_def Let_def modbus_consts)

lemma write_ack_size:
  "write_ack_frame dev first qty \<noteq> []"
  "length (write_ack_frame dev first qty) < MODBUS_MAX_REPLY_SIZE"
  by (simp_all add: write_ack_frame_def with_crc_def Let_def modbus_consts)

text \<open>
  C15: reading registers is a round trip. When the device answers the first request with the
  reply frame for at most 127 registers, in whatever chunks the line delivers it and with or
  without an echo of the request, both read handlers return success with exactly those values
  after a single transmission.
\<close>

theorem read_registers_roundtrip:
  assumes "rs \<noteq> []" "length rs \<le> 127"
    "f = READ_MULTIPLE_HOLDING_REGISTERS \<and> handler = handle_modbus_read_holding_registers
     \<or> f = READ_INPUT_REGISTERS \<and> handler = handle_modbus_read_input_registers"
    "delivers m (request_frame (word_of_int dev) f (word_of_int first) (word_of_int qty) [])
       (read_frame (word_of_int dev) f rs) (line_script e 0)"
  shows "handler m e dev first qty
         = Some (\<lparr>status_code = Success, result_value = Some (map uint rs)\<rparr>, 1)"
proof -
  have "hub_attempt m e dev f first qty [] 0 = Some rs"
    using assms read_frame_size [OF assms(2)]
    by (intro hub_attempt_delivered [where frame = "read_frame (word_of_int dev) f rs"])
       (simp_all add: build_read_request decode_read_frame)
  then show ?thesis
    using assms(1,3)
    by (auto simp: handle_modbus_read_holding_registers_def handle_modbus_read_input_registers_def
        hub_retry process_response_def vector_to_int_def)
qed

lemma delivers_whole:
  "delivers default_modbus req frame [Readable frame, Select_timeout]"
  unfolding delivers_def default_modbus_def
  by (rule exI [of _ "[frame]"]) simp

definition answering_env :: "byte list \<Rightarrow> hub_env" where
  "answering_env frame = \<lparr>req_mem = (\<lambda>_ _. 0), rx_mem = (\<lambda>_ _. 0xFF),
     line_script = (\<lambda>_. [Readable frame, Select_timeout])\<rparr>"

theorem read_registers_roundtrip_witness:
  "handle_modbus_read_holding_registers default_modbus
     (answering_env (read_frame 1 READ_MULTIPLE_HOLDING_REGISTERS [0x1234, 7])) 1 0x9C40 2
   = Some (\<lparr>status_code = Success, result_value = Some [0x1234, 7]\<rparr>, 1)"
  using read_registers_roundtrip [of "[0x1234, 7]" READ_MULTIPLE_HOLDING_REGISTERS
      handle_modbus_read_holding_registers default_modbus 1 "0x9C40" 2
      "answering_env (read_frame 1 READ_MULTIPLE_HOLDING_REGISTERS [0x1234, 7])"]
  by (simp add: answering_env_def delivers_whole)

text \<open>
  A failed transmission is repeated, at most three transmissions are made, and the handler
  returns the first non-empty reply, or an error after three empty ones.
\<close>

theorem read_holding_retries:
  assumes "k < 3" "\<forall>j<k. hub_attempt m e dev READ_MULTIPLE_HOLDING_REGISTERS first qty [] j = Some []"
    "hub_attempt m e dev READ_MULTIPLE_HOLDING_REGISTERS first qty [] k = Some rs"
    "rs \<noteq> [] \<or> k = 2"
  shows "handle_modbus_read_holding_registers m e dev first qty = Some (process_response rs, Suc k)"
proof -
  have "k = 0 \<or> k = 1 \<or> k = 2" using assms(1) by auto
  then show ?thesis
    using assms(2-4)
    by (auto simp: handle_modbus_read_holding_registers_def hub_retry numeral_2_eq_2 less_Suc_eq)
qed

theorem read_holding_retries_witness:
  "handle_modbus_read_holding_registers default_modbus
     \<lparr>req_mem = (\<lambda>_ _. 0), rx_mem = (\<lambda>_ _. 0), line_script = (\<lambda>_. [Select_timeout])\<rparr> 1 0 2
   = Some (\<lparr>status_code = Error_status, result_value = None\<rparr>, 3)"
proof -
  let ?e = "\<lparr>req_mem = (\<lambda>_ _. 0), rx_mem = (\<lambda>_ _. 0), line_script = (\<lambda>_. [Select_timeout])\<rparr>"
  have "hub_attempt default_modbus ?e 1 READ_MULTIPLE_HOLDING_REGISTERS 0 2 [] k = Some []" for k
    by (simp add: hub_attempt_def txrx_def Let_def default_modbus_def read_reply_def
        decode_reply_def modbus_consts)
  then show ?thesis
    using read_holding_retries [of 2 default_modbus ?e 1 0 2 "[]"] by (simp add: process_response_def)
qed

text \<open>
  a device that acknowledges every write of at least one register correctly is reported as
  an error after three transmissions, for every first register below 256: the acknowledgement
  is parsed as a read reply whose byte count is the high byte of the register address.
\<close>

theorem acknowledged_write_reported_as_error:
  assumes "data \<noteq> []" "0 \<le> first" "first < 256"
    "\<forall>k<3. delivers m (request_frame (word_of_int dev) WRITE_MULTIPLE_HOLDING_REGISTERS
               (word_of_int first) (word_of_int (int (length data))) (map word_of_int data))
             (write_ack_frame (word_of_int dev) (word_of_int first) (word_of_int (int (length data))))
             (line_script e k)"
  shows "handle_modbus_write_multiple_registers m e dev first data = Some (Error_status, 3)"
proof -
  let ?ack = "write_ack_frame (word_of_int dev) (word_of_int first) (word_of_int (int (length data)))"
  have small: "(word_of_int first :: uint16) < 0x100"
    using assms(2,3) by (simp add: word_less_def uint_word_of_int_eq take_bit_eq_mod)
  have "hub_attempt m e dev WRITE_MULTIPLE_HOLDING_REGISTERS first (int (length data))
      (map word_of_int data) k = Some []" if "k < 3" for k
    using assms that
    by (intro hub_attempt_delivered [where frame = ?ack])
       (simp_all add: build_write_request decode_write_ack [OF small] write_ack_size)
  then show ?thesis
    by (simp add: handle_modbus_write_multiple_registers_def append_array_def hub_retry)
qed

theorem acknowledged_write_reported_as_error_witness:
  "handle_modbus_write_multiple_registers default_modbus
     (answering_env (write_ack_frame 1 0x20 1)) 1 0x20 [5] = Some (Error_status, 3)"
  using acknowledged_write_reported_as_error [of "[5]" "0x20" default_modbus 1
      "answering_env (write_ack_frame 1 0x20 1)"]
  by (simp add: answering_env_def delivers_whole)

end
