(* ===== verification/Std_Map.thy ===== *)
theory Std_Map
  imports Prelude
begin

text \<open>
  \<open>std::map<int, T>\<close> as the list of its entries in key order, which is the order in which the
  range-for loops of the modules visit it.
\<close>

type_synonym 'v std_map = "(int \<times> 'v) list"

definition std_keys :: "'v std_map \<Rightarrow> int list" where
  "std_keys m = map fst m"

definition std_map_ok :: "'v std_map \<Rightarrow> bool" where
  "std_map_ok m = sorted_wrt (<) (std_keys m)"

fun std_insert :: "int \<Rightarrow> 'v \<Rightarrow> 'v std_map \<Rightarrow> 'v std_map" where
  "std_insert k v [] = [(k, v)]"
| "std_insert k v ((k', v') # m) =
     (if k < k' then (k, v) # (k', v') # m
      else if k = k' then (k, v) # m
      else (k', v') # std_insert k v m)"

definition std_emplace :: "int \<Rightarrow> 'v \<Rightarrow> 'v std_map \<Rightarrow> 'v std_map" where
  "std_emplace k v m = (if map_of m k = None then std_insert k v m else m)"

definition std_erase :: "int \<Rightarrow> 'v std_map \<Rightarrow> 'v std_map" where
  "std_erase k m = filter (\<lambda>e. fst e \<noteq> k) m"

definition std_update :: "int \<Rightarrow> ('v \<Rightarrow> 'v) \<Rightarrow> 'v std_map \<Rightarrow> 'v std_map" where
  "std_update k f m = map (\<lambda>(k', v). (k', if k' = k then f v else v)) m"

text \<open>The state of a map after an access with \<open>operator[]\<close>: a missing entry is created.\<close>

definition std_touch :: "'v \<Rightarrow> int \<Rightarrow> 'v std_map \<Rightarrow> 'v std_map" where
  "std_touch d k m = std_emplace k d m"

definition std_get :: "'v \<Rightarrow> int \<Rightarrow> 'v std_map \<Rightarrow> 'v" where
  "std_get d k m = (case map_of m k of None \<Rightarrow> d | Some v \<Rightarrow> v)"

lemma set_std_keys: "set (std_keys m) = dom (map_of m)"
  by (simp add: std_keys_def dom_map_of_conv_image_fst)

lemma map_of_std_insert [simp]: "map_of (std_insert k v m) = (map_of m)(k \<mapsto> v)"
  by (induction k v m rule: std_insert.induct) (auto simp: fun_eq_iff)

lemma std_keys_insert [simp]: "set (std_keys (std_insert k v m)) = insert k (set (std_keys m))"
  by (simp add: set_std_keys)

lemma std_insert_ok [intro]: "std_map_ok m \<Longrightarrow> std_map_ok (std_insert k v m)"
proof (induction k v m rule: std_insert.induct)
  case (2 k v k' v' m)
  have "set (std_keys (std_insert k v m)) = insert k (set (std_keys m))" by simp
  with 2 show ?case by (auto simp: std_map_ok_def std_keys_def)
qed (simp add: std_map_ok_def std_keys_def)

lemma map_of_std_emplace [simp]:
  "map_of (std_emplace k v m) = (if map_of m k = None then (map_of m)(k \<mapsto> v) else map_of m)"
  by (simp add: std_emplace_def)

lemma std_emplace_ok [intro]: "std_map_ok m \<Longrightarrow> std_map_ok (std_emplace k v m)"
  by (auto simp: std_emplace_def)

lemma std_keys_emplace [simp]: "set (std_keys (std_emplace k v m)) = insert k (set (std_keys m))"
  by (auto simp: set_std_keys split: if_splits)

lemma map_of_std_erase [simp]: "map_of (std_erase k m) = (map_of m)(k := None)"
  by (induction m) (auto simp: std_erase_def fun_eq_iff)

lemma std_keys_erase [simp]: "set (std_keys (std_erase k m)) = set (std_keys m) - {k}"
  by (auto simp: set_std_keys dom_def)

lemma std_erase_ok [intro]: "std_map_ok m \<Longrightarrow> std_map_ok (std_erase k m)"
  unfolding std_map_ok_def std_keys_def std_erase_def
  by (induction m) (auto simp: sorted_wrt_map)

lemma std_keys_update [simp]: "std_keys (std_update k f m) = std_keys m"
  by (simp add: std_keys_def std_update_def case_prod_unfold)

lemma map_of_std_update [simp]:
  "map_of (std_update k f m) = (\<lambda>k'. if k' = k then map_option f (map_of m k') else map_of m k')"
  by (induction m) (auto simp: std_update_def fun_eq_iff)

lemma std_update_ok [simp]: "std_map_ok (std_update k f m) = std_map_ok m"
  by (simp add: std_map_ok_def)

lemma std_get_present [simp]: "map_of m k = Some v \<Longrightarrow> std_get d k m = v"
  by (simp add: std_get_def)

lemma std_touch_present [simp]: "map_of m k = Some v \<Longrightarrow> std_touch d k m = m"
  by (simp add: std_touch_def std_emplace_def)

lemma std_insert_fresh_erase:
  "map_of m k = None \<Longrightarrow> std_erase k (std_insert k v m) = m"
proof (induction k v m rule: std_insert.induct)
  case (2 k v k' v' m)
  have "std_erase k m' = m'" if "map_of m' k = None" for m' :: "'a std_map"
    using that by (induction m') (auto simp: std_erase_def split: if_splits)
  with 2 show ?case by (auto simp: std_erase_def split: if_splits)
qed (simp add: std_erase_def)

lemma map_of_distinct_keys: "std_map_ok m \<Longrightarrow> distinct (map fst m)"
  by (auto simp: std_map_ok_def std_keys_def strict_sorted_iff)

end
