(* ===== verification/Auth_Connector.thy ===== *)
theory Auth_Connector
  imports Everest_Types Std_Map
begin

text \<open>
  The connectors of the Auth module: the types of \<open>types/authorization.yaml\<close> it works with,
  the state machine of \<open>lib/ConnectorStateMachine.cpp\<close> and the struct \<open>Connector\<close>
  (\<open>lib/Connector.cpp\<close>, \<open>include/Connector.hpp\<close>). The controller that drives the state
  machine is the library \<open>libfsm\<close>, which is a parameter here; what the module relies on is
  \<open>sync_controller\<close>.
\<close>

section \<open>Types of the authorization interface\<close>

datatype AuthorizationStatus =
    AS_Accepted | AS_Blocked | AS_ConcurrentTx | AS_Expired | AS_Invalid | AS_NoCredit
  | AS_NotAllowedTypeEVSE | AS_NotAtThisLocation | AS_NotAtThisTime | AS_Unknown

datatype TokenType = TT_OCPP | TT_RFID | TT_Autocharge | TT_PlugAndCharge

datatype SelectionAlgorithm = UserInput | PlugEvents

text \<open>The certificate fields of a token are only passed on and are left out.\<close>

record ProvidedIdToken =
  id_token :: string
  token_type :: TokenType
  token_connectors :: "int list option"
  prevalidated :: "bool option"

record ValidationResult =
  authorization_status :: AuthorizationStatus
  val_reason :: "string option"
  val_expiry_time :: "string option"
  val_parent_id_token :: "string option"
  evse_ids :: "int list option"

definition default_ValidationResult :: "AuthorizationStatus \<Rightarrow> ValidationResult" where
  "default_ValidationResult s = \<lparr>authorization_status = s, val_reason = None,
     val_expiry_time = None, val_parent_id_token = None, evse_ids = None\<rparr>"

record Identifier =
  ident_id_token :: string
  ident_type :: TokenType
  ident_status :: "AuthorizationStatus option"
  ident_expiry_time :: "string option"
  ident_parent_id_token :: "string option"

section \<open>State machine\<close>

datatype ConnectorStatusTransition =
    ENABLE | DISABLE | ERROR_CLEARED | FAULTED_EV | TRANSACTION_STARTED | SESSION_FINISHED

datatype ConnectorState =
    AVAILABLE | UNAVAILABLE | FAULTED | OCCUPIED | UNAVAILABLE_FAULTED | FAULTED_OCCUPIED

fun sd_transitions :: "ConnectorState \<Rightarrow> ConnectorStatusTransition \<Rightarrow> ConnectorState option" where
  "sd_transitions AVAILABLE ev =
     (case ev of TRANSACTION_STARTED \<Rightarrow> Some OCCUPIED | FAULTED_EV \<Rightarrow> Some FAULTED
      | DISABLE \<Rightarrow> Some UNAVAILABLE | _ \<Rightarrow> None)"
| "sd_transitions OCCUPIED ev =
     (case ev of SESSION_FINISHED \<Rightarrow> Some AVAILABLE | FAULTED_EV \<Rightarrow> Some FAULTED_OCCUPIED | _ \<Rightarrow> None)"
| "sd_transitions FAULTED ev =
     (case ev of ERROR_CLEARED \<Rightarrow> Some AVAILABLE | DISABLE \<Rightarrow> Some UNAVAILABLE_FAULTED | _ \<Rightarrow> None)"
| "sd_transitions UNAVAILABLE ev =
     (case ev of ENABLE \<Rightarrow> Some AVAILABLE | FAULTED_EV \<Rightarrow> Some UNAVAILABLE_FAULTED | _ \<Rightarrow> None)"
| "sd_transitions UNAVAILABLE_FAULTED ev =
     (case ev of ENABLE \<Rightarrow> Some FAULTED | ERROR_CLEARED \<Rightarrow> Some UNAVAILABLE | _ \<Rightarrow> None)"
| "sd_transitions FAULTED_OCCUPIED ev =
     (case ev of SESSION_FINISHED \<Rightarrow> Some FAULTED | ERROR_CLEARED \<Rightarrow> Some OCCUPIED | _ \<Rightarrow> None)"

text \<open>
  The controller of \<open>libfsm\<close>: \<open>reset\<close> to an initial state, and \<open>submit_event\<close> followed by
  \<open>feed\<close> on a transition table. Every state's handler stores the entered state in \<open>state\<close>.
  Its documented behaviour is to enter the state the table gives, and to stay when the table
  gives none.
\<close>

record controller =
  fsm_reset :: "ConnectorState \<Rightarrow> ConnectorState"
  fsm_feed :: "(ConnectorState \<Rightarrow> ConnectorStatusTransition \<Rightarrow> ConnectorState option)
               \<Rightarrow> ConnectorState \<Rightarrow> ConnectorStatusTransition \<Rightarrow> ConnectorState"

definition sync_controller :: "controller \<Rightarrow> bool" where
  "sync_controller ctrl \<longleftrightarrow>
     (\<forall>s. fsm_reset ctrl s = s)
     \<and> (\<forall>t s e. fsm_feed ctrl t s e = (case t s e of None \<Rightarrow> s | Some s' \<Rightarrow> s'))"

definition reference_controller :: controller where
  "reference_controller = \<lparr>fsm_reset = (\<lambda>s. s),
     fsm_feed = (\<lambda>t s e. case t s e of None \<Rightarrow> s | Some s' \<Rightarrow> s')\<rparr>"

lemma reference_controller_sync [simp]: "sync_controller reference_controller"
  by (simp add: sync_controller_def reference_controller_def)

section \<open>Connector\<close>

record Connector =
  conn_id :: int
  transaction_active :: bool
  state :: ConnectorState
  conn_identifier :: "Identifier option"
  is_reservable :: bool
  reserved :: bool

definition new_Connector :: "controller \<Rightarrow> int \<Rightarrow> Connector" where
  "new_Connector ctrl cid = \<lparr>conn_id = cid, transaction_active = False,
     state = fsm_reset ctrl AVAILABLE, conn_identifier = None, is_reservable = True, reserved = False\<rparr>"

definition submit_event :: "controller \<Rightarrow> ConnectorStatusTransition \<Rightarrow> Connector \<Rightarrow> Connector" where
  "submit_event ctrl ev c = c\<lparr>state := fsm_feed ctrl sd_transitions (state c) ev\<rparr>"

definition get_state :: "Connector \<Rightarrow> ConnectorState" where
  "get_state c = state c"

definition is_unavailable :: "Connector \<Rightarrow> bool" where
  "is_unavailable c = (get_state c = UNAVAILABLE \<or> get_state c = UNAVAILABLE_FAULTED)"

fun connector_state_to_string :: "ConnectorState \<Rightarrow> string" where
  "connector_state_to_string AVAILABLE = ''AVAILABLE''"
| "connector_state_to_string OCCUPIED = ''OCCUPIED''"
| "connector_state_to_string UNAVAILABLE = ''UNAVAILABLE''"
| "connector_state_to_string FAULTED = ''FAULTED''"
| "connector_state_to_string FAULTED_OCCUPIED = ''FAULTED_OCCUPIED''"
| "connector_state_to_string UNAVAILABLE_FAULTED = ''UNAVAILABLE_FAULTED''"

record ConnectorContext =
  evse_index :: int
  connector :: Connector

section \<open>The six states are a usage mode and an independent fault flag\<close>

datatype usage = Free | Occ | Dis

fun usage_of :: "ConnectorState \<Rightarrow> usage" where
  "usage_of AVAILABLE = Free"
| "usage_of FAULTED = Free"
| "usage_of OCCUPIED = Occ"
| "usage_of FAULTED_OCCUPIED = Occ"
| "usage_of UNAVAILABLE = Dis"
| "usage_of UNAVAILABLE_FAULTED = Dis"

definition faulted :: "ConnectorState \<Rightarrow> bool" where
  "faulted s = (s \<in> {FAULTED, FAULTED_OCCUPIED, UNAVAILABLE_FAULTED})"

definition abs_state :: "ConnectorState \<Rightarrow> usage \<times> bool" where
  "abs_state s = (usage_of s, faulted s)"

fun usage_step :: "bool \<Rightarrow> usage \<Rightarrow> ConnectorStatusTransition \<Rightarrow> usage" where
  "usage_step f Free TRANSACTION_STARTED = (if f then Free else Occ)"
| "usage_step f Free DISABLE = Dis"
| "usage_step f Occ SESSION_FINISHED = Free"
| "usage_step f Dis ENABLE = Free"
| "usage_step f u ev = u"

definition fault_step :: "bool \<Rightarrow> ConnectorStatusTransition \<Rightarrow> bool" where
  "fault_step f ev = (if ev = FAULTED_EV then True else if ev = ERROR_CLEARED then False else f)"

lemma abs_state_inj: "abs_state s = abs_state t \<Longrightarrow> s = t"
  by (cases s; cases t) (simp_all add: abs_state_def faulted_def)

lemma submit_event_state:
  "sync_controller ctrl \<Longrightarrow>
   state (submit_event ctrl ev c)
   = (case sd_transitions (state c) ev of None \<Rightarrow> state c | Some s' \<Rightarrow> s')"
  by (simp add: submit_event_def sync_controller_def)

text \<open>
  C18: the connector state machine refines the product of two independent machines, one for the
  usage of the connector (free, occupied, disabled) and one for its fault flag; the only
  coupling is that a transaction cannot start on a faulted connector. Submitting an event to a
  connector moves its abstract state accordingly.
\<close>

theorem submit_event_refines_product:
  assumes "sync_controller ctrl"
  shows "abs_state (state (submit_event ctrl ev c)) =
    (let (u, f) = abs_state (state c) in (usage_step f u ev, fault_step f ev))"
  using submit_event_state [OF assms, of ev c]
  by (cases "state c"; cases ev) (simp_all add: abs_state_def faulted_def fault_step_def)

theorem submit_event_refines_product_witness:
  "abs_state (state (submit_event reference_controller FAULTED_EV
      ((new_Connector reference_controller 1)\<lparr>state := OCCUPIED\<rparr>))) = (Occ, True)"
  by (subst submit_event_refines_product)
     (simp_all add: abs_state_def faulted_def fault_step_def)

end
