(* ===== verification/Auth_Reservation.thy ===== *)
theory Auth_Reservation
  imports Auth_Connector
begin

text \<open>
  The \<open>ReservationHandler\<close> of the Auth module (\<open>lib/ReservationHandler.cpp\<close>). The timer of a
  connector and the cancellation callback are outputs. The clock and the RFC 3339 parser of
  the framework are parameters: \<open>now\<close> and \<open>from_rfc3339\<close>.
\<close>

section \<open>Data\<close>

datatype ReservationResult = RR_Accepted | RR_Faulted | RR_Occupied | RR_Rejected | RR_Unavailable

record Reservation =
  reservation_id :: int
  res_id_token :: string
  res_expiry_time :: string
  res_parent_id_token :: "string option"

text \<open>The value that \<open>operator[]\<close> creates.\<close>

definition default_Reservation :: Reservation where
  "default_Reservation = \<lparr>reservation_id = 0, res_id_token = [], res_expiry_time = [],
     res_parent_id_token = None\<rparr>"

datatype reservation_effect =
    Timer_at int timepoint Reservation
  | Timer_stop int
  | Cancelled_callback int

record ReservationHandler =
  reservations :: "Reservation std_map"
  res_effects :: "reservation_effect list"

definition res_emit :: "reservation_effect \<Rightarrow> ReservationHandler \<Rightarrow> ReservationHandler" where
  "res_emit e h = h\<lparr>res_effects := res_effects h @ [e]\<rparr>"

section \<open>Operations\<close>

definition matches_reserved_identifier ::
    "int \<Rightarrow> string \<Rightarrow> string option \<Rightarrow> ReservationHandler \<Rightarrow> bool \<times> ReservationHandler" where
  "matches_reserved_identifier cid tok parent_id_token h =
    (let h = h\<lparr>reservations := std_touch default_Reservation cid (reservations h)\<rparr>;
         r = std_get default_Reservation cid (reservations h)
     in (res_id_token r = tok
         \<or> (parent_id_token \<noteq> None \<and> res_parent_id_token r \<noteq> None
            \<and> the parent_id_token = the (res_parent_id_token r)), h))"

definition reserve ::
    "(string \<Rightarrow> timepoint) \<Rightarrow> timepoint \<Rightarrow> int \<Rightarrow> ConnectorState \<Rightarrow> bool \<Rightarrow> Reservation
     \<Rightarrow> ReservationHandler \<Rightarrow> ReservationResult \<times> ReservationHandler" where
  "reserve from_rfc3339 now cid st reservable reservation h =
    (if st = UNAVAILABLE then (RR_Unavailable, h)
     else if st = FAULTED then (RR_Faulted, h)
     else if now > from_rfc3339 (res_expiry_time reservation) then (RR_Rejected, h)
     else if \<not> reservable then (RR_Occupied, h)
     else if map_of (reservations h) cid = None then
       (RR_Accepted,
        res_emit (Timer_at cid (from_rfc3339 (res_expiry_time reservation)) reservation)
          (h\<lparr>reservations := std_insert cid reservation (reservations h)\<rparr>))
     else (RR_Occupied, h))"

text \<open>The loop of \<open>cancel_reservation\<close> has no \<open>break\<close>: the last match wins.\<close>

fun find_reservation :: "int \<Rightarrow> int \<Rightarrow> Reservation std_map \<Rightarrow> int" where
  "find_reservation rid found [] = found"
| "find_reservation rid found ((cid, r) # m) =
     find_reservation rid (if reservation_id r = rid then cid else found) m"

definition cancel_reservation ::
    "int \<Rightarrow> bool \<Rightarrow> ReservationHandler \<Rightarrow> int \<times> ReservationHandler" where
  "cancel_reservation rid execute_callback h =
    (let cid = find_reservation rid (- 1) (reservations h)
     in if cid \<noteq> - 1 then
          (let h = res_emit (Timer_stop cid) h;
               h = h\<lparr>reservations := std_erase cid (reservations h)\<rparr>;
               h = (if execute_callback then res_emit (Cancelled_callback cid) h else h)
           in (cid, h))
        else (cid, h))"

definition on_reservation_used :: "int \<Rightarrow> ReservationHandler \<Rightarrow> ReservationHandler" where
  "on_reservation_used cid h =
    (let h = h\<lparr>reservations := std_touch default_Reservation cid (reservations h)\<rparr>;
         r = std_get default_Reservation cid (reservations h)
     in snd (cancel_reservation (reservation_id r) False h))"

definition reservation_expired :: "Reservation \<Rightarrow> ReservationHandler \<Rightarrow> ReservationHandler" where
  "reservation_expired reservation h = snd (cancel_reservation (reservation_id reservation) True h)"

lemmas reservation_defs [auth_defs] =
  matches_reserved_identifier_def reserve_def cancel_reservation_def on_reservation_used_def
  reservation_expired_def res_emit_def

section \<open>Looking up a reservation by its id\<close>

definition unique_ids :: "Reservation std_map \<Rightarrow> bool" where
  "unique_ids m \<longleftrightarrow> (\<forall>c c' r r'. map_of m c = Some r \<and> map_of m c' = Some r'
     \<and> reservation_id r = reservation_id r' \<longrightarrow> c = c')"

lemma find_reservation_result:
  "find_reservation rid found m = found
   \<or> (\<exists>r. (find_reservation rid found m, r) \<in> set m \<and> reservation_id r = rid)"
  by (induction m arbitrary: found) (auto split: if_splits, blast+)

lemma find_reservation_hit:
  "(cid, r) \<in> set m \<Longrightarrow> reservation_id r = rid \<Longrightarrow>
   \<exists>r'. (find_reservation rid found m, r') \<in> set m \<and> reservation_id r' = rid"
proof (induction m arbitrary: found)
  case (Cons e m)
  show ?case
  proof (cases "(cid, r) \<in> set m")
    case True
    then show ?thesis using Cons.IH [OF True Cons.prems(2)] by (cases e) auto
  next
    case False
    then have "e = (cid, r)" using Cons.prems(1) by simp
    then show ?thesis
      using find_reservation_result [of rid cid m] Cons.prems(2) by auto
  qed
qed simp

lemma find_reservation_unique:
  assumes "std_map_ok m" "unique_ids m" "map_of m cid = Some r"
  shows "find_reservation (reservation_id r) found m = cid"
proof -
  have dist: "distinct (map fst m)" using assms(1) by (rule map_of_distinct_keys)
  have "(cid, r) \<in> set m" using assms(3) by (rule map_of_SomeD)
  from find_reservation_hit [OF this refl, of found] obtain r' where
    "(find_reservation (reservation_id r) found m, r') \<in> set m" "reservation_id r' = reservation_id r"
    by auto
  then show ?thesis
    using assms(2,3) map_of_is_SomeI [OF dist] unfolding unique_ids_def by blast
qed

lemma find_reservation_absent:
  "\<forall>r\<in>ran (map_of m). reservation_id r \<noteq> rid \<Longrightarrow> distinct (map fst m) \<Longrightarrow>
   find_reservation rid found m = found"
  using find_reservation_result [of rid found m]
  by (metis map_of_is_SomeI ranI)

section \<open>The contract of the reservation service\<close>

text \<open>
  What the AuthHandler relies on: a service that keeps one reservation per connector, reached
  through \<open>lookup\<close>. \<open>place\<close> stores a reservation on a free connector and \<open>release\<close> removes
  the reservation with the given id and names its connector.
\<close>

locale reservation_service =
  fixes valid :: "'s \<Rightarrow> bool"
    and usable :: "Reservation \<Rightarrow> bool"
    and lookup :: "'s \<Rightarrow> int \<Rightarrow> Reservation option"
    and place :: "int \<Rightarrow> Reservation \<Rightarrow> 's \<Rightarrow> bool \<times> 's"
    and release :: "int \<Rightarrow> 's \<Rightarrow> int \<times> 's"
  assumes place_free: "valid s \<Longrightarrow> usable r \<Longrightarrow> lookup s c = None \<Longrightarrow>
        (\<forall>c' r'. lookup s c' = Some r' \<longrightarrow> reservation_id r' \<noteq> reservation_id r) \<Longrightarrow>
        fst (place c r s) \<and> valid (snd (place c r s))
        \<and> lookup (snd (place c r s)) = (lookup s)(c \<mapsto> r)"
    and place_taken: "lookup s c \<noteq> None \<Longrightarrow> place c r s = (False, s)"
    and release_hit: "valid s \<Longrightarrow> lookup s c = Some r \<Longrightarrow> c \<noteq> - 1 \<Longrightarrow>
        fst (release (reservation_id r) s) = c \<and> valid (snd (release (reservation_id r) s))
        \<and> lookup (snd (release (reservation_id r) s)) = (lookup s)(c := None)"
    and release_miss: "valid s \<Longrightarrow>
        (\<forall>c r. lookup s c = Some r \<longrightarrow> reservation_id r \<noteq> i) \<Longrightarrow> release i s = (- 1, s)"
begin

lemma place_release:
  assumes "valid s" "usable r" "lookup s c = None" "c \<noteq> - 1"
    "\<forall>c' r'. lookup s c' = Some r' \<longrightarrow> reservation_id r' \<noteq> reservation_id r"
  shows "fst (release (reservation_id r) (snd (place c r s))) = c
    \<and> lookup (snd (release (reservation_id r) (snd (place c r s)))) = lookup s
    \<and> fst (place c r s)"
proof -
  let ?s = "snd (place c r s)"
  have "fst (place c r s)" "valid ?s" and l: "lookup ?s = (lookup s)(c \<mapsto> r)"
    using place_free [OF assms(1,2,3,5)] by auto
  then have "fst (release (reservation_id r) ?s) = c
      \<and> lookup (snd (release (reservation_id r) ?s)) = (lookup ?s)(c := None)"
    using release_hit [of ?s c r] assms(4) by simp
  then show ?thesis using l \<open>fst (place c r s)\<close> assms(3) by (auto simp: fun_eq_iff)
qed

lemma release_twice:
  assumes "valid s" "lookup s c = Some r" "c \<noteq> - 1"
    "\<forall>c' r'. lookup s c' = Some r' \<and> reservation_id r' = reservation_id r \<longrightarrow> c' = c"
  shows "release (reservation_id r) (snd (release (reservation_id r) s))
     = (- 1, snd (release (reservation_id r) s))"
  using release_hit [OF assms(1-3)] assms(4) by (intro release_miss) (auto split: if_splits)

end

definition valid_reservations :: "ReservationHandler \<Rightarrow> bool" where
  "valid_reservations h = (std_map_ok (reservations h) \<and> unique_ids (reservations h))"

definition place_reservation ::
    "(string \<Rightarrow> timepoint) \<Rightarrow> timepoint \<Rightarrow> int \<Rightarrow> Reservation \<Rightarrow> ReservationHandler
     \<Rightarrow> bool \<times> ReservationHandler" where
  "place_reservation from_rfc3339 now cid r h =
     apfst (\<lambda>res. res = RR_Accepted) (reserve from_rfc3339 now cid AVAILABLE True r h)"

definition unexpired :: "(string \<Rightarrow> timepoint) \<Rightarrow> timepoint \<Rightarrow> Reservation \<Rightarrow> bool" where
  "unexpired from_rfc3339 now r = (\<not> now > from_rfc3339 (res_expiry_time r))"

lemma cancel_hit:
  assumes "valid_reservations h" "map_of (reservations h) c = Some r" "c \<noteq> - 1"
  shows "fst (cancel_reservation (reservation_id r) b h) = c"
    "reservations (snd (cancel_reservation (reservation_id r) b h)) = std_erase c (reservations h)"
  using assms find_reservation_unique [of "reservations h" c r "- 1"]
  by (simp_all add: valid_reservations_def cancel_reservation_def res_emit_def Let_def)

lemma cancel_miss:
  assumes "valid_reservations h"
    "\<forall>c r. map_of (reservations h) c = Some r \<longrightarrow> reservation_id r \<noteq> i"
  shows "cancel_reservation i b h = (- 1, h)"
proof -
  have "\<forall>r\<in>ran (map_of (reservations h)). reservation_id r \<noteq> i"
    using assms(2) by (auto simp: ran_def)
  then have "find_reservation i (- 1) (reservations h) = - 1"
    using assms(1) by (intro find_reservation_absent map_of_distinct_keys)
      (simp_all add: valid_reservations_def)
  then show ?thesis by (simp add: cancel_reservation_def)
qed

text \<open>The model provides the contract, for reservations that have not expired.\<close>

interpretation rs: reservation_service valid_reservations "unexpired from_rfc3339 now"
  "\<lambda>h. map_of (reservations h)" "place_reservation from_rfc3339 now"
  "\<lambda>i. cancel_reservation i b" for from_rfc3339 now b
proof (unfold_locales, goal_cases)
  case (1 s r c)
  have "unique_ids (std_insert c r (reservations s))"
    using 1(1,4) unfolding unique_ids_def valid_reservations_def map_of_std_insert fun_upd_apply
    by (metis option.inject)
  with 1 show ?case
    by (simp add: place_reservation_def reserve_def res_emit_def valid_reservations_def
        unexpired_def std_insert_ok)
next
  case (2 s c r)
  then show ?case by (auto simp: place_reservation_def reserve_def)
next
  case (3 s c r)
  then show ?case
    using cancel_hit [OF 3] by (auto simp: valid_reservations_def unique_ids_def split: if_splits)
next
  case (4 s i)
  then show ?case by (rule cancel_miss)
qed

end
