(* ===== verification/Auth_Handler.thy ===== *)
theory Auth_Handler
  imports Auth_Reservation
begin

text \<open>
  The \<open>AuthHandler\<close> of the Auth module (\<open>lib/AuthHandler.cpp\<close>) and the command handlers in
  front of it (\<open>Auth.cpp\<close>, \<open>reservation/reservationImpl.cpp\<close>). Callbacks into the EVSE
  managers and timer operations are outputs. What happens on other threads while a token
  handler waits (for the validators, or on the condition variable) is an argument: the list
  of events that are delivered meanwhile. Exceptions are values of \<open>auth_error\<close>; locking a
  plug-in mutex that the handler already holds is the error \<open>Deadlock\<close>.
\<close>

section \<open>Data\<close>

datatype TokenHandlingResult =
    ACCEPTED | ALREADY_IN_PROCESS | REJECTED | USED_TO_STOP_TRANSACTION | TIMEOUT
  | NO_CONNECTOR_AVAILABLE

fun token_handling_result_to_string :: "TokenHandlingResult \<Rightarrow> string" where
  "token_handling_result_to_string ACCEPTED = ''ACCEPTED''"
| "token_handling_result_to_string ALREADY_IN_PROCESS = ''ALREADY_IN_PROCESS''"
| "token_handling_result_to_string NO_CONNECTOR_AVAILABLE = ''NO_CONNECTOR_AVAILABLE''"
| "token_handling_result_to_string REJECTED = ''REJECTED''"
| "token_handling_result_to_string TIMEOUT = ''TIMEOUT''"
| "token_handling_result_to_string USED_TO_STOP_TRANSACTION = ''USED_TO_STOP_TRANSACTION''"

datatype auth_error = Out_of_range | Bad_optional_access | Deadlock

datatype auth_timer = Authorization_timer | Plug_in_timer

datatype auth_effect =
    Notify_evse int ProvidedIdToken ValidationResult
  | Withdraw_authorization int
  | Stop_transaction int StopTransactionRequest
  | Reserved_callback int int
  | Reservation_cancelled int
  | Timeout_timer_stop int
  | Timeout_timer_start int auth_timer int

record AuthHandler =
  selection_algorithm :: SelectionAlgorithm
  connection_timeout :: int
  prioritize_authorization_over_stopping_transaction :: bool
  reservation_handler :: ReservationHandler
  connectors :: "ConnectorContext std_map"
  plug_in_queue :: "int list"
  plug_in_locked :: "int set"
  tokens_in_process :: "string set"
  auth_trace :: "auth_effect list"

type_synonym 'a auth_m = "(auth_error, 'a) result"

definition new_AuthHandler :: "SelectionAlgorithm \<Rightarrow> int \<Rightarrow> bool \<Rightarrow> AuthHandler" where
  "new_AuthHandler alg timeout prio = \<lparr>selection_algorithm = alg, connection_timeout = timeout,
     prioritize_authorization_over_stopping_transaction = prio,
     reservation_handler = \<lparr>reservations = [], res_effects = []\<rparr>, connectors = [],
     plug_in_queue = [], plug_in_locked = {}, tokens_in_process = {}, auth_trace = []\<rparr>"

definition auth_emit :: "auth_effect \<Rightarrow> AuthHandler \<Rightarrow> AuthHandler" where
  "auth_emit e a = a\<lparr>auth_trace := auth_trace a @ [e]\<rparr>"

definition connectors_at :: "int \<Rightarrow> AuthHandler \<Rightarrow> ConnectorContext auth_m" where
  "connectors_at cid a =
     (case map_of (connectors a) cid of None \<Rightarrow> Inl Out_of_range | Some ctx \<Rightarrow> Inr ctx)"

definition set_connector :: "int \<Rightarrow> (Connector \<Rightarrow> Connector) \<Rightarrow> AuthHandler \<Rightarrow> AuthHandler" where
  "set_connector cid f a =
     a\<lparr>connectors := std_update cid (\<lambda>ctx. ctx\<lparr>connector := f (connector ctx)\<rparr>) (connectors a)\<rparr>"

definition init_connector :: "controller \<Rightarrow> int \<Rightarrow> int \<Rightarrow> AuthHandler \<Rightarrow> AuthHandler" where
  "init_connector ctrl cid index a =
     a\<lparr>connectors := std_emplace cid
         \<lparr>evse_index = index, connector = new_Connector ctrl cid\<rparr> (connectors a)\<rparr>"

section \<open>Session events and timers\<close>

record SessionEvent =
  event :: SessionEventEnum
  session_started_reason :: "StartSessionReason option"

definition remove_from_queue :: "int \<Rightarrow> AuthHandler \<Rightarrow> AuthHandler" where
  "remove_from_queue cid a = a\<lparr>plug_in_queue := filter (\<lambda>v. v \<noteq> cid) (plug_in_queue a)\<rparr>"

definition handle_session_event ::
    "controller \<Rightarrow> int \<Rightarrow> SessionEvent \<Rightarrow> AuthHandler \<Rightarrow> AuthHandler auth_m" where
  "handle_session_event ctrl cid ev a =
    bind_res (connectors_at cid a) (\<lambda>_.
     case event ev of
       SE_SessionStarted \<Rightarrow>
         (let a = set_connector cid (\<lambda>c. c\<lparr>is_reservable := False\<rparr>) a;
              a = a\<lparr>plug_in_queue := plug_in_queue a @ [cid]\<rparr>
          in case session_started_reason ev of
               None \<Rightarrow> Inl Bad_optional_access
             | Some r \<Rightarrow>
                 Inr (if r = EVConnected
                      then auth_emit (Timeout_timer_start cid Plug_in_timer (connection_timeout a)) a
                      else a))
     | SE_TransactionStarted \<Rightarrow>
         Inr (auth_emit (Timeout_timer_stop cid)
               (set_connector cid
                 (\<lambda>c. submit_event ctrl TRANSACTION_STARTED
                        (c\<lparr>transaction_active := True, reserved := False\<rparr>)) a))
     | SE_TransactionFinished \<Rightarrow>
         Inr (set_connector cid (\<lambda>c. c\<lparr>transaction_active := False, conn_identifier := None\<rparr>) a)
     | SE_SessionFinished \<Rightarrow>
         Inr (auth_emit (Timeout_timer_stop cid)
               (set_connector cid
                 (\<lambda>c. submit_event ctrl ERROR_CLEARED (submit_event ctrl SESSION_FINISHED
                        (c\<lparr>is_reservable := True, conn_identifier := None\<rparr>))) a))
     | SE_PermanentFault \<Rightarrow> Inr (set_connector cid (submit_event ctrl FAULTED_EV) a)
     | SE_Error \<Rightarrow> Inr (set_connector cid (submit_event ctrl FAULTED_EV) a)
     | SE_Disabled \<Rightarrow> Inr (set_connector cid (submit_event ctrl DISABLE) a)
     | SE_Enabled \<Rightarrow> Inr (set_connector cid (submit_event ctrl ENABLE) a)
     | SE_ReservationStart \<Rightarrow> Inr (set_connector cid (\<lambda>c. c\<lparr>reserved := True\<rparr>) a)
     | SE_ReservationEnd \<Rightarrow>
         Inr (set_connector cid (\<lambda>c. c\<lparr>is_reservable := True, reserved := False\<rparr>) a)
     | _ \<Rightarrow> Inr a)"

text \<open>The two functions that a connector's timeout timer runs.\<close>

definition authorization_timeout :: "int \<Rightarrow> AuthHandler \<Rightarrow> AuthHandler auth_m" where
  "authorization_timeout cid a =
    bind_res (connectors_at cid a) (\<lambda>ctx.
      Inr (auth_emit (Withdraw_authorization (evse_index ctx))
            (set_connector cid (\<lambda>c. c\<lparr>conn_identifier := None\<rparr>) a)))"

definition plug_in_timeout :: "int \<Rightarrow> AuthHandler \<Rightarrow> AuthHandler" where
  "plug_in_timeout cid a = remove_from_queue cid a"

text \<open>What other threads may do while a token handler waits.\<close>

datatype auth_event =
    Session_event int SessionEvent
  | Authorization_timeout int
  | Plug_in_timeout int

text \<open>An exception stays on the thread that raised it.\<close>

definition or_else :: "AuthHandler \<Rightarrow> AuthHandler auth_m \<Rightarrow> AuthHandler" where
  "or_else a r = (case r of Inl _ \<Rightarrow> a | Inr a' \<Rightarrow> a')"

fun deliver :: "controller \<Rightarrow> auth_event \<Rightarrow> AuthHandler \<Rightarrow> AuthHandler" where
  "deliver ctrl (Session_event cid ev) a = or_else a (handle_session_event ctrl cid ev a)"
| "deliver ctrl (Authorization_timeout cid) a = or_else a (authorization_timeout cid a)"
| "deliver ctrl (Plug_in_timeout cid) a = plug_in_timeout cid a"

record auth_env =
  ctrl :: controller
  validate_token :: "ProvidedIdToken \<Rightarrow> ValidationResult list"
  during_validation :: "auth_event list"
  during_wait :: "nat \<Rightarrow> auth_event list"

section \<open>Queries on the connectors\<close>

definition get_referenced_connectors :: "ProvidedIdToken \<Rightarrow> AuthHandler \<Rightarrow> int list" where
  "get_referenced_connectors tok a =
    (case token_connectors tok of
       Some cs \<Rightarrow> filter (\<lambda>cid. case map_of (connectors a) cid of
                            Some ctx \<Rightarrow> \<not> is_unavailable (connector ctx) | None \<Rightarrow> False) cs
     | None \<Rightarrow> map fst (filter (\<lambda>e. \<not> is_unavailable (connector (snd e))) (connectors a)))"

definition identifies :: "string \<Rightarrow> Connector \<Rightarrow> bool" where
  "identifies tok c =
    (case conn_identifier c of
       None \<Rightarrow> False
     | Some ident \<Rightarrow> ident_id_token ident = tok \<or> ident_parent_id_token ident = Some tok)"

fun used_for_transaction :: "int list \<Rightarrow> string \<Rightarrow> AuthHandler \<Rightarrow> int auth_m" where
  "used_for_transaction [] tok a = Inr (- 1)"
| "used_for_transaction (cid # cids) tok a =
     bind_res (connectors_at cid a) (\<lambda>ctx.
       if identifies tok (connector ctx) then Inr cid else used_for_transaction cids tok a)"

fun authorized_without_transaction :: "string \<Rightarrow> int list \<Rightarrow> AuthHandler \<Rightarrow> bool auth_m" where
  "authorized_without_transaction tok [] a = Inr False"
| "authorized_without_transaction tok (cid # cids) a =
     bind_res (connectors_at cid a) (\<lambda>ctx.
       if (case conn_identifier (connector ctx) of
             None \<Rightarrow> False | Some ident \<Rightarrow> ident_id_token ident = tok)
          \<and> \<not> transaction_active (connector ctx)
       then Inr True else authorized_without_transaction tok cids a)"

definition is_token_already_in_process :: "string \<Rightarrow> int list \<Rightarrow> AuthHandler \<Rightarrow> bool auth_m" where
  "is_token_already_in_process tok referenced a =
     (if tok \<in> tokens_in_process a then Inr True
      else authorized_without_transaction tok referenced a)"

fun any_connector_available :: "int list \<Rightarrow> AuthHandler \<Rightarrow> bool auth_m" where
  "any_connector_available [] a = Inr False"
| "any_connector_available (cid # cids) a =
     bind_res (connectors_at cid a) (\<lambda>ctx.
       let st = get_state (connector ctx)
       in if st \<noteq> UNAVAILABLE \<and> st \<noteq> OCCUPIED \<and> st \<noteq> FAULTED then Inr True
          else any_connector_available cids a)"

definition get_latest_plugin :: "int list \<Rightarrow> AuthHandler \<Rightarrow> int" where
  "get_latest_plugin cids a =
     (case filter (\<lambda>c. c \<in> set cids) (plug_in_queue a) of [] \<Rightarrow> - 1 | c # _ \<Rightarrow> c)"

section \<open>Selecting a connector\<close>

fun lock_plug_in_mutex :: "int list \<Rightarrow> AuthHandler \<Rightarrow> AuthHandler auth_m" where
  "lock_plug_in_mutex [] a = Inr a"
| "lock_plug_in_mutex (cid # cids) a =
     bind_res (connectors_at cid a) (\<lambda>_.
       if cid \<in> plug_in_locked a then Inl Deadlock
       else lock_plug_in_mutex cids (a\<lparr>plug_in_locked := insert cid (plug_in_locked a)\<rparr>))"

fun unlock_plug_in_mutex :: "int list \<Rightarrow> AuthHandler \<Rightarrow> AuthHandler auth_m" where
  "unlock_plug_in_mutex [] a = Inr a"
| "unlock_plug_in_mutex (cid # cids) a =
     bind_res (connectors_at cid a) (\<lambda>_.
       unlock_plug_in_mutex cids (a\<lparr>plug_in_locked := plug_in_locked a - {cid}\<rparr>))"

text \<open>
  \<open>cv.wait_for\<close>: the predicate is evaluated after every event; when the events are exhausted
  the wait has timed out.
\<close>

fun wait_for_plug_in ::
    "controller \<Rightarrow> int list \<Rightarrow> auth_event list \<Rightarrow> AuthHandler \<Rightarrow> bool \<times> AuthHandler" where
  "wait_for_plug_in k cids [] a = (get_latest_plugin cids a \<noteq> - 1, a)"
| "wait_for_plug_in k cids (e # es) a =
     (if get_latest_plugin cids a \<noteq> - 1 then (True, a)
      else wait_for_plug_in k cids es (deliver k e a))"

definition select_connector ::
    "controller \<Rightarrow> auth_event list \<Rightarrow> int list \<Rightarrow> AuthHandler \<Rightarrow> (int \<times> AuthHandler) auth_m" where
  "select_connector k es cids a =
    (if length cids = 1 then Inr (hd cids, a)
     else case selection_algorithm a of
       PlugEvents \<Rightarrow>
         bind_res (lock_plug_in_mutex cids a) (\<lambda>a.
          if get_latest_plugin cids a = - 1 then
            bind_res (unlock_plug_in_mutex cids a) (\<lambda>a.
              let (plugged, a) = wait_for_plug_in k cids es a
              in if \<not> plugged then Inr (- 1, a)
                 else bind_res (lock_plug_in_mutex cids a) (\<lambda>a.
                        Inr (get_latest_plugin cids a, a)))
          else Inr (get_latest_plugin cids a, a))
     | UserInput \<Rightarrow> (case cids of [] \<Rightarrow> Inl Out_of_range | c # _ \<Rightarrow> Inr (c, a)))"

section \<open>Handling a token\<close>

text \<open>
  \<open>std::set_intersection\<close> of two sorted ranges. \<open>intersect\<close> sorts its arguments in place, so
  the sorted lists are part of its result.
\<close>

fun set_intersection :: "int list \<Rightarrow> int list \<Rightarrow> int list" where
  "set_intersection [] bs = []"
| "set_intersection as [] = []"
| "set_intersection (a # as) (b # bs) =
     (if a < b then set_intersection as (b # bs)
      else if b < a then set_intersection (a # as) bs
      else a # set_intersection as bs)"

definition intersect :: "int list \<Rightarrow> int list \<Rightarrow> int list \<times> int list \<times> int list" where
  "intersect as bs = (let as = sort as; bs = sort bs in (set_intersection as bs, as, bs))"

definition notify_evse ::
    "int \<Rightarrow> ProvidedIdToken \<Rightarrow> ValidationResult \<Rightarrow> AuthHandler \<Rightarrow> AuthHandler auth_m" where
  "notify_evse cid tok vr a =
    bind_res (connectors_at cid a) (\<lambda>ctx.
      let a = (if authorization_status vr = AS_Accepted then
                 let ident = \<lparr>ident_id_token = id_token tok, ident_type = token_type tok,
                       ident_status = Some (authorization_status vr),
                       ident_expiry_time = val_expiry_time vr,
                       ident_parent_id_token = val_parent_id_token vr\<rparr>;
                     a = set_connector cid (\<lambda>c. c\<lparr>conn_identifier := Some ident\<rparr>) a;
                     a = auth_emit (Timeout_timer_stop cid) a;
                     a = auth_emit
                           (Timeout_timer_start cid Authorization_timer (connection_timeout a)) a
                 in remove_from_queue cid a
               else a)
      in Inr (auth_emit (Notify_evse (evse_index ctx) tok vr) a))"

definition stop_transaction_request :: "ProvidedIdToken \<Rightarrow> StopTransactionRequest" where
  "stop_transaction_request tok = \<lparr>reason = Local, id_tag = Some (id_token tok)\<rparr>"

fun stop_with_parent_id ::
    "int list \<Rightarrow> ProvidedIdToken \<Rightarrow> ValidationResult list \<Rightarrow> AuthHandler
     \<Rightarrow> (TokenHandlingResult option \<times> AuthHandler) auth_m" where
  "stop_with_parent_id referenced tok [] a = Inr (None, a)"
| "stop_with_parent_id referenced tok (vr # vrs) a =
     (case val_parent_id_token vr of
        None \<Rightarrow> stop_with_parent_id referenced tok vrs a
      | Some parent \<Rightarrow>
          bind_res (used_for_transaction referenced parent a) (\<lambda>cid.
            if cid \<noteq> - 1 then
              bind_res (connectors_at cid a) (\<lambda>ctx.
                if \<not> transaction_active (connector ctx) then Inr (Some ALREADY_IN_PROCESS, a)
                else Inr (Some USED_TO_STOP_TRANSACTION,
                      auth_emit (Stop_transaction (evse_index ctx) (stop_transaction_request tok)) a))
            else stop_with_parent_id referenced tok vrs a))"

text \<open>One round of the loop for an accepting result; the lists sorted by \<open>intersect\<close> are kept.\<close>

definition check_location ::
    "int list \<Rightarrow> ValidationResult \<Rightarrow> bool \<times> int list \<times> ValidationResult" where
  "check_location referenced vr =
    (case evse_ids vr of
       None \<Rightarrow> (True, referenced, vr)
     | Some ids \<Rightarrow>
         let (both, referenced, ids) = intersect referenced ids
         in (both \<noteq> [], referenced, vr\<lparr>evse_ids := Some ids\<rparr>))"

definition use_reservation ::
    "int \<Rightarrow> ProvidedIdToken \<Rightarrow> ValidationResult \<Rightarrow> AuthHandler \<Rightarrow> bool \<times> AuthHandler" where
  "use_reservation cid tok vr a =
    (let (ok, h) = matches_reserved_identifier cid (id_token tok) (val_parent_id_token vr)
                     (reservation_handler a);
         h = (if ok then on_reservation_used cid h else h)
     in (ok, a\<lparr>reservation_handler := h\<rparr>))"

definition authorize_at ::
    "int \<Rightarrow> int list \<Rightarrow> ProvidedIdToken \<Rightarrow> ValidationResult \<Rightarrow> AuthHandler
     \<Rightarrow> (bool \<times> int list \<times> AuthHandler) auth_m" where
  "authorize_at cid referenced tok vr a =
    (let (ok, referenced, vr) = check_location referenced vr
     in if \<not> ok then
          bind_res (notify_evse cid tok (vr\<lparr>authorization_status := AS_NotAtThisLocation\<rparr>) a)
            (\<lambda>a. Inr (False, referenced, a))
        else
          bind_res (connectors_at cid a) (\<lambda>ctx.
            if \<not> reserved (connector ctx) then
              bind_res (notify_evse cid tok vr a) (\<lambda>a. Inr (True, referenced, a))
            else
              let (ok, a) = use_reservation cid tok vr a;
                  vr = (if ok then vr else vr\<lparr>authorization_status := AS_NotAtThisTime\<rparr>)
              in bind_res (notify_evse cid tok vr a) (\<lambda>a. Inr (ok, referenced, a))))"

fun try_validation_results ::
    "auth_env \<Rightarrow> nat \<Rightarrow> ProvidedIdToken \<Rightarrow> ValidationResult list \<Rightarrow> int list \<Rightarrow> AuthHandler
     \<Rightarrow> (TokenHandlingResult \<times> AuthHandler) auth_m" where
  "try_validation_results env i tok [] referenced a = Inr (REJECTED, a)"
| "try_validation_results env i tok (vr # vrs) referenced a =
     (if referenced = [] then Inr (REJECTED, a)
      else if authorization_status vr = AS_Accepted then
        bind_res (select_connector (ctrl env) (during_wait env i) referenced a) (\<lambda>(cid, a).
          if cid \<noteq> - 1 then
            bind_res (authorize_at cid referenced tok vr a) (\<lambda>(authorized, referenced, a).
              if authorized then Inr (ACCEPTED, a)
              else try_validation_results env (i + 1) tok vrs referenced a)
          else Inr (TIMEOUT, a))
      else try_validation_results env (i + 1) tok vrs referenced a)"

definition validate ::
    "auth_env \<Rightarrow> ProvidedIdToken \<Rightarrow> AuthHandler \<Rightarrow> ValidationResult list \<times> AuthHandler" where
  "validate env tok a =
     (if prevalidated tok = Some True then ([default_ValidationResult AS_Accepted], a)
      else (validate_token env tok, fold (deliver (ctrl env)) (during_validation env) a))"

definition authorize_or_stop ::
    "auth_env \<Rightarrow> ProvidedIdToken \<Rightarrow> int list \<Rightarrow> ValidationResult list \<Rightarrow> AuthHandler
     \<Rightarrow> (TokenHandlingResult \<times> AuthHandler) auth_m" where
  "authorize_or_stop env tok referenced vrs a =
    bind_res (if prioritize_authorization_over_stopping_transaction a
              then bind_res (any_connector_available referenced a) (\<lambda>avail. Inr (\<not> avail))
              else Inr True) (\<lambda>attempt_stop.
    bind_res (if attempt_stop then stop_with_parent_id referenced tok vrs a else Inr (None, a))
      (\<lambda>(stopped, a).
    case stopped of
      Some r \<Rightarrow> Inr (r, a)
    | None \<Rightarrow>
        bind_res (any_connector_available referenced a) (\<lambda>avail.
          if \<not> avail then Inr (NO_CONNECTOR_AVAILABLE, a)
          else try_validation_results env 0 tok vrs referenced a)))"

definition handle_token ::
    "auth_env \<Rightarrow> ProvidedIdToken \<Rightarrow> AuthHandler \<Rightarrow> (TokenHandlingResult \<times> AuthHandler) auth_m" where
  "handle_token env tok a =
    (let referenced = get_referenced_connectors tok a
     in bind_res (if token_type tok = TT_RFID
                  then used_for_transaction referenced (id_token tok) a else Inr (- 1)) (\<lambda>cid.
        if cid \<noteq> - 1 then
          bind_res (connectors_at cid a) (\<lambda>ctx.
            Inr (USED_TO_STOP_TRANSACTION,
              auth_emit (Stop_transaction (evse_index ctx) (stop_transaction_request tok)) a))
        else
          let (vrs, a) = validate env tok a
          in authorize_or_stop env tok referenced vrs a))"

text \<open>
  \<open>on_token\<close> in its three critical sections: entry under \<open>token_in_process_mutex\<close>, the
  handler, and the removal of the token.
\<close>

definition on_token_enter ::
    "ProvidedIdToken \<Rightarrow> AuthHandler \<Rightarrow> (bool \<times> AuthHandler) auth_m" where
  "on_token_enter tok a =
    (let referenced = get_referenced_connectors tok a
     in bind_res (is_token_already_in_process (id_token tok) referenced a) (\<lambda>busy.
        if \<not> busy
        then Inr (True, a\<lparr>tokens_in_process := insert (id_token tok) (tokens_in_process a)\<rparr>)
        else Inr (False, a)))"

definition on_token_leave ::
    "ProvidedIdToken \<Rightarrow> TokenHandlingResult \<Rightarrow> AuthHandler \<Rightarrow> AuthHandler" where
  "on_token_leave tok result a =
     (if result \<noteq> ALREADY_IN_PROCESS
      then a\<lparr>tokens_in_process := tokens_in_process a - {id_token tok}\<rparr> else a)"

definition on_token ::
    "auth_env \<Rightarrow> ProvidedIdToken \<Rightarrow> AuthHandler \<Rightarrow> (TokenHandlingResult \<times> AuthHandler) auth_m" where
  "on_token env tok a =
    (let referenced = get_referenced_connectors tok a
     in bind_res (on_token_enter tok a) (\<lambda>(entered, a).
        if entered then
          bind_res (handle_token env tok a) (\<lambda>(result, a).
          bind_res (unlock_plug_in_mutex referenced a) (\<lambda>a.
            Inr (result, on_token_leave tok result a)))
        else Inr (ALREADY_IN_PROCESS, on_token_leave tok ALREADY_IN_PROCESS a)))"

section \<open>Reservations\<close>

definition call_reserved :: "int \<Rightarrow> int \<Rightarrow> AuthHandler \<Rightarrow> AuthHandler auth_m" where
  "call_reserved cid rid a =
     bind_res (connectors_at cid a) (\<lambda>ctx. Inr (auth_emit (Reserved_callback (evse_index ctx) rid) a))"

definition call_reservation_cancelled :: "int \<Rightarrow> AuthHandler \<Rightarrow> AuthHandler auth_m" where
  "call_reservation_cancelled cid a =
     bind_res (connectors_at cid a) (\<lambda>ctx. Inr (auth_emit (Reservation_cancelled (evse_index ctx)) a))"

definition handle_reservation ::
    "(string \<Rightarrow> timepoint) \<Rightarrow> timepoint \<Rightarrow> int \<Rightarrow> Reservation \<Rightarrow> AuthHandler
     \<Rightarrow> (ReservationResult \<times> AuthHandler) auth_m" where
  "handle_reservation from_rfc3339 now cid reservation a =
    bind_res (connectors_at cid a) (\<lambda>ctx.
      let (res, h) = reserve from_rfc3339 now cid (get_state (connector ctx))
                       (is_reservable (connector ctx)) reservation (reservation_handler a)
      in Inr (res, a\<lparr>reservation_handler := h\<rparr>))"

text \<open>
  Cancelling with the callback: the handler's registered function is
  \<open>call_reservation_cancelled\<close>.
\<close>

definition cancel_with_callback :: "int \<Rightarrow> AuthHandler \<Rightarrow> (int \<times> AuthHandler) auth_m" where
  "cancel_with_callback rid a =
    (let (cid, h) = cancel_reservation rid True (reservation_handler a);
         a = a\<lparr>reservation_handler := h\<rparr>
     in if cid \<noteq> - 1
        then bind_res (call_reservation_cancelled cid a) (\<lambda>a. Inr (cid, a))
        else Inr (cid, a))"

definition handle_cancel_reservation :: "int \<Rightarrow> AuthHandler \<Rightarrow> (int \<times> AuthHandler) auth_m" where
  "handle_cancel_reservation rid a = cancel_with_callback rid a"

definition handle_reserve_now ::
    "(string \<Rightarrow> timepoint) \<Rightarrow> timepoint \<Rightarrow> int \<Rightarrow> Reservation \<Rightarrow> AuthHandler
     \<Rightarrow> (ReservationResult \<times> AuthHandler) auth_m" where
  "handle_reserve_now from_rfc3339 now cid reservation a =
    bind_res (handle_reservation from_rfc3339 now cid reservation a) (\<lambda>(res, a).
      if res = RR_Accepted
      then bind_res (call_reserved cid (reservation_id reservation) a) (\<lambda>a. Inr (res, a))
      else Inr (res, a))"

definition impl_handle_cancel_reservation :: "int \<Rightarrow> AuthHandler \<Rightarrow> (bool \<times> AuthHandler) auth_m" where
  "impl_handle_cancel_reservation rid a =
    bind_res (handle_cancel_reservation rid a) (\<lambda>(cid, a).
      if cid \<noteq> - 1
      then bind_res (call_reservation_cancelled cid a) (\<lambda>a. Inr (True, a))
      else Inr (False, a))"

section \<open>Configuration and start-up\<close>

definition set_connection_timeout :: "int \<Rightarrow> AuthHandler \<Rightarrow> AuthHandler" where
  "set_connection_timeout t a = a\<lparr>connection_timeout := t\<rparr>"

definition set_prioritize :: "bool \<Rightarrow> AuthHandler \<Rightarrow> AuthHandler" where
  "set_prioritize b a = a\<lparr>prioritize_authorization_over_stopping_transaction := b\<rparr>"

text \<open>\<open>Auth::ready\<close>: one connector per EVSE manager, in order.\<close>

fun init_connectors :: "controller \<Rightarrow> int \<Rightarrow> int list \<Rightarrow> AuthHandler \<Rightarrow> AuthHandler" where
  "init_connectors k index [] a = a"
| "init_connectors k index (cid # cids) a =
     init_connectors k (index + 1) cids (init_connector k cid index a)"

definition auth_ready ::
    "controller \<Rightarrow> SelectionAlgorithm \<Rightarrow> int \<Rightarrow> bool \<Rightarrow> int list \<Rightarrow> AuthHandler" where
  "auth_ready k alg timeout prio ids = init_connectors k 0 ids (new_AuthHandler alg timeout prio)"

end
