(* ===== verification/Auth_Frame.thy ===== *)
theory Auth_Frame
  imports Auth_Handler
begin

text \<open>
  What the steps of the Auth module leave alone: the framework that the correctness proofs of
  the token handler rest on.
\<close>

section \<open>Monad rules\<close>

lemma connectors_at_simps [simp]:
  "connectors_at cid (auth_emit e a) = connectors_at cid a"
  "connectors_at cid (remove_from_queue c a) = connectors_at cid a"
  by (simp_all add: connectors_at_def auth_emit_def remove_from_queue_def)

lemma connectors_at_Inr: "connectors_at cid a = Inr ctx \<longleftrightarrow> map_of (connectors a) cid = Some ctx"
  by (simp add: connectors_at_def split: option.splits)

lemma connectors_at_Inl: "connectors_at cid a = Inl e \<longleftrightarrow>
    map_of (connectors a) cid = None \<and> e = Out_of_range"
  by (auto simp: connectors_at_def split: option.splits)

section \<open>Frames\<close>

definition evse_map :: "AuthHandler \<Rightarrow> int \<Rightarrow> int option" where
  "evse_map a = (\<lambda>cid. map_option evse_index (map_of (connectors a) cid))"

fun quiet :: "auth_effect \<Rightarrow> bool" where
  "quiet (Notify_evse _ _ _) = False"
| "quiet (Stop_transaction _ _) = False"
| "quiet _ = True"

text \<open>
  A step of another thread: it keeps which connectors exist, the reservations, the mutexes and
  the tokens in process, and neither notifies an EVSE nor stops a transaction.
\<close>

definition env_frame :: "AuthHandler \<Rightarrow> AuthHandler \<Rightarrow> bool" where
  "env_frame a a' \<longleftrightarrow>
     evse_map a' = evse_map a \<and> reservation_handler a' = reservation_handler a
     \<and> plug_in_locked a' = plug_in_locked a \<and> tokens_in_process a' = tokens_in_process a
     \<and> selection_algorithm a' = selection_algorithm a
     \<and> (\<exists>es. auth_trace a' = auth_trace a @ es \<and> list_all quiet es)"

lemma env_frame_refl [simp]: "env_frame a a"
  by (simp add: env_frame_def)

lemma env_frame_trans: "env_frame a b \<Longrightarrow> env_frame b c \<Longrightarrow> env_frame a c"
  by (auto simp: env_frame_def)

lemma env_frame_emit: "quiet e \<Longrightarrow> env_frame a b \<Longrightarrow> env_frame a (auth_emit e b)"
  by (auto simp: env_frame_def auth_emit_def evse_map_def)

lemma evse_map_set_connector [simp]: "evse_map (set_connector cid f a) = evse_map a"
  by (auto simp: evse_map_def set_connector_def fun_eq_iff option.map_comp comp_def)

lemma env_frame_set_connector: "env_frame a b \<Longrightarrow> env_frame a (set_connector cid f b)"
  unfolding env_frame_def by (simp add: set_connector_def) (simp add: evse_map_def fun_eq_iff
      option.map_comp comp_def)

lemma env_frame_queue: "env_frame a b \<Longrightarrow> env_frame a (b\<lparr>plug_in_queue := q\<rparr>)"
  by (simp add: env_frame_def evse_map_def)

lemmas env_frame_intros = env_frame_emit env_frame_set_connector env_frame_queue env_frame_refl

lemma handle_session_event_frame:
  "handle_session_event k cid ev a = Inr a' \<Longrightarrow> env_frame a a'"
  by (cases "event ev")
     (auto simp: handle_session_event_def bind_res_Inr_iff Let_def
       intro!: env_frame_intros split: option.splits if_splits)

lemma authorization_timeout_frame:
  "authorization_timeout cid a = Inr a' \<Longrightarrow> env_frame a a'"
  by (auto simp: authorization_timeout_def bind_res_Inr_iff intro!: env_frame_intros)

lemma deliver_frame: "env_frame a (deliver k e a)"
  by (cases e)
     (auto simp: or_else_def plug_in_timeout_def remove_from_queue_def intro!: env_frame_intros
       dest: handle_session_event_frame authorization_timeout_frame split: sum.splits)

lemma deliver_all_frame: "env_frame a (fold (deliver k) es a)"
  by (induction es arbitrary: a) (auto intro: env_frame_trans deliver_frame)

lemma wait_for_plug_in_frame:
  "env_frame a (snd (wait_for_plug_in k cids es a))"
  by (induction k cids es a rule: wait_for_plug_in.induct)
     (auto intro: env_frame_trans deliver_frame split: if_splits)

section \<open>Mutexes\<close>

text \<open>Locking and unlocking touch only the set of locked mutexes.\<close>

definition with_locks :: "AuthHandler \<Rightarrow> int set \<Rightarrow> AuthHandler" where
  "with_locks a L = a\<lparr>plug_in_locked := L\<rparr>"

lemma with_locks_simps [simp]:
  "connectors_at cid (with_locks a L) = connectors_at cid a"
  "plug_in_locked (with_locks a L) = L"
  "with_locks (with_locks a L) M = with_locks a M"
  "evse_map (with_locks a L) = evse_map a"
  "connectors (with_locks a L) = connectors a"
  "plug_in_queue (with_locks a L) = plug_in_queue a"
  "auth_trace (with_locks a L) = auth_trace a"
  "tokens_in_process (with_locks a L) = tokens_in_process a"
  "reservation_handler (with_locks a L) = reservation_handler a"
  "selection_algorithm (with_locks a L) = selection_algorithm a"
  "get_latest_plugin cids (with_locks a L) = get_latest_plugin cids a"
  by (simp_all add: with_locks_def connectors_at_def evse_map_def get_latest_plugin_def)

lemma lock_plug_in_mutex_Inr:
  "lock_plug_in_mutex cids a = Inr a' \<Longrightarrow> a' = with_locks a (plug_in_locked a \<union> set cids)"
proof (induction cids a rule: lock_plug_in_mutex.induct)
  case (2 cid cids a)
  then show ?case
    by (auto simp: bind_res_Inr_iff with_locks_def split: if_splits)
qed (simp add: with_locks_def)

lemma lock_plug_in_mutex_free:
  "set cids \<subseteq> dom (map_of (connectors a)) \<Longrightarrow> distinct cids \<Longrightarrow> set cids \<inter> plug_in_locked a = {} \<Longrightarrow>
   lock_plug_in_mutex cids a = Inr (with_locks a (plug_in_locked a \<union> set cids))"
proof (induction cids a rule: lock_plug_in_mutex.induct)
  case (2 cid cids a)
  then obtain ctx where "connectors_at cid a = Inr ctx" by (auto simp: connectors_at_Inr)
  then show ?case
    using 2 by (auto simp: with_locks_def)
qed (simp add: with_locks_def)

lemma lock_plug_in_mutex_Inl:
  "lock_plug_in_mutex cids a = Inl e \<Longrightarrow> set cids \<subseteq> dom (map_of (connectors a)) \<Longrightarrow> e = Deadlock"
  by (induction cids a rule: lock_plug_in_mutex.induct)
     (auto simp: bind_res_Inl_iff connectors_at_Inl split: if_splits)

lemma unlock_plug_in_mutex_eq:
  "set cids \<subseteq> dom (map_of (connectors a)) \<Longrightarrow>
   unlock_plug_in_mutex cids a = Inr (with_locks a (plug_in_locked a - set cids))"
proof (induction cids a rule: unlock_plug_in_mutex.induct)
  case (2 cid cids a)
  then obtain ctx where "connectors_at cid a = Inr ctx" by (auto simp: connectors_at_Inr)
  moreover have "plug_in_locked a - {cid} - set cids = plug_in_locked a - set (cid # cids)" by auto
  ultimately show ?case
    using 2 by (simp add: with_locks_def)
qed (simp add: with_locks_def)

lemma unlock_plug_in_mutex_Inr:
  "unlock_plug_in_mutex cids a = Inr a' \<Longrightarrow> a' = with_locks a (plug_in_locked a - set cids)"
proof (induction cids a rule: unlock_plug_in_mutex.induct)
  case (2 cid cids a)
  have "plug_in_locked a - {cid} - set cids = plug_in_locked a - set (cid # cids)" by auto
  with 2 show ?case by (auto simp: bind_res_Inr_iff with_locks_def)
qed (simp add: with_locks_def)

section \<open>Selection\<close>

lemma dom_evse_map: "dom (map_of (connectors a)) = dom (evse_map a)"
  by (auto simp: evse_map_def dom_def)

lemma get_latest_plugin_mem: "get_latest_plugin cids a \<noteq> - 1 \<Longrightarrow> get_latest_plugin cids a \<in> set cids"
  by (auto simp: get_latest_plugin_def filter_eq_Cons_iff split: list.splits)

lemma select_connector_cases:
  assumes "select_connector k es cids a = Inr (cid, a')"
  obtains "cids = [cid]" "a' = a"
  | "selection_algorithm a = UserInput" "cids \<noteq> []" "cid = hd cids" "a' = a"
  | "cid = get_latest_plugin cids a" "cid \<noteq> - 1" "a' = with_locks a (plug_in_locked a \<union> set cids)"
  | w where "w = snd (wait_for_plug_in k cids es (with_locks a (plug_in_locked a - set cids)))"
      "cid = - 1" "a' = w"
  | w where "w = snd (wait_for_plug_in k cids es (with_locks a (plug_in_locked a - set cids)))"
      "cid = get_latest_plugin cids w" "a' = with_locks w (plug_in_locked w \<union> set cids)"
proof (cases "length cids = 1")
  case True
  then show thesis using assms that(1) by (cases cids) (auto simp: select_connector_def)
next
  case notone: False
  show thesis
  proof (cases "selection_algorithm a")
    case UserInput
    then show thesis
      using assms notone that(2) by (cases cids) (auto simp: select_connector_def)
  next
    case PlugEvents
    let ?w = "snd (wait_for_plug_in k cids es (with_locks a (plug_in_locked a - set cids)))"
    obtain b where l: "lock_plug_in_mutex cids a = Inr b"
      using assms notone PlugEvents by (auto simp: select_connector_def bind_res_Inr_iff)
    note b = lock_plug_in_mutex_Inr [OF l]
    have un: "(plug_in_locked a \<union> set cids) - set cids = plug_in_locked a - set cids" by auto
    show thesis
      using assms notone PlugEvents l b that(3-5)
      by (auto simp: select_connector_def bind_res_Inr_iff case_prod_beta un
          split: if_splits dest!: lock_plug_in_mutex_Inr unlock_plug_in_mutex_Inr)
  qed
qed

lemma select_connector_mem:
  assumes "select_connector k es cids a = Inr (cid, a')"
  shows "cid = - 1 \<or> cid \<in> set cids"
  using assms by (cases rule: select_connector_cases) (auto dest: get_latest_plugin_mem)

text \<open>Up to the mutexes, selecting a connector is a step of other threads.\<close>

lemma env_frame_with_locks:
  "env_frame (with_locks a L) b \<Longrightarrow> env_frame a (with_locks b (plug_in_locked a))"
  by (simp add: env_frame_def)

lemma select_connector_frame:
  assumes "select_connector k es cids a = Inr (cid, a')"
  shows "env_frame a (with_locks a' (plug_in_locked a))"
  using assms
proof (cases rule: select_connector_cases)
  case (4 w)
  then show ?thesis using env_frame_with_locks [OF wait_for_plug_in_frame] by simp
next
  case (5 w)
  then show ?thesis using env_frame_with_locks [OF wait_for_plug_in_frame] by simp
qed (simp_all add: env_frame_def)

end
