(* ===== verification/Auth_Correct.thy ===== *)
theory Auth_Correct
  imports Auth_Frame
begin

text \<open>
  Correctness of the token handler and of the reservations of the Auth module.
\<close>

section \<open>Reservations seen by the token handler\<close>

definition reservation_matches :: "string \<Rightarrow> string option \<Rightarrow> Reservation std_map \<Rightarrow> int \<Rightarrow> bool" where
  "reservation_matches tok parent m cid \<longleftrightarrow>
     (\<exists>r. map_of m cid = Some r
        \<and> (res_id_token r = tok \<or> (\<exists>p. parent = Some p \<and> res_parent_id_token r = Some p)))"

lemma matches_iff:
  "tok \<noteq> [] \<Longrightarrow> fst (matches_reserved_identifier cid tok parent h)
     = reservation_matches tok parent (reservations h) cid"
  by (cases "map_of (reservations h) cid"; cases parent)
     (auto simp: matches_reserved_identifier_def reservation_matches_def Let_def std_touch_def
       std_get_def default_Reservation_def)

lemma matches_touch:
  "tok \<noteq> [] \<Longrightarrow> reservation_matches tok parent (std_touch default_Reservation c m)
     = reservation_matches tok parent m"
  by (auto simp: reservation_matches_def fun_eq_iff std_touch_def default_Reservation_def
      split: if_splits)

section \<open>Notifying an EVSE\<close>

text \<open>An effect that neither authorizes nor stops anything.\<close>

fun harmless :: "auth_effect \<Rightarrow> bool" where
  "harmless (Notify_evse _ _ vr) = (authorization_status vr \<noteq> AS_Accepted)"
| "harmless (Stop_transaction _ _) = False"
| "harmless _ = True"

lemma quiet_harmless: "list_all quiet es \<Longrightarrow> list_all harmless es"
proof -
  have "quiet e \<Longrightarrow> harmless e" for e by (cases e) simp_all
  then show "list_all quiet es \<Longrightarrow> list_all harmless es" by (auto simp: list_all_iff)
qed

definition harmless_ext :: "AuthHandler \<Rightarrow> AuthHandler \<Rightarrow> bool" where
  "harmless_ext a a' \<longleftrightarrow> (\<exists>es. auth_trace a' = auth_trace a @ es \<and> list_all harmless es)"

lemma harmless_ext_refl [simp]: "harmless_ext a a"
  by (simp add: harmless_ext_def)

lemma harmless_ext_trans: "harmless_ext a b \<Longrightarrow> harmless_ext b c \<Longrightarrow> harmless_ext a c"
  by (auto simp: harmless_ext_def)

lemma env_frame_harmless: "env_frame a b \<Longrightarrow> harmless_ext a b"
  by (auto simp: env_frame_def harmless_ext_def intro: quiet_harmless)

definition token_ident :: "ProvidedIdToken \<Rightarrow> ValidationResult \<Rightarrow> Identifier" where
  "token_ident tok vr = \<lparr>ident_id_token = id_token tok, ident_type = token_type tok,
     ident_status = Some (authorization_status vr), ident_expiry_time = val_expiry_time vr,
     ident_parent_id_token = val_parent_id_token vr\<rparr>"

lemma notify_evse_accepted:
  assumes "notify_evse cid tok vr a = Inr a'" "authorization_status vr = AS_Accepted"
  obtains ctx where "map_of (connectors a) cid = Some ctx"
    "map_of (connectors a') cid
       = Some (ctx\<lparr>connector := (connector ctx)\<lparr>conn_identifier := Some (token_ident tok vr)\<rparr>\<rparr>)"
    "auth_trace a' = auth_trace a @ [Timeout_timer_stop cid,
       Timeout_timer_start cid Authorization_timer (connection_timeout a),
       Notify_evse (evse_index ctx) tok vr]"
    "tokens_in_process a' = tokens_in_process a" "evse_map a' = evse_map a"
    "plug_in_locked a' = plug_in_locked a"
  using assms
  by (auto simp: notify_evse_def bind_res_Inr_iff connectors_at_Inr Let_def auth_emit_def
      remove_from_queue_def set_connector_def token_ident_def evse_map_def fun_eq_iff
      option.map_comp comp_def)

lemma notify_evse_refused:
  assumes "notify_evse cid tok vr a = Inr a'" "authorization_status vr \<noteq> AS_Accepted"
  obtains ctx where "map_of (connectors a) cid = Some ctx"
    "a' = auth_emit (Notify_evse (evse_index ctx) tok vr) a"
  using assms by (auto simp: notify_evse_def bind_res_Inr_iff connectors_at_Inr)

lemma notify_evse_Inl: "notify_evse cid tok vr a = Inl e \<Longrightarrow> map_of (connectors a) cid = None"
  by (auto simp: notify_evse_def bind_res_Inl_iff connectors_at_Inl Let_def)

section \<open>One round of the authorization loop\<close>

definition location_ok :: "int list \<Rightarrow> ValidationResult \<Rightarrow> bool" where
  "location_ok referenced vr \<longleftrightarrow>
     (\<forall>ids. evse_ids vr = Some ids \<longrightarrow> (\<exists>c\<in>set referenced. c \<in> set ids))"

lemma set_set_intersection: "set (set_intersection as bs) \<subseteq> set as \<inter> set bs"
  by (induction as bs rule: set_intersection.induct) (auto split: if_splits)

lemma check_location_ok:
  assumes "check_location referenced vr = (ok, referenced', vr')"
  shows "set referenced' = set referenced" "length referenced' = length referenced"
    "ok \<Longrightarrow> location_ok referenced vr"
    "authorization_status vr' = authorization_status vr"
    "val_parent_id_token vr' = val_parent_id_token vr"
proof -
  have "set_intersection (sort referenced) (sort ids) \<noteq> [] \<Longrightarrow> \<exists>c\<in>set referenced. c \<in> set ids" for ids
    using set_set_intersection [of "sort referenced" "sort ids"]
    by (cases "set_intersection (sort referenced) (sort ids)") auto
  then show "ok \<Longrightarrow> location_ok referenced vr"
    using assms
    by (auto simp: check_location_def location_ok_def intersect_def Let_def split: option.splits)
qed (use assms in \<open>auto simp: check_location_def intersect_def Let_def split: option.splits\<close>)

lemma use_reservation_facts:
  assumes "id_token tok \<noteq> []" "use_reservation cid tok vr a = (ok, a')"
  shows "ok = reservation_matches (id_token tok) (val_parent_id_token vr)
           (reservations (reservation_handler a)) cid"
    "connectors a' = connectors a" "auth_trace a' = auth_trace a"
    "tokens_in_process a' = tokens_in_process a" "plug_in_locked a' = plug_in_locked a"
    "\<not> ok \<Longrightarrow> reservations (reservation_handler a')
       = std_touch default_Reservation cid (reservations (reservation_handler a))"
  using assms matches_iff [of "id_token tok" cid "val_parent_id_token vr" "reservation_handler a"]
  by (auto simp: use_reservation_def Let_def case_prod_beta)
     (auto simp: matches_reserved_identifier_def Let_def)

text \<open>
  What an acceptance rests on: a referenced connector \<open>cid\<close>, an accepting validation result
  whose EVSE list meets the referenced connectors, and, when the connector is reserved, a
  reservation (among \<open>m\<close>) for the token or its parent. The connector carries the token's
  identifier and the last output is its notification.
\<close>

definition justified_acceptance ::
    "int set \<Rightarrow> ValidationResult list \<Rightarrow> ProvidedIdToken \<Rightarrow> Reservation std_map \<Rightarrow> AuthHandler \<Rightarrow> bool" where
  "justified_acceptance R vrs tok m a \<longleftrightarrow>
    (\<exists>cid\<in>R. \<exists>vr\<in>set vrs. \<exists>ctx vr' ident.
       authorization_status vr = AS_Accepted
       \<and> (\<forall>ids. evse_ids vr = Some ids \<longrightarrow> (\<exists>c\<in>R. c \<in> set ids))
       \<and> map_of (connectors a) cid = Some ctx
       \<and> conn_identifier (connector ctx) = Some ident \<and> ident_id_token ident = id_token tok
       \<and> authorization_status vr' = AS_Accepted
       \<and> last (auth_trace a) = Notify_evse (evse_index ctx) tok vr'
       \<and> (reserved (connector ctx)
          \<longrightarrow> reservation_matches (id_token tok) (val_parent_id_token vr) m cid))"

lemma authorize_at_True:
  assumes "id_token tok \<noteq> []" "authorization_status vr = AS_Accepted"
    "authorize_at cid referenced tok vr a = Inr (True, referenced', a')"
    "cid \<in> set referenced" "vr \<in> set vrs"
    "\<And>p. reservation_matches (id_token tok) p (reservations (reservation_handler a))
       = reservation_matches (id_token tok) p m"
  shows "justified_acceptance (set referenced) vrs tok m a'"
    "tokens_in_process a' = tokens_in_process a" "evse_map a' = evse_map a"
    "plug_in_locked a' = plug_in_locked a"
proof -
  obtain r1 vr1 where loc: "check_location referenced vr = (True, r1, vr1)"
    using assms(3) by (auto simp: authorize_at_def bind_res_Inr_iff split: prod.splits if_splits)
  note facts = check_location_ok [OF loc]
  obtain ctx where ctx: "map_of (connectors a) cid = Some ctx"
    using assms(3) loc by (auto simp: authorize_at_def bind_res_Inr_iff connectors_at_Inr)
  define b where "b = (if reserved (connector ctx) then snd (use_reservation cid tok vr1 a) else a)"
  have use: "reserved (connector ctx) \<Longrightarrow> fst (use_reservation cid tok vr1 a)"
    and note1: "notify_evse cid tok vr1 b = Inr a'"
    using assms(3) loc ctx
    by (auto simp: authorize_at_def bind_res_Inr_iff connectors_at_def b_def case_prod_beta Let_def
        split: if_splits)
  have same: "connectors b = connectors a" "tokens_in_process b = tokens_in_process a"
    "plug_in_locked b = plug_in_locked a"
    unfolding b_def using use_reservation_facts(2,4,5) [OF assms(1)] by (metis prod.collapse)+
  then have same_map: "evse_map b = evse_map a" by (simp add: evse_map_def)
  have res: "reserved (connector ctx)
      \<Longrightarrow> reservation_matches (id_token tok) (val_parent_id_token vr) m cid"
    using use use_reservation_facts(1) [OF assms(1), of cid vr1 a] assms(6) facts(5)
    by (metis prod.collapse)
  have acc: "authorization_status vr1 = AS_Accepted" using assms(2) facts(4) by simp
  obtain ctx' where n:
    "map_of (connectors b) cid = Some ctx'"
    "map_of (connectors a') cid
       = Some (ctx'\<lparr>connector := (connector ctx')\<lparr>conn_identifier := Some (token_ident tok vr1)\<rparr>\<rparr>)"
    "last (auth_trace a') = Notify_evse (evse_index ctx') tok vr1"
    "tokens_in_process a' = tokens_in_process b" "evse_map a' = evse_map b"
    "plug_in_locked a' = plug_in_locked b"
    by (rule notify_evse_accepted [OF note1 acc]) auto
  have eq: "ctx' = ctx" using n(1) same(1) ctx by simp
  show "tokens_in_process a' = tokens_in_process a" "evse_map a' = evse_map a"
    "plug_in_locked a' = plug_in_locked a"
    using n same same_map by simp_all
  have loc_ok: "\<forall>ids. evse_ids vr = Some ids \<longrightarrow> (\<exists>c\<in>set referenced. c \<in> set ids)"
    using facts(3) by (simp add: location_ok_def)
  show "justified_acceptance (set referenced) vrs tok m a'"
    unfolding justified_acceptance_def
    by (rule bexI [OF _ assms(4)], rule bexI [OF _ assms(5)], rule exI, rule exI [of _ vr1],
        rule exI [of _ "token_ident tok vr1"],
        intro conjI, rule assms(2), rule loc_ok, rule n(2))
       (use n(3) res eq assms(2) facts(4) in \<open>simp_all add: token_ident_def\<close>)
qed

lemma authorize_at_False:
  assumes "id_token tok \<noteq> []"
    "authorize_at cid referenced tok vr a = Inr (False, referenced', a')"
    "authorization_status vr = AS_Accepted"
  shows "set referenced' = set referenced" "tokens_in_process a' = tokens_in_process a"
    "evse_map a' = evse_map a" "harmless_ext a a'"
    "reservation_matches (id_token tok) p (reservations (reservation_handler a'))
       = reservation_matches (id_token tok) p (reservations (reservation_handler a))"
proof -
  obtain ok r1 vr1 where loc: "check_location referenced vr = (ok, r1, vr1)"
    by (metis prod_cases3)
  note facts = check_location_ok [OF loc]
  have r1: "referenced' = r1"
    using assms(2) loc
    by (auto simp: authorize_at_def bind_res_Inr_iff case_prod_beta Let_def split: if_splits)
  have "\<exists>vr2 b. notify_evse cid tok vr2 b = Inr a' \<and> authorization_status vr2 \<noteq> AS_Accepted
      \<and> (b = a \<or> use_reservation cid tok vr1 a = (False, b))"
    using assms(2) loc
    by (cases "use_reservation cid tok vr1 a")
       (force simp: authorize_at_def bind_res_Inr_iff Let_def split: if_splits)
  then obtain vr2 b where n: "notify_evse cid tok vr2 b = Inr a'"
    "authorization_status vr2 \<noteq> AS_Accepted" "b = a \<or> use_reservation cid tok vr1 a = (False, b)"
    by blast
  have b: "connectors b = connectors a" "auth_trace b = auth_trace a"
    "tokens_in_process b = tokens_in_process a"
    "reservation_matches (id_token tok) p (reservations (reservation_handler b))
      = reservation_matches (id_token tok) p (reservations (reservation_handler a))"
    using n(3) use_reservation_facts [OF assms(1), of cid vr1 a False b]
      matches_touch [OF assms(1)] by auto
  obtain ctx :: ConnectorContext where a': "a' = auth_emit (Notify_evse (evse_index ctx) tok vr2) b"
    by (rule notify_evse_refused [OF n(1,2)]) auto
  show "set referenced' = set referenced" using facts(1) r1 by simp
  show "tokens_in_process a' = tokens_in_process a" "evse_map a' = evse_map a" "harmless_ext a a'"
    "reservation_matches (id_token tok) p (reservations (reservation_handler a'))
       = reservation_matches (id_token tok) p (reservations (reservation_handler a))"
    using a' b n(2) by (auto simp: auth_emit_def evse_map_def harmless_ext_def)
qed

section \<open>The authorization loop\<close>

lemma try_validation_results_facts:
  assumes "id_token tok \<noteq> []" "try_validation_results env i tok vrs referenced a = Inr (res, a')"
    "\<And>p. reservation_matches (id_token tok) p (reservations (reservation_handler a))
       = reservation_matches (id_token tok) p m"
    "set vrs \<subseteq> set all"
  shows "tokens_in_process a' = tokens_in_process a \<and> evse_map a' = evse_map a
    \<and> res \<in> {REJECTED, TIMEOUT, ACCEPTED}
    \<and> (if res = ACCEPTED then justified_acceptance (set referenced) all tok m a'
       else harmless_ext a a')"
  using assms
proof (induction env i tok vrs referenced a rule: try_validation_results.induct)
  case (2 env i tok vr vrs referenced a)
  note IH_accepted = 2(1) and IH_other = 2(2) and prems = 2(3-6)
  consider (none) "referenced = []" | (other) "referenced \<noteq> []" "authorization_status vr \<noteq> AS_Accepted"
    | (accepted) "referenced \<noteq> []" "authorization_status vr = AS_Accepted"
    by blast
  then show ?case
  proof cases
    case none
    then show ?thesis using prems(2) by auto
  next
    case other
    then show ?thesis using IH_other prems by simp
  next
    case accepted
    obtain cid b where sel: "select_connector (ctrl env) (during_wait env i) referenced a = Inr (cid, b)"
      using prems(2) accepted by (auto simp: bind_res_Inr_iff)
    note frame = select_connector_frame [OF sel]
    have b: "tokens_in_process b = tokens_in_process a" "evse_map b = evse_map a" "harmless_ext a b"
      "reservation_handler b = reservation_handler a"
      using frame env_frame_harmless [OF frame] by (simp_all add: env_frame_def harmless_ext_def)
    show ?thesis
    proof (cases "cid = - 1")
      case True
      then show ?thesis using prems(2) accepted sel b by auto
    next
      case False
      then have mem: "cid \<in> set referenced" using select_connector_mem [OF sel] by simp
      obtain ok referenced' c where az: "authorize_at cid referenced tok vr b = Inr (ok, referenced', c)"
        using prems(2) accepted sel False by (auto simp: bind_res_Inr_iff)
      show ?thesis
      proof (cases ok)
        case True
        then have "res = ACCEPTED" "a' = c" using prems(2) accepted sel False az by simp_all
        moreover have "vr \<in> set all" using prems(4) by simp
        moreover have "authorize_at cid referenced tok vr b = Inr (True, referenced', c)"
          using az True by simp
        ultimately show ?thesis
          using authorize_at_True [OF prems(1) accepted(2) _ mem, of b referenced' c all m]
            prems(3) b by simp
      next
        case no: False
        then have azF: "authorize_at cid referenced tok vr b = Inr (False, referenced', c)"
          using az by simp
        note az' = authorize_at_False [OF prems(1) azF accepted(2)]
        have rest: "try_validation_results env (i + 1) tok vrs referenced' c = Inr (res, a')"
          using prems(2) accepted sel False az no by simp
        have "tokens_in_process a' = tokens_in_process c \<and> evse_map a' = evse_map c
          \<and> res \<in> {REJECTED, TIMEOUT, ACCEPTED}
          \<and> (if res = ACCEPTED then justified_acceptance (set referenced') all tok m a'
             else harmless_ext c a')"
          using accepted sel False az no prems(1) rest az'(5) b(4) prems(3,4)
          by (intro IH_accepted) auto
        then show ?thesis
          using az' b by (auto intro: harmless_ext_trans)
      qed
    qed
  qed
qed auto

section \<open>Stopping transactions\<close>

lemma used_for_transaction_Inr:
  "used_for_transaction cids tok a = Inr cid \<Longrightarrow> cid \<noteq> - 1 \<Longrightarrow>
   cid \<in> set cids \<and> (\<exists>ctx. map_of (connectors a) cid = Some ctx \<and> identifies tok (connector ctx))"
  by (induction cids tok a rule: used_for_transaction.induct)
     (auto simp: bind_res_Inr_iff connectors_at_Inr split: if_splits)

text \<open>
  What stopping a transaction rests on: a referenced connector \<open>cid\<close> whose current identifier
  (token or parent token) is the token presented by RFID, or, with a running transaction, the
  parent of one of the validation results.
\<close>

definition justified_stop ::
    "int set \<Rightarrow> ValidationResult list \<Rightarrow> ProvidedIdToken \<Rightarrow> AuthHandler \<Rightarrow> bool" where
  "justified_stop R vrs tok a \<longleftrightarrow>
    (\<exists>cid\<in>R. \<exists>ctx t. map_of (connectors a) cid = Some ctx \<and> identifies t (connector ctx)
       \<and> last (auth_trace a) = Stop_transaction (evse_index ctx) \<lparr>reason = Local, id_tag = Some (id_token tok)\<rparr>
       \<and> (t = id_token tok \<and> token_type tok = TT_RFID
          \<or> (\<exists>vr\<in>set vrs. val_parent_id_token vr = Some t) \<and> transaction_active (connector ctx)))"

lemma stop_with_parent_id_facts:
  "stop_with_parent_id referenced tok vrs a = Inr (res, a') \<Longrightarrow> set vrs \<subseteq> set all \<Longrightarrow>
   (res = None \<or> res = Some ALREADY_IN_PROCESS) \<and> a' = a
   \<or> res = Some USED_TO_STOP_TRANSACTION \<and> justified_stop (set referenced) all tok a'
     \<and> tokens_in_process a' = tokens_in_process a \<and> evse_map a' = evse_map a"
proof (induction referenced tok vrs a rule: stop_with_parent_id.induct)
  case (2 referenced tok vr vrs a)
  show ?case
  proof (cases "val_parent_id_token vr")
    case None
    then show ?thesis using 2 by simp
  next
    case (Some t)
    obtain cid where u: "used_for_transaction referenced t a = Inr cid"
      using 2(3) Some by (auto simp: bind_res_Inr_iff)
    show ?thesis
    proof (cases "cid = - 1")
      case True
      then show ?thesis using 2 u Some by simp
    next
      case False
      from used_for_transaction_Inr [OF u False] obtain ctx where ctx: "cid \<in> set referenced"
        "map_of (connectors a) cid = Some ctx" "identifies t (connector ctx)" by blast
      have "vr \<in> set all" using 2(4) by simp
      then show ?thesis
        using 2(3) Some u False ctx
        by (cases "transaction_active (connector ctx)")
           (auto simp: connectors_at_def justified_stop_def auth_emit_def stop_transaction_request_def
             evse_map_def intro!: bexI [of _ cid])
    qed
  qed
qed simp

section \<open>The token handler\<close>

text \<open>Every outcome of the handler, with what it rests on.\<close>

definition outcome_ok ::
    "int set \<Rightarrow> ValidationResult list \<Rightarrow> ProvidedIdToken \<Rightarrow> Reservation std_map \<Rightarrow> AuthHandler
     \<Rightarrow> TokenHandlingResult \<Rightarrow> AuthHandler \<Rightarrow> bool" where
  "outcome_ok R vrs tok m a res a' =
    (if res = ACCEPTED then justified_acceptance R vrs tok m a'
     else if res = USED_TO_STOP_TRANSACTION then justified_stop R vrs tok a'
     else harmless_ext a a')"

lemma authorize_or_stop_facts:
  assumes "id_token tok \<noteq> []" "authorize_or_stop env tok referenced vrs a = Inr (res, a')"
    "m = reservations (reservation_handler a)"
  shows "tokens_in_process a' = tokens_in_process a \<and> evse_map a' = evse_map a
    \<and> outcome_ok (set referenced) vrs tok m a res a'"
proof -
  obtain stopped b attempt where
    st: "(if attempt then stop_with_parent_id referenced tok vrs a else Inr (None, a)) = Inr (stopped, b)"
    and rest: "(case stopped of Some r \<Rightarrow> Inr (r, b)
      | None \<Rightarrow> bind_res (any_connector_available referenced b) (\<lambda>avail.
          if \<not> avail then Inr (NO_CONNECTOR_AVAILABLE, b)
          else try_validation_results env 0 tok vrs referenced b)) = Inr (res, a')"
    using assms(2) by (auto simp: authorize_or_stop_def bind_res_Inr_iff)
  show ?thesis
  proof (cases stopped)
    case (Some r)
    then show ?thesis
      using st rest stop_with_parent_id_facts [of referenced tok vrs a stopped b vrs]
      by (auto simp: outcome_ok_def split: if_splits)
  next
    case None
    then have b: "b = a"
      using st stop_with_parent_id_facts [of referenced tok vrs a stopped b vrs]
      by (auto split: if_splits)
    then show ?thesis
      using rest None try_validation_results_facts [OF assms(1), of env 0 vrs referenced b res a' m vrs]
        assms(3)
      by (auto simp: outcome_ok_def bind_res_Inr_iff split: if_splits)
  qed
qed

lemma validate_frame: "validate env tok a = (vrs, a') \<Longrightarrow> env_frame a a'"
  by (auto simp: validate_def deliver_all_frame split: if_splits)

lemma handle_token_facts:
  assumes "id_token tok \<noteq> []" "handle_token env tok a = Inr (res, a')"
  shows "tokens_in_process a' = tokens_in_process a \<and> evse_map a' = evse_map a
    \<and> outcome_ok (set (get_referenced_connectors tok a)) (fst (validate env tok a)) tok
        (reservations (reservation_handler a)) a res a'"
proof -
  let ?R = "get_referenced_connectors tok a"
  obtain cid where u: "(if token_type tok = TT_RFID then used_for_transaction ?R (id_token tok) a
      else Inr (- 1)) = Inr cid"
    using assms(2) by (auto simp: handle_token_def Let_def bind_res_Inr_iff)
  show ?thesis
  proof (cases "cid = - 1")
    case True
    obtain vrs b where v: "validate env tok a = (vrs, b)" by fastforce
    have "authorize_or_stop env tok ?R vrs b = Inr (res, a')"
      using assms(2) u True v by (simp add: handle_token_def Let_def)
    from authorize_or_stop_facts [OF assms(1) this refl] validate_frame [OF v] env_frame_harmless
    show ?thesis using v
      by (auto simp: env_frame_def outcome_ok_def intro: harmless_ext_trans split: if_splits)
  next
    case False
    then have "used_for_transaction ?R (id_token tok) a = Inr cid" "token_type tok = TT_RFID"
      using u by (auto split: if_splits)
    with used_for_transaction_Inr [OF this(1) False] False show ?thesis
      using assms(2)
      by (auto simp: handle_token_def Let_def bind_res_Inr_iff connectors_at_Inr outcome_ok_def
          auth_emit_def evse_map_def justified_stop_def stop_transaction_request_def
          intro!: bexI [of _ cid])
  qed
qed

section \<open>Outcomes of a token\<close>

lemma on_token_cases:
  assumes "on_token env tok a = Inr (res, a')"
  obtains (busy) "on_token_enter tok a = Inr (False, a)" "res = ALREADY_IN_PROCESS" "a' = a"
  | (handled) b where
      "on_token_enter tok a = Inr (True, a\<lparr>tokens_in_process := insert (id_token tok) (tokens_in_process a)\<rparr>)"
      "handle_token env tok (a\<lparr>tokens_in_process := insert (id_token tok) (tokens_in_process a)\<rparr>) = Inr (res, b)"
      "a' = on_token_leave tok res
        (with_locks b (plug_in_locked b - set (get_referenced_connectors tok a)))"
      "id_token tok \<notin> tokens_in_process a"
proof -
  obtain entered a1 where e: "on_token_enter tok a = Inr (entered, a1)"
    using assms by (auto simp: on_token_def Let_def bind_res_Inr_iff)
  show thesis
  proof (cases entered)
    case True
    have a1: "a1 = a\<lparr>tokens_in_process := insert (id_token tok) (tokens_in_process a)\<rparr>"
      and fresh: "id_token tok \<notin> tokens_in_process a"
      using e True by (auto simp: on_token_enter_def Let_def bind_res_Inr_iff
          is_token_already_in_process_def split: if_splits)
    obtain b c where h: "handle_token env tok a1 = Inr (res, b)"
      "unlock_plug_in_mutex (get_referenced_connectors tok a) b = Inr c"
      "a' = on_token_leave tok res c"
      using assms e True by (auto simp: on_token_def Let_def bind_res_Inr_iff)
    show thesis
      using e True a1 h unlock_plug_in_mutex_Inr [OF h(2)] fresh by (intro that(2) [of b]) simp_all
  next
    case False
    then have "a1 = a"
      using e by (auto simp: on_token_enter_def Let_def bind_res_Inr_iff split: if_splits)
    with assms e False show thesis
      by (intro that(1)) (simp_all add: on_token_def Let_def on_token_leave_def)
  qed
qed

lemma referenced_tokens_in_process [simp]:
  "get_referenced_connectors tok (a\<lparr>tokens_in_process := T\<rparr>) = get_referenced_connectors tok a"
  by (simp add: get_referenced_connectors_def split: option.split)

lemma validation_results_state [simp]:
  "fst (validate env tok (a\<lparr>tokens_in_process := T\<rparr>)) = fst (validate env tok a)"
  by (simp add: validate_def)

lemma outcome_ok_cong:
  "connectors c = connectors b \<Longrightarrow> auth_trace c = auth_trace b \<Longrightarrow> auth_trace a' = auth_trace a \<Longrightarrow>
   outcome_ok R vrs tok m a' res c = outcome_ok R vrs tok m a res b"
  by (simp add: outcome_ok_def justified_acceptance_def justified_stop_def harmless_ext_def)

lemma on_token_leave_simps [simp]:
  "connectors (on_token_leave tok res b) = connectors b"
  "auth_trace (on_token_leave tok res b) = auth_trace b"
  "plug_in_locked (on_token_leave tok res b) = plug_in_locked b"
  by (simp_all add: on_token_leave_def)

lemma on_token_outcome:
  assumes "id_token tok \<noteq> []" "on_token env tok a = Inr (res, a')"
  shows "outcome_ok (set (get_referenced_connectors tok a)) (fst (validate env tok a)) tok
     (reservations (reservation_handler a)) a res a'"
  using assms(2)
proof (cases rule: on_token_cases)
  case busy
  then show ?thesis by (simp add: outcome_ok_def)
next
  case (handled b)
  from handle_token_facts [OF assms(1) handled(2)] show ?thesis
    unfolding handled(3)
    by (subst outcome_ok_cong [where b = b and a = "a\<lparr>tokens_in_process := insert (id_token tok) (tokens_in_process a)\<rparr>"]) simp_all
qed

lemma on_token_tokens:
  assumes "id_token tok \<noteq> []" "on_token env tok a = Inr (res, a')"
  shows "tokens_in_process a' = tokens_in_process a
    \<or> res = ALREADY_IN_PROCESS \<and> tokens_in_process a' = insert (id_token tok) (tokens_in_process a)"
  using assms(2)
proof (cases rule: on_token_cases)
  case (handled b)
  from handle_token_facts [OF assms(1) handled(2)] show ?thesis
    using handled(3,4) by (auto simp: on_token_leave_def)
qed simp

text \<open>A station with two connectors, and a token on which everybody agrees, for the instances below.\<close>

definition answer_of :: "('e, 'r \<times> 's) result \<Rightarrow> 'r option" where
  "answer_of r = (case r of Inl _ \<Rightarrow> None | Inr (x, _) \<Rightarrow> Some x)"

lemma answer_ofD: "answer_of r = Some x \<Longrightarrow> \<exists>s. r = Inr (x, s)"
  by (auto simp: answer_of_def split: sum.splits)

definition two_connectors :: AuthHandler where
  "two_connectors = auth_ready reference_controller PlugEvents 30 True [1, 2]"

definition rfid :: "string \<Rightarrow> ProvidedIdToken" where
  "rfid t = \<lparr>id_token = t, token_type = TT_RFID, token_connectors = None, prevalidated = None\<rparr>"

definition plug_in :: "int \<Rightarrow> auth_event" where
  "plug_in cid = Session_event cid
     \<lparr>event = SE_SessionStarted, session_started_reason = Some EVConnected\<rparr>"

definition plain_event :: "int \<Rightarrow> SessionEventEnum \<Rightarrow> auth_event" where
  "plain_event cid e = Session_event cid \<lparr>event = e, session_started_reason = None\<rparr>"

definition validators :: "ValidationResult list \<Rightarrow> auth_event list \<Rightarrow> auth_env" where
  "validators vrs es = \<lparr>ctrl = reference_controller, validate_token = (\<lambda>_. vrs),
     during_validation = [], during_wait = (\<lambda>_. es)\<rparr>"

definition accepting :: "string option \<Rightarrow> ValidationResult" where
  "accepting parent = (default_ValidationResult AS_Accepted)\<lparr>val_parent_id_token := parent\<rparr>"

definition after_token ::
    "(TokenHandlingResult \<times> AuthHandler) auth_m \<Rightarrow> AuthHandler \<Rightarrow> AuthHandler" where
  "after_token r a = (case r of Inl _ \<Rightarrow> a | Inr (_, a') \<Rightarrow> a')"

text \<open>The station after a token with parent P has been accepted at connector 1.\<close>

definition authorized_station :: AuthHandler where
  "authorized_station = after_token
     (on_token (validators [accepting (Some ''P'')] [plug_in 1]) (rfid ''A'') two_connectors)
     two_connectors"



text \<open>
  C8: a transaction is stopped only by a token that belongs to it. If on_token answers
  USED_TO_STOP_TRANSACTION, the stop request (reason Local, with the presented token) went to a
  referenced connector whose identifier, token or parent token, is the token presented by RFID,
  or the parent token of a validation result while the transaction is running.
\<close>

theorem stop_justified:
  assumes "id_token tok \<noteq> []" "on_token env tok a = Inr (USED_TO_STOP_TRANSACTION, a')"
  shows "justified_stop (set (get_referenced_connectors tok a)) (fst (validate env tok a)) tok a'"
  using on_token_outcome [OF assms] by (simp add: outcome_ok_def)

theorem stop_justified_witness:
  "\<exists>a'. on_token (validators [] []) (rfid ''A'')
         (deliver reference_controller (plain_event 1 SE_TransactionStarted) authorized_station)
       = Inr (USED_TO_STOP_TRANSACTION, a')
     \<and> justified_stop (set (get_referenced_connectors (rfid ''A'')
           (deliver reference_controller (plain_event 1 SE_TransactionStarted) authorized_station)))
         (fst (validate (validators [] []) (rfid ''A'')
           (deliver reference_controller (plain_event 1 SE_TransactionStarted) authorized_station)))
         (rfid ''A'') a'"
proof -
  have ans: "answer_of (on_token (validators [] []) (rfid ''A'')
      (deliver reference_controller (plain_event 1 SE_TransactionStarted) authorized_station))
      = Some USED_TO_STOP_TRANSACTION" and ne: "id_token (rfid ''A'') \<noteq> []"
    by code_simp+
  from answer_ofD [OF ans] obtain a' where r:
    "on_token (validators [] []) (rfid ''A'')
      (deliver reference_controller (plain_event 1 SE_TransactionStarted) authorized_station) = Inr (USED_TO_STOP_TRANSACTION, a')"
    by blast
  then show ?thesis using stop_justified [OF ne r] by auto
qed

text \<open>
  every other answer of on_token leaves the EVSE managers alone: nothing that was output
  while the token was handled is an accepting notification or a request to stop.
\<close>

theorem other_outcomes_harmless:
  assumes "id_token tok \<noteq> []" "on_token env tok a = Inr (res, a')"
    "res \<noteq> ACCEPTED" "res \<noteq> USED_TO_STOP_TRANSACTION"
  shows "harmless_ext a a'"
  using on_token_outcome [OF assms(1,2)] assms(3,4) by (simp add: outcome_ok_def)

theorem other_outcomes_harmless_witness:
  "\<exists>a'. on_token (validators [accepting None] []) (rfid ''A'') two_connectors = Inr (TIMEOUT, a')
     \<and> harmless_ext two_connectors a'"
proof -
  have ans: "answer_of (on_token (validators [accepting None] []) (rfid ''A'') two_connectors)
      = Some TIMEOUT" and ne: "id_token (rfid ''A'') \<noteq> []"
    by code_simp+
  from answer_ofD [OF ans] obtain a' where r:
    "on_token (validators [accepting None] []) (rfid ''A'') two_connectors = Inr (TIMEOUT, a')"
    by blast
  then show ?thesis using other_outcomes_harmless [OF ne r] by auto
qed

text \<open>
  an answer other than ALREADY_IN_PROCESS leaves the set of tokens in process as it was.
\<close>

theorem tokens_in_process_restored:
  assumes "id_token tok \<noteq> []" "on_token env tok a = Inr (res, a')" "res \<noteq> ALREADY_IN_PROCESS"
  shows "tokens_in_process a' = tokens_in_process a"
  using on_token_tokens [OF assms(1,2)] assms(3) by simp

theorem tokens_in_process_restored_witness:
  "\<exists>a'. on_token (validators [accepting None] [plug_in 2]) (rfid ''A'') two_connectors
       = Inr (ACCEPTED, a') \<and> tokens_in_process a' = tokens_in_process two_connectors"
proof -
  have ans: "answer_of (on_token (validators [accepting None] [plug_in 2]) (rfid ''A'') two_connectors)
      = Some ACCEPTED" and ne: "id_token (rfid ''A'') \<noteq> []"
    by code_simp+
  from answer_ofD [OF ans] obtain a' where r:
    "on_token (validators [accepting None] [plug_in 2]) (rfid ''A'') two_connectors = Inr (ACCEPTED, a')"
    by blast
  then show ?thesis using tokens_in_process_restored [OF ne r] by auto
qed

lemma busy_token: "id_token tok \<in> tokens_in_process a \<Longrightarrow> on_token env tok a = Inr (ALREADY_IN_PROCESS, a)"
  by (simp add: on_token_def on_token_enter_def is_token_already_in_process_def Let_def
      on_token_leave_def)

text \<open>
  a token that was not being processed and whose handler answers ALREADY_IN_PROCESS (its
  parent token is authorized on a connector without a running transaction) is never removed
  from the set of tokens in process: whatever session events and timeouts follow, presenting it
  again is answered with ALREADY_IN_PROCESS and has no effect.
\<close>

theorem parent_match_blocks_token_forever:
  assumes "id_token tok \<noteq> []" "on_token_enter tok a = Inr (True, a1)"
    "on_token env tok a = Inr (ALREADY_IN_PROCESS, a')"
  shows "on_token env' tok (fold (deliver k) es a')
         = Inr (ALREADY_IN_PROCESS, fold (deliver k) es a')"
  using assms(3)
proof (cases rule: on_token_cases)
  case busy
  then show ?thesis using assms(2) by simp
next
  case (handled b)
  then have "id_token tok \<in> tokens_in_process a'"
    using handle_token_facts [OF assms(1) handled(2)] by (simp add: on_token_leave_def)
  moreover have "tokens_in_process (fold (deliver k) es a') = tokens_in_process a'"
    using deliver_all_frame [of a' k es] by (simp add: env_frame_def)
  ultimately show ?thesis by (intro busy_token) simp
qed

text \<open>
  On the authorized station without prioritization, a second card with the same parent.
\<close>

theorem parent_match_blocks_token_forever_witness:
  "\<exists>a'. on_token (validators [accepting (Some ''P'')] []) (rfid ''B'')
         (set_prioritize False authorized_station) = Inr (ALREADY_IN_PROCESS, a')
     \<and> on_token (validators [accepting None] []) (rfid ''B'')
         (fold (deliver reference_controller) [plain_event 1 SE_SessionFinished] a')
       = Inr (ALREADY_IN_PROCESS,
           fold (deliver reference_controller) [plain_event 1 SE_SessionFinished] a')"
proof -
  have ans: "answer_of (on_token (validators [accepting (Some ''P'')] []) (rfid ''B'')
      (set_prioritize False authorized_station)) = Some ALREADY_IN_PROCESS"
    and ent: "answer_of (on_token_enter (rfid ''B'') (set_prioritize False authorized_station)) = Some True"
    and ne: "id_token (rfid ''B'') \<noteq> []"
    by code_simp+
  from answer_ofD [OF ans] obtain a' where r:
    "on_token (validators [accepting (Some ''P'')] []) (rfid ''B'')
       (set_prioritize False authorized_station) = Inr (ALREADY_IN_PROCESS, a')"
    by blast
  from answer_ofD [OF ent] obtain a1 where e:
    "on_token_enter (rfid ''B'') (set_prioritize False authorized_station) = Inr (True, a1)"
    by blast
  show ?thesis using r parent_match_blocks_token_forever [OF ne e r] by blast
qed

end
