(* ===== verification/Auth_Progress.thy ===== *)
theory Auth_Progress
  imports Auth_Correct
begin

text \<open>
  Progress of the token handler: the exceptions it can raise, when it returns; and the
  behaviour of session events and reservations.
\<close>

section \<open>Exceptions\<close>

lemma connectors_at_exists: "cid \<in> dom (evse_map a) \<Longrightarrow> \<exists>ctx. connectors_at cid a = Inr ctx"
  by (auto simp: evse_map_def connectors_at_def)

lemma used_for_transaction_no_error:
  "set cids \<subseteq> dom (evse_map a) \<Longrightarrow> \<exists>cid. used_for_transaction cids tok a = Inr cid"
  by (induction cids tok a rule: used_for_transaction.induct) (auto dest!: connectors_at_exists)

lemma authorized_without_transaction_no_error:
  "set cids \<subseteq> dom (evse_map a) \<Longrightarrow> \<exists>b. authorized_without_transaction tok cids a = Inr b"
  by (induction tok cids a rule: authorized_without_transaction.induct)
     (auto dest!: connectors_at_exists)

lemma any_connector_available_no_error:
  "set cids \<subseteq> dom (evse_map a) \<Longrightarrow> \<exists>b. any_connector_available cids a = Inr b"
  by (induction cids a rule: any_connector_available.induct)
     (auto simp: Let_def dest!: connectors_at_exists)

lemma stop_with_parent_id_no_error:
  "set cids \<subseteq> dom (evse_map a) \<Longrightarrow> \<exists>r. stop_with_parent_id cids tok vrs a = Inr r"
proof (induction cids tok vrs a rule: stop_with_parent_id.induct)
  case (2 cids tok vr vrs a)
  show ?case
  proof (cases "val_parent_id_token vr")
    case (Some t)
    obtain cid where u: "used_for_transaction cids t a = Inr cid"
      using used_for_transaction_no_error 2(3) by blast
    then show ?thesis
      using 2 Some used_for_transaction_Inr [OF u] by (auto simp: connectors_at_def)
  qed (use 2 in simp)
qed simp

lemma notify_evse_no_error: "cid \<in> dom (evse_map a) \<Longrightarrow> \<exists>b. notify_evse cid tok vr a = Inr b"
  by (auto simp: notify_evse_def Let_def dest!: connectors_at_exists)

lemma authorize_at_no_error:
  assumes "cid \<in> dom (evse_map a)"
  shows "\<exists>r. authorize_at cid referenced tok vr a = Inr r"
proof -
  have same: "evse_map (snd (use_reservation cid tok vr' a)) = evse_map a" for vr'
    by (simp add: use_reservation_def Let_def case_prod_beta evse_map_def)
  have n: "\<exists>b. notify_evse cid tok vr' a = Inr b"
    "\<exists>b. notify_evse cid tok vr' (snd (use_reservation cid tok vr'' a)) = Inr b" for vr' vr''
    using assms same by (simp_all add: notify_evse_no_error)
  obtain ok r1 vr1 where loc: "check_location referenced vr = (ok, r1, vr1)" by (metis prod_cases3)
  obtain ctx where ctx: "connectors_at cid a = Inr ctx" using connectors_at_exists [OF assms] by blast
  show ?thesis
    using n(1) [of vr1] n(1) [of "vr1\<lparr>authorization_status := AS_NotAtThisLocation\<rparr>"]
      n(2) [of vr1 vr1] n(2) [of "vr1\<lparr>authorization_status := AS_NotAtThisTime\<rparr>" vr1] loc ctx
    by (auto simp: authorize_at_def case_prod_beta Let_def)
qed

lemma select_connector_Inl:
  assumes "select_connector k es cids a = Inl e" "set cids \<subseteq> dom (evse_map a)" "cids \<noteq> []"
  shows "e = Deadlock \<and> \<not> (distinct cids \<and> set cids \<inter> plug_in_locked a = {})"
proof -
  let ?w = "snd (wait_for_plug_in k cids es (with_locks a (plug_in_locked a - set cids)))"
  have w: "evse_map ?w = evse_map a" "plug_in_locked ?w = plug_in_locked a - set cids"
    using wait_for_plug_in_frame [of "with_locks a (plug_in_locked a - set cids)" k cids es]
    by (simp_all add: env_frame_def)
  have plug: "selection_algorithm a = PlugEvents" "length cids \<noteq> 1"
    using assms(1,3) by (auto simp: select_connector_def split: SelectionAlgorithm.splits list.splits if_splits)
  show ?thesis
  proof (cases "lock_plug_in_mutex cids a")
    case (Inl e')
    then have "e = e'" using assms(1) plug by (simp add: select_connector_def)
    then show ?thesis
      using Inl assms(2) lock_plug_in_mutex_Inl lock_plug_in_mutex_free [of cids a]
      by (auto simp: dom_evse_map)
  next
    case (Inr b)
    note b = lock_plug_in_mutex_Inr [OF Inr]
    have un: "plug_in_locked a \<union> set cids - set cids = plug_in_locked a - set cids" by auto
    have unlock: "unlock_plug_in_mutex cids b = Inr (with_locks a (plug_in_locked a - set cids))"
      using b assms(2) unlock_plug_in_mutex_eq [of cids b] un by (simp add: dom_evse_map)
    have "lock_plug_in_mutex cids ?w = Inl e"
      using assms(1) plug Inr b unlock
      by (auto simp: select_connector_def case_prod_beta bind_res_Inl_iff split: if_splits)
    then show ?thesis
      using lock_plug_in_mutex_free [of cids ?w] lock_plug_in_mutex_Inl w assms(2)
      by (auto simp: dom_evse_map)
  qed
qed

lemma try_validation_results_Inl:
  assumes "try_validation_results env i tok vrs referenced a = Inl e" "set referenced \<subseteq> dom (evse_map a)"
    "id_token tok \<noteq> []"
  shows "e = Deadlock \<and>
    \<not> (length vrs \<le> 1 \<and> distinct referenced \<and> set referenced \<inter> plug_in_locked a = {})"
  using assms
proof (induction env i tok vrs referenced a rule: try_validation_results.induct)
  case (2 env i tok vr vrs referenced a)
  note IH_accepted = 2(1) and IH_other = 2(2) and prems = 2(3-5)
  have ne: "referenced \<noteq> []" using prems(1) by auto
  show ?case
  proof (cases "authorization_status vr = AS_Accepted")
    case False
    then have "try_validation_results env (i + 1) tok vrs referenced a = Inl e" using prems ne by simp
    then show ?thesis using IH_other [OF ne False] prems by (cases vrs) auto
  next
    case acc: True
    show ?thesis
    proof (cases "select_connector (ctrl env) (during_wait env i) referenced a")
      case (Inl e')
      then have "e = e'" using prems ne acc by simp
      then show ?thesis using select_connector_Inl [OF Inl prems(2) ne] by auto
    next
      case (Inr sel)
      obtain cid b where s: "sel = (cid, b)" by (cases sel)
      note sel = Inr [unfolded s]
      have dom: "evse_map b = evse_map a"
        using select_connector_frame [OF sel] by (simp add: env_frame_def)
      have cid: "cid \<noteq> - 1" using prems(1) ne acc sel by auto
      then have "cid \<in> dom (evse_map b)" using select_connector_mem [OF sel] prems(2) dom by auto
      from authorize_at_no_error [OF this] obtain ok r' c where
        az: "authorize_at cid referenced tok vr b = Inr (ok, r', c)" by (metis prod_cases3)
      have no: "\<not> ok" using prems(1) ne acc sel cid az by auto
      then have azF: "authorize_at cid referenced tok vr b = Inr (False, r', c)" using az by simp
      have rest: "try_validation_results env (i + 1) tok vrs r' c = Inl e"
        using prems(1) ne acc sel cid az no by simp
      have "set r' \<subseteq> dom (evse_map c)"
        using authorize_at_False [OF prems(3) azF acc] dom prems(2) by simp
      then have "e = Deadlock"
        using IH_accepted [OF ne acc] sel cid az no rest prems(3) by auto
      moreover have "vrs \<noteq> []" using rest by auto
      ultimately show ?thesis by (cases vrs) auto
    qed
  qed
qed simp

lemma referenced_exist: "set (get_referenced_connectors tok a) \<subseteq> dom (evse_map a)"
  by (auto simp: get_referenced_connectors_def dom_evse_map [symmetric] split: option.splits)
     (metis not_None_eq weak_map_of_SomeI)

lemma handle_token_Inl:
  assumes "handle_token env tok a = Inl e" "id_token tok \<noteq> []"
  shows "e = Deadlock \<and> \<not> (length (fst (validate env tok a)) \<le> 1
    \<and> distinct (get_referenced_connectors tok a)
    \<and> set (get_referenced_connectors tok a) \<inter> plug_in_locked a = {})"
proof -
  let ?R = "get_referenced_connectors tok a"
  obtain vrs b where v: "validate env tok a = (vrs, b)" by fastforce
  have b: "evse_map b = evse_map a" "plug_in_locked b = plug_in_locked a"
    using validate_frame [OF v] by (simp_all add: env_frame_def)
  have dom: "set ?R \<subseteq> dom (evse_map b)" using referenced_exist b by simp
  obtain cid where u: "used_for_transaction ?R (id_token tok) a = Inr cid"
    using used_for_transaction_no_error referenced_exist by blast
  have "\<exists>ctx. connectors_at cid a = Inr ctx" if "cid \<noteq> - 1"
    using used_for_transaction_Inr [OF u that] by (auto simp: connectors_at_def)
  then have az: "authorize_or_stop env tok ?R vrs b = Inl e"
    using assms(1) u v by (auto simp: handle_token_def Let_def split: if_splits)
  obtain avail where av: "any_connector_available ?R b = Inr avail"
    using any_connector_available_no_error [OF dom] by blast
  obtain st c where sp: "stop_with_parent_id ?R tok vrs b = Inr (st, c)"
    using stop_with_parent_id_no_error [OF dom] by (metis prod.collapse)
  have same: "st = None \<Longrightarrow> c = b" using stop_with_parent_id_facts [OF sp, of vrs] by auto
  have "try_validation_results env 0 tok vrs ?R b = Inl e"
    using az av sp same
    by (cases st) (auto simp: authorize_or_stop_def bind_res_Inl_iff split: if_splits option.splits)
  from try_validation_results_Inl [OF this dom assms(2)] show ?thesis using v b by simp
qed

lemma on_token_Inl:
  assumes "on_token env tok a = Inl e" "id_token tok \<noteq> []"
  shows "handle_token env tok (a\<lparr>tokens_in_process := insert (id_token tok) (tokens_in_process a)\<rparr>) = Inl e"
proof -
  let ?R = "get_referenced_connectors tok a"
  have "\<exists>busy. is_token_already_in_process (id_token tok) ?R a = Inr busy"
    using authorized_without_transaction_no_error [OF referenced_exist, of "id_token tok" tok a]
    by (auto simp: is_token_already_in_process_def)
  then obtain busy where busy: "is_token_already_in_process (id_token tok) ?R a = Inr busy" by blast
  have un: "unlock_plug_in_mutex ?R b \<noteq> Inl e" if "evse_map b = evse_map a" for b
    using unlock_plug_in_mutex_eq [of ?R b] referenced_exist [of tok a] that by (simp add: dom_evse_map)
  show ?thesis
    using assms busy un handle_token_facts [OF assms(2), of env]
    by (auto simp: on_token_def on_token_enter_def bind_res_Inl_iff Let_def evse_map_def split: if_splits)
qed



text \<open>
  With two accepting validators of which the first restricts the token to an EVSE that is
  not referenced, the handler locks the plug-in mutexes a second time and deadlocks.
\<close>

theorem second_validator_deadlocks:
  "on_token (validators [(accepting None)\<lparr>evse_ids := Some [7]\<rparr>, accepting None] [])
     (rfid ''A'') (deliver reference_controller (plug_in 1) two_connectors) = Inl Deadlock"
  by code_simp

text \<open>
  A token that the validator restricts to EVSE 2 is accepted at connector 1: only the
  intersection of the restriction with all referenced connectors is tested.
\<close>

lemma restricted_token_accepted_elsewhere:
  "answer_of (on_token (validators [(accepting None)\<lparr>evse_ids := Some [2]\<rparr>] [plug_in 1])
     (rfid ''A'') two_connectors) = Some ACCEPTED
   \<and> map_of (connectors (after_token (on_token
       (validators [(accepting None)\<lparr>evse_ids := Some [2]\<rparr>] [plug_in 1])
       (rfid ''A'') two_connectors) two_connectors)) 1
     = Some \<lparr>evse_index = 0, connector =
         \<lparr>conn_id = 1, transaction_active = False, state = AVAILABLE,
          conn_identifier = Some (token_ident (rfid ''A'') (accepting None)),
          is_reservable = False, reserved = False\<rparr>\<rparr>"
  by code_simp

section \<open>Session events\<close>

lemma handle_session_event_connector:
  assumes "map_of (connectors a) cid = Some ctx" "handle_session_event k cid ev a = Inr a'"
    "event ev = SE_SessionFinished"
  shows "\<exists>ctx'. map_of (connectors a') cid = Some ctx' \<and> connector ctx'
    = submit_event k ERROR_CLEARED (submit_event k SESSION_FINISHED
        ((connector ctx)\<lparr>is_reservable := True, conn_identifier := None\<rparr>))"
  using assms
  by (auto simp: handle_session_event_def connectors_at_def auth_emit_def set_connector_def)

text \<open>
  when a session has finished, its connector is free of faults and not occupied, whatever
  its state was; it can be reserved again, belongs to no token, and is unavailable exactly if
  it was disabled before.
\<close>

theorem session_finished_frees_connector:
  assumes "sync_controller k" "map_of (connectors a) cid = Some ctx" "event ev = SE_SessionFinished"
  shows "\<exists>a' ctx'. handle_session_event k cid ev a = Inr a'
    \<and> map_of (connectors a') cid = Some ctx'
    \<and> state (connector ctx') = (if is_unavailable (connector ctx) then UNAVAILABLE else AVAILABLE)
    \<and> is_reservable (connector ctx') \<and> conn_identifier (connector ctx') = None"
proof -
  obtain a' where a': "handle_session_event k cid ev a = Inr a'"
    using assms by (simp add: handle_session_event_def connectors_at_def)
  from handle_session_event_connector [OF assms(2) a' assms(3)] obtain ctx' where
    c: "map_of (connectors a') cid = Some ctx'" "connector ctx'
      = submit_event k ERROR_CLEARED (submit_event k SESSION_FINISHED
          ((connector ctx)\<lparr>is_reservable := True, conn_identifier := None\<rparr>))" by blast
  have "state (connector ctx') = (if is_unavailable (connector ctx) then UNAVAILABLE else AVAILABLE)"
    using c(2) submit_event_state [OF assms(1)]
    by (cases "state (connector ctx)") (simp_all add: is_unavailable_def get_state_def)
  moreover have "is_reservable (connector ctx') \<and> conn_identifier (connector ctx') = None"
    using c(2) by (simp add: submit_event_def)
  ultimately show ?thesis using a' c(1) by blast
qed

theorem session_finished_frees_connector_witness:
  "\<exists>a' ctx'. handle_session_event reference_controller 2
       \<lparr>event = SE_SessionFinished, session_started_reason = None\<rparr>
       (deliver reference_controller (plain_event 2 SE_Disabled) two_connectors) = Inr a'
    \<and> map_of (connectors a') 2 = Some ctx' \<and> state (connector ctx') = UNAVAILABLE"
proof -
  have "map_of (connectors (deliver reference_controller (plain_event 2 SE_Disabled) two_connectors)) 2
    = Some \<lparr>evse_index = 1, connector = (new_Connector reference_controller 2)\<lparr>state := UNAVAILABLE\<rparr>\<rparr>"
    by code_simp
  from session_finished_frees_connector [OF reference_controller_sync this,
      of "\<lparr>event = SE_SessionFinished, session_started_reason = None\<rparr>"]
  show ?thesis by (auto simp: is_unavailable_def get_state_def)
qed

text \<open>
  An error during a transaction makes the occupied connector count as available for the
  next token: any_connector_available tests for OCCUPIED and FAULTED, but not for the state
  FAULTED_OCCUPIED that the error leads to.
\<close>

theorem faulted_occupied_counts_as_available:
  assumes "sync_controller k" "map_of (connectors a) cid = Some ctx"
    "state (connector ctx) = OCCUPIED" "event ev = SE_Error"
  shows "any_connector_available [cid] a = Inr False
    \<and> (\<exists>a'. handle_session_event k cid ev a = Inr a' \<and> any_connector_available [cid] a' = Inr True)"
proof
  show "any_connector_available [cid] a = Inr False"
    using assms by (simp add: connectors_at_def get_state_def)
  show "\<exists>a'. handle_session_event k cid ev a = Inr a' \<and> any_connector_available [cid] a' = Inr True"
    using assms submit_event_state [OF assms(1), of FAULTED_EV "connector ctx"]
    by (simp add: handle_session_event_def connectors_at_def set_connector_def get_state_def)
qed

theorem faulted_occupied_counts_as_available_witness:
  "\<exists>a'. handle_session_event reference_controller 1
        \<lparr>event = SE_Error, session_started_reason = None\<rparr>
        (deliver reference_controller (plain_event 1 SE_TransactionStarted) two_connectors) = Inr a'
     \<and> any_connector_available [1] a' = Inr True"
proof -
  have "map_of (connectors (deliver reference_controller (plain_event 1 SE_TransactionStarted) two_connectors)) 1
    = Some \<lparr>evse_index = 0, connector = (new_Connector reference_controller 1)
        \<lparr>state := OCCUPIED, transaction_active := True\<rparr>\<rparr>"
    by code_simp
  from faulted_occupied_counts_as_available [OF reference_controller_sync this]
  show ?thesis by simp
qed

section \<open>Reserving and cancelling\<close>

text \<open>
  an accepted reservation can be cancelled by its id, after which the connector is as free
  as before; but the cancellation is announced to the EVSE manager twice, once by the
  reservation handler's callback and once by the command handler.
\<close>

theorem reserve_cancel_roundtrip:
  assumes "handle_reserve_now from_rfc3339 now cid r a = Inr (RR_Accepted, a1)"
    "valid_reservations (reservation_handler a)" "cid \<noteq> - 1"
    "\<forall>c' r'. map_of (reservations (reservation_handler a)) c' = Some r'
       \<longrightarrow> reservation_id r' \<noteq> reservation_id r"
  shows "\<exists>a2 i. impl_handle_cancel_reservation (reservation_id r) a1 = Inr (True, a2)
    \<and> map_of (reservations (reservation_handler a1)) cid = Some r
    \<and> map_of (reservations (reservation_handler a2)) = map_of (reservations (reservation_handler a))
    \<and> auth_trace a2 = auth_trace a
        @ [Reserved_callback i (reservation_id r), Reservation_cancelled i, Reservation_cancelled i]"
proof -
  let ?h = "reservation_handler a"
  obtain ctx where ctx: "map_of (connectors a) cid = Some ctx"
    using assms(1)
    by (auto simp: handle_reserve_now_def handle_reservation_def bind_res_Inr_iff connectors_at_Inr)
  obtain rr h where rv: "reserve from_rfc3339 now cid (get_state (connector ctx))
      (is_reservable (connector ctx)) r ?h = (rr, h)"
    by fastforce
  have res: "reserve from_rfc3339 now cid (get_state (connector ctx)) (is_reservable (connector ctx)) r ?h
      = (RR_Accepted, reservation_handler a1)"
    and a1: "connectors a1 = connectors a"
      "auth_trace a1 = auth_trace a @ [Reserved_callback (evse_index ctx) (reservation_id r)]"
    using assms(1) ctx rv
    by (auto simp: handle_reserve_now_def handle_reservation_def call_reserved_def connectors_at_def
        auth_emit_def split: if_splits)
  have ok: "unexpired from_rfc3339 now r" and free: "map_of (reservations ?h) cid = None"
    and placed: "place_reservation from_rfc3339 now cid r ?h = (True, reservation_handler a1)"
    using res by (auto simp: reserve_def unexpired_def place_reservation_def split: if_splits)
  from rs.place_release [OF assms(2) ok free assms(3,4), where b = True]
  have "fst (cancel_reservation (reservation_id r) True (reservation_handler a1)) = cid"
    "map_of (reservations (snd (cancel_reservation (reservation_id r) True (reservation_handler a1))))
     = map_of (reservations ?h)"
    using placed by simp_all
  moreover have "map_of (reservations (reservation_handler a1)) cid = Some r"
    using rs.place_free [OF assms(2) ok free assms(4)] placed by simp
  ultimately show ?thesis
    using a1 ctx assms(3)
    by (auto simp: impl_handle_cancel_reservation_def handle_cancel_reservation_def
        cancel_with_callback_def call_reservation_cancelled_def connectors_at_def auth_emit_def
        case_prod_beta Let_def)
qed

definition visitor :: Reservation where
  "visitor = \<lparr>reservation_id = 5, res_id_token = ''V'', res_expiry_time = ''T'', res_parent_id_token = None\<rparr>"

theorem reserve_cancel_roundtrip_witness:
  "\<exists>a1 a2 i. handle_reserve_now (\<lambda>_. 100) 0 1 visitor two_connectors = Inr (RR_Accepted, a1)
    \<and> impl_handle_cancel_reservation 5 a1 = Inr (True, a2)
    \<and> auth_trace a2 = [Reserved_callback i 5, Reservation_cancelled i, Reservation_cancelled i]"
proof -
  have ans: "answer_of (handle_reserve_now (\<lambda>_. 100) 0 1 visitor two_connectors) = Some RR_Accepted"
    and empty: "reservations (reservation_handler two_connectors) = []"
    and tr: "auth_trace two_connectors = []" and id5: "reservation_id visitor = 5"
    by code_simp+
  have v: "valid_reservations (reservation_handler two_connectors)"
    using empty by (simp add: valid_reservations_def std_map_ok_def std_keys_def unique_ids_def)
  from answer_ofD [OF ans] obtain a1 where
    r: "handle_reserve_now (\<lambda>_. 100) 0 1 visitor two_connectors = Inr (RR_Accepted, a1)" by blast
  from reserve_cancel_roundtrip [OF r v] show ?thesis using empty tr id5 r by auto
qed

end
