(* ===== verification/Slac_Fsm.thy ===== *)
theory Slac_Fsm
  imports Prelude
begin

text \<open>
  The hierarchical state machine library of \<open>modules/EvseSlac/libfsm/fsm/fsm.hpp\<close>. A state
  object is a value of type \<open>'s\<close>; the virtual methods of \<open>BaseState\<close> are the fields of
  \<open>state_ops\<close>, each mapping the state and the shared context to their new values. The state
  stack is a list with the innermost state (the back of the C++ vector) first.
\<close>

section \<open>Data\<close>

definition IMMEDIATELY_INVOKE_CALLBACK :: int where "IMMEDIATELY_INVOKE_CALLBACK = 0"
definition DO_NOT_CALL_ME_AGAIN :: int where "DO_NOT_CALL_ME_AGAIN = - 1"
definition EVENT_UNHANDLED :: int where "EVENT_UNHANDLED = - 2"
definition EVENT_HANDLED_INTERNALLY :: int where "EVENT_HANDLED_INTERNALLY = - 3"

lemmas fsm_consts =
  IMMEDIATELY_INVOKE_CALLBACK_def DO_NOT_CALL_ME_AGAIN_def EVENT_UNHANDLED_def
  EVENT_HANDLED_INTERNALLY_def

datatype 'e CallbackResult = Callback_value int | Callback_event 'e

datatype NextStateOption = RESTART | PASS_ON | HANDLED_INTERNALLY

datatype 's NextState = Next_option NextStateOption | Next_states "'s option" "'s option"

record ('s, 'e, 'c) state_ops =
  op_enter :: "'s \<Rightarrow> 'c \<Rightarrow> int \<times> 's \<times> 'c"
  op_handle_event :: "'s \<Rightarrow> 'e \<Rightarrow> 'c \<Rightarrow> 's NextState \<times> 's \<times> 'c"
  op_callback :: "'s \<Rightarrow> 'c \<Rightarrow> 'e CallbackResult \<times> 's \<times> 'c"
  op_leave :: "'s \<Rightarrow> 'c \<Rightarrow> 'c"

section \<open>Operations\<close>

text \<open>
  The event is offered from the innermost state outwards until one does not pass it on. The
  result also tells how many states have seen it.
\<close>

fun offer_event ::
    "('s, 'e, 'c) state_ops \<Rightarrow> 'e \<Rightarrow> 's list \<Rightarrow> 'c \<Rightarrow> 's NextState \<times> nat \<times> 's list \<times> 'c" where
  "offer_event ops ev [] c = (Next_option PASS_ON, 0, [], c)"
| "offer_event ops ev (s # ss) c =
    (let (n, s, c) = op_handle_event ops s ev c
     in case n of
          Next_option PASS_ON \<Rightarrow>
            (let (n, k, ss, c) = offer_event ops ev ss c in (n, Suc k, s # ss, c))
        | _ \<Rightarrow> (n, 1, s # ss, c))"

fun leave_states :: "('s, 'e, 'c) state_ops \<Rightarrow> nat \<Rightarrow> 's list \<Rightarrow> 'c \<Rightarrow> 's list \<times> 'c" where
  "leave_states ops (Suc k) (s # ss) c = leave_states ops k ss (op_leave ops s c)"
| "leave_states ops k ss c = (ss, c)"

definition push_state ::
    "('s, 'e, 'c) state_ops \<Rightarrow> 's \<Rightarrow> 's list \<Rightarrow> 'c \<Rightarrow> int \<times> 's list \<times> 'c" where
  "push_state ops s ss c = (let (v, s, c) = op_enter ops s c in (v, s # ss, c))"

definition enter_next ::
    "('s, 'e, 'c) state_ops \<Rightarrow> 's option \<Rightarrow> 's option \<Rightarrow> 's list \<Rightarrow> 'c \<Rightarrow> int \<times> 's list \<times> 'c" where
  "enter_next ops compound child ss c =
    (let (ss, c) = (case compound of None \<Rightarrow> (ss, c)
                    | Some s \<Rightarrow> (let (_, ss, c) = push_state ops s ss c in (ss, c)))
     in case child of None \<Rightarrow> (0, ss, c) | Some s \<Rightarrow> push_state ops s ss c)"

definition dispatch_event ::
    "('s, 'e, 'c) state_ops \<Rightarrow> 'e \<Rightarrow> 's list \<Rightarrow> 'c \<Rightarrow> int \<times> 's list \<times> 'c" where
  "dispatch_event ops ev ss c =
    (let (n, k, ss, c) = offer_event ops ev ss c
     in case n of
          Next_option PASS_ON \<Rightarrow> (EVENT_UNHANDLED, ss, c)
        | Next_option HANDLED_INTERNALLY \<Rightarrow> (EVENT_HANDLED_INTERNALLY, ss, c)
        | Next_option RESTART \<Rightarrow>
            (let (ss, c) = leave_states ops k ss c in enter_next ops None None ss c)
        | Next_states compound child \<Rightarrow>
            (let (ss, c) = leave_states ops k ss c in enter_next ops compound child ss c))"

definition feed_event ::
    "('s, 'e, 'c) state_ops \<Rightarrow> 'e \<Rightarrow> 's list \<Rightarrow> 'c \<Rightarrow> int \<times> 's list \<times> 'c" where
  "feed_event ops ev ss c = dispatch_event ops ev ss c"

definition feed :: "('s, 'e, 'c) state_ops \<Rightarrow> 's list \<Rightarrow> 'c \<Rightarrow> int \<times> 's list \<times> 'c" where
  "feed ops ss c =
    (case ss of
       [] \<Rightarrow> (0, ss, c)
     | s # ss \<Rightarrow>
         (let (r, s, c) = op_callback ops s c
          in case r of
               Callback_event ev \<Rightarrow> dispatch_event ops ev (s # ss) c
             | Callback_value v \<Rightarrow> (v, s # ss, c)))"

definition reset_fsm :: "('s, 'e, 'c) state_ops \<Rightarrow> 's \<Rightarrow> 'c \<Rightarrow> int \<times> 's list \<times> 'c" where
  "reset_fsm ops s c = push_state ops s [] c"

section \<open>Machines without compound states\<close>

text \<open>
  The contract of a machine whose states never nest: an invariant \<open>I\<close> of the current state and
  the context. A state may assume \<open>I\<close> in its callback and event handler, and, for an event that
  a callback has raised, what the callback guarantees with it (\<open>G\<close>); before a change of state it
  establishes, together with \<open>leave\<close>, the entry condition \<open>E\<close> of its successor, and \<open>enter\<close>
  establishes \<open>I\<close> from it. The client gets that the machine always has exactly one
  state and that the invariant holds after every operation.
\<close>

locale flat_machine =
  fixes ops :: "('s, 'e, 'c) state_ops"
    and I :: "'s \<Rightarrow> 'c \<Rightarrow> bool"
    and E :: "'s \<Rightarrow> 'c \<Rightarrow> bool"
    and G :: "'e \<Rightarrow> 's \<Rightarrow> 'c \<Rightarrow> bool"
  assumes enter_inv: "E s c \<Longrightarrow> op_enter ops s c = (v, s', c') \<Longrightarrow> I s' c'"
    and handle_inv: "I s c \<Longrightarrow> G ev s c \<Longrightarrow> op_handle_event ops s ev c = (n, s', c') \<Longrightarrow>
      (case n of Next_option opt \<Rightarrow> opt \<noteq> RESTART \<and> I s' c'
       | Next_states compound child \<Rightarrow>
           compound = None \<and> (\<exists>t. child = Some t \<and> E t (op_leave ops s' c')))"
    and callback_inv: "I s c \<Longrightarrow> op_callback ops s c = (r, s', c') \<Longrightarrow>
      I s' c' \<and> (\<forall>ev. r = Callback_event ev \<longrightarrow> G ev s' c')"
begin

lemma dispatch_inv:
  assumes "I s c" "G ev s c"
  shows "\<exists>v t d. dispatch_event ops ev [s] c = (v, [t], d) \<and> I t d"
proof -
  obtain n s' c' where h: "op_handle_event ops s ev c = (n, s', c')" by (metis prod_cases3)
  note hi = handle_inv [OF assms h]
  show ?thesis
  proof (cases n)
    case (Next_option opt)
    then show ?thesis
      using hi h by (cases opt) (auto simp: dispatch_event_def)
  next
    case (Next_states compound child)
    then obtain t where t: "compound = None" "child = Some t" "E t (op_leave ops s' c')"
      using hi by auto
    obtain v t' d where e: "op_enter ops t (op_leave ops s' c') = (v, t', d)" by (metis prod_cases3)
    then show ?thesis
      using Next_states t h enter_inv [OF t(3) e]
      by (simp add: dispatch_event_def enter_next_def push_state_def)
  qed
qed

lemma feed_inv:
  assumes "I s c"
  shows "\<exists>v t d. feed ops [s] c = (v, [t], d) \<and> I t d"
proof -
  obtain r s' c' where cb: "op_callback ops s c = (r, s', c')" by (metis prod_cases3)
  note ci = callback_inv [OF assms cb]
  show ?thesis
    using cb ci dispatch_inv [of s' c'] by (cases r) (simp_all add: feed_def)
qed

lemma reset_inv: "E s c \<Longrightarrow> \<exists>v t d. reset_fsm ops s c = (v, [t], d) \<and> I t d"
  using enter_inv [of s c] by (cases "op_enter ops s c") (auto simp: reset_fsm_def push_state_def)

end

end
