(* ===== verification/Slac.thy ===== *)
theory Slac
  imports Slac_Fsm "HOL-Library.Word"
begin

text \<open>
  The SLAC state machine of \<open>modules/EvseSlac/main\<close>: the context (\<open>context.cpp\<close>), the states
  (\<open>states/others.cpp\<close>, \<open>states/matching.cpp\<close>, \<open>states/matching_handle_slac.cpp\<close>), the
  controller (\<open>fsm_controller.cpp\<close>) and the commands of \<open>slacImpl.cpp\<close>. The constants of
  \<open>libslac\<close> and its NID derivation are the fields of the parameter \<open>slac_lib\<close>; a Homeplug
  message is given by its type and parsed payload. Sent messages and published variables are
  outputs, log texts are left out. Times are nanoseconds of the steady clock; a handler reads
  the clock once.
\<close>

section \<open>The library\<close>

type_synonym octets = "8 word list"

record slac_lib =
  TT_EVSE_SLAC_INIT_MS :: int
  TT_MATCH_SEQUENCE_MS :: int
  TT_EVSE_MATCH_MNBC_MS :: int
  TT_MATCH_RESPONSE_MS :: int
  TT_EVSE_MATCH_SESSION_MS :: int
  C_EV_MATCH_RETRY :: int
  AAG_LIST_LEN :: nat
  CM_SLAC_PARM_CNF_NUM_SOUNDS :: int
  CM_SLAC_PARM_CNF_TIMEOUT :: "8 word"
  CM_SLAC_PARM_CNF_RESP_TYPE :: "8 word"
  BROADCAST_MAC_ADDRESS :: octets
  COMMON_APPLICATION_TYPE :: "8 word"
  COMMON_SECURITY_TYPE :: "8 word"
  CM_SLAC_MATCH_CNF_MVF_LENGTH :: "16 word"
  CM_VALIDATE_REQ_SIGNAL_TYPE :: "8 word"
  CM_VALIDATE_REQ_RESULT_FAILURE :: "8 word"
  CM_SET_KEY_REQ_KEY_TYPE_NMK :: "8 word"
  CM_SET_KEY_REQ_PID_HLE :: "8 word"
  CM_SET_KEY_REQ_PRN_UNUSED :: "16 word"
  CM_SET_KEY_REQ_PMN_UNUSED :: "8 word"
  CM_SET_KEY_REQ_CCO_CAP_NONE :: "8 word"
  CM_SET_KEY_REQ_PEKS_NMK_KNOWN_TO_STA :: "8 word"
  SOURCE_ID_LEN :: nat
  NMK_LEN :: nat
  generate_nid_from_nmk :: "octets \<Rightarrow> octets"

text \<open>Received messages: the payload fields that the handlers read.\<close>

record match_req =
  mr_run_id :: octets
  mr_pev_id :: octets
  mr_pev_mac :: octets
  mr_evse_id :: octets
  mr_evse_mac :: octets

datatype slac_payload =
    cm_slac_parm_req octets
  | cm_start_atten_char_ind octets
  | cm_mnbc_sound_ind octets
  | cm_atten_profile_ind octets nat octets
  | cm_atten_char_rsp octets
  | cm_slac_match_req match_req
  | cm_validate_req
  | cm_set_key_cnf
  | other_message "16 word"

record HomeplugMessage =
  src_mac :: octets
  payload :: slac_payload

text \<open>Sent messages.\<close>

record parm_cnf =
  pc_m_sound_target :: octets
  pc_num_sounds :: int
  pc_timeout :: "8 word"
  pc_resp_type :: "8 word"
  pc_forwarding_sta :: octets
  pc_application_type :: "8 word"
  pc_security_type :: "8 word"
  pc_run_id :: octets

record atten_char_ind =
  ac_application_type :: "8 word"
  ac_security_type :: "8 word"
  ac_source_address :: octets
  ac_run_id :: octets
  ac_source_id :: octets
  ac_resp_id :: octets
  ac_num_sounds :: int
  ac_num_groups :: nat
  ac_aag :: octets

record match_cnf =
  mc_application_type :: "8 word"
  mc_security_type :: "8 word"
  mc_mvf_length :: "16 word"
  mc_pev_id :: octets
  mc_pev_mac :: octets
  mc_evse_id :: octets
  mc_evse_mac :: octets
  mc_run_id :: octets
  mc_nid :: octets
  mc_nmk :: octets

record set_key_req =
  sk_key_type :: "8 word"
  sk_my_nonce :: "32 word"
  sk_your_nonce :: "32 word"
  sk_pid :: "8 word"
  sk_prn :: "16 word"
  sk_pmn :: "8 word"
  sk_cco_capability :: "8 word"
  sk_nid :: octets
  sk_new_eks :: "8 word"
  sk_new_key :: octets

datatype sent_message =
    Cm_slac_parm_cnf parm_cnf
  | Cm_atten_char_ind atten_char_ind
  | Cm_slac_match_cnf match_cnf
  | Cm_set_key_req set_key_req
  | Cm_validate_cnf "8 word" "8 word" "8 word"

section \<open>Context\<close>

datatype slac_effect =
    Send_slac octets sent_message
  | Publish_state string
  | Publish_dlink_ready bool
  | Request_error_routine
  | Publish_ev_mac_address octets

record Context =
  slac_message_payload :: HomeplugMessage
  plc_peer_mac :: octets
  session_nmk :: octets
  set_key_timeout_ms :: int
  publish_mac_on_first_parm_req :: bool
  publish_mac_on_match_cnf :: bool
  clock_now :: int
  random_draws :: nat
  slac_trace :: "slac_effect list"

definition slac_emit :: "slac_effect \<Rightarrow> Context \<Rightarrow> Context" where
  "slac_emit e c = c\<lparr>slac_trace := slac_trace c @ [e]\<rparr>"

definition send_slac_message :: "octets \<Rightarrow> sent_message \<Rightarrow> Context \<Rightarrow> Context" where
  "send_slac_message mac m = slac_emit (Send_slac mac m)"

definition signal_cm_slac_parm_req :: "octets \<Rightarrow> Context \<Rightarrow> Context" where
  "signal_cm_slac_parm_req mac c =
     (if publish_mac_on_first_parm_req c then slac_emit (Publish_ev_mac_address mac) c else c)"

definition signal_cm_slac_match_cnf :: "octets \<Rightarrow> Context \<Rightarrow> Context" where
  "signal_cm_slac_match_cnf mac c =
     (if publish_mac_on_match_cnf c then slac_emit (Publish_ev_mac_address mac) c else c)"

definition signal_dlink_ready :: "bool \<Rightarrow> Context \<Rightarrow> Context" where
  "signal_dlink_ready b = slac_emit (Publish_dlink_ready b)"

definition signal_error_routine_request :: "Context \<Rightarrow> Context" where
  "signal_error_routine_request = slac_emit Request_error_routine"

definition signal_state :: "string \<Rightarrow> Context \<Rightarrow> Context" where
  "signal_state s = slac_emit (Publish_state s)"

text \<open>\<open>rnd\<close> is the sequence that the uniform distribution over the characters draws.\<close>

definition NMK_CHARACTERS :: string where
  "NMK_CHARACTERS = ''0123456789ABCDEFGHIJKLMNOPQRSTUVWXYZ''"

definition generate_nmk :: "slac_lib \<Rightarrow> (nat \<Rightarrow> nat) \<Rightarrow> Context \<Rightarrow> Context" where
  "generate_nmk K rnd c =
     c\<lparr>session_nmk := map (\<lambda>i. of_char (NMK_CHARACTERS ! rnd (random_draws c + i))) [0..<NMK_LEN K],
       random_draws := random_draws c + NMK_LEN K\<rparr>"

lemmas context_defs =
  slac_emit_def send_slac_message_def signal_cm_slac_parm_req_def signal_cm_slac_match_cnf_def
  signal_dlink_ready_def signal_error_routine_request_def signal_state_def generate_nmk_def

section \<open>Matching sessions\<close>

datatype MatchingSubState =
    WAIT_FOR_START_ATTEN_CHAR | SOUNDING | WAIT_FOR_ATTEN_CHAR_RSP | WAIT_FOR_SLAC_MATCH
  | RECEIVED_SLAC_MATCH | MATCH_COMPLETE | FAILED

record MatchingSession =
  sub_state :: MatchingSubState
  ev_mac :: octets
  run_id :: octets
  next_timeout :: int
  timeout_active :: bool
  captured_sounds :: int
  captured_aags :: "int list"
  received_mnbc_sound :: bool

record matching =
  sessions :: "MatchingSession list"
  timeout_slac_parm_req :: int
  seen_slac_parm_req :: bool
  num_retries :: int

definition ms :: "int \<Rightarrow> int" where "ms n = n * 1000000"

text \<open>\<open>duration_cast\<close> to milliseconds truncates towards zero.\<close>

definition remaining_milliseconds :: "int \<Rightarrow> int \<Rightarrow> int" where
  "remaining_milliseconds timeout now =
     (let d = timeout - now in if 0 \<le> d then d div 1000000 else - ((- d) div 1000000))"

definition new_MatchingSession :: "slac_lib \<Rightarrow> octets \<Rightarrow> octets \<Rightarrow> MatchingSession" where
  "new_MatchingSession K mac rid = \<lparr>sub_state = WAIT_FOR_START_ATTEN_CHAR, ev_mac = mac,
     run_id = rid, next_timeout = 0, timeout_active = False, captured_sounds = 0,
     captured_aags = replicate (AAG_LIST_LEN K) 0, received_mnbc_sound = False\<rparr>"

definition set_next_timeout :: "int \<Rightarrow> int \<Rightarrow> MatchingSession \<Rightarrow> MatchingSession" where
  "set_next_timeout now delay_ms s = s\<lparr>next_timeout := now + ms delay_ms, timeout_active := True\<rparr>"

definition ack_timeout :: "MatchingSession \<Rightarrow> MatchingSession" where
  "ack_timeout s = s\<lparr>timeout_active := False\<rparr>"

definition is_identified_by :: "octets \<Rightarrow> octets \<Rightarrow> MatchingSession \<Rightarrow> bool" where
  "is_identified_by mac rid s = (rid = run_id s \<and> mac = ev_mac s)"

definition all_sessions_failed :: "MatchingSession list \<Rightarrow> bool" where
  "all_sessions_failed ss = list_all (\<lambda>s. sub_state s = FAILED) ss"

text \<open>The position of the first session with the given identity.\<close>

fun find_session :: "octets \<Rightarrow> octets \<Rightarrow> MatchingSession list \<Rightarrow> nat option" where
  "find_session mac rid [] = None"
| "find_session mac rid (s # ss) =
     (if is_identified_by mac rid s then Some 0 else map_option Suc (find_session mac rid ss))"

definition create_cm_slac_parm_cnf :: "slac_lib \<Rightarrow> MatchingSession \<Rightarrow> parm_cnf" where
  "create_cm_slac_parm_cnf K s = \<lparr>pc_m_sound_target = BROADCAST_MAC_ADDRESS K,
     pc_num_sounds = CM_SLAC_PARM_CNF_NUM_SOUNDS K, pc_timeout = CM_SLAC_PARM_CNF_TIMEOUT K,
     pc_resp_type = CM_SLAC_PARM_CNF_RESP_TYPE K, pc_forwarding_sta = ev_mac s,
     pc_application_type = COMMON_APPLICATION_TYPE K, pc_security_type = COMMON_SECURITY_TYPE K,
     pc_run_id = run_id s\<rparr>"

text \<open>The sums are never negative, so the C++ division is \<open>div\<close>; storing it in an octet wraps.\<close>

definition create_cm_atten_char_ind :: "slac_lib \<Rightarrow> MatchingSession \<Rightarrow> atten_char_ind" where
  "create_cm_atten_char_ind K s = \<lparr>ac_application_type = COMMON_APPLICATION_TYPE K,
     ac_security_type = COMMON_SECURITY_TYPE K, ac_source_address = ev_mac s, ac_run_id = run_id s,
     ac_source_id = replicate (SOURCE_ID_LEN K) 0, ac_resp_id = replicate (SOURCE_ID_LEN K) 0,
     ac_num_sounds = captured_sounds s, ac_num_groups = AAG_LIST_LEN K,
     ac_aag = (if captured_sounds s \<noteq> 0
               then map (\<lambda>i. word_of_int (captured_aags s ! i div captured_sounds s)) [0..<AAG_LIST_LEN K]
               else replicate (AAG_LIST_LEN K) 1)\<rparr>"

definition create_cm_slac_match_cnf :: "slac_lib \<Rightarrow> MatchingSession \<Rightarrow> match_req \<Rightarrow> octets \<Rightarrow> match_cnf" where
  "create_cm_slac_match_cnf K s req nmk = \<lparr>mc_application_type = COMMON_APPLICATION_TYPE K,
     mc_security_type = COMMON_SECURITY_TYPE K, mc_mvf_length = CM_SLAC_MATCH_CNF_MVF_LENGTH K,
     mc_pev_id = mr_pev_id req, mc_pev_mac = mr_pev_mac req, mc_evse_id = mr_evse_id req,
     mc_evse_mac = mr_evse_mac req, mc_run_id = mr_run_id req,
     mc_nid = generate_nid_from_nmk K nmk, mc_nmk = nmk\<rparr>"

definition create_cm_set_key_req :: "slac_lib \<Rightarrow> octets \<Rightarrow> set_key_req" where
  "create_cm_set_key_req K nmk = \<lparr>sk_key_type = CM_SET_KEY_REQ_KEY_TYPE_NMK K,
     sk_my_nonce = 0xAAAAAAAA, sk_your_nonce = 0, sk_pid = CM_SET_KEY_REQ_PID_HLE K,
     sk_prn = CM_SET_KEY_REQ_PRN_UNUSED K, sk_pmn = CM_SET_KEY_REQ_PMN_UNUSED K,
     sk_cco_capability = CM_SET_KEY_REQ_CCO_CAP_NONE K, sk_nid = generate_nid_from_nmk K nmk,
     sk_new_eks = CM_SET_KEY_REQ_PEKS_NMK_KNOWN_TO_STA K, sk_new_key = nmk\<rparr>"

section \<open>Message handlers of the matching state\<close>

definition finalize_sounding ::
    "slac_lib \<Rightarrow> MatchingSession \<Rightarrow> Context \<Rightarrow> MatchingSession \<times> Context" where
  "finalize_sounding K s c =
    (let s = s\<lparr>sub_state := WAIT_FOR_ATTEN_CHAR_RSP\<rparr>;
         c = send_slac_message (ev_mac s) (Cm_atten_char_ind (create_cm_atten_char_ind K s)) c
     in (set_next_timeout (clock_now c) (TT_MATCH_RESPONSE_MS K) s, c))"

definition handle_cm_slac_parm_req ::
    "slac_lib \<Rightarrow> octets \<Rightarrow> octets \<Rightarrow> matching \<Rightarrow> Context \<Rightarrow> matching \<times> Context" where
  "handle_cm_slac_parm_req K mac rid m c =
    (let m = m\<lparr>seen_slac_parm_req := True\<rparr>;
         s = set_next_timeout (clock_now c) (TT_MATCH_SEQUENCE_MS K) (new_MatchingSession K mac rid);
         m = (case find_session mac rid (sessions m) of
                Some i \<Rightarrow> m\<lparr>sessions := (sessions m)[i := s]\<rparr>
              | None \<Rightarrow> m\<lparr>sessions := sessions m @ [s]\<rparr>);
         cnf = create_cm_slac_parm_cnf K s;
         c = send_slac_message (pc_forwarding_sta cnf) (Cm_slac_parm_cnf cnf) c
     in (m, signal_cm_slac_parm_req mac c))"

definition handle_cm_start_atten_char_ind ::
    "slac_lib \<Rightarrow> octets \<Rightarrow> octets \<Rightarrow> matching \<Rightarrow> Context \<Rightarrow> matching \<times> Context" where
  "handle_cm_start_atten_char_ind K mac rid m c =
    (case find_session mac rid (sessions m) of
       None \<Rightarrow> (m, c)
     | Some i \<Rightarrow>
         let s = sessions m ! i
         in if sub_state s \<noteq> WAIT_FOR_START_ATTEN_CHAR then (m, c)
            else (m\<lparr>sessions := (sessions m)[i :=
                    set_next_timeout (clock_now c) (TT_EVSE_MATCH_MNBC_MS K)
                      (s\<lparr>sub_state := SOUNDING\<rparr>)]\<rparr>, c))"

definition handle_cm_mnbc_sound_ind ::
    "octets \<Rightarrow> octets \<Rightarrow> matching \<Rightarrow> Context \<Rightarrow> matching \<times> Context" where
  "handle_cm_mnbc_sound_ind mac rid m c =
    (case find_session mac rid (sessions m) of
       None \<Rightarrow> (m, c)
     | Some i \<Rightarrow>
         let s = sessions m ! i
         in if sub_state s \<noteq> SOUNDING then (m, c)
            else (m\<lparr>sessions := (sessions m)[i := s\<lparr>received_mnbc_sound := True\<rparr>]\<rparr>, c))"

text \<open>The loop has no \<open>break\<close>: the last session of the vehicle is taken.\<close>

fun last_session_of :: "octets \<Rightarrow> nat \<Rightarrow> nat option \<Rightarrow> MatchingSession list \<Rightarrow> nat option" where
  "last_session_of mac i found [] = found"
| "last_session_of mac i found (s # ss) =
     last_session_of mac (Suc i) (if mac = ev_mac s then Some i else found) ss"

definition add_profile :: "slac_lib \<Rightarrow> octets \<Rightarrow> MatchingSession \<Rightarrow> MatchingSession" where
  "add_profile K aag s = s\<lparr>
     captured_aags := map (\<lambda>i. captured_aags s ! i + uint (aag ! i)) [0..<AAG_LIST_LEN K],
     captured_sounds := captured_sounds s + 1\<rparr>"

definition handle_cm_atten_profile_ind ::
    "slac_lib \<Rightarrow> octets \<Rightarrow> nat \<Rightarrow> octets \<Rightarrow> matching \<Rightarrow> Context \<Rightarrow> matching \<times> Context" where
  "handle_cm_atten_profile_ind K pev_mac num_groups aag m c =
    (case last_session_of pev_mac 0 None (sessions m) of
       None \<Rightarrow> (m, c)
     | Some i \<Rightarrow>
         let s = sessions m ! i
         in if sub_state s \<noteq> SOUNDING then (m, c)
            else if num_groups \<noteq> AAG_LIST_LEN K then (m, c)
            else
              let s = add_profile K aag s
              in if captured_sounds s < CM_SLAC_PARM_CNF_NUM_SOUNDS K
                 then (m\<lparr>sessions := (sessions m)[i := s]\<rparr>, c)
                 else let (s, c) = finalize_sounding K s c
                      in (m\<lparr>sessions := (sessions m)[i := s]\<rparr>, c))"

definition handle_cm_atten_char_rsp ::
    "slac_lib \<Rightarrow> octets \<Rightarrow> octets \<Rightarrow> matching \<Rightarrow> Context \<Rightarrow> matching \<times> Context" where
  "handle_cm_atten_char_rsp K mac rid m c =
    (case find_session mac rid (sessions m) of
       None \<Rightarrow> (m, c)
     | Some i \<Rightarrow>
         let s = sessions m ! i
         in if sub_state s \<noteq> WAIT_FOR_ATTEN_CHAR_RSP then (m, c)
            else (m\<lparr>sessions := (sessions m)[i :=
                    set_next_timeout (clock_now c) (TT_EVSE_MATCH_SESSION_MS K)
                      (s\<lparr>sub_state := WAIT_FOR_SLAC_MATCH\<rparr>)]\<rparr>, c))"

definition handle_cm_validate_req :: "slac_lib \<Rightarrow> octets \<Rightarrow> Context \<Rightarrow> Context" where
  "handle_cm_validate_req K mac c =
     send_slac_message mac (Cm_validate_cnf (CM_VALIDATE_REQ_SIGNAL_TYPE K) 0
       (CM_VALIDATE_REQ_RESULT_FAILURE K)) c"

definition handle_cm_slac_match_req ::
    "slac_lib \<Rightarrow> octets \<Rightarrow> match_req \<Rightarrow> matching \<Rightarrow> Context \<Rightarrow> matching \<times> Context" where
  "handle_cm_slac_match_req K mac req m c =
    (case find_session mac (mr_run_id req) (sessions m) of
       None \<Rightarrow> (m, c)
     | Some i \<Rightarrow>
         let s = sessions m ! i
         in if sub_state s \<noteq> WAIT_FOR_SLAC_MATCH then (m, c)
            else
              let cnf = create_cm_slac_match_cnf K s req (session_nmk c);
                  c = send_slac_message mac (Cm_slac_match_cnf cnf) c;
                  s = set_next_timeout (clock_now c) 0 (s\<lparr>sub_state := MATCH_COMPLETE\<rparr>)
              in (m\<lparr>sessions := (sessions m)[i := s]\<rparr>, signal_cm_slac_match_cnf mac c))"

definition handle_slac_message ::
    "slac_lib \<Rightarrow> HomeplugMessage \<Rightarrow> matching \<Rightarrow> Context \<Rightarrow> matching \<times> Context" where
  "handle_slac_message K msg m c =
    (case payload msg of
       cm_slac_parm_req rid \<Rightarrow> handle_cm_slac_parm_req K (src_mac msg) rid m c
     | cm_start_atten_char_ind rid \<Rightarrow> handle_cm_start_atten_char_ind K (src_mac msg) rid m c
     | cm_mnbc_sound_ind rid \<Rightarrow> handle_cm_mnbc_sound_ind (src_mac msg) rid m c
     | cm_atten_profile_ind pev n aag \<Rightarrow> handle_cm_atten_profile_ind K pev n aag m c
     | cm_atten_char_rsp rid \<Rightarrow> handle_cm_atten_char_rsp K (src_mac msg) rid m c
     | cm_slac_match_req req \<Rightarrow> handle_cm_slac_match_req K (src_mac msg) req m c
     | cm_validate_req \<Rightarrow> (m, handle_cm_validate_req K (src_mac msg) c)
     | cm_set_key_cnf \<Rightarrow> (m, c)
     | other_message _ \<Rightarrow> (m, c))"

section \<open>States\<close>

datatype Event =
    EV_RESET | ENTER_BCD | LEAVE_BCD | SLAC_MESSAGE | RETRY_MATCHING | EV_MATCH_COMPLETE | EV_FAILED

datatype slac_state = ResetState | IdleState | MatchingState matching | MatchedState | FailedState

definition new_matching :: matching where
  "new_matching = \<lparr>sessions = [], timeout_slac_parm_req = 0, seen_slac_parm_req = False,
     num_retries = 0\<rparr>"

fun slac_enter :: "slac_lib \<Rightarrow> slac_state \<Rightarrow> Context \<Rightarrow> int \<times> slac_state \<times> Context" where
  "slac_enter K ResetState c =
     (set_key_timeout_ms c, ResetState,
      send_slac_message (plc_peer_mac c) (Cm_set_key_req (create_cm_set_key_req K (session_nmk c))) c)"
| "slac_enter K IdleState c = (DO_NOT_CALL_ME_AGAIN, IdleState, signal_state ''UNMATCHED'' c)"
| "slac_enter K (MatchingState m) c =
     (TT_EVSE_SLAC_INIT_MS K,
      MatchingState (m\<lparr>timeout_slac_parm_req := clock_now c + ms (TT_EVSE_SLAC_INIT_MS K)\<rparr>),
      signal_state ''MATCHING'' c)"
| "slac_enter K MatchedState c =
     (DO_NOT_CALL_ME_AGAIN, MatchedState, signal_dlink_ready True (signal_state ''MATCHED'' c))"
| "slac_enter K FailedState c =
     (DO_NOT_CALL_ME_AGAIN, FailedState, signal_error_routine_request c)"

fun slac_leave :: "slac_lib \<Rightarrow> (nat \<Rightarrow> nat) \<Rightarrow> slac_state \<Rightarrow> Context \<Rightarrow> Context" where
  "slac_leave K rnd MatchedState c = signal_dlink_ready False (generate_nmk K rnd c)"
| "slac_leave K rnd _ c = c"

definition goto :: "slac_state \<Rightarrow> slac_state NextState" where
  "goto s = Next_states None (Some s)"

fun slac_handle_event ::
    "slac_lib \<Rightarrow> slac_state \<Rightarrow> Event \<Rightarrow> Context \<Rightarrow> slac_state NextState \<times> slac_state \<times> Context" where
  "slac_handle_event K ResetState ev c =
     (case ev of
        SLAC_MESSAGE \<Rightarrow>
          (if payload (slac_message_payload c) = cm_set_key_cnf then goto IdleState
           else Next_option PASS_ON)
      | EV_RESET \<Rightarrow> goto ResetState
      | _ \<Rightarrow> Next_option PASS_ON, ResetState, c)"
| "slac_handle_event K IdleState ev c =
     (case ev of ENTER_BCD \<Rightarrow> goto (MatchingState new_matching) | EV_RESET \<Rightarrow> goto ResetState
      | _ \<Rightarrow> Next_option PASS_ON, IdleState, c)"
| "slac_handle_event K (MatchingState m) ev c =
     (case ev of
        SLAC_MESSAGE \<Rightarrow>
          (let (m, c) = handle_slac_message K (slac_message_payload c) m c
           in (Next_option HANDLED_INTERNALLY, MatchingState m, c))
      | EV_RESET \<Rightarrow> (goto ResetState, MatchingState m, c)
      | EV_MATCH_COMPLETE \<Rightarrow> (goto MatchedState, MatchingState m, c)
      | RETRY_MATCHING \<Rightarrow>
          (let m = m\<lparr>num_retries := num_retries m + 1\<rparr>
           in if num_retries m = C_EV_MATCH_RETRY K then (goto FailedState, MatchingState m, c)
              else (Next_option HANDLED_INTERNALLY,
                    MatchingState (m\<lparr>timeout_slac_parm_req :=
                      clock_now c + ms (TT_EVSE_SLAC_INIT_MS K)\<rparr>), c))
      | EV_FAILED \<Rightarrow> (goto FailedState, MatchingState m, c)
      | _ \<Rightarrow> (Next_option PASS_ON, MatchingState m, c))"
| "slac_handle_event K MatchedState ev c =
     (case ev of EV_RESET \<Rightarrow> goto ResetState | _ \<Rightarrow> Next_option PASS_ON, MatchedState, c)"
| "slac_handle_event K FailedState ev c =
     (case ev of EV_RESET \<Rightarrow> goto ResetState | _ \<Rightarrow> Next_option PASS_ON, FailedState, c)"

text \<open>
  The inner loop of the matching callback on one session: \<open>Inl\<close> for the early return of
  \<open>MATCH_COMPLETE\<close>, otherwise the updated delay, session and context.
\<close>

fun timeout_rank :: "MatchingSubState \<Rightarrow> nat" where
  "timeout_rank SOUNDING = 1"
| "timeout_rank _ = 0"

function session_timeouts ::
    "slac_lib \<Rightarrow> int \<Rightarrow> MatchingSession \<Rightarrow> Context
     \<Rightarrow> unit + (int \<times> MatchingSession \<times> Context)" where
  "session_timeouts K call_back_ms s c =
    (if \<not> timeout_active s then Inr (call_back_ms, s, c)
     else if sub_state s = MATCH_COMPLETE then Inl ()
     else
       let remaining_ms = remaining_milliseconds (next_timeout s) (clock_now c)
       in if remaining_ms > 0 then
            Inr (if call_back_ms = DO_NOT_CALL_ME_AGAIN \<or> call_back_ms > remaining_ms
                 then remaining_ms else call_back_ms, s, c)
          else
            let s = ack_timeout s
            in if sub_state s = SOUNDING then
                 (let (s, c) = finalize_sounding K s c in session_timeouts K call_back_ms s c)
               else if sub_state s \<in> {WAIT_FOR_START_ATTEN_CHAR, WAIT_FOR_ATTEN_CHAR_RSP,
                                     WAIT_FOR_SLAC_MATCH}
               then Inr (call_back_ms, s\<lparr>sub_state := FAILED\<rparr>, c)
               else Inr (call_back_ms, s, c))"
  by auto
termination
  by (relation "measure (\<lambda>(K, v, s, c). timeout_rank (sub_state s))")
     (auto simp: finalize_sounding_def set_next_timeout_def ack_timeout_def Let_def)

declare session_timeouts.simps [simp del]

text \<open>The loop over the sessions, from position \<open>i\<close>.\<close>

function sessions_timeouts ::
    "slac_lib \<Rightarrow> nat \<Rightarrow> int \<Rightarrow> matching \<Rightarrow> Context \<Rightarrow> Event CallbackResult \<times> matching \<times> Context" where
  "sessions_timeouts K i call_back_ms m c =
    (if length (sessions m) \<le> i then (Callback_value call_back_ms, m, c)
     else
       case session_timeouts K call_back_ms (sessions m ! i) c of
         Inl _ \<Rightarrow> (Callback_event EV_MATCH_COMPLETE, m, c)
       | Inr (call_back_ms, s, c) \<Rightarrow>
           let m = m\<lparr>sessions := (sessions m)[i := s]\<rparr>
           in if all_sessions_failed (sessions m) then (Callback_event EV_FAILED, m, c)
              else sessions_timeouts K (i + 1) call_back_ms m c)"
  by auto
termination by (relation "measure (\<lambda>(K, i, v, m, c). length (sessions m) - i)") auto

declare sessions_timeouts.simps [simp del]

definition matching_callback ::
    "slac_lib \<Rightarrow> matching \<Rightarrow> Context \<Rightarrow> Event CallbackResult \<times> matching \<times> Context" where
  "matching_callback K m c =
    (if \<not> seen_slac_parm_req m \<and> clock_now c \<ge> timeout_slac_parm_req m
     then (Callback_event RETRY_MATCHING, m, c)
     else sessions_timeouts K 0
            (if \<not> seen_slac_parm_req m
             then remaining_milliseconds (timeout_slac_parm_req m) (clock_now c)
             else DO_NOT_CALL_ME_AGAIN) m c)"

fun slac_callback ::
    "slac_lib \<Rightarrow> slac_state \<Rightarrow> Context \<Rightarrow> Event CallbackResult \<times> slac_state \<times> Context" where
  "slac_callback K (MatchingState m) c =
     (let (r, m, c) = matching_callback K m c in (r, MatchingState m, c))"
| "slac_callback K s c = (Callback_value DO_NOT_CALL_ME_AGAIN, s, c)"

definition slac_ops :: "slac_lib \<Rightarrow> (nat \<Rightarrow> nat) \<Rightarrow> (slac_state, Event, Context) state_ops" where
  "slac_ops K rnd = \<lparr>op_enter = slac_enter K, op_handle_event = slac_handle_event K,
     op_callback = slac_callback K, op_leave = slac_leave K rnd\<rparr>"

section \<open>Controller\<close>

record FSMController =
  fsm_stack :: "slac_state list"
  ctx :: Context
  running :: bool
  feed_result :: int
  new_event :: bool

definition at_time :: "int \<Rightarrow> FSMController \<Rightarrow> FSMController" where
  "at_time t k = k\<lparr>ctx := (ctx k)\<lparr>clock_now := t\<rparr>\<rparr>"

definition controller_feed_event ::
    "slac_lib \<Rightarrow> (nat \<Rightarrow> nat) \<Rightarrow> Event \<Rightarrow> FSMController \<Rightarrow> FSMController" where
  "controller_feed_event K rnd ev k =
    (let (v, ss, c) = feed_event (slac_ops K rnd) ev (fsm_stack k) (ctx k)
     in k\<lparr>fsm_stack := ss, ctx := c, feed_result := v\<rparr>)"

definition signal_new_slac_message ::
    "slac_lib \<Rightarrow> (nat \<Rightarrow> nat) \<Rightarrow> HomeplugMessage \<Rightarrow> FSMController \<Rightarrow> FSMController" where
  "signal_new_slac_message K rnd msg k =
    (if \<not> running k then k
     else (controller_feed_event K rnd SLAC_MESSAGE
             (k\<lparr>ctx := (ctx k)\<lparr>slac_message_payload := msg\<rparr>\<rparr>))\<lparr>new_event := True\<rparr>)"

definition signal_simple_event ::
    "slac_lib \<Rightarrow> (nat \<Rightarrow> nat) \<Rightarrow> Event \<Rightarrow> FSMController \<Rightarrow> int \<times> FSMController" where
  "signal_simple_event K rnd ev k =
    (let k = controller_feed_event K rnd ev k in (feed_result k, k\<lparr>new_event := True\<rparr>))"

definition signal_reset :: "slac_lib \<Rightarrow> (nat \<Rightarrow> nat) \<Rightarrow> FSMController \<Rightarrow> FSMController" where
  "signal_reset K rnd k = snd (signal_simple_event K rnd EV_RESET k)"

definition signal_enter_bcd :: "slac_lib \<Rightarrow> (nat \<Rightarrow> nat) \<Rightarrow> FSMController \<Rightarrow> bool \<times> FSMController" where
  "signal_enter_bcd K rnd k =
     apfst (\<lambda>r. r \<noteq> EVENT_UNHANDLED) (signal_simple_event K rnd ENTER_BCD k)"

definition signal_leave_bcd :: "slac_lib \<Rightarrow> (nat \<Rightarrow> nat) \<Rightarrow> FSMController \<Rightarrow> bool \<times> FSMController" where
  "signal_leave_bcd K rnd k =
     apfst (\<lambda>r. r \<noteq> EVENT_UNHANDLED) (signal_simple_event K rnd LEAVE_BCD k)"

definition run_start :: "slac_lib \<Rightarrow> (nat \<Rightarrow> nat) \<Rightarrow> FSMController \<Rightarrow> FSMController" where
  "run_start K rnd k =
    (let (v, ss, c) = reset_fsm (slac_ops K rnd) ResetState (ctx k)
     in k\<lparr>fsm_stack := ss, ctx := c, feed_result := v, running := True\<rparr>)"

text \<open>
  The thread holds the mutex except while it waits, so other threads get in only when the
  feed result makes it wait. A wait ends with a new event, or, unless the result is
  \<open>DO_NOT_CALL_ME_AGAIN\<close>, by timeout.
\<close>

definition run_waits :: "FSMController \<Rightarrow> bool" where
  "run_waits k = (feed_result k \<noteq> 0 \<and> feed_result k \<noteq> EVENT_HANDLED_INTERNALLY
                  \<and> feed_result k \<noteq> EVENT_UNHANDLED)"

definition run_iteration :: "slac_lib \<Rightarrow> (nat \<Rightarrow> nat) \<Rightarrow> FSMController \<Rightarrow> FSMController" where
  "run_iteration K rnd k =
    (if new_event k then k\<lparr>new_event := False\<rparr>
     else let (v, ss, c) = feed (slac_ops K rnd) (fsm_stack k) (ctx k)
          in k\<lparr>fsm_stack := ss, ctx := c, feed_result := v\<rparr>)"

definition handle_reset :: "slac_lib \<Rightarrow> (nat \<Rightarrow> nat) \<Rightarrow> bool \<Rightarrow> FSMController \<Rightarrow> FSMController" where
  "handle_reset K rnd enable k = (if \<not> enable then signal_reset K rnd k else k)"

section \<open>Executions\<close>

datatype slac_label =
    L_message int HomeplugMessage
  | L_reset int bool
  | L_enter_bcd int
  | L_leave_bcd int
  | L_iteration int

inductive slac_step ::
    "slac_lib \<Rightarrow> (nat \<Rightarrow> nat) \<Rightarrow> FSMController \<Rightarrow> slac_label \<Rightarrow> FSMController \<Rightarrow> bool"
  for K rnd where
  step_message: "run_waits k \<or> new_event k \<Longrightarrow>
    slac_step K rnd k (L_message t msg) (signal_new_slac_message K rnd msg (at_time t k))"
| step_reset: "run_waits k \<or> new_event k \<Longrightarrow>
    slac_step K rnd k (L_reset t b) (handle_reset K rnd b (at_time t k))"
| step_enter_bcd: "run_waits k \<or> new_event k \<Longrightarrow>
    slac_step K rnd k (L_enter_bcd t) (snd (signal_enter_bcd K rnd (at_time t k)))"
| step_leave_bcd: "run_waits k \<or> new_event k \<Longrightarrow>
    slac_step K rnd k (L_leave_bcd t) (snd (signal_leave_bcd K rnd (at_time t k)))"
| step_iteration: "\<not> run_waits k \<or> new_event k \<or> feed_result k \<noteq> DO_NOT_CALL_ME_AGAIN \<Longrightarrow>
    slac_step K rnd k (L_iteration t) (run_iteration K rnd (at_time t k))"

definition slac_init :: "slac_lib \<Rightarrow> (nat \<Rightarrow> nat) \<Rightarrow> FSMController \<Rightarrow> bool" where
  "slac_init K rnd k \<longleftrightarrow> (\<exists>k0. k = run_start K rnd k0 \<and> slac_trace (ctx k0) = [])"

inductive_cases slac_stepE: "slac_step K rnd k l k'"

end
