(* ===== verification/Slac_Correct.thy ===== *)
theory Slac_Correct
  imports Slac
begin

text \<open>
  Correctness of the SLAC state machine: the matching sequence, the bookkeeping of its
  sessions and the published link state, as an invariant of the flat machine contract.
\<close>

section \<open>Traces\<close>

text \<open>The last published value of \<open>dlink_ready\<close>; nothing published counts as not ready.\<close>

fun dlink :: "bool \<Rightarrow> slac_effect list \<Rightarrow> bool" where
  "dlink b [] = b"
| "dlink b (Publish_dlink_ready b' # es) = dlink b' es"
| "dlink b (_ # es) = dlink b es"

lemma dlink_append [simp]: "dlink b (xs @ ys) = dlink (dlink b xs) ys"
  by (induction b xs rule: dlink.induct) simp_all

text \<open>A trace contains effects that satisfy the predicates, in this order.\<close>

fun has_seq :: "('a \<Rightarrow> bool) list \<Rightarrow> 'a list \<Rightarrow> bool" where
  "has_seq [] xs = True"
| "has_seq (p # ps) [] = False"
| "has_seq (p # ps) (x # xs) = (if p x then has_seq ps xs else has_seq (p # ps) xs)"

lemma has_seq_append: "has_seq ps xs \<Longrightarrow> has_seq ps (xs @ ys)"
  by (induction ps xs rule: has_seq.induct) (auto split: if_splits)

lemma has_seq_single: "\<exists>y\<in>set ys. p y \<Longrightarrow> has_seq [p] ys"
  by (induction ys) auto

lemma has_seq_snoc: "has_seq ps xs \<Longrightarrow> \<exists>y\<in>set ys. p y \<Longrightarrow> has_seq (ps @ [p]) (xs @ ys)"
proof (induction ps xs rule: has_seq.induct)
  case (1 xs)
  then show ?case using has_seq_single [of "xs @ ys" p] by auto
qed (auto split: if_splits)

lemma has_seq_mono_prefix: "has_seq (ps @ qs) xs \<Longrightarrow> has_seq ps xs"
  by (induction ps xs rule: has_seq.induct) (auto split: if_splits)

section \<open>Milestones of a matching session\<close>

fun parm_cnf_to :: "octets \<Rightarrow> octets \<Rightarrow> slac_effect \<Rightarrow> bool" where
  "parm_cnf_to mac rid (Send_slac to (Cm_slac_parm_cnf p)) = (to = mac \<and> pc_run_id p = rid)"
| "parm_cnf_to mac rid _ = False"

fun atten_char_to :: "octets \<Rightarrow> octets \<Rightarrow> slac_effect \<Rightarrow> bool" where
  "atten_char_to mac rid (Send_slac to (Cm_atten_char_ind a)) = (to = mac \<and> ac_run_id a = rid)"
| "atten_char_to mac rid _ = False"

fun match_cnf_to :: "octets \<Rightarrow> octets \<Rightarrow> slac_effect \<Rightarrow> bool" where
  "match_cnf_to mac rid (Send_slac to (Cm_slac_match_cnf m)) = (to = mac \<and> mc_run_id m = rid)"
| "match_cnf_to mac rid _ = False"

definition link_up :: "slac_effect \<Rightarrow> bool" where
  "link_up e = (e = Publish_dlink_ready True)"

fun milestones :: "octets \<Rightarrow> octets \<Rightarrow> MatchingSubState \<Rightarrow> (slac_effect \<Rightarrow> bool) list" where
  "milestones mac rid WAIT_FOR_ATTEN_CHAR_RSP = [parm_cnf_to mac rid, atten_char_to mac rid]"
| "milestones mac rid WAIT_FOR_SLAC_MATCH = [parm_cnf_to mac rid, atten_char_to mac rid]"
| "milestones mac rid MATCH_COMPLETE =
     [parm_cnf_to mac rid, atten_char_to mac rid, match_cnf_to mac rid]"
| "milestones mac rid _ = [parm_cnf_to mac rid]"

lemma milestones_parm: "has_seq (milestones mac rid st) tr \<Longrightarrow> has_seq [parm_cnf_to mac rid] tr"
  using has_seq_mono_prefix [of "[parm_cnf_to mac rid]"] by (cases st) fastforce+

section \<open>Sessions\<close>

definition session_ok :: "slac_lib \<Rightarrow> slac_effect list \<Rightarrow> MatchingSession \<Rightarrow> bool" where
  "session_ok K tr s \<longleftrightarrow>
     has_seq (milestones (ev_mac s) (run_id s) (sub_state s)) tr
     \<and> length (captured_aags s) = AAG_LIST_LEN K
     \<and> 0 \<le> captured_sounds s
     \<and> captured_sounds s \<le> CM_SLAC_PARM_CNF_NUM_SOUNDS K
     \<and> (sub_state s = WAIT_FOR_START_ATTEN_CHAR \<longrightarrow> captured_sounds s = 0)
     \<and> (sub_state s = SOUNDING \<longrightarrow> captured_sounds s < CM_SLAC_PARM_CNF_NUM_SOUNDS K)
     \<and> (\<forall>i<AAG_LIST_LEN K. 0 \<le> captured_aags s ! i \<and> captured_aags s ! i \<le> 255 * captured_sounds s)"

definition identity :: "MatchingSession \<Rightarrow> octets \<times> octets" where
  "identity s = (ev_mac s, run_id s)"

definition sessions_ok :: "slac_lib \<Rightarrow> slac_effect list \<Rightarrow> MatchingSession list \<Rightarrow> bool" where
  "sessions_ok K tr ss \<longleftrightarrow> distinct (map identity ss) \<and> (\<forall>s\<in>set ss. session_ok K tr s)"

lemma session_ok_append: "session_ok K tr s \<Longrightarrow> session_ok K (tr @ es) s"
  by (simp add: session_ok_def has_seq_append)

lemma sessions_ok_append: "sessions_ok K tr ss \<Longrightarrow> sessions_ok K (tr @ es) ss"
  by (auto simp: sessions_ok_def session_ok_append)

lemma sessions_ok_update:
  assumes "sessions_ok K tr ss" "i < length ss" "identity s = identity (ss ! i)"
    "session_ok K (tr @ es) s"
  shows "sessions_ok K (tr @ es) (ss[i := s])"
proof -
  have "map identity (ss[i := s]) = map identity ss"
    using assms(2,3) by (simp add: map_update list_update_same_conv)
  moreover have "\<forall>t\<in>set (ss[i := s]). session_ok K (tr @ es) t"
    using assms(1,4) set_update_subset_insert [of ss i s]
    by (auto simp: sessions_ok_def session_ok_append)
  ultimately show ?thesis using assms(1) by (simp add: sessions_ok_def)
qed

lemma find_session_Some:
  "find_session mac rid ss = Some i \<Longrightarrow> i < length ss \<and> identity (ss ! i) = (mac, rid)"
  by (induction mac rid ss arbitrary: i rule: find_session.induct)
     (auto simp: is_identified_by_def identity_def split: if_splits)

lemma find_session_None: "find_session mac rid ss = None \<Longrightarrow> (mac, rid) \<notin> identity ` set ss"
  by (induction mac rid ss rule: find_session.induct)
     (auto simp: is_identified_by_def identity_def split: if_splits)

lemma last_session_of_Some:
  "last_session_of mac i found ss = Some j \<Longrightarrow> found = Some j \<or> (i \<le> j \<and> j < i + length ss)"
  by (induction mac i found ss rule: last_session_of.induct) (auto split: if_splits)

section \<open>Message handlers keep the sessions in order\<close>

text \<open>The outputs of a step leave the link state alone, and its sessions are in order.\<close>

definition good_step :: "slac_lib \<Rightarrow> Context \<Rightarrow> Context \<Rightarrow> MatchingSession list \<Rightarrow> bool" where
  "good_step K c c' ss' \<longleftrightarrow>
     (\<exists>es. slac_trace c' = slac_trace c @ es \<and> (\<forall>b. dlink b es = b))
     \<and> sessions_ok K (slac_trace c') ss'"

lemma good_step_refl: "sessions_ok K (slac_trace c) ss \<Longrightarrow> good_step K c c ss"
  by (auto simp: good_step_def intro: exI [of _ "[]"])

lemma good_step_trans:
  assumes "good_step K c c1 ss1" "good_step K c1 c2 ss2"
  shows "good_step K c c2 ss2"
proof -
  obtain es es' where "slac_trace c1 = slac_trace c @ es" "\<forall>b. dlink b es = b"
    "slac_trace c2 = slac_trace c1 @ es'" "\<forall>b. dlink b es' = b"
    using assms unfolding good_step_def by blast
  then have "slac_trace c2 = slac_trace c @ es @ es'" "\<forall>b. dlink b (es @ es') = b" by simp_all
  then show ?thesis using assms(2) unfolding good_step_def by blast
qed

lemma good_step_update:
  assumes "sessions_ok K (slac_trace c) ss" "i < length ss" "identity s = identity (ss ! i)"
    "slac_trace c' = slac_trace c @ es" "\<And>b. dlink b es = b" "session_ok K (slac_trace c @ es) s"
  shows "good_step K c c' (ss[i := s])"
  unfolding good_step_def using assms(4,5) sessions_ok_update [OF assms(1-3,6)] by auto

lemma session_nth: "sessions_ok K tr ss \<Longrightarrow> i < length ss \<Longrightarrow> session_ok K tr (ss ! i)"
  by (simp add: sessions_ok_def)

lemma identity_simps [simp]:
  "identity (set_next_timeout now d s) = identity s"
  "identity (s\<lparr>sub_state := st\<rparr>) = identity s"
  "identity (s\<lparr>received_mnbc_sound := b\<rparr>) = identity s"
  "identity (add_profile K aag s) = identity s"
  "identity (ack_timeout s) = identity s"
  by (simp_all add: identity_def set_next_timeout_def add_profile_def ack_timeout_def)

lemma sub_state_ack [simp]: "sub_state (ack_timeout s) = sub_state s"
  by (simp add: ack_timeout_def)

lemma session_ok_timeouts [simp]:
  "session_ok K tr (set_next_timeout now d s) = session_ok K tr s"
  "session_ok K tr (s\<lparr>received_mnbc_sound := b\<rparr>) = session_ok K tr s"
  "session_ok K tr (ack_timeout s) = session_ok K tr s"
  by (simp_all add: session_ok_def set_next_timeout_def ack_timeout_def)

lemma parm_req_good:
  assumes "sessions_ok K (slac_trace c) (sessions m)" "0 < CM_SLAC_PARM_CNF_NUM_SOUNDS K"
    "handle_cm_slac_parm_req K mac rid m c = (m', c')"
  shows "good_step K c c' (sessions m')"
proof -
  let ?s = "set_next_timeout (clock_now c) (TT_MATCH_SEQUENCE_MS K) (new_MatchingSession K mac rid)"
  let ?e = "Send_slac mac (Cm_slac_parm_cnf (create_cm_slac_parm_cnf K ?s))"
  obtain es where es: "slac_trace c' = slac_trace c @ es" "\<forall>b. dlink b es = b" "?e \<in> set es"
    using assms(3)
    by (auto simp: handle_cm_slac_parm_req_def Let_def context_defs set_next_timeout_def
        create_cm_slac_parm_cnf_def new_MatchingSession_def split: option.splits if_splits)
  have "\<exists>y\<in>set es. parm_cnf_to mac rid y"
    using es(3) by (intro bexI [of _ ?e])
      (simp_all add: create_cm_slac_parm_cnf_def set_next_timeout_def new_MatchingSession_def)
  then have "has_seq [parm_cnf_to mac rid] (slac_trace c @ es)"
    using has_seq_snoc [of "[]"] by simp
  then have ok: "session_ok K (slac_trace c @ es) ?s"
    using assms(2) by (simp add: session_ok_def new_MatchingSession_def set_next_timeout_def)
  have id: "identity ?s = (mac, rid)"
    by (simp add: identity_def new_MatchingSession_def set_next_timeout_def)
  show ?thesis
  proof (cases "find_session mac rid (sessions m)")
    case None
    then have "sessions m' = sessions m @ [?s]"
      using assms(3) by (auto simp: handle_cm_slac_parm_req_def Let_def)
    moreover have "sessions_ok K (slac_trace c @ es) (sessions m @ [?s])"
      using sessions_ok_append [OF assms(1), of es] ok id find_session_None [OF None]
      by (auto simp: sessions_ok_def)
    ultimately show ?thesis using es by (auto simp: good_step_def)
  next
    case (Some i)
    then have "sessions m' = (sessions m)[i := ?s]"
      using assms(3) by (auto simp: handle_cm_slac_parm_req_def Let_def)
    moreover have "good_step K c c' ((sessions m)[i := ?s])"
      by (rule good_step_update [OF assms(1) _ _ es(1) _ ok])
         (use find_session_Some [OF Some] id es(2) in simp_all)
    ultimately show ?thesis by simp
  qed
qed

lemma start_atten_char_good:
  assumes "sessions_ok K (slac_trace c) (sessions m)" "0 < CM_SLAC_PARM_CNF_NUM_SOUNDS K"
    "handle_cm_start_atten_char_ind K mac rid m c = (m', c')"
  shows "good_step K c c' (sessions m')"
proof (cases "find_session mac rid (sessions m)")
  case None
  then show ?thesis
    using assms by (simp add: handle_cm_start_atten_char_ind_def good_step_refl)
next
  case (Some i)
  note f = find_session_Some [OF Some]
  let ?s = "sessions m ! i"
  have "sub_state ?s = WAIT_FOR_START_ATTEN_CHAR \<Longrightarrow> session_ok K (slac_trace c) (?s\<lparr>sub_state := SOUNDING\<rparr>)"
    using session_nth [OF assms(1), of i] f assms(2) by (auto simp: session_ok_def)
  then show ?thesis
    using assms(1,3) Some f good_step_refl
    by (auto simp: handle_cm_start_atten_char_ind_def Let_def intro!: good_step_update [where es = "[]"]
        split: if_splits)
qed

lemma mnbc_sound_good:
  assumes "sessions_ok K (slac_trace c) (sessions m)"
    "handle_cm_mnbc_sound_ind mac rid m c = (m', c')"
  shows "good_step K c c' (sessions m')"
  using assms find_session_Some [of mac rid "sessions m"] session_nth [OF assms(1)] good_step_refl
  by (auto simp: handle_cm_mnbc_sound_ind_def Let_def intro!: good_step_update [where es = "[]"]
      split: if_splits option.splits)

lemma session_ok_failed: "session_ok K tr s \<Longrightarrow> session_ok K tr (s\<lparr>sub_state := FAILED\<rparr>)"
  using milestones_parm by (auto simp: session_ok_def)

lemma finalize_sounding_good:
  assumes "session_ok K (slac_trace c) (s\<lparr>sub_state := FAILED\<rparr>)" "finalize_sounding K s c = (s', c')"
  obtains es where "slac_trace c' = slac_trace c @ es" "\<And>b. dlink b es = b"
    "session_ok K (slac_trace c @ es) s'" "identity s' = identity s"
    "sub_state s' = WAIT_FOR_ATTEN_CHAR_RSP"
proof -
  let ?e = "Send_slac (ev_mac s) (Cm_atten_char_ind (create_cm_atten_char_ind K
    (s\<lparr>sub_state := WAIT_FOR_ATTEN_CHAR_RSP\<rparr>)))"
  have "has_seq [parm_cnf_to (ev_mac s) (run_id s)] (slac_trace c)"
    using assms(1) by (simp add: session_ok_def)
  then have "has_seq ([parm_cnf_to (ev_mac s) (run_id s)] @ [atten_char_to (ev_mac s) (run_id s)])
      (slac_trace c @ [?e])"
    by (rule has_seq_snoc) (simp add: create_cm_atten_char_ind_def)
  then have "session_ok K (slac_trace c @ [?e]) (s\<lparr>sub_state := WAIT_FOR_ATTEN_CHAR_RSP\<rparr>)"
    using assms(1) by (simp add: session_ok_def)
  then show thesis
    using assms(2)
    by (intro that [of "[?e]"])
       (auto simp: finalize_sounding_def Let_def context_defs, simp add: set_next_timeout_def)
qed

lemma add_profile_ok:
  assumes "session_ok K tr s" "sub_state s = SOUNDING"
  shows "session_ok K tr ((add_profile K aag s)\<lparr>sub_state := FAILED\<rparr>)"
    and "captured_sounds (add_profile K aag s) < CM_SLAC_PARM_CNF_NUM_SOUNDS K
         \<Longrightarrow> session_ok K tr (add_profile K aag s)"
proof -
  have b: "0 \<le> uint w \<and> uint w \<le> 255" for w :: "8 word"
    using uint_lt2p [of w] by simp
  have "0 \<le> captured_aags s ! i + uint (aag ! i)
      \<and> captured_aags s ! i + uint (aag ! i) \<le> 255 * (captured_sounds s + 1)" if "i < AAG_LIST_LEN K" for i
    using assms(1) that b [of "aag ! i"] by (fastforce simp: session_ok_def)
  then show "session_ok K tr ((add_profile K aag s)\<lparr>sub_state := FAILED\<rparr>)"
    "captured_sounds (add_profile K aag s) < CM_SLAC_PARM_CNF_NUM_SOUNDS K
         \<Longrightarrow> session_ok K tr (add_profile K aag s)"
    using assms by (simp_all add: session_ok_def add_profile_def)
qed

lemma atten_profile_good:
  assumes "sessions_ok K (slac_trace c) (sessions m)"
    "handle_cm_atten_profile_ind K pev n aag m c = (m', c')"
  shows "good_step K c c' (sessions m')"
proof (cases "\<exists>i. last_session_of pev 0 None (sessions m) = Some i
    \<and> sub_state (sessions m ! i) = SOUNDING \<and> n = AAG_LIST_LEN K")
  case False
  then show ?thesis
    using assms by (auto simp: handle_cm_atten_profile_ind_def Let_def intro: good_step_refl
        split: option.splits if_splits)
next
  case True
  then obtain i where i: "last_session_of pev 0 None (sessions m) = Some i"
    "sub_state (sessions m ! i) = SOUNDING" "n = AAG_LIST_LEN K" by blast
  have len: "i < length (sessions m)" using last_session_of_Some [OF i(1)] by simp
  note ok = add_profile_ok [OF session_nth [OF assms(1) len] i(2), of aag]
  let ?s = "add_profile K aag (sessions m ! i)"
  show ?thesis
  proof (cases "captured_sounds ?s < CM_SLAC_PARM_CNF_NUM_SOUNDS K")
    case True
    then have "m' = m\<lparr>sessions := (sessions m)[i := ?s]\<rparr>" "c' = c"
      using assms(2) i by (simp_all add: handle_cm_atten_profile_ind_def Let_def)
    then show ?thesis
      using good_step_update [OF assms(1) len, of ?s c "[]"] ok(2) [OF True] by simp
  next
    case False
    obtain s' d where fin: "finalize_sounding K ?s c = (s', d)" by fastforce
    have "m' = m\<lparr>sessions := (sessions m)[i := s']\<rparr>" "c' = d"
      using assms(2) i False fin by (simp_all add: handle_cm_atten_profile_ind_def Let_def)
    moreover obtain es where "slac_trace d = slac_trace c @ es" "\<And>b. dlink b es = b"
      "session_ok K (slac_trace c @ es) s'" "identity s' = identity ?s"
      by (rule finalize_sounding_good [OF ok(1) fin]) blast
    ultimately show ?thesis
      using good_step_update [OF assms(1) len, of s' d es] by simp
  qed
qed

lemma atten_char_rsp_good:
  assumes "sessions_ok K (slac_trace c) (sessions m)"
    "handle_cm_atten_char_rsp K mac rid m c = (m', c')"
  shows "good_step K c c' (sessions m')"
proof (cases "find_session mac rid (sessions m)")
  case None
  then show ?thesis using assms by (simp add: handle_cm_atten_char_rsp_def good_step_refl)
next
  case (Some i)
  note f = find_session_Some [OF Some]
  have "sub_state (sessions m ! i) = WAIT_FOR_ATTEN_CHAR_RSP \<Longrightarrow>
      session_ok K (slac_trace c) ((sessions m ! i)\<lparr>sub_state := WAIT_FOR_SLAC_MATCH\<rparr>)"
    using session_nth [OF assms(1), of i] f by (simp add: session_ok_def)
  then show ?thesis
    using assms Some f good_step_refl
    by (auto simp: handle_cm_atten_char_rsp_def Let_def intro!: good_step_update [where es = "[]"]
        split: if_splits)
qed

lemma slac_match_req_good:
  assumes "sessions_ok K (slac_trace c) (sessions m)"
    "handle_cm_slac_match_req K mac req m c = (m', c')"
  shows "good_step K c c' (sessions m')"
proof (cases "\<exists>i. find_session mac (mr_run_id req) (sessions m) = Some i
    \<and> sub_state (sessions m ! i) = WAIT_FOR_SLAC_MATCH")
  case False
  then show ?thesis
    using assms by (auto simp: handle_cm_slac_match_req_def Let_def intro: good_step_refl
        split: option.splits if_splits)
next
  case True
  then obtain i where i: "find_session mac (mr_run_id req) (sessions m) = Some i"
    "sub_state (sessions m ! i) = WAIT_FOR_SLAC_MATCH" by blast
  note f = find_session_Some [OF i(1)]
  let ?s = "sessions m ! i"
  let ?e = "Send_slac mac (Cm_slac_match_cnf (create_cm_slac_match_cnf K ?s req (session_nmk c)))"
  obtain es where es: "slac_trace c' = slac_trace c @ es" "\<forall>b. dlink b es = b" "?e \<in> set es"
    and m': "sessions m' = (sessions m)[i := set_next_timeout (clock_now c) 0 (?s\<lparr>sub_state := MATCH_COMPLETE\<rparr>)]"
    using assms(2) i
    by (auto simp: handle_cm_slac_match_req_def Let_def context_defs split: if_splits)
  have id: "ev_mac ?s = mac" "run_id ?s = mr_run_id req" using f by (auto simp: identity_def)
  have s: "session_ok K (slac_trace c) ?s" using session_nth [OF assms(1)] f by blast
  then have "has_seq [parm_cnf_to mac (run_id ?s), atten_char_to mac (run_id ?s)] (slac_trace c)"
    using i(2) id by (simp add: session_ok_def)
  then have "has_seq ([parm_cnf_to mac (run_id ?s), atten_char_to mac (run_id ?s)]
      @ [match_cnf_to mac (run_id ?s)]) (slac_trace c @ es)"
    using es(3) id by (intro has_seq_snoc bexI [of _ ?e]) (simp_all add: create_cm_slac_match_cnf_def)
  then have ok: "session_ok K (slac_trace c @ es)
      (set_next_timeout (clock_now c) 0 (?s\<lparr>sub_state := MATCH_COMPLETE\<rparr>))"
    using s id by (simp add: session_ok_def set_next_timeout_def)
  show ?thesis
    unfolding m' by (rule good_step_update [OF assms(1) _ _ es(1) _ ok]) (use f es(2) in simp_all)
qed

lemma handle_slac_message_good:
  assumes "sessions_ok K (slac_trace c) (sessions m)" "0 < CM_SLAC_PARM_CNF_NUM_SOUNDS K"
    "handle_slac_message K msg m c = (m', c')"
  shows "good_step K c c' (sessions m')"
proof (cases "payload msg")
  case cm_validate_req
  then show ?thesis
    using assms sessions_ok_append
    by (auto simp: handle_slac_message_def handle_cm_validate_req_def context_defs good_step_def)
qed (use assms in \<open>auto simp: handle_slac_message_def intro: parm_req_good start_atten_char_good
      mnbc_sound_good atten_profile_good atten_char_rsp_good slac_match_req_good good_step_refl\<close>)

section \<open>Timeouts\<close>

text \<open>Induction along the two timeout loops.\<close>

lemma session_timeouts_induct:
  fixes P :: "slac_lib \<Rightarrow> int \<Rightarrow> MatchingSession \<Rightarrow> Context \<Rightarrow> bool"
  assumes "\<And>K v s c. (\<And>s1 c1. timeout_active s \<Longrightarrow> sub_state s = SOUNDING \<Longrightarrow>
      \<not> remaining_milliseconds (next_timeout s) (clock_now c) > 0 \<Longrightarrow>
      finalize_sounding K (ack_timeout s) c = (s1, c1) \<Longrightarrow> P K v s1 c1) \<Longrightarrow> P K v s c"
  shows "P K v s c"
proof (induction K v s c rule: session_timeouts.induct)
  case (1 K v s c)
  show ?case
    by (rule assms, rule 1 [OF _ _ refl _ refl _ refl]) (simp_all add: ack_timeout_def)
qed

lemma sessions_timeouts_induct:
  fixes P :: "slac_lib \<Rightarrow> nat \<Rightarrow> int \<Rightarrow> matching \<Rightarrow> Context \<Rightarrow> bool"
  assumes "\<And>K i v m c. (\<And>w s c1. i < length (sessions m) \<Longrightarrow>
      session_timeouts K v (sessions m ! i) c = Inr (w, s, c1) \<Longrightarrow>
      \<not> all_sessions_failed ((sessions m)[i := s]) \<Longrightarrow>
      P K (i + 1) w (m\<lparr>sessions := (sessions m)[i := s]\<rparr>) c1) \<Longrightarrow> P K i v m c"
  shows "P K i v m c"
proof (induction K i v m c rule: sessions_timeouts.induct)
  case (1 K i v m c)
  show ?case
    by (rule assms, rule 1 [OF _ _ refl refl refl]) simp_all
qed

lemma session_timeouts_good:
  assumes "session_timeouts K v s c = Inr (v', s', c')" "session_ok K (slac_trace c) s"
  shows "\<exists>es. slac_trace c' = slac_trace c @ es \<and> (\<forall>b. dlink b es = b)
    \<and> session_ok K (slac_trace c @ es) s' \<and> identity s' = identity s"
  using assms
proof (induction K v s c rule: session_timeouts_induct)
  case (1 K v s c)
  show ?case
  proof (cases "timeout_active s \<and> sub_state s = SOUNDING
      \<and> \<not> remaining_milliseconds (next_timeout s) (clock_now c) > 0")
    case True
    obtain s1 c1 where fin: "finalize_sounding K (ack_timeout s) c = (s1, c1)" by fastforce
    have rest: "session_timeouts K v s1 c1 = Inr (v', s', c')"
      using 1(2) True fin
      by (subst (asm) session_timeouts.simps) (simp add: ack_timeout_def Let_def)
    have "session_ok K (slac_trace c) ((ack_timeout s)\<lparr>sub_state := FAILED\<rparr>)"
      using 1(3) by (intro session_ok_failed) simp
    then obtain es where es: "slac_trace c1 = slac_trace c @ es" "\<And>b. dlink b es = b"
      "session_ok K (slac_trace c @ es) s1" "identity s1 = identity s"
      by (rule finalize_sounding_good [OF _ fin]) simp
    have "\<exists>es'. slac_trace c' = slac_trace c1 @ es' \<and> (\<forall>b. dlink b es' = b)
      \<and> session_ok K (slac_trace c1 @ es') s' \<and> identity s' = identity s1"
      by (rule 1(1) [OF _ _ _ fin rest]) (use True es(1,3) in simp_all)
    then obtain es' where "slac_trace c' = slac_trace c @ es @ es'" "\<forall>b. dlink b es' = b"
      "session_ok K (slac_trace c @ es @ es') s'" "identity s' = identity s"
      using es(1,4) by auto
    then show ?thesis using es(2) by (intro exI [of _ "es @ es'"]) simp
  next
    case False
    have f: "session_ok K (slac_trace c) ((ack_timeout s)\<lparr>sub_state := FAILED\<rparr>)"
      using 1(3) by (intro session_ok_failed) simp
    show ?thesis
      using 1(2) 1(3) False f
      by (subst (asm) session_timeouts.simps)
         (auto simp: Let_def intro!: exI [of _ "[]"] split: if_splits)
  qed
qed

text \<open>The event that a callback raises is justified by the sessions.\<close>

definition match_done :: "MatchingSession list \<Rightarrow> bool" where
  "match_done ss \<longleftrightarrow> (\<exists>s\<in>set ss. sub_state s = MATCH_COMPLETE)"

lemma session_timeouts_Inl: "session_timeouts K v s c = Inl u \<Longrightarrow> sub_state s = MATCH_COMPLETE"
proof (induction K v s c rule: session_timeouts_induct)
  case (1 K v s c)
  show ?case
  proof (rule ccontr)
    assume n: "sub_state s \<noteq> MATCH_COMPLETE"
    obtain s1 c1 where fin: "finalize_sounding K (ack_timeout s) c = (s1, c1)" by fastforce
    have cond: "timeout_active s" "sub_state s = SOUNDING"
        "\<not> remaining_milliseconds (next_timeout s) (clock_now c) > 0"
      and rest: "session_timeouts K v s1 c1 = Inl u"
      using 1(2) n fin
      by (subst (asm) session_timeouts.simps, auto simp: Let_def ack_timeout_def split: if_splits)+
    have "sub_state s1 = MATCH_COMPLETE" by (rule 1(1) [OF cond fin rest])
    then show False
      using fin by (auto simp: finalize_sounding_def set_next_timeout_def Let_def)
  qed
qed

lemma sessions_timeouts_good:
  assumes "sessions_timeouts K i v m c = (r, m', c')" "sessions_ok K (slac_trace c) (sessions m)"
  shows "good_step K c c' (sessions m')
    \<and> (r = Callback_event EV_MATCH_COMPLETE \<longrightarrow> match_done (sessions m'))
    \<and> r \<notin> Callback_event ` {EV_RESET, ENTER_BCD, LEAVE_BCD, SLAC_MESSAGE, RETRY_MATCHING}"
  using assms
proof (induction K i v m c rule: sessions_timeouts_induct)
  case (1 K i v m c)
  show ?case
  proof (cases "length (sessions m) \<le> i")
    case True
    then show ?thesis
      using 1(2,3) by (subst (asm) sessions_timeouts.simps) (auto intro: good_step_refl)
  next
    case len: False
    then have ok: "session_ok K (slac_trace c) (sessions m ! i)" using session_nth [OF 1(3)] by simp
    show ?thesis
    proof (cases "session_timeouts K v (sessions m ! i) c")
      case (Inl u)
      have "match_done (sessions m)"
        using session_timeouts_Inl [OF Inl] len by (auto simp: match_done_def)
      then show ?thesis
        using 1(2,3) len Inl by (subst (asm) sessions_timeouts.simps) (auto intro: good_step_refl)
    next
      case (Inr res)
      obtain w s c1 where r: "res = (w, s, c1)" by (cases res)
      let ?m = "m\<lparr>sessions := (sessions m)[i := s]\<rparr>"
      from session_timeouts_good [OF Inr [unfolded r] ok] obtain es where
        es: "slac_trace c1 = slac_trace c @ es" "\<forall>b. dlink b es = b"
          "session_ok K (slac_trace c @ es) s" "identity s = identity (sessions m ! i)" by blast
      have step: "good_step K c c1 (sessions ?m)"
        using good_step_update [OF 1(3) _ es(4) es(1) _ es(3)] len es(2) by simp
      show ?thesis
      proof (cases "all_sessions_failed (sessions ?m)")
        case True
        then show ?thesis
          using 1(2) len Inr r step by (subst (asm) sessions_timeouts.simps) (auto simp: Let_def)
      next
        case False
        then have "sessions_timeouts K (i + 1) w ?m c1 = (r, m', c')"
          using 1(2) len Inr r by (subst (asm) sessions_timeouts.simps) (simp add: Let_def)
        then have "good_step K c1 c' (sessions m')
            \<and> (r = Callback_event EV_MATCH_COMPLETE \<longrightarrow> match_done (sessions m'))
            \<and> r \<notin> Callback_event ` {EV_RESET, ENTER_BCD, LEAVE_BCD, SLAC_MESSAGE, RETRY_MATCHING}"
          using len Inr r False step
          by (intro 1(1) [of w s c1]) (simp_all add: good_step_def)
        then show ?thesis using good_step_trans [OF step] by blast
      qed
    qed
  qed
qed

lemma matching_callback_good:
  assumes "matching_callback K m c = (r, m', c')" "sessions_ok K (slac_trace c) (sessions m)"
  shows "good_step K c c' (sessions m')
    \<and> (r = Callback_event EV_MATCH_COMPLETE \<longrightarrow> match_done (sessions m'))"
  using assms sessions_timeouts_good [of K 0 _ m c r m' c']
  by (auto simp: matching_callback_def intro: good_step_refl split: if_splits)

end
