(* ===== verification/Slac_Properties.thy ===== *)
theory Slac_Properties
  imports Slac_Correct
begin

text \<open>
  The SLAC machine meets the contract of a flat machine; the properties of its executions
  follow.
\<close>

section \<open>The invariant\<close>

definition matched_sequence :: "slac_effect list \<Rightarrow> bool" where
  "matched_sequence tr \<longleftrightarrow>
     (\<exists>mac rid. has_seq [parm_cnf_to mac rid, atten_char_to mac rid, match_cnf_to mac rid, link_up] tr)"

definition match_confirmed :: "slac_effect list \<Rightarrow> bool" where
  "match_confirmed tr \<longleftrightarrow>
     (\<exists>mac rid. has_seq [parm_cnf_to mac rid, atten_char_to mac rid, match_cnf_to mac rid] tr)"

definition slac_inv :: "slac_lib \<Rightarrow> slac_state \<Rightarrow> Context \<Rightarrow> bool" where
  "slac_inv K s c \<longleftrightarrow>
     0 < CM_SLAC_PARM_CNF_NUM_SOUNDS K
     \<and> dlink False (slac_trace c) = (s = MatchedState)
     \<and> (\<forall>m. s = MatchingState m \<longrightarrow> sessions_ok K (slac_trace c) (sessions m))
     \<and> (s = MatchedState \<longrightarrow> matched_sequence (slac_trace c))"

definition slac_entry :: "slac_lib \<Rightarrow> slac_state \<Rightarrow> Context \<Rightarrow> bool" where
  "slac_entry K s c \<longleftrightarrow>
     0 < CM_SLAC_PARM_CNF_NUM_SOUNDS K
     \<and> \<not> dlink False (slac_trace c)
     \<and> (\<forall>m. s = MatchingState m \<longrightarrow> sessions m = [])
     \<and> (s = MatchedState \<longrightarrow> match_confirmed (slac_trace c))"

text \<open>Only the matching callback raises the completion event, and only with a completed session.\<close>

definition slac_guard :: "Event \<Rightarrow> slac_state \<Rightarrow> Context \<Rightarrow> bool" where
  "slac_guard ev s c \<longleftrightarrow>
     (ev = EV_MATCH_COMPLETE \<longrightarrow> (\<forall>m. s = MatchingState m \<longrightarrow> match_done (sessions m)))"

lemma match_done_confirmed:
  "sessions_ok K tr ss \<Longrightarrow> match_done ss \<Longrightarrow> match_confirmed tr"
  unfolding match_done_def match_confirmed_def sessions_ok_def session_ok_def
  by (metis milestones.simps(3))

lemma slac_enter_inv:
  assumes "slac_entry K s c" "slac_enter K s c = (v, s', c')"
  shows "slac_inv K s' c'"
proof (cases s)
  case MatchedState
  obtain mac rid where
    "has_seq [parm_cnf_to mac rid, atten_char_to mac rid, match_cnf_to mac rid] (slac_trace c)"
    using assms(1) MatchedState by (auto simp: slac_entry_def match_confirmed_def)
  from has_seq_snoc [OF this, of "[Publish_state ''MATCHED'', Publish_dlink_ready True]" link_up]
  have "matched_sequence (slac_trace c @ [Publish_state ''MATCHED'', Publish_dlink_ready True])"
    unfolding matched_sequence_def by (auto simp: link_up_def)
  then show ?thesis
    using assms MatchedState by (auto simp: slac_inv_def slac_entry_def context_defs)
qed (use assms in \<open>auto simp: slac_inv_def slac_entry_def context_defs sessions_ok_def\<close>)

lemma good_step_dlink: "good_step K c c' ss \<Longrightarrow> dlink b (slac_trace c') = dlink b (slac_trace c)"
  unfolding good_step_def by (elim conjE exE) simp

lemma matching_handle_inv:
  assumes "slac_inv K (MatchingState m) c"
    "slac_guard ev (MatchingState m) c"
    "slac_handle_event K (MatchingState m) ev c = (n, s', c')"
  shows "case n of Next_option opt \<Rightarrow> opt \<noteq> RESTART \<and> slac_inv K s' c'
    | Next_states compound child \<Rightarrow>
        compound = None \<and> (\<exists>t. child = Some t \<and> slac_entry K t (slac_leave K rnd s' c'))"
proof (cases "ev = SLAC_MESSAGE")
  case True
  obtain m' d where h: "handle_slac_message K (slac_message_payload c) m c = (m', d)" by fastforce
  have ok: "sessions_ok K (slac_trace c) (sessions m)" "0 < CM_SLAC_PARM_CNF_NUM_SOUNDS K"
    using assms(1) by (simp_all add: slac_inv_def)
  have g: "good_step K c d (sessions m')" by (rule handle_slac_message_good [OF ok h])
  have res: "n = Next_option HANDLED_INTERNALLY" "s' = MatchingState m'" "c' = d"
    using True h assms(3) by simp_all
  have "slac_inv K (MatchingState m') d"
    using assms(1) g good_step_dlink [OF g] by (simp add: slac_inv_def good_step_def)
  then show ?thesis using res by simp
next
  case False
  have "ev = EV_MATCH_COMPLETE \<Longrightarrow> match_confirmed (slac_trace c)"
    using assms(1,2) match_done_confirmed by (auto simp: slac_inv_def slac_guard_def)
  then show ?thesis
    using assms(1,3) False
    by (cases ev) (auto simp: slac_inv_def slac_entry_def goto_def Let_def split: if_splits)
qed

lemma slac_handle_inv:
  assumes "slac_inv K s c" "slac_guard ev s c"
    "slac_handle_event K s ev c = (n, s', c')"
  shows "case n of Next_option opt \<Rightarrow> opt \<noteq> RESTART \<and> slac_inv K s' c'
    | Next_states compound child \<Rightarrow>
        compound = None \<and> (\<exists>t. child = Some t \<and> slac_entry K t (slac_leave K rnd s' c'))"
proof (cases s)
  case (MatchingState m)
  then show ?thesis using matching_handle_inv [of K m c ev n s' c' rnd] assms by simp
qed (use assms in \<open>cases ev; auto simp: slac_inv_def slac_entry_def goto_def new_matching_def
      context_defs\<close>)+

lemma slac_callback_inv:
  assumes "slac_inv K s c" "slac_callback K s c = (r, s', c')"
  shows "slac_inv K s' c' \<and> (\<forall>ev. r = Callback_event ev \<longrightarrow> slac_guard ev s' c')"
proof (cases s)
  case (MatchingState m)
  obtain r1 m' d where cb: "matching_callback K m c = (r1, m', d)" by (metis prod_cases3)
  have ok: "sessions_ok K (slac_trace c) (sessions m)"
    using assms(1) MatchingState by (simp add: slac_inv_def)
  note g = matching_callback_good [OF cb ok]
  have res: "r = r1" "s' = MatchingState m'" "c' = d" using assms(2) MatchingState cb by simp_all
  have "slac_inv K (MatchingState m') d"
    using assms(1) MatchingState g good_step_dlink [OF conjunct1 [OF g]]
    by (simp add: slac_inv_def good_step_def)
  then show ?thesis using res g by (simp add: slac_guard_def)
qed (use assms in \<open>auto simp: slac_inv_def slac_guard_def\<close>)

text \<open>
  The machine meets the contract; the invariant and the entry condition carry that the library
  announces at least one sound.
\<close>

lemma slac_ops_simps [simp]:
  "op_enter (slac_ops K rnd) = slac_enter K"
  "op_handle_event (slac_ops K rnd) = slac_handle_event K"
  "op_callback (slac_ops K rnd) = slac_callback K"
  "op_leave (slac_ops K rnd) = slac_leave K rnd"
  by (simp_all add: slac_ops_def)

interpretation slac: flat_machine "slac_ops K rnd" "slac_inv K" "slac_entry K" slac_guard for K rnd
proof (unfold_locales, goal_cases)
  case (1 s c v s' c')
  then show ?case by (auto intro: slac_enter_inv)
next
  case (2 s c ev n s' c')
  then show ?case using slac_handle_inv [of K s c ev n s' c' rnd] by (cases n) simp_all
next
  case (3 s c r s' c')
  then show ?case by (auto intro: slac_callback_inv [THEN conjunct1] slac_callback_inv [THEN conjunct2, rule_format])
qed

section \<open>Executions\<close>

definition controller_inv :: "slac_lib \<Rightarrow> FSMController \<Rightarrow> bool" where
  "controller_inv K k \<longleftrightarrow>
     (0 < CM_SLAC_PARM_CNF_NUM_SOUNDS K \<longrightarrow> (\<exists>s. fsm_stack k = [s] \<and> slac_inv K s (ctx k)))"

lemma slac_inv_ctx [simp]:
  "slac_inv K s (c\<lparr>clock_now := t\<rparr>) = slac_inv K s c"
  "slac_inv K s (c\<lparr>slac_message_payload := msg\<rparr>) = slac_inv K s c"
  by (simp_all add: slac_inv_def)

lemma controller_inv_simps [simp]:
  "controller_inv K (at_time t k) = controller_inv K k"
  "controller_inv K (k\<lparr>new_event := b\<rparr>) = controller_inv K k"
  "controller_inv K (k\<lparr>ctx := (ctx k)\<lparr>slac_message_payload := msg\<rparr>\<rparr>) = controller_inv K k"
  by (simp_all add: controller_inv_def at_time_def)

lemma controller_feed_event_inv:
  assumes "controller_inv K k" "ev \<noteq> EV_MATCH_COMPLETE"
  shows "controller_inv K (controller_feed_event K rnd ev k)"
proof -
  have "\<exists>v t d. dispatch_event (slac_ops K rnd) ev [s] (ctx k) = (v, [t], d) \<and> slac_inv K t d"
    if "slac_inv K s (ctx k)" for s
    using assms(2) that by (intro slac.dispatch_inv) (simp_all add: slac_guard_def)
  then show ?thesis
    using assms(1)
    by (fastforce simp: controller_inv_def controller_feed_event_def feed_event_def)
qed

lemma run_iteration_inv: "controller_inv K k \<Longrightarrow> controller_inv K (run_iteration K rnd k)"
proof -
  assume inv: "controller_inv K k"
  have "\<exists>v t d. feed (slac_ops K rnd) [s] (ctx k) = (v, [t], d) \<and> slac_inv K t d"
    if "slac_inv K s (ctx k)" for s
    using that by (rule slac.feed_inv)
  with inv show ?thesis
    by (fastforce simp: controller_inv_def run_iteration_def)
qed

lemma run_start_inv:
  assumes "slac_trace (ctx k) = []"
  shows "controller_inv K (run_start K rnd k)"
proof -
  have "\<exists>v t d. reset_fsm (slac_ops K rnd) ResetState (ctx k) = (v, [t], d) \<and> slac_inv K t d"
    if "0 < CM_SLAC_PARM_CNF_NUM_SOUNDS K"
    using that assms by (intro slac.reset_inv) (simp add: slac_entry_def)
  then show ?thesis by (fastforce simp: controller_inv_def run_start_def)
qed

interpretation slac_runs: invariant_system "slac_init K rnd" "slac_step K rnd" "controller_inv K" for K rnd
proof (unfold_locales, goal_cases)
  case (1 k)
  then show ?case by (auto simp: slac_init_def intro: run_start_inv)
next
  case (2 k l k')
  show ?case
    using 2(2)
  proof (cases rule: slac_step.cases)
    case (step_iteration t)
    then show ?thesis using 2(1) by (auto intro: run_iteration_inv)
  qed (use 2(1) in \<open>auto simp: signal_new_slac_message_def handle_reset_def signal_reset_def
        signal_enter_bcd_def signal_leave_bcd_def signal_simple_event_def Let_def apfst_def
        intro: controller_feed_event_inv\<close>)
qed

text \<open>A concrete library and a complete matching run, for the instances below.\<close>

definition sample_lib :: slac_lib where
  "sample_lib = \<lparr>TT_EVSE_SLAC_INIT_MS = 40000, TT_MATCH_SEQUENCE_MS = 400, TT_EVSE_MATCH_MNBC_MS = 600,
     TT_MATCH_RESPONSE_MS = 200, TT_EVSE_MATCH_SESSION_MS = 10000, C_EV_MATCH_RETRY = 2,
     AAG_LIST_LEN = 2, CM_SLAC_PARM_CNF_NUM_SOUNDS = 1, CM_SLAC_PARM_CNF_TIMEOUT = 6,
     CM_SLAC_PARM_CNF_RESP_TYPE = 1, BROADCAST_MAC_ADDRESS = [255], COMMON_APPLICATION_TYPE = 0,
     COMMON_SECURITY_TYPE = 0, CM_SLAC_MATCH_CNF_MVF_LENGTH = 0x56, CM_VALIDATE_REQ_SIGNAL_TYPE = 0,
     CM_VALIDATE_REQ_RESULT_FAILURE = 3, CM_SET_KEY_REQ_KEY_TYPE_NMK = 1, CM_SET_KEY_REQ_PID_HLE = 4,
     CM_SET_KEY_REQ_PRN_UNUSED = 0, CM_SET_KEY_REQ_PMN_UNUSED = 0, CM_SET_KEY_REQ_CCO_CAP_NONE = 0,
     CM_SET_KEY_REQ_PEKS_NMK_KNOWN_TO_STA = 1, SOURCE_ID_LEN = 1, NMK_LEN = 1,
     generate_nid_from_nmk = (\<lambda>nmk. nmk)\<rparr>"

definition from_car :: "slac_payload \<Rightarrow> HomeplugMessage" where
  "from_car p = \<lparr>src_mac = [5], payload = p\<rparr>"

definition powered_up :: FSMController where
  "powered_up = \<lparr>fsm_stack = [], ctx = \<lparr>slac_message_payload = from_car cm_validate_req,
     plc_peer_mac = [0, 0xB0, 0x52, 0, 0, 1], session_nmk = [65], set_key_timeout_ms = 500,
     publish_mac_on_first_parm_req = False, publish_mac_on_match_cnf = False, clock_now = 0,
     random_draws = 0, slac_trace = []\<rparr>, running = False, feed_result = 0, new_event = False\<rparr>"

fun enabled :: "slac_label \<Rightarrow> FSMController \<Rightarrow> bool" where
  "enabled (L_iteration t) k = (\<not> run_waits k \<or> new_event k \<or> feed_result k \<noteq> DO_NOT_CALL_ME_AGAIN)"
| "enabled _ k = (run_waits k \<or> new_event k)"

fun apply_label :: "slac_lib \<Rightarrow> (nat \<Rightarrow> nat) \<Rightarrow> slac_label \<Rightarrow> FSMController \<Rightarrow> FSMController" where
  "apply_label K rnd (L_message t msg) k = signal_new_slac_message K rnd msg (at_time t k)"
| "apply_label K rnd (L_reset t b) k = handle_reset K rnd b (at_time t k)"
| "apply_label K rnd (L_enter_bcd t) k = snd (signal_enter_bcd K rnd (at_time t k))"
| "apply_label K rnd (L_leave_bcd t) k = snd (signal_leave_bcd K rnd (at_time t k))"
| "apply_label K rnd (L_iteration t) k = run_iteration K rnd (at_time t k)"

fun run_labels :: "slac_lib \<Rightarrow> (nat \<Rightarrow> nat) \<Rightarrow> slac_label list \<Rightarrow> FSMController \<Rightarrow> FSMController option" where
  "run_labels K rnd [] k = Some k"
| "run_labels K rnd (l # ls) k =
     (if enabled l k then run_labels K rnd ls (apply_label K rnd l k) else None)"

lemma enabled_step: "enabled l k \<Longrightarrow> slac_step K rnd k l (apply_label K rnd l k)"
  by (cases l) (auto intro: slac_step.intros)

lemma run_labels_reach:
  "run_labels K rnd ls k = Some k' \<Longrightarrow> reach (slac_init K rnd) (slac_step K rnd) k \<Longrightarrow>
   reach (slac_init K rnd) (slac_step K rnd) k'"
proof (induction ls arbitrary: k)
  case (Cons l ls)
  then show ?case by (auto intro: reach.reach_step enabled_step split: if_splits)
qed simp

definition sample_matching :: "slac_label list" where
  "sample_matching =
    [L_message 1 (from_car cm_set_key_cnf), L_iteration 2, L_enter_bcd 3, L_iteration 4,
     L_message 5 (from_car (cm_slac_parm_req [9])), L_iteration 6, L_iteration 7,
     L_message 8 (from_car (cm_start_atten_char_ind [9])), L_iteration 9, L_iteration 10,
     L_message 11 (from_car (cm_atten_profile_ind [5] 2 [30, 40])), L_iteration 12, L_iteration 13,
     L_message 14 (from_car (cm_atten_char_rsp [9])), L_iteration 15, L_iteration 16,
     L_message 17 (from_car (cm_slac_match_req \<lparr>mr_run_id = [9], mr_pev_id = [1], mr_pev_mac = [5],
        mr_evse_id = [2], mr_evse_mac = [3]\<rparr>)), L_iteration 18, L_iteration 19]"

definition run_from_start :: "slac_label list \<Rightarrow> FSMController option" where
  "run_from_start ls = run_labels sample_lib (\<lambda>_. 0) ls (run_start sample_lib (\<lambda>_. 0) powered_up)"

lemma run_from_start_reach:
  "run_from_start ls = Some k \<Longrightarrow> reach (slac_init sample_lib (\<lambda>_. 0)) (slac_step sample_lib (\<lambda>_. 0)) k"
proof -
  have "slac_init sample_lib (\<lambda>_. 0) (run_start sample_lib (\<lambda>_. 0) powered_up)"
    unfolding slac_init_def by (rule exI [of _ powered_up]) (simp add: powered_up_def)
  then show "run_from_start ls = Some k \<Longrightarrow> ?thesis"
    unfolding run_from_start_def by (blast intro: run_labels_reach reach.reach_init)
qed

definition matched_station :: FSMController where
  "matched_station = the (run_from_start sample_matching)"

lemma matched_station_run:
  "run_from_start sample_matching = Some matched_station" "fsm_stack matched_station = [MatchedState]"
proof -
  have "map_option fsm_stack (run_from_start sample_matching) = Some [MatchedState]" by code_simp
  then show "run_from_start sample_matching = Some matched_station"
    "fsm_stack matched_station = [MatchedState]"
    unfolding matched_station_def by auto
qed

section \<open>Properties\<close>

text \<open>
  C10: in every execution the machine is in exactly one state, and the value of dlink_ready that
  was published last is true exactly while that state is Matched.
\<close>

theorem link_ready_iff_matched:
  assumes "0 < CM_SLAC_PARM_CNF_NUM_SOUNDS K" "reach (slac_init K rnd) (slac_step K rnd) k"
  shows "\<exists>s. fsm_stack k = [s] \<and> dlink False (slac_trace (ctx k)) = (s = MatchedState)"
  using slac_runs.reach_inv [OF assms(2)] assms(1) by (auto simp: controller_inv_def slac_inv_def)

theorem link_ready_iff_matched_witness:
  "fsm_stack matched_station = [MatchedState] \<and> dlink False (slac_trace (ctx matched_station))"
proof -
  have "0 < CM_SLAC_PARM_CNF_NUM_SOUNDS sample_lib" by (simp add: sample_lib_def)
  from link_ready_iff_matched [OF this run_from_start_reach [OF matched_station_run(1)]]
  show ?thesis using matched_station_run(2) by auto
qed

text \<open>
  C9: the state Matched is reached only through the whole matching sequence with one vehicle:
  in every execution that is in Matched, CM_SLAC_PARM.CNF, CM_ATTEN_CHAR.IND and
  CM_SLAC_MATCH.CNF have been sent in this order to one MAC address and with one run id, and
  the link was reported ready after that.
\<close>

theorem matched_only_after_full_sequence:
  assumes "0 < CM_SLAC_PARM_CNF_NUM_SOUNDS K" "reach (slac_init K rnd) (slac_step K rnd) k"
    "fsm_stack k = [MatchedState]"
  shows "\<exists>mac rid. has_seq [parm_cnf_to mac rid, atten_char_to mac rid, match_cnf_to mac rid, link_up]
    (slac_trace (ctx k))"
  using slac_runs.reach_inv [OF assms(2)] assms(1,3)
  by (auto simp: controller_inv_def slac_inv_def matched_sequence_def)

theorem matched_only_after_full_sequence_witness:
  "\<exists>mac rid. has_seq [parm_cnf_to mac rid, atten_char_to mac rid, match_cnf_to mac rid, link_up]
    (slac_trace (ctx matched_station))"
proof -
  have "0 < CM_SLAC_PARM_CNF_NUM_SOUNDS sample_lib" by (simp add: sample_lib_def)
  from matched_only_after_full_sequence [OF this run_from_start_reach [OF matched_station_run(1)]
      matched_station_run(2)]
  show ?thesis .
qed

text \<open>
  C33: in every execution, the matching sessions are pairwise distinct in their vehicle and run
  id, have captured at most the announced number of sounds, and the averages that
  CM_ATTEN_CHAR.IND reports for a session fit into their octets: they are exactly the sums of
  the captured attenuations divided by the number of sounds.
\<close>

theorem sessions_consistent:
  assumes "0 < CM_SLAC_PARM_CNF_NUM_SOUNDS K" "reach (slac_init K rnd) (slac_step K rnd) k"
    "fsm_stack k = [MatchingState m]"
  shows "distinct (map (\<lambda>s. (ev_mac s, run_id s)) (sessions m))
    \<and> (\<forall>s\<in>set (sessions m). 0 \<le> captured_sounds s
        \<and> captured_sounds s \<le> CM_SLAC_PARM_CNF_NUM_SOUNDS K
        \<and> (0 < captured_sounds s \<longrightarrow> map uint (ac_aag (create_cm_atten_char_ind K s))
             = map (\<lambda>x. x div captured_sounds s) (captured_aags s)))"
proof -
  have ok: "sessions_ok K (slac_trace (ctx k)) (sessions m)"
    using slac_runs.reach_inv [OF assms(2)] assms(1,3) by (auto simp: controller_inv_def slac_inv_def)
  have "map uint (ac_aag (create_cm_atten_char_ind K s)) = map (\<lambda>x. x div captured_sounds s) (captured_aags s)"
    if s: "s \<in> set (sessions m)" and pos: "0 < captured_sounds s" for s
  proof -
    have len: "length (captured_aags s) = AAG_LIST_LEN K"
      and b: "\<And>i. i < AAG_LIST_LEN K \<Longrightarrow>
        0 \<le> captured_aags s ! i \<and> captured_aags s ! i \<le> 255 * captured_sounds s"
      using ok s by (auto simp: sessions_ok_def session_ok_def)
    have "uint (word_of_int (captured_aags s ! i div captured_sounds s) :: 8 word)
        = captured_aags s ! i div captured_sounds s" if "i < AAG_LIST_LEN K" for i
    proof -
      have "captured_aags s ! i div captured_sounds s \<le> 255"
        using b [OF that] pos by (metis div_le_mono2 nonzero_mult_div_cancel_right zdiv_mono1 less_irrefl)
      moreover have "0 \<le> captured_aags s ! i div captured_sounds s"
        using b [OF that] pos by (simp add: pos_imp_zdiv_nonneg_iff)
      ultimately show ?thesis by (simp add: uint_word_of_int)
    qed
    then show ?thesis
      using pos len by (auto simp: create_cm_atten_char_ind_def intro: nth_equalityI)
  qed
  then show ?thesis
    using ok by (auto simp: sessions_ok_def session_ok_def identity_def [abs_def])
qed

definition sounding_station :: FSMController where
  "sounding_station = the (run_from_start (take 12 sample_matching))"

theorem sessions_consistent_witness:
  "\<exists>m. fsm_stack sounding_station = [MatchingState m] \<and> length (sessions m) = 1
    \<and> distinct (map (\<lambda>s. (ev_mac s, run_id s)) (sessions m))"
proof -
  let ?st = "\<lambda>k. case fsm_stack k of [MatchingState m] \<Rightarrow> Some (length (sessions m)) | _ \<Rightarrow> None"
  have "Option.bind (run_from_start (take 12 sample_matching)) ?st = Some 1" by code_simp
  then obtain k where k: "run_from_start (take 12 sample_matching) = Some k" "?st k = Some 1"
    by (auto simp: bind_eq_Some_conv)
  then obtain m where m: "fsm_stack k = [MatchingState m]" "length (sessions m) = 1"
    by (auto split: list.splits slac_state.splits)
  have "0 < CM_SLAC_PARM_CNF_NUM_SOUNDS sample_lib" by (simp add: sample_lib_def)
  from sessions_consistent [OF this run_from_start_reach [OF k(1)] m(1)]
  show ?thesis using k(1) m by (simp add: sounding_station_def)
qed

text \<open>
  No state of the machine handles the event LEAVE_BCD: in every execution, signal_leave_bcd
  reports failure and leaves the state and the outputs as they are.
\<close>

theorem leave_bcd_never_handled:
  assumes "0 < CM_SLAC_PARM_CNF_NUM_SOUNDS K" "reach (slac_init K rnd) (slac_step K rnd) k"
  shows "signal_leave_bcd K rnd k = (False, k\<lparr>feed_result := EVENT_UNHANDLED, new_event := True\<rparr>)"
proof -
  obtain s where s: "fsm_stack k = [s]"
    using slac_runs.reach_inv [OF assms(2)] assms(1) by (auto simp: controller_inv_def)
  have "slac_handle_event K s LEAVE_BCD (ctx k) = (Next_option PASS_ON, s, ctx k)"
    by (cases s) simp_all
  then have "dispatch_event (slac_ops K rnd) LEAVE_BCD [s] (ctx k) = (EVENT_UNHANDLED, [s], ctx k)"
    by (simp add: dispatch_event_def)
  then show ?thesis
    using s by (simp add: signal_leave_bcd_def signal_simple_event_def controller_feed_event_def
        feed_event_def Let_def)
qed

theorem leave_bcd_never_handled_witness:
  "signal_leave_bcd sample_lib (\<lambda>_. 0) matched_station
   = (False, matched_station\<lparr>feed_result := EVENT_UNHANDLED, new_event := True\<rparr>)"
proof -
  have "0 < CM_SLAC_PARM_CNF_NUM_SOUNDS sample_lib" by (simp add: sample_lib_def)
  from leave_bcd_never_handled [OF this run_from_start_reach [OF matched_station_run(1)]]
  show ?thesis .
qed

section \<open>Retries\<close>

text \<open>Iterations that each come after the deadline that the previous one has set.\<close>

fun late :: "int \<Rightarrow> int \<Rightarrow> int list \<Rightarrow> bool" where
  "late interval deadline [] = True"
| "late interval deadline (t # ts) = (deadline \<le> t \<and> late interval (t + interval) ts)"

lemma retry_iteration:
  assumes "fsm_stack k = [MatchingState m]" "\<not> seen_slac_parm_req m" "timeout_slac_parm_req m \<le> t"
    "\<not> new_event k"
  shows "if num_retries m + 1 = C_EV_MATCH_RETRY K
    then fsm_stack (run_iteration K rnd (at_time t k)) = [FailedState]
      \<and> slac_trace (ctx (run_iteration K rnd (at_time t k))) = slac_trace (ctx k) @ [Request_error_routine]
    else fsm_stack (run_iteration K rnd (at_time t k))
        = [MatchingState (m\<lparr>num_retries := num_retries m + 1,
            timeout_slac_parm_req := t + ms (TT_EVSE_SLAC_INIT_MS K)\<rparr>)]
      \<and> slac_trace (ctx (run_iteration K rnd (at_time t k))) = slac_trace (ctx k)
      \<and> \<not> new_event (run_iteration K rnd (at_time t k))"
  using assms
  by (simp add: run_iteration_def at_time_def feed_def matching_callback_def dispatch_event_def goto_def
      Let_def enter_next_def push_state_def context_defs)

text \<open>
  when no vehicle ever sends CM_SLAC_PARM.REQ, the machine does not wait forever: after as
  many expired waiting periods as the retry limit has left, it enters Failed and requests the
  error routine, once.
\<close>

theorem retry_limit_fails:
  assumes "fsm_stack k = [MatchingState m]" "\<not> seen_slac_parm_req m" "\<not> new_event k"
    "C_EV_MATCH_RETRY K = num_retries m + int (length ts)" "ts \<noteq> []"
    "late (ms (TT_EVSE_SLAC_INIT_MS K)) (timeout_slac_parm_req m) ts"
  shows "fsm_stack (fold (\<lambda>t k. run_iteration K rnd (at_time t k)) ts k) = [FailedState]
    \<and> slac_trace (ctx (fold (\<lambda>t k. run_iteration K rnd (at_time t k)) ts k))
      = slac_trace (ctx k) @ [Request_error_routine]"
  using assms
proof (induction ts arbitrary: k m)
  case (Cons t ts)
  let ?k = "run_iteration K rnd (at_time t k)"
  note it = retry_iteration [OF Cons.prems(1,2) _ Cons.prems(3), of t K rnd]
  show ?case
  proof (cases "ts = []")
    case True
    then show ?thesis using it Cons.prems by simp
  next
    case False
    let ?m = "m\<lparr>num_retries := num_retries m + 1,
      timeout_slac_parm_req := t + ms (TT_EVSE_SLAC_INIT_MS K)\<rparr>"
    have "num_retries m + 1 \<noteq> C_EV_MATCH_RETRY K" using False Cons.prems(4) by simp
    then have k: "fsm_stack ?k = [MatchingState ?m]" "slac_trace (ctx ?k) = slac_trace (ctx k)"
      "\<not> new_event ?k"
      using it Cons.prems(6) by simp_all
    show ?thesis
      using Cons.IH [OF k(1) _ k(3)] k(2) Cons.prems False by simp
  qed
qed simp

definition waiting_station :: FSMController where
  "waiting_station = powered_up\<lparr>fsm_stack := [MatchingState new_matching]\<rparr>"

theorem retry_limit_fails_witness:
  "fsm_stack (fold (\<lambda>t k. run_iteration sample_lib (\<lambda>_. 0) (at_time t k)) [0, 40000000000] waiting_station)
   = [FailedState]"
  using retry_limit_fails [of waiting_station new_matching sample_lib "[0, 40000000000]" "\<lambda>_. 0"]
  by (simp add: waiting_station_def powered_up_def new_matching_def sample_lib_def ms_def)

end
