(* ===== verification/Energy_Types.thy ===== *)
theory Energy_Types
  imports Prelude
begin

text \<open>
  The data the energy modules exchange, from \<open>src/types/energy.yaml\<close>,
  \<open>energy_price_information.yaml\<close>, \<open>powermeter.yaml\<close> and \<open>units.yaml\<close>, and the
  services they take from the framework. An optional member is an \<open>option\<close>. \<open>LimitsReq\<close> has
  the members of \<open>LimitsRes\<close> and three more, so it extends that record. The tree of requests
  is a node record and the list of its children.
\<close>

section \<open>Requests and results\<close>

record LimitsRes =
  total_power_W :: "float_t option"
  ac_max_current_A :: "float_t option"
  ac_max_phase_count :: "int option"

record LimitsReq = LimitsRes +
  ac_min_current_A :: "float_t option"
  ac_min_phase_count :: "int option"
  ac_supports_changing_phases_during_charging :: "bool option"

record PricePerkWh =
  price_timestamp :: string
  price_value :: float_t
  price_currency :: string

record ScheduleReqEntry =
  timestamp :: string
  limits_to_root :: LimitsReq
  limits_to_leaves :: LimitsReq
  conversion_efficiency :: "float_t option"
  price_per_kwh :: "PricePerkWh option"

record ScheduleResEntry =
  res_timestamp :: string
  res_limits_to_root :: LimitsRes
  res_price_per_kwh :: "PricePerkWh option"

type_synonym ScheduleReq = "ScheduleReqEntry list"
type_synonym ScheduleRes = "ScheduleResEntry list"

datatype NodeType = NT_Undefined | NT_Evse | NT_Generic

record OptimizerTarget =
  energy_amount_needed :: "float_t option"
  charge_to_max_percent :: "float_t option"
  car_battery_soc :: "float_t option"
  leave_time :: "string option"
  price_limit :: "float_t option"
  full_autonomy :: "bool option"

text \<open>A measured quantity per conductor; which of them a quantity has depends on the unit.\<close>

record phase_values =
  pv_total :: "float_t option"
  pv_DC :: "float_t option"
  pv_L1 :: "float_t option"
  pv_L2 :: "float_t option"
  pv_L3 :: "float_t option"
  pv_N :: "float_t option"

record Powermeter =
  pm_timestamp :: string
  meter_id :: "string option"
  phase_seq_error :: "bool option"
  energy_Wh_import :: phase_values
  energy_Wh_export :: "phase_values option"
  power_W :: "phase_values option"
  voltage_V :: "phase_values option"
  VAR :: "phase_values option"
  current_A :: "phase_values option"
  frequency_Hz :: "phase_values option"

record efr_node =
  uuid :: string
  node_type :: NodeType
  optimizer_target :: "OptimizerTarget option"
  energy_usage_root :: "Powermeter option"
  energy_usage_leaves :: "Powermeter option"
  schedule_import :: "ScheduleReq option"
  schedule_export :: "ScheduleReq option"

datatype EnergyFlowRequest =
  EnergyFlowRequest (efr: efr_node) (efr_children: "EnergyFlowRequest list")

record EnforcedLimits =
  enforced_uuid :: string
  valid_until :: string
  limits_root_side :: "LimitsRes option"
  schedule :: ScheduleRes

record ExternalLimits =
  ext_schedule_import :: "ScheduleReq option"
  ext_schedule_export :: "ScheduleReq option"

record EnergyPriceSchedule =
  price_schedule_import :: "PricePerkWh list option"
  price_schedule_export :: "PricePerkWh list option"

section \<open>Default values\<close>

text \<open>What the default constructors of the generated structures give.\<close>

definition no_res_limits :: LimitsRes where
  "no_res_limits = \<lparr>total_power_W = None, ac_max_current_A = None, ac_max_phase_count = None\<rparr>"

definition no_limits :: LimitsReq where
  "no_limits = \<lparr>total_power_W = None, ac_max_current_A = None, ac_max_phase_count = None,
     ac_min_current_A = None, ac_min_phase_count = None,
     ac_supports_changing_phases_during_charging = None\<rparr>"

definition empty_req_entry :: ScheduleReqEntry where
  "empty_req_entry = \<lparr>timestamp = [], limits_to_root = no_limits, limits_to_leaves = no_limits,
     conversion_efficiency = None, price_per_kwh = None\<rparr>"

definition empty_res_entry :: ScheduleResEntry where
  "empty_res_entry = \<lparr>res_timestamp = [], res_limits_to_root = no_res_limits,
     res_price_per_kwh = None\<rparr>"

definition empty_efr_node :: efr_node where
  "empty_efr_node = \<lparr>uuid = [], node_type = NT_Undefined, optimizer_target = None,
     energy_usage_root = None, energy_usage_leaves = None, schedule_import = None,
     schedule_export = None\<rparr>"

lemmas energy_default_defs [simp] =
  no_res_limits_def no_limits_def empty_req_entry_def empty_res_entry_def empty_efr_node_def

section \<open>Services of the framework\<close>

text \<open>
  \<open>Everest::Date::from_rfc3339\<close> and \<open>to_rfc3339\<close>, and the leap seconds of the date library
  that have elapsed at a time point, in milliseconds.
\<close>

record time_lib =
  from_rfc3339 :: "string \<Rightarrow> timepoint"
  to_rfc3339 :: "timepoint \<Rightarrow> string"
  leap_elapsed :: "timepoint \<Rightarrow> int"

text \<open>
  What ends an operation abnormally: an integer division by zero, \<open>reserve\<close> with a negative
  size, a read through an iterator or index that is out of range, \<open>value()\<close> of an empty
  optional, or a use of an object after its end.
\<close>

datatype energy_error =
  Division_by_zero | Length_error | Out_of_range | Bad_optional_access | Dangling_market

type_synonym 'a energy_m = "(energy_error, 'a) result"

definition value_or :: "'a \<Rightarrow> 'a option \<Rightarrow> 'a" where
  "value_or d x = (case x of None \<Rightarrow> d | Some v \<Rightarrow> v)"

lemma value_or_simps [simp]:
  "value_or d None = d"
  "value_or d (Some v) = v"
  by (simp_all add: value_or_def)

text \<open>\<open>operator>\<close> between a \<open>boost::optional\<close> and a value: the empty optional is the least.\<close>

definition optional_gt :: "('a::ord) option \<Rightarrow> 'a \<Rightarrow> bool" where
  "optional_gt x y = (case x of None \<Rightarrow> False | Some v \<Rightarrow> y < v)"

lemma optional_gt_simps [simp]:
  "\<not> optional_gt None y"
  "optional_gt (Some v) y \<longleftrightarrow> y < v"
  by (simp_all add: optional_gt_def)

end
