(* ===== verification/Energy_Market.thy ===== *)
theory Energy_Market
  imports Energy_Types "HOL-Library.Signed_Division"
begin

text \<open>
  The energy market of \<open>modules/EnergyManager\<close>: the time slots (\<open>globals_t\<close>), the tree of
  markets (\<open>Market.cpp\<close>), the offers (\<open>Offer.cpp\<close>), the broker (\<open>BrokerFastCharging.cpp\<close>) and
  the optimizer (\<open>EnergyManager.cpp\<close>). A pointer to a market is the path from the root of the
  tree to it; \<open>Dangling\<close> is a pointer to a copy that has been destroyed. Debug output and
  the run-time probes are left out.
\<close>

section \<open>Time slots\<close>

record globals_t =
  interval_duration :: int
  schedule_length :: int
  slice_ampere :: float_t
  slice_watt :: float_t
  debug :: bool
  zero_schedule_req :: ScheduleReq
  empty_schedule_req :: ScheduleReq
  zero_schedule_res :: ScheduleRes
  empty_schedule_res :: ScheduleRes
  timestamps :: "timepoint list"

definition initial_globals :: globals_t where
  "initial_globals = \<lparr>interval_duration = 0, schedule_length = 0, slice_ampere = 0,
     slice_watt = 0, debug = False, zero_schedule_req = [], empty_schedule_req = [],
     zero_schedule_res = [], empty_schedule_res = [], timestamps = []\<rparr>"

definition minute :: int where "minute = 60000"

definition schedule_timestamps :: "time_lib \<Rightarrow> ScheduleReq option \<Rightarrow> timepoint list" where
  "schedule_timestamps K s =
     (case s of None \<Rightarrow> [] | Some es \<Rightarrow> map (\<lambda>t. from_rfc3339 K (timestamp t)) es)"

fun add_timestamps :: "time_lib \<Rightarrow> EnergyFlowRequest \<Rightarrow> timepoint list \<Rightarrow> timepoint list" where
  "add_timestamps K (EnergyFlowRequest n cs) ts =
     fold (add_timestamps K) cs
       (ts @ schedule_timestamps K (schedule_import n) @ schedule_timestamps K (schedule_export n))"

text \<open>
  The predefined slots are appended to what the vector holds already: nothing clears it
  between two calls of \<open>init\<close>.
\<close>

definition create_timestamps ::
    "time_lib \<Rightarrow> timepoint \<Rightarrow> EnergyFlowRequest \<Rightarrow> globals_t \<Rightarrow> globals_t energy_m" where
  "create_timestamps K start_time req g =
    (if schedule_length g < 0 then Inl Length_error
     else
       let minutes_overflow = start_time smod interval_duration g;
           start = start_time - minutes_overflow;
           timepoint = start + leap_elapsed K start_time;
           ts = timestamps g
                @ map (\<lambda>i. timepoint + int i * interval_duration g) [0..<nat (schedule_length g)];
           ts = add_timestamps K req ts;
           ts = remdups_adj (sort ts)
       in Inr (g\<lparr>timestamps := ts, schedule_length := int (length ts)\<rparr>))"

definition create_empty_schedule_req :: "time_lib \<Rightarrow> globals_t \<Rightarrow> ScheduleReq" where
  "create_empty_schedule_req K g =
     map (\<lambda>t. empty_req_entry\<lparr>timestamp := to_rfc3339 K t\<rparr>) (timestamps g)"

definition create_empty_schedule_res :: "time_lib \<Rightarrow> globals_t \<Rightarrow> ScheduleRes" where
  "create_empty_schedule_res K g =
     map (\<lambda>t. empty_res_entry\<lparr>res_timestamp := to_rfc3339 K t\<rparr>) (timestamps g)"

definition zero_req :: "ScheduleReqEntry \<Rightarrow> ScheduleReqEntry" where
  "zero_req a = a\<lparr>limits_to_root :=
     (limits_to_root a)\<lparr>ac_max_current_A := Some 0, total_power_W := Some 0\<rparr>\<rparr>"

definition zero_res :: "ScheduleResEntry \<Rightarrow> ScheduleResEntry" where
  "zero_res a = a\<lparr>res_limits_to_root :=
     (res_limits_to_root a)\<lparr>ac_max_current_A := Some 0, total_power_W := Some 0\<rparr>\<rparr>"

definition globals_init ::
    "time_lib \<Rightarrow> timepoint \<Rightarrow> int \<Rightarrow> int \<Rightarrow> float_t \<Rightarrow> float_t \<Rightarrow> bool \<Rightarrow> EnergyFlowRequest
     \<Rightarrow> globals_t \<Rightarrow> globals_t energy_m" where
  "globals_init K start_time interval duration sl_ampere sl_watt dbg req g =
    (if interval = 0 then Inl Division_by_zero
     else
       let g = g\<lparr>interval_duration := interval * minute,
                 schedule_length := (duration * 60 * minute) sdiv (interval * minute),
                 slice_ampere := sl_ampere, slice_watt := sl_watt, debug := dbg\<rparr>
       in bind_res (create_timestamps K start_time req g) (\<lambda>g. Inr
            (g\<lparr>zero_schedule_req := map zero_req (create_empty_schedule_req K g),
               empty_schedule_req := create_empty_schedule_req K g,
               zero_schedule_res := map zero_res (create_empty_schedule_res K g),
               empty_schedule_res := create_empty_schedule_res K g\<rparr>)))"

section \<open>Market\<close>

text \<open>
  The members of a \<open>Market\<close>, and the tree they form. The nominal voltage is the same in the
  whole tree and is passed to the operations that read it; \<open>sold_leaves\<close> is never used.
\<close>

record market_node =
  energy_flow_request :: efr_node
  import_max_available :: ScheduleReq
  export_max_available :: ScheduleReq
  sold_root :: ScheduleRes

datatype Market = Market (mnode: market_node) (children: "Market list")

datatype market_ptr = At "nat list" | Dangling

text \<open>
  The entry of a request that is valid at \<open>tp_a\<close>: the one whose interval contains it, the first
  one before the schedule starts, the last one after it.
\<close>

fun find_entry :: "time_lib \<Rightarrow> timepoint \<Rightarrow> bool \<Rightarrow> ScheduleReq \<Rightarrow> ScheduleReqEntry option" where
  "find_entry K tp_a first [] = None"
| "find_entry K tp_a first [r] = Some r"
| "find_entry K tp_a first (r # r' # rs) =
    (let tp_r_1 = from_rfc3339 K (timestamp r);
         tp_r_2 = from_rfc3339 K (timestamp r')
     in if tp_a \<ge> tp_r_1 \<and> tp_a < tp_r_2 \<or> first \<and> tp_a < tp_r_1 then Some r
        else find_entry K tp_a False (r' # rs))"

text \<open>
  All limits of \<open>r\<close> merged on the root side of \<open>a\<close>. The guard of the fourth step compares an
  optional with a value: without a current limit on the leaf side it is false.
\<close>

definition merge_limits :: "ScheduleReqEntry \<Rightarrow> LimitsReq \<Rightarrow> LimitsReq" where
  "merge_limits r root0 =
    (let eff = value_or 1 (conversion_efficiency r);
         root = (case total_power_W (limits_to_leaves r) of
                   None \<Rightarrow> root0
                 | Some p \<Rightarrow> root0\<lparr>total_power_W := Some (p / eff)\<rparr>);
         root = (case (total_power_W (limits_to_root r), total_power_W root) of
                   (Some p, Some q) \<Rightarrow> (if q > p then root\<lparr>total_power_W := Some p\<rparr> else root)
                 | _ \<Rightarrow> root);
         root = (case ac_max_current_A (limits_to_leaves r) of
                   None \<Rightarrow> root
                 | Some c \<Rightarrow> root\<lparr>ac_max_current_A := Some (c / eff)\<rparr>);
         root = (case ac_max_current_A (limits_to_root r) of
                   None \<Rightarrow> root
                 | Some c \<Rightarrow> (if optional_gt (ac_max_current_A root) c
                             then root\<lparr>ac_max_current_A := Some c\<rparr> else root))
     in root\<lparr>ac_min_current_A := ac_min_current_A (limits_to_root r),
             ac_min_phase_count := ac_min_phase_count (limits_to_root r),
             ac_max_phase_count := ac_max_phase_count (limits_to_root r)\<rparr>)"

definition resample :: "time_lib \<Rightarrow> ScheduleReq \<Rightarrow> ScheduleReqEntry \<Rightarrow> ScheduleReqEntry" where
  "resample K request a =
    (case find_entry K (from_rfc3339 K (timestamp a)) True request of
       None \<Rightarrow> a
     | Some r \<Rightarrow> a\<lparr>limits_to_root := merge_limits r (limits_to_root a),
                   price_per_kwh := price_per_kwh r\<rparr>)"

definition get_max_available_energy :: "time_lib \<Rightarrow> globals_t \<Rightarrow> ScheduleReq \<Rightarrow> ScheduleReq" where
  "get_max_available_energy K g request = map (resample K request) (empty_schedule_req g)"

text \<open>One slot of \<open>get_available_energy\<close>.\<close>

definition minus_sold :: "bool \<Rightarrow> ScheduleReqEntry \<Rightarrow> ScheduleResEntry \<Rightarrow> ScheduleReqEntry" where
  "minus_sold add_sold a s =
    (let sign = (if add_sold then 1 else - 1);
         sold_current = sign * value_or 0 (ac_max_current_A (res_limits_to_root s));
         sold_current = (if sold_current > 0 then 0 else sold_current);
         sold_watt = sign * value_or 0 (total_power_W (res_limits_to_root s));
         sold_watt = (if sold_watt > 0 then 0 else sold_watt)
     in a\<lparr>limits_to_root := (limits_to_root a)
           \<lparr>ac_max_current_A := map_option (\<lambda>c. c + sold_current) (ac_max_current_A (limits_to_root a)),
            total_power_W := map_option (\<lambda>p. p + sold_watt) (total_power_W (limits_to_root a))\<rparr>\<rparr>)"

definition get_available_energy :: "bool \<Rightarrow> ScheduleReq \<Rightarrow> ScheduleRes \<Rightarrow> ScheduleReq" where
  "get_available_energy add_sold max_available sold =
     map (\<lambda>(a, s). minus_sold add_sold a s) (zip max_available sold)"

definition get_available_energy_import :: "market_node \<Rightarrow> ScheduleReq" where
  "get_available_energy_import m = get_available_energy False (import_max_available m) (sold_root m)"

definition get_available_energy_export :: "market_node \<Rightarrow> ScheduleReq" where
  "get_available_energy_export m = get_available_energy True (export_max_available m) (sold_root m)"

definition new_market_node :: "time_lib \<Rightarrow> globals_t \<Rightarrow> efr_node \<Rightarrow> market_node" where
  "new_market_node K g n =
    \<lparr>energy_flow_request = n,
     import_max_available = (case schedule_import n of
         None \<Rightarrow> zero_schedule_req g | Some s \<Rightarrow> get_max_available_energy K g s),
     export_max_available = (case schedule_export n of
         None \<Rightarrow> zero_schedule_req g | Some s \<Rightarrow> get_max_available_energy K g s),
     sold_root = empty_schedule_res g\<rparr>"

fun new_Market :: "time_lib \<Rightarrow> globals_t \<Rightarrow> EnergyFlowRequest \<Rightarrow> Market" where
  "new_Market K g (EnergyFlowRequest n cs) =
     Market (new_market_node K g n) (map (new_Market K g) cs)"

definition is_evse :: "Market \<Rightarrow> bool" where
  "is_evse m = (node_type (energy_flow_request (mnode m)) = NT_Evse)"

text \<open>
  The recursive \<open>get_list_of_evses\<close> visits the children by value: below the children of the
  root, the pointers it collects are those of copies that end with the loop body.
\<close>

fun evses_in_copy :: "Market \<Rightarrow> market_ptr list" where
  "evses_in_copy (Market n cs) =
     (if is_evse (Market n cs) then [Dangling] else []) @ concat (map evses_in_copy cs)"

definition evses_in_child :: "nat \<Rightarrow> Market \<Rightarrow> market_ptr list" where
  "evses_in_child i m =
     (if is_evse m then [At [i]] else []) @ concat (map evses_in_copy (children m))"

definition get_list_of_evses :: "Market \<Rightarrow> market_ptr list" where
  "get_list_of_evses m =
     (if is_evse m then [At []] else [])
     @ concat (map (\<lambda>i. evses_in_child i (children m ! i)) [0..<length (children m)])"

text \<open>
  One slot of \<open>schedule_add\<close>. A phase count is assigned through \<open>value()\<close> even when \<open>a\<close> has
  none.
\<close>

definition slot_add :: "ScheduleResEntry \<Rightarrow> ScheduleResEntry \<Rightarrow> ScheduleResEntry energy_m" where
  "slot_add a b =
    (let la = res_limits_to_root a; lb = res_limits_to_root b;
         l = la\<lparr>ac_max_current_A := (case ac_max_current_A lb of
                    None \<Rightarrow> ac_max_current_A la
                  | Some c \<Rightarrow> Some (c + value_or 0 (ac_max_current_A la))),
                total_power_W := (case total_power_W lb of
                    None \<Rightarrow> total_power_W la
                  | Some p \<Rightarrow> Some (p + value_or 0 (total_power_W la)))\<rparr>
     in case ac_max_phase_count lb of
          None \<Rightarrow> Inr (a\<lparr>res_limits_to_root := l\<rparr>)
        | Some nb \<Rightarrow>
            (case ac_max_phase_count la of
               None \<Rightarrow> Inl Bad_optional_access
             | Some na \<Rightarrow> Inr (a\<lparr>res_limits_to_root :=
                 (if nb > na then l\<lparr>ac_max_phase_count := Some nb\<rparr> else l)\<rparr>)))"

fun slots_add :: "ScheduleRes \<Rightarrow> ScheduleRes \<Rightarrow> ScheduleRes energy_m" where
  "slots_add (a # as) (b # bs) =
     bind_res (slot_add a b) (\<lambda>c. bind_res (slots_add as bs) (\<lambda>cs. Inr (c # cs)))"
| "slots_add as bs = Inr as"

definition schedule_add :: "ScheduleRes \<Rightarrow> ScheduleRes \<Rightarrow> ScheduleRes energy_m" where
  "schedule_add a b = (if length a \<noteq> length b then Inr a else slots_add a b)"

text \<open>The trade is booked at the market and at every market on the way to the root.\<close>

definition book :: "ScheduleRes \<Rightarrow> market_node \<Rightarrow> market_node energy_m" where
  "book traded n = bind_res (schedule_add (sold_root n) traded) (\<lambda>s. Inr (n\<lparr>sold_root := s\<rparr>))"

fun market_trade :: "nat list \<Rightarrow> ScheduleRes \<Rightarrow> Market \<Rightarrow> Market energy_m" where
  "market_trade [] traded (Market n cs) = bind_res (book traded n) (\<lambda>n. Inr (Market n cs))"
| "market_trade (i # p) traded (Market n cs) =
    (if i < length cs then
       bind_res (market_trade p traded (cs ! i)) (\<lambda>c.
       bind_res (book traded n) (\<lambda>n. Inr (Market n (cs[i := c]))))
     else Inl Dangling_market)"

section \<open>Offer\<close>

record Offer =
  offer_optimizer_target :: "OptimizerTarget option"
  import_offer :: ScheduleReq
  export_offer :: ScheduleReq

definition apply_one_limit_if_smaller :: "('a::linorder) option \<Rightarrow> 'a option \<Rightarrow> 'a option" where
  "apply_one_limit_if_smaller a b =
    (case b of None \<Rightarrow> a
     | Some y \<Rightarrow> (case a of None \<Rightarrow> Some y | Some x \<Rightarrow> if x > y then Some y else Some x))"

definition apply_one_limit_if_greater :: "('a::linorder) option \<Rightarrow> 'a option \<Rightarrow> 'a option" where
  "apply_one_limit_if_greater a b =
    (case b of None \<Rightarrow> a
     | Some y \<Rightarrow> (case a of None \<Rightarrow> Some y | Some x \<Rightarrow> if x < y then Some y else Some x))"

definition apply_slot_limits :: "ScheduleReqEntry \<Rightarrow> ScheduleReqEntry \<Rightarrow> ScheduleReqEntry" where
  "apply_slot_limits a b =
    (let la = limits_to_root a; lb = limits_to_root b
     in a\<lparr>limits_to_root := la
            \<lparr>ac_max_current_A := apply_one_limit_if_smaller (ac_max_current_A la) (ac_max_current_A lb),
             ac_max_phase_count := apply_one_limit_if_smaller (ac_max_phase_count la) (ac_max_phase_count lb),
             total_power_W := apply_one_limit_if_smaller (total_power_W la) (total_power_W lb),
             ac_min_phase_count := apply_one_limit_if_greater (ac_min_phase_count la) (ac_min_phase_count lb),
             ac_min_current_A := apply_one_limit_if_greater (ac_min_current_A la) (ac_min_current_A lb)\<rparr>,
          price_per_kwh := price_per_kwh b\<rparr>)"

definition apply_limits :: "ScheduleReq \<Rightarrow> ScheduleReq \<Rightarrow> ScheduleReq" where
  "apply_limits a b =
     (if length a \<noteq> length b then a else map (\<lambda>(x, y). apply_slot_limits x y) (zip a b))"

definition limit_offer :: "market_node \<Rightarrow> Offer \<Rightarrow> Offer" where
  "limit_offer m off =
     off\<lparr>import_offer := apply_limits (import_offer off) (get_available_energy_import m),
         export_offer := apply_limits (export_offer off) (get_available_energy_export m),
         offer_optimizer_target := optimizer_target (energy_flow_request m)\<rparr>"

text \<open>
  The limits are applied from the root towards the leaf: the recursion reaches the root first
  and limits the offer on its way back.
\<close>

fun limit_along :: "nat list \<Rightarrow> Market \<Rightarrow> Offer \<Rightarrow> Offer energy_m" where
  "limit_along [] (Market n cs) off = Inr (limit_offer n off)"
| "limit_along (i # p) (Market n cs) off =
    (if i < length cs then limit_along p (cs ! i) (limit_offer n off) else Inl Dangling_market)"

definition create_offer_for_local_market :: "globals_t \<Rightarrow> nat list \<Rightarrow> Market \<Rightarrow> Offer energy_m" where
  "create_offer_for_local_market g p m =
     limit_along p m \<lparr>offer_optimizer_target = None, import_offer = empty_schedule_req g,
                      export_offer = empty_schedule_req g\<rparr>"

section \<open>Broker\<close>

record Broker =
  local_market :: "nat list"
  first_trade :: "bool list"
  trading :: ScheduleRes
  traded :: bool

definition new_Broker :: "globals_t \<Rightarrow> nat list \<Rightarrow> Broker" where
  "new_Broker g p = \<lparr>local_market = p, first_trade = replicate (nat (schedule_length g)) True,
     trading = [], traded = False\<rparr>"

definition set_trading_current :: "float_t \<Rightarrow> ScheduleResEntry \<Rightarrow> ScheduleResEntry" where
  "set_trading_current c e =
     e\<lparr>res_limits_to_root := (res_limits_to_root e)\<lparr>ac_max_current_A := Some c\<rparr>\<rparr>"

definition set_trading_power :: "float_t \<Rightarrow> ScheduleResEntry \<Rightarrow> ScheduleResEntry" where
  "set_trading_power p e =
     e\<lparr>res_limits_to_root := (res_limits_to_root e)\<lparr>total_power_W := Some p\<rparr>\<rparr>"

definition buy_ampere_unchecked :: "nat \<Rightarrow> float_t \<Rightarrow> Broker \<Rightarrow> Broker" where
  "buy_ampere_unchecked index ampere b =
     b\<lparr>trading := (trading b)[index := set_trading_current ampere (trading b ! index)],
       traded := True, first_trade := (first_trade b)[index := False]\<rparr>"

definition buy_watt_unchecked :: "nat \<Rightarrow> float_t \<Rightarrow> Broker \<Rightarrow> Broker" where
  "buy_watt_unchecked index watt b =
     b\<lparr>trading := (trading b)[index := set_trading_power watt (trading b ! index)],
       traded := True\<rparr>"

definition buy_ampere ::
    "float_t \<Rightarrow> LimitsReq \<Rightarrow> nat \<Rightarrow> float_t \<Rightarrow> bool \<Rightarrow> bool \<Rightarrow> Broker \<Rightarrow> bool \<times> Broker" where
  "buy_ampere V limits index ampere allow_less import b =
    (let max_phases = of_int (value_or 1 (ac_max_phase_count limits));
         sign = (if import then 1 else - 1);
         buy_both = (\<lambda>a. (True, buy_watt_unchecked index (sign * a * max_phases * V)
                                  (buy_ampere_unchecked index (sign * a) b)));
         buy_current = (\<lambda>a. (True, buy_ampere_unchecked index (sign * a) b));
         leftovers = (\<lambda>max_current.
           if allow_less \<and> max_current > 0 then
             (case total_power_W limits of
                Some total_power \<Rightarrow>
                  (if total_power \<ge> max_current * max_phases * V then buy_both max_current
                   else buy_both (total_power / max_phases / V))
              | None \<Rightarrow> buy_current max_current)
           else (False, b))
     in case ac_max_current_A limits of
          None \<Rightarrow> (False, b)
        | Some max_current \<Rightarrow>
            (if max_current \<ge> ampere then
               (case total_power_W limits of
                  Some total_power \<Rightarrow>
                    (if total_power \<ge> ampere * max_phases * V then buy_both ampere
                     else leftovers max_current)
                | None \<Rightarrow> buy_current ampere)
             else leftovers max_current))"

definition buy_watt :: "LimitsReq \<Rightarrow> nat \<Rightarrow> float_t \<Rightarrow> bool \<Rightarrow> bool \<Rightarrow> Broker \<Rightarrow> bool \<times> Broker" where
  "buy_watt limits index watt allow_less import b =
    (let sign = (if import then 1 else - 1)
     in case total_power_W limits of
          None \<Rightarrow> (False, b)
        | Some total_power \<Rightarrow>
            (if total_power \<ge> watt then (True, buy_ampere_unchecked index (sign * watt) b)
             else if allow_less \<and> total_power > 0 then
               (True, buy_ampere_unchecked index (sign * total_power) b)
             else (False, b)))"

text \<open>Nothing is bought at first: a zero where the import offer has a limit.\<close>

definition zero_trade :: "ScheduleReqEntry \<Rightarrow> ScheduleResEntry \<Rightarrow> ScheduleResEntry" where
  "zero_trade off e =
    (let e = (if ac_max_current_A (limits_to_root off) \<noteq> None then set_trading_current 0 e else e)
     in if total_power_W (limits_to_root off) \<noteq> None then set_trading_power 0 e else e)"

definition can_trade :: "LimitsReq \<Rightarrow> bool" where
  "can_trade limits = (\<not> (total_power_W limits = Some 0 \<or> ac_max_current_A limits = Some 0))"

text \<open>One direction of one time slot.\<close>

definition trade_direction ::
    "globals_t \<Rightarrow> float_t \<Rightarrow> LimitsReq \<Rightarrow> nat \<Rightarrow> bool \<Rightarrow> Broker \<Rightarrow> Broker" where
  "trade_direction g V limits i import b =
    (if ac_max_current_A limits \<noteq> None then
       (if first_trade b ! i \<and> ac_min_current_A limits \<noteq> None \<and> the (ac_min_current_A limits) > 0
        then snd (buy_ampere V limits i (the (ac_min_current_A limits)) False import b)
        else snd (buy_ampere V limits i (slice_ampere g) True import b))
     else if total_power_W limits \<noteq> None then snd (buy_watt limits i (slice_watt g) True import b)
     else b)"

definition trade_slot :: "globals_t \<Rightarrow> float_t \<Rightarrow> Offer \<Rightarrow> nat \<Rightarrow> Broker \<Rightarrow> Broker" where
  "trade_slot g V off i b =
    (let import = limits_to_root (import_offer off ! i);
         export = limits_to_root (export_offer off ! i)
     in if can_trade import then trade_direction g V import i True b
        else if can_trade export then trade_direction g V export i False b
        else b)"

definition begin_trade :: "globals_t \<Rightarrow> Offer \<Rightarrow> Broker \<Rightarrow> Broker" where
  "begin_trade g off b =
     b\<lparr>trading := map (\<lambda>(x, e). zero_trade x e) (zip (import_offer off) (empty_schedule_res g)),
       traded := False\<rparr>"

definition broker_decide :: "globals_t \<Rightarrow> float_t \<Rightarrow> Offer \<Rightarrow> Broker \<Rightarrow> Broker" where
  "broker_decide g V off b =
     fold (trade_slot g V off) [0..<nat (schedule_length g)] (begin_trade g off b)"

definition broker_trade ::
    "globals_t \<Rightarrow> float_t \<Rightarrow> Offer \<Rightarrow> Broker \<Rightarrow> Market \<Rightarrow> (bool \<times> Broker \<times> Market) energy_m" where
  "broker_trade g V off b m =
    (if length (import_offer off) \<noteq> length (export_offer off)
     then Inr (False, begin_trade g off b, m)
     else
       let b = broker_decide g V off b
       in bind_res (market_trade (local_market b) (trading b) m) (\<lambda>m. Inr (traded b, b, m)))"

section \<open>Optimizer\<close>

record EnergyManager_Conf =
  nominal_ac_voltage :: float_t
  update_interval :: int
  schedule_interval_duration :: int
  schedule_total_duration :: int
  conf_slice_ampere :: float_t
  conf_slice_watt :: float_t
  conf_debug :: bool

fun create_brokers :: "globals_t \<Rightarrow> market_ptr list \<Rightarrow> Broker list energy_m" where
  "create_brokers g [] = Inr []"
| "create_brokers g (At p # ps) = bind_res (create_brokers g ps) (\<lambda>bs. Inr (new_Broker g p # bs))"
| "create_brokers g (Dangling # ps) = Inl Dangling_market"

text \<open>One round: every broker gets an offer at its market and trades.\<close>

fun trading_round ::
    "globals_t \<Rightarrow> float_t \<Rightarrow> Broker list \<Rightarrow> Market \<Rightarrow> (bool \<times> Broker list \<times> Market) energy_m" where
  "trading_round g V [] m = Inr (False, [], m)"
| "trading_round g V (b # bs) m =
    bind_res (create_offer_for_local_market g (local_market b) m) (\<lambda>local_offer.
    bind_res (broker_trade g V local_offer b m) (\<lambda>(happened, b, m).
    bind_res (trading_round g V bs m) (\<lambda>(happened', bs, m).
      Inr (happened \<or> happened', b # bs, m))))"

definition max_number_of_trading_rounds :: nat where "max_number_of_trading_rounds = 100"

fun trading_rounds ::
    "nat \<Rightarrow> globals_t \<Rightarrow> float_t \<Rightarrow> Broker list \<Rightarrow> Market \<Rightarrow> (Broker list \<times> Market) energy_m" where
  "trading_rounds 0 g V bs m = Inr (bs, m)"
| "trading_rounds (Suc n) g V bs m =
    bind_res (trading_round g V bs m) (\<lambda>(happened, bs, m).
      if happened then trading_rounds n g V bs m else Inr (bs, m))"

fun market_at :: "nat list \<Rightarrow> Market \<Rightarrow> market_node energy_m" where
  "market_at [] (Market n cs) = Inr n"
| "market_at (i # p) (Market n cs) = (if i < length cs then market_at p (cs ! i) else Inl Dangling_market)"

definition enforced_limits ::
    "time_lib \<Rightarrow> EnergyManager_Conf \<Rightarrow> timepoint \<Rightarrow> market_node \<Rightarrow> EnforcedLimits energy_m" where
  "enforced_limits K conf now m =
    (case sold_root m of
       [] \<Rightarrow> Inl Out_of_range
     | s # _ \<Rightarrow> Inr
        \<lparr>enforced_uuid = uuid (energy_flow_request m),
         valid_until = to_rfc3339 K (now + update_interval conf * 10 * 1000),
         limits_root_side = Some (res_limits_to_root s),
         schedule = sold_root m\<rparr>)"

fun optimized_values ::
    "time_lib \<Rightarrow> EnergyManager_Conf \<Rightarrow> timepoint \<Rightarrow> Broker list \<Rightarrow> Market \<Rightarrow> EnforcedLimits list energy_m" where
  "optimized_values K conf now [] m = Inr []"
| "optimized_values K conf now (b # bs) m =
    bind_res (market_at (local_market b) m) (\<lambda>n.
    bind_res (enforced_limits K conf now n) (\<lambda>l.
    bind_res (optimized_values K conf now bs m) (\<lambda>ls. Inr (l # ls))))"

definition run_optimizer ::
    "time_lib \<Rightarrow> EnergyManager_Conf \<Rightarrow> globals_t \<Rightarrow> timepoint \<Rightarrow> EnergyFlowRequest
     \<Rightarrow> EnforcedLimits list energy_m" where
  "run_optimizer K conf g now request =
    (let m = new_Market K g request
     in bind_res (create_brokers g (get_list_of_evses m)) (\<lambda>brokers.
        bind_res (trading_rounds max_number_of_trading_rounds g (nominal_ac_voltage conf) brokers m)
          (\<lambda>(brokers, m). optimized_values K conf now brokers m)))"

text \<open>
  The module: the last request received, the slots, and the calls of \<open>enforce_limits\<close> it has
  made on the trunk of the tree. \<open>start\<close> and \<open>now\<close> are the two readings of the clock.
\<close>

record EnergyManager =
  em_conf :: EnergyManager_Conf
  em_request :: EnergyFlowRequest
  em_globals :: globals_t
  em_enforced :: "EnforcedLimits list"

definition on_energy_flow_request :: "EnergyFlowRequest \<Rightarrow> EnergyManager \<Rightarrow> EnergyManager" where
  "on_energy_flow_request e em = em\<lparr>em_request := e\<rparr>"

definition enforce_limits :: "EnforcedLimits list \<Rightarrow> EnergyManager \<Rightarrow> EnergyManager" where
  "enforce_limits limits em = em\<lparr>em_enforced := em_enforced em @ limits\<rparr>"

definition optimizer_loop ::
    "time_lib \<Rightarrow> timepoint \<Rightarrow> timepoint \<Rightarrow> EnergyManager \<Rightarrow> EnergyManager energy_m" where
  "optimizer_loop K start now em =
    (let c = em_conf em
     in bind_res (globals_init K start (schedule_interval_duration c) (schedule_total_duration c)
          (conf_slice_ampere c) (conf_slice_watt c) (conf_debug c) (em_request em) (em_globals em)) (\<lambda>g.
        bind_res (run_optimizer K c g now (em_request em)) (\<lambda>limits.
          Inr (enforce_limits limits (em\<lparr>em_globals := g\<rparr>)))))"

end
