(* ===== verification/Energy_Correct.thy ===== *)
theory Energy_Correct
  imports Energy_Market
begin

text \<open>
  Correctness of the energy market: what one trade may buy, the invariant of the tree of
  markets (nothing is sold beyond a limit, and what a market has sold is what its children
  have bought), and its consequences for the limits that \<open>run_optimizer\<close> enforces.
\<close>

section \<open>Limits\<close>

text \<open>What is booked in one slot.\<close>

definition cur :: "ScheduleResEntry \<Rightarrow> float_t" where
  "cur e = value_or 0 (ac_max_current_A (res_limits_to_root e))"

definition watt_of :: "ScheduleResEntry \<Rightarrow> float_t" where
  "watt_of e = value_or 0 (total_power_W (res_limits_to_root e))"

text \<open>A value under an optional limit, and an optional limit that is at least as strict.\<close>

definition le_opt :: "float_t \<Rightarrow> float_t option \<Rightarrow> bool" where
  "le_opt x l = (case l of None \<Rightarrow> True | Some v \<Rightarrow> x \<le> v)"

definition tighter :: "float_t option \<Rightarrow> float_t option \<Rightarrow> bool" where
  "tighter a b = (\<forall>y. b = Some y \<longrightarrow> (\<exists>x. a = Some x \<and> x \<le> y))"

lemma le_opt_simps [simp]: "le_opt x None" "le_opt x (Some v) \<longleftrightarrow> x \<le> v"
  by (simp_all add: le_opt_def)

lemma le_opt_iff: "le_opt x l \<longleftrightarrow> (\<forall>v. l = Some v \<longrightarrow> x \<le> v)"
  by (cases l) simp_all

lemma tighter_simps [simp]: "tighter a None" "tighter a a" "tighter (Some x) (Some y) \<longleftrightarrow> x \<le> y"
  by (auto simp: tighter_def)

lemma tighter_trans: "tighter a b \<Longrightarrow> tighter b c \<Longrightarrow> tighter a c"
  by (force simp: tighter_def)

lemma le_opt_tighter: "le_opt x a \<Longrightarrow> tighter a b \<Longrightarrow> le_opt x b"
  by (force simp: tighter_def le_opt_iff)

lemma smaller_tighter:
  "tighter (apply_one_limit_if_smaller a b) a" "tighter (apply_one_limit_if_smaller a b) b"
  by (auto simp: apply_one_limit_if_smaller_def tighter_def less_imp_le split: option.splits)

lemma smaller_cases:
  "apply_one_limit_if_smaller a b = a \<or> apply_one_limit_if_smaller a b = b"
  by (auto simp: apply_one_limit_if_smaller_def split: option.splits)

text \<open>Limits as the type definitions demand them: not negative, at least one phase.\<close>

definition sane :: "LimitsReq \<Rightarrow> bool" where
  "sane l = (le_opt 0 (ac_max_current_A l) \<and> le_opt 0 (total_power_W l)
             \<and> (case ac_max_phase_count l of None \<Rightarrow> True | Some k \<Rightarrow> 1 \<le> k))"

lemma sane_iff:
  "sane l \<longleftrightarrow> le_opt 0 (ac_max_current_A l) \<and> le_opt 0 (total_power_W l)
     \<and> (\<forall>k. ac_max_phase_count l = Some k \<longrightarrow> 1 \<le> k)"
  by (cases "ac_max_phase_count l") (simp_all add: sane_def)

definition below :: "LimitsReq \<Rightarrow> LimitsReq \<Rightarrow> bool" where
  "below a b = (tighter (ac_max_current_A a) (ac_max_current_A b)
                \<and> tighter (total_power_W a) (total_power_W b))"

lemma below_trans: "below a b \<Longrightarrow> below b c \<Longrightarrow> below a c"
  by (auto simp: below_def intro: tighter_trans)

lemma apply_slot_limits_below:
  "below (limits_to_root (apply_slot_limits a b)) (limits_to_root a)"
  "below (limits_to_root (apply_slot_limits a b)) (limits_to_root b)"
  by (simp_all add: apply_slot_limits_def below_def Let_def smaller_tighter)

lemma apply_slot_limits_sane:
  assumes "sane (limits_to_root a)" "sane (limits_to_root b)"
  shows "sane (limits_to_root (apply_slot_limits a b))"
proof -
  let ?la = "limits_to_root a" and ?lb = "limits_to_root b"
  have "le_opt 0 (apply_one_limit_if_smaller (ac_max_current_A ?la) (ac_max_current_A ?lb))"
    using assms smaller_cases[of "ac_max_current_A ?la" "ac_max_current_A ?lb"]
    by (auto simp: sane_iff)
  moreover have "le_opt 0 (apply_one_limit_if_smaller (total_power_W ?la) (total_power_W ?lb))"
    using assms smaller_cases[of "total_power_W ?la" "total_power_W ?lb"] by (auto simp: sane_iff)
  moreover have "\<forall>k. apply_one_limit_if_smaller (ac_max_phase_count ?la) (ac_max_phase_count ?lb) = Some k \<longrightarrow> 1 \<le> k"
    using assms smaller_cases[of "ac_max_phase_count ?la" "ac_max_phase_count ?lb"]
    by (auto simp: sane_iff)
  ultimately show ?thesis by (simp add: sane_iff apply_slot_limits_def Let_def)
qed

section \<open>What one trade may buy\<close>

text \<open>
  The current \<open>x\<close> and the power \<open>y\<close> booked in a slot fit the offer: an import under the import
  offer, or an export, which is negative, under the export offer.
\<close>

definition fits_offer :: "LimitsReq \<Rightarrow> LimitsReq \<Rightarrow> float_t \<Rightarrow> float_t \<Rightarrow> bool" where
  "fits_offer li le x y =
    (0 \<le> x \<and> le_opt x (ac_max_current_A li) \<and> 0 \<le> y \<and> le_opt y (total_power_W li)
     \<or> x \<le> 0 \<and> le_opt (- x) (ac_max_current_A le) \<and> y \<le> 0 \<and> le_opt (- y) (total_power_W le))"

lemma fits_offer_zero: "sane li \<Longrightarrow> fits_offer li le 0 0"
  by (simp add: fits_offer_def sane_iff)

definition only_booking :: "ScheduleResEntry \<Rightarrow> bool" where
  "only_booking e = (ac_max_phase_count (res_limits_to_root e) = None)"

lemma set_trading_simps [simp]:
  "cur (set_trading_current c e) = c" "watt_of (set_trading_current c e) = watt_of e"
  "watt_of (set_trading_power p e) = p" "cur (set_trading_power p e) = cur e"
  "only_booking (set_trading_current c e) = only_booking e"
  "only_booking (set_trading_power p e) = only_booking e"
  by (simp_all add: cur_def watt_of_def set_trading_current_def set_trading_power_def only_booking_def)

text \<open>
  The outcome of an attempt to buy in slot \<open>i\<close>: nothing changes, or the signed amount \<open>(x, y)\<close>
  is booked in that slot only, with \<open>x\<close> and \<open>y\<close> in the range of the offer.
\<close>

definition bought :: "bool \<Rightarrow> LimitsReq \<Rightarrow> nat \<Rightarrow> Broker \<Rightarrow> Broker \<Rightarrow> bool" where
  "bought import l i b b' =
    (local_market b' = local_market b \<and> length (trading b') = length (trading b)
     \<and> (\<forall>j. j \<noteq> i \<longrightarrow> trading b' ! j = trading b ! j)
     \<and> (i < length (trading b) \<longrightarrow>
         only_booking (trading b' ! i) = only_booking (trading b ! i)
         \<and> (trading b' ! i = trading b ! i
            \<or> (\<exists>x\<ge>0. le_opt x (ac_max_current_A l)
                 \<and> cur (trading b' ! i) = (if import then x else - x)
                 \<and> (watt_of (trading b' ! i) = watt_of (trading b ! i)
                    \<or> (\<exists>y\<ge>0. le_opt y (total_power_W l)
                         \<and> watt_of (trading b' ! i) = (if import then y else - y)))))))"

lemma bought_refl [simp]: "bought import l i b b"
  by (simp add: bought_def)

lemma bought_current:
  assumes "0 \<le> x" "le_opt x (ac_max_current_A l)"
  shows "bought import l i b (buy_ampere_unchecked i ((if import then 1 else - 1) * x) b)"
  using assms by (auto simp: bought_def buy_ampere_unchecked_def)

lemma bought_both:
  assumes "0 \<le> x" "le_opt x (ac_max_current_A l)" "0 \<le> y" "le_opt y (total_power_W l)"
  shows "bought import l i b
    (buy_watt_unchecked i ((if import then 1 else - 1) * y)
      (buy_ampere_unchecked i ((if import then 1 else - 1) * x) b))"
  using assms by (auto simp: bought_def buy_ampere_unchecked_def buy_watt_unchecked_def)

lemma bought_both_phases:
  assumes "0 \<le> x" "le_opt x (ac_max_current_A l)" "0 < V" "0 \<le> k" "le_opt (x * k * V) (total_power_W l)"
  shows "bought import l i b
    (buy_watt_unchecked i ((if import then 1 else - 1) * x * k * V)
      (buy_ampere_unchecked i ((if import then 1 else - 1) * x) b))"
  using bought_both[of x l "x * k * V" import i b] assms by (simp add: mult.assoc)

lemmas bought_intros =
  bought_current[where import = True, simplified] bought_current[where import = False, simplified]
  bought_both_phases[where import = True, simplified]
  bought_both_phases[where import = False, simplified]
  bought_both[where import = True, simplified] bought_both[where import = False, simplified]

lemma buy_ampere_bought:
  assumes "sane l" "0 < V" "0 \<le> ampere"
  shows "bought import l i b (snd (buy_ampere V l i ampere allow_less import b))"
proof -
  define k :: rat where "k = of_int (value_or 1 (ac_max_phase_count l))"
  have k: "1 \<le> k"
    using assms(1) by (cases "ac_max_phase_count l") (auto simp: k_def sane_iff)
  have pos: "0 < k * V" using k assms(2) by simp
  show ?thesis
  proof (cases "ac_max_current_A l")
    case None
    then show ?thesis by (simp add: buy_ampere_def Let_def)
  next
    case (Some c)
    then have c: "0 \<le> c" using assms(1) by (simp add: sane_iff)
    show ?thesis
    proof (cases "total_power_W l")
      case None
      then show ?thesis
        using Some c assms(3)
        by (auto simp: buy_ampere_def Let_def intro!: bought_intros)
    next
      case (Some p)
      then have p: "0 \<le> p" using assms(1) by (simp add: sane_iff)
      have red: "p / k / V * k * V = p" and red0: "0 \<le> p / k / V"
        using k assms(2) p by auto
      have redc: "p / k / V \<le> c" if "\<not> c * k * V \<le> p"
      proof -
        have "p / (k * V) \<le> c"
          using that pos by (simp add: pos_divide_le_eq mult.assoc)
        then show ?thesis by (simp add: divide_divide_eq_left)
      qed
      show ?thesis
        using Some \<open>ac_max_current_A l = Some c\<close> c p assms(2,3) k red red0 redc
        by (auto simp: buy_ampere_def Let_def k_def[symmetric] intro!: bought_intros)
    qed
  qed
qed

lemma buy_watt_bought:
  assumes "ac_max_current_A l = None" "0 \<le> watt"
  shows "bought import l i b (snd (buy_watt l i watt allow_less import b))"
  using assms
  by (auto simp: buy_watt_def Let_def split: option.split intro!: bought_intros)

lemma trade_direction_bought:
  assumes "sane l" "0 < V" "0 \<le> slice_ampere g" "0 \<le> slice_watt g"
  shows "bought import l i b (trade_direction g V l i import b)"
  using assms
  by (auto simp: trade_direction_def intro!: buy_ampere_bought buy_watt_bought)

text \<open>The state of the broker while the slots are visited in order.\<close>

definition slot_done :: "Offer \<Rightarrow> Broker \<Rightarrow> nat \<Rightarrow> bool" where
  "slot_done off b i =
    (only_booking (trading b ! i)
     \<and> fits_offer (limits_to_root (import_offer off ! i)) (limits_to_root (export_offer off ! i))
         (cur (trading b ! i)) (watt_of (trading b ! i)))"

definition slot_fresh :: "Broker \<Rightarrow> nat \<Rightarrow> bool" where
  "slot_fresh b i =
     (only_booking (trading b ! i) \<and> cur (trading b ! i) = 0 \<and> watt_of (trading b ! i) = 0)"

definition sane_offer :: "nat \<Rightarrow> Offer \<Rightarrow> bool" where
  "sane_offer N off =
    (length (import_offer off) = N \<and> length (export_offer off) = N
     \<and> (\<forall>i<N. sane (limits_to_root (import_offer off ! i))
              \<and> sane (limits_to_root (export_offer off ! i))))"

lemma bought_done:
  assumes b: "bought import l i b b'" and "slot_fresh b i" "i < length (trading b)"
    and "sane (limits_to_root (import_offer off ! i))"
    and "l = limits_to_root ((if import then import_offer off else export_offer off) ! i)"
    and "sane l"
  shows "slot_done off b' i"
proof -
  from b assms(2,3) consider
      (same) "trading b' ! i = trading b ! i" "only_booking (trading b' ! i)"
    | (new) x y where "0 \<le> x" "le_opt x (ac_max_current_A l)" "0 \<le> y" "le_opt y (total_power_W l)"
        "cur (trading b' ! i) = (if import then x else - x)"
        "watt_of (trading b' ! i) = (if import then y else - y)" "only_booking (trading b' ! i)"
    using assms(6) unfolding bought_def slot_fresh_def sane_iff
    by (metis minus_zero order_refl)
  then show ?thesis
  proof cases
    case same
    then show ?thesis
      using assms(2,4) by (simp add: slot_done_def slot_fresh_def fits_offer_zero)
  next
    case new
    then show ?thesis
      using assms(5) by (cases import) (auto simp: slot_done_def fits_offer_def)
  qed
qed

lemma trade_slot_cases:
  assumes "sane_offer N off" "i < N" "0 < V" "0 \<le> slice_ampere g" "0 \<le> slice_watt g"
  shows "\<exists>import. bought import
           (limits_to_root ((if import then import_offer off else export_offer off) ! i)) i b
           (trade_slot g V off i b)"
proof -
  have s: "sane (limits_to_root (import_offer off ! i))" "sane (limits_to_root (export_offer off ! i))"
    using assms(1,2) by (auto simp: sane_offer_def)
  show ?thesis
  proof (cases "can_trade (limits_to_root (import_offer off ! i))")
    case True
    then show ?thesis
      using trade_direction_bought[OF s(1) assms(3-5), of True i b]
      by (intro exI[of _ True]) (simp add: trade_slot_def Let_def)
  next
    case False
    then show ?thesis
      using trade_direction_bought[OF s(2) assms(3-5), of False i b]
      by (intro exI[of _ False]) (simp add: trade_slot_def Let_def)
  qed
qed

lemma trade_slots_done:
  assumes "sane_offer N off" "0 < V" "0 \<le> slice_ampere g" "0 \<le> slice_watt g"
    and "length (trading b) = N" "\<forall>i<N. slot_fresh b i" "n \<le> N"
  shows "let b' = fold (trade_slot g V off) [0..<n] b in
    local_market b' = local_market b \<and> length (trading b') = N
    \<and> (\<forall>i<n. slot_done off b' i) \<and> (\<forall>i. n \<le> i \<and> i < N \<longrightarrow> slot_fresh b' i)"
  using \<open>n \<le> N\<close>
proof (induction n)
  case 0
  then show ?case using assms by simp
next
  case (Suc n)
  define b1 where "b1 = fold (trade_slot g V off) [0..<n] b"
  have IH: "local_market b1 = local_market b" "length (trading b1) = N"
    "\<forall>i<n. slot_done off b1 i" "\<forall>i. n \<le> i \<and> i < N \<longrightarrow> slot_fresh b1 i"
    using Suc by (auto simp: b1_def Let_def)
  obtain import where bt: "bought import
      (limits_to_root ((if import then import_offer off else export_offer off) ! n)) n b1
      (trade_slot g V off n b1)"
    using trade_slot_cases[OF assms(1) _ assms(2-4)] Suc.prems by (meson Suc_le_lessD)
  let ?b2 = "trade_slot g V off n b1"
  have frame: "local_market ?b2 = local_market b1" "length (trading ?b2) = length (trading b1)"
    "\<forall>j. j \<noteq> n \<longrightarrow> trading ?b2 ! j = trading b1 ! j"
    using bt by (auto simp: bought_def)
  have new: "slot_done off ?b2 n"
    using bt IH(2,4) Suc.prems assms(1)
    by (intro bought_done[OF bt]) (auto simp: sane_offer_def)
  have old: "slot_done off ?b2 i" if "i < n" for i
    using IH(3) frame(3) that by (auto simp: slot_done_def)
  have rest: "slot_fresh ?b2 i" if "Suc n \<le> i" "i < N" for i
    using IH(4) frame(3) that by (auto simp: slot_fresh_def)
  have "slot_done off ?b2 i" if "i < Suc n" for i
    using new old that by (metis less_SucE)
  then show ?case
    using IH(1,2) frame(1,2) rest by (simp add: b1_def[symmetric] Let_def)
qed

text \<open>The slots that \<open>globals_init\<close> leaves.\<close>

definition globals_ok :: "nat \<Rightarrow> globals_t \<Rightarrow> bool" where
  "globals_ok N g =
    (schedule_length g = int N \<and> length (empty_schedule_req g) = N
     \<and> length (empty_schedule_res g) = N \<and> length (zero_schedule_req g) = N
     \<and> (\<forall>i<N. limits_to_root (empty_schedule_req g ! i) = no_limits
              \<and> limits_to_root (zero_schedule_req g ! i)
                = no_limits\<lparr>ac_max_current_A := Some 0, total_power_W := Some 0\<rparr>
              \<and> res_limits_to_root (empty_schedule_res g ! i) = no_res_limits))"

lemma globals_init_ok:
  assumes "globals_init K st interval duration a w d req g = Inr g'"
  shows "globals_ok (length (timestamps g')) g'"
    and "slice_ampere g' = a" "slice_watt g' = w"
  using assms
  by (auto simp: globals_init_def create_timestamps_def Let_def bind_res_Inr_iff globals_ok_def
      create_empty_schedule_req_def create_empty_schedule_res_def zero_req_def
      split: if_splits)

lemma begin_trade_fresh:
  assumes "globals_ok N g" "sane_offer N off"
  shows "length (trading (begin_trade g off b)) = N"
    and "i < N \<Longrightarrow> slot_fresh (begin_trade g off b) i"
    and "local_market (begin_trade g off b) = local_market b"
  using assms
  by (auto simp: begin_trade_def globals_ok_def sane_offer_def slot_fresh_def zero_trade_def Let_def
      only_booking_def cur_def watt_of_def set_trading_current_def set_trading_power_def)

lemma broker_decide_fits:
  assumes "globals_ok N g" "sane_offer N off" "0 < V" "0 \<le> slice_ampere g" "0 \<le> slice_watt g"
  shows "local_market (broker_decide g V off b) = local_market b"
    and "length (trading (broker_decide g V off b)) = N"
    and "i < N \<Longrightarrow> slot_done off (broker_decide g V off b) i"
  using trade_slots_done[OF assms(2-5) begin_trade_fresh(1)[OF assms(1,2)], where n = N]
    begin_trade_fresh[OF assms(1,2)] assms(1)
  by (simp_all add: broker_decide_def Let_def globals_ok_def)

section \<open>The invariant of a market\<close>

definition in_range :: "float_t \<Rightarrow> float_t option \<Rightarrow> float_t option \<Rightarrow> bool" where
  "in_range x li le = (le_opt x li \<and> le_opt (- x) le)"

definition slot_ok :: "LimitsReq \<Rightarrow> LimitsReq \<Rightarrow> float_t \<Rightarrow> float_t \<Rightarrow> bool" where
  "slot_ok li le x y =
    (sane li \<and> sane le \<and> in_range x (ac_max_current_A li) (ac_max_current_A le)
     \<and> in_range y (total_power_W li) (total_power_W le))"

text \<open>The limits of slot \<open>i\<close> of a market, and what it still has to offer there.\<close>

definition import_limits :: "market_node \<Rightarrow> nat \<Rightarrow> LimitsReq" where
  "import_limits n i = limits_to_root (import_max_available n ! i)"

definition export_limits :: "market_node \<Rightarrow> nat \<Rightarrow> LimitsReq" where
  "export_limits n i = limits_to_root (export_max_available n ! i)"

definition import_left :: "market_node \<Rightarrow> nat \<Rightarrow> LimitsReq" where
  "import_left n i = limits_to_root (get_available_energy_import n ! i)"

definition export_left :: "market_node \<Rightarrow> nat \<Rightarrow> LimitsReq" where
  "export_left n i = limits_to_root (get_available_energy_export n ! i)"

definition node_ok :: "nat \<Rightarrow> market_node \<Rightarrow> bool" where
  "node_ok N n =
    (length (import_max_available n) = N \<and> length (export_max_available n) = N
     \<and> length (sold_root n) = N
     \<and> (\<forall>i<N. slot_ok (import_limits n i) (export_limits n i)
                (cur (sold_root n ! i)) (watt_of (sold_root n ! i))))"

lemma import_left_eq:
  assumes "node_ok N n" "i < N"
  shows "import_left n i = limits_to_root (minus_sold False (import_max_available n ! i) (sold_root n ! i))"
  using assms
  by (simp add: import_left_def get_available_energy_import_def get_available_energy_def node_ok_def)

lemma export_left_eq:
  assumes "node_ok N n" "i < N"
  shows "export_left n i = limits_to_root (minus_sold True (export_max_available n ! i) (sold_root n ! i))"
  using assms
  by (simp add: export_left_def get_available_energy_export_def get_available_energy_def node_ok_def)

lemma left_sane:
  assumes "node_ok N n" "i < N"
  shows "sane (import_left n i)" "sane (export_left n i)"
proof -
  have ok: "slot_ok (import_limits n i) (export_limits n i)
      (cur (sold_root n ! i)) (watt_of (sold_root n ! i))"
    using assms by (simp add: node_ok_def)
  then show "sane (import_left n i)"
    unfolding import_left_eq[OF assms]
    by (auto simp: slot_ok_def sane_iff in_range_def le_opt_iff minus_sold_def Let_def cur_def watt_of_def
        import_limits_def)
  from ok show "sane (export_left n i)"
    unfolding export_left_eq[OF assms]
    by (auto simp: slot_ok_def sane_iff in_range_def le_opt_iff minus_sold_def Let_def cur_def watt_of_def
        export_limits_def)
qed

text \<open>A trade that fits what is left keeps the market within its limits.\<close>

lemma fits_left:
  assumes "node_ok N n" "i < N" "fits_offer li le x y"
    and "below li (import_left n i)" "below le (export_left n i)"
  shows "slot_ok (import_limits n i) (export_limits n i)
    (cur (sold_root n ! i) + x) (watt_of (sold_root n ! i) + y)"
proof -
  have ok: "slot_ok (import_limits n i) (export_limits n i)
      (cur (sold_root n ! i)) (watt_of (sold_root n ! i))"
    using assms(1,2) by (simp add: node_ok_def)
  consider (import) "0 \<le> x" "le_opt x (ac_max_current_A (import_left n i))"
      "0 \<le> y" "le_opt y (total_power_W (import_left n i))"
    | (export) "x \<le> 0" "le_opt (- x) (ac_max_current_A (export_left n i))"
      "y \<le> 0" "le_opt (- y) (total_power_W (export_left n i))"
    using assms(3-5) unfolding fits_offer_def below_def by (meson le_opt_tighter)
  then show ?thesis
  proof cases
    case import
    then show ?thesis
      using ok unfolding import_left_eq[OF assms(1,2)]
      by (auto simp: slot_ok_def in_range_def le_opt_iff minus_sold_def Let_def cur_def[symmetric]
          watt_of_def[symmetric] import_limits_def split: if_splits)
  next
    case export
    then show ?thesis
      using ok unfolding export_left_eq[OF assms(1,2)]
      by (auto simp: slot_ok_def in_range_def le_opt_iff minus_sold_def Let_def cur_def[symmetric]
          watt_of_def[symmetric] export_limits_def split: if_splits)
  qed
qed

subsection \<open>Booking\<close>

lemma slot_add_books:
  assumes "only_booking b"
  shows "\<exists>c. slot_add a b = Inr c \<and> cur c = cur a + cur b \<and> watt_of c = watt_of a + watt_of b"
  using assms
  by (auto simp: slot_add_def only_booking_def cur_def watt_of_def Let_def split: option.split)

lemma slots_add_books:
  assumes "length a = length b" "\<forall>i<length b. only_booking (b ! i)"
  shows "\<exists>c. slots_add a b = Inr c \<and> length c = length b
    \<and> (\<forall>i<length b. cur (c ! i) = cur (a ! i) + cur (b ! i)
                      \<and> watt_of (c ! i) = watt_of (a ! i) + watt_of (b ! i))"
  using assms
proof (induction a b rule: list_induct2)
  case Nil
  then show ?case by simp
next
  case (Cons x xs y ys)
  obtain z where z: "slot_add x y = Inr z" "cur z = cur x + cur y" "watt_of z = watt_of x + watt_of y"
    using slot_add_books[of y x] Cons.prems by force
  have "\<forall>i<length ys. only_booking (ys ! i)" using Cons.prems by force
  then obtain zs where "slots_add xs ys = Inr zs" "length zs = length ys"
      "\<forall>i<length ys. cur (zs ! i) = cur (xs ! i) + cur (ys ! i)
                       \<and> watt_of (zs ! i) = watt_of (xs ! i) + watt_of (ys ! i)"
    using Cons.IH by blast
  then show ?case
    using z by (intro exI[of _ "z # zs"]) (auto simp: nth_Cons split: nat.split)
qed

text \<open>A trade of \<open>N\<close> slots that every market in \<open>ns\<close> can bear.\<close>

definition bearable :: "nat \<Rightarrow> ScheduleRes \<Rightarrow> market_node \<Rightarrow> bool" where
  "bearable N t n = (\<forall>i<N. slot_ok (import_limits n i) (export_limits n i)
     (cur (sold_root n ! i) + cur (t ! i)) (watt_of (sold_root n ! i) + watt_of (t ! i)))"

definition booked :: "nat \<Rightarrow> ScheduleRes \<Rightarrow> market_node \<Rightarrow> market_node \<Rightarrow> bool" where
  "booked N t n n' =
    (n'\<lparr>sold_root := []\<rparr> = n\<lparr>sold_root := []\<rparr> \<and> length (sold_root n') = N
     \<and> (\<forall>i<N. cur (sold_root n' ! i) = cur (sold_root n ! i) + cur (t ! i)
              \<and> watt_of (sold_root n' ! i) = watt_of (sold_root n ! i) + watt_of (t ! i)))"

lemma book_booked:
  assumes "node_ok N n" "length t = N" "\<forall>i<N. only_booking (t ! i)"
  shows "\<exists>n'. book t n = Inr n' \<and> booked N t n n'"
proof -
  obtain s where "slots_add (sold_root n) t = Inr s" "length s = length t"
      "\<forall>i<length t. cur (s ! i) = cur (sold_root n ! i) + cur (t ! i)
                      \<and> watt_of (s ! i) = watt_of (sold_root n ! i) + watt_of (t ! i)"
    using slots_add_books[of "sold_root n" t] assms by (auto simp: node_ok_def)
  then show ?thesis
    using assms by (simp add: book_def schedule_add_def node_ok_def booked_def)
qed

lemma booked_static:
  assumes "booked N t n n'"
  shows "import_max_available n' = import_max_available n"
    "export_max_available n' = export_max_available n"
    "energy_flow_request n' = energy_flow_request n"
  using assms by (cases n; cases n'; simp add: booked_def)+

lemma booked_ok:
  assumes "node_ok N n" "bearable N t n" "booked N t n n'"
  shows "node_ok N n'"
  using assms booked_static[OF assms(3)]
  by (simp add: node_ok_def bearable_def import_limits_def export_limits_def booked_def)

subsection \<open>The tree\<close>

fun market_ok :: "nat \<Rightarrow> Market \<Rightarrow> bool" where
  "market_ok N (Market n cs) = (node_ok N n \<and> (\<forall>c\<in>set cs. market_ok N c))"

fun nodes_along :: "nat list \<Rightarrow> Market \<Rightarrow> market_node list" where
  "nodes_along [] (Market n cs) = [n]"
| "nodes_along (i # p) (Market n cs) = n # (if i < length cs then nodes_along p (cs ! i) else [])"

fun valid_path :: "nat list \<Rightarrow> Market \<Rightarrow> bool" where
  "valid_path [] m = True"
| "valid_path (i # p) (Market n cs) = (i < length cs \<and> valid_path p (cs ! i))"

text \<open>The tree without the books: what no trade changes.\<close>

fun static :: "Market \<Rightarrow> Market" where
  "static (Market n cs) = Market (n\<lparr>sold_root := []\<rparr>) (map static cs)"

lemma market_trade_ok:
  assumes "market_ok N m" "valid_path p m" "length t = N" "\<forall>i<N. only_booking (t ! i)"
    and "\<forall>n\<in>set (nodes_along p m). bearable N t n"
  shows "\<exists>m'. market_trade p t m = Inr m' \<and> market_ok N m' \<and> static m' = static m
    \<and> booked N t (mnode m) (mnode m') \<and> length (children m') = length (children m)"
  using assms
proof (induction p t m rule: market_trade.induct)
  case (1 t n cs)
  then obtain n' where "book t n = Inr n'" "booked N t n n'"
    using book_booked[of N n t] by auto
  then show ?case
    using 1 booked_ok[of N n t n'] by (auto simp: booked_def)
next
  case (2 i p t n cs)
  then obtain c where c: "market_trade p t (cs ! i) = Inr c" "market_ok N c" "static c = static (cs ! i)"
    by (auto dest: nth_mem)
  obtain n' where n': "book t n = Inr n'" "booked N t n n'"
    using book_booked[of N n t] 2 by auto
  have "map static (cs[i := c]) = map static cs"
    using c(3) 2 by (auto simp: map_update list_update_same_conv)
  then show ?case
    using c n' 2 booked_ok[of N n t n']
    by (auto simp: booked_def dest: set_update_subset_insert[THEN subsetD])
qed

subsection \<open>Offers\<close>

lemma limit_offer_ok:
  assumes "node_ok N n" "sane_offer N off"
  shows "sane_offer N (limit_offer n off)"
    and "i < N \<Longrightarrow> below (limits_to_root (import_offer (limit_offer n off) ! i)) (import_left n i)"
    and "i < N \<Longrightarrow> below (limits_to_root (export_offer (limit_offer n off) ! i)) (export_left n i)"
    and "i < N \<Longrightarrow> below (limits_to_root (import_offer (limit_offer n off) ! i))
                          (limits_to_root (import_offer off ! i))"
    and "i < N \<Longrightarrow> below (limits_to_root (export_offer (limit_offer n off) ! i))
                          (limits_to_root (export_offer off ! i))"
proof -
  have len: "length (get_available_energy_import n) = N" "length (get_available_energy_export n) = N"
    using assms(1)
    by (auto simp: node_ok_def get_available_energy_import_def get_available_energy_export_def
        get_available_energy_def)
  have nth: "i < N \<Longrightarrow> import_offer (limit_offer n off) ! i
        = apply_slot_limits (import_offer off ! i) (get_available_energy_import n ! i)"
      "i < N \<Longrightarrow> export_offer (limit_offer n off) ! i
        = apply_slot_limits (export_offer off ! i) (get_available_energy_export n ! i)" for i
    using len assms(2) by (auto simp: limit_offer_def apply_limits_def sane_offer_def)
  show "sane_offer N (limit_offer n off)"
    using nth left_sane[OF assms(1)] assms(2) len
    by (auto simp: sane_offer_def import_left_def export_left_def
        intro!: apply_slot_limits_sane) (auto simp: limit_offer_def apply_limits_def)
  show "i < N \<Longrightarrow> below (limits_to_root (import_offer (limit_offer n off) ! i)) (import_left n i)"
    "i < N \<Longrightarrow> below (limits_to_root (export_offer (limit_offer n off) ! i)) (export_left n i)"
    "i < N \<Longrightarrow> below (limits_to_root (import_offer (limit_offer n off) ! i))
                          (limits_to_root (import_offer off ! i))"
    "i < N \<Longrightarrow> below (limits_to_root (export_offer (limit_offer n off) ! i))
                          (limits_to_root (export_offer off ! i))"
    by (simp_all add: nth import_left_def export_left_def apply_slot_limits_below)
qed

definition under_offer :: "nat \<Rightarrow> Offer \<Rightarrow> Offer \<Rightarrow> bool" where
  "under_offer N a b = (\<forall>i<N. below (limits_to_root (import_offer a ! i)) (limits_to_root (import_offer b ! i))
     \<and> below (limits_to_root (export_offer a ! i)) (limits_to_root (export_offer b ! i)))"

definition under_node :: "nat \<Rightarrow> Offer \<Rightarrow> market_node \<Rightarrow> bool" where
  "under_node N a n = (\<forall>i<N. below (limits_to_root (import_offer a ! i)) (import_left n i)
     \<and> below (limits_to_root (export_offer a ! i)) (export_left n i))"

lemma under_node_trans: "under_offer N a b \<Longrightarrow> under_node N b n \<Longrightarrow> under_node N a n"
  unfolding under_offer_def under_node_def by (meson below_trans)

lemma under_offer_trans: "under_offer N a b \<Longrightarrow> under_offer N b c \<Longrightarrow> under_offer N a c"
  unfolding under_offer_def by (meson below_trans)

lemma limit_offer_under:
  assumes "node_ok N n" "sane_offer N off"
  shows "under_offer N (limit_offer n off) off" "under_node N (limit_offer n off) n"
  using limit_offer_ok[OF assms] by (simp_all add: under_offer_def under_node_def)

text \<open>An offer respects what is left at every market between the root and the leaf.\<close>

lemma limit_along_ok:
  assumes "market_ok N m" "valid_path p m" "sane_offer N off"
  shows "\<exists>off'. limit_along p m off = Inr off' \<and> sane_offer N off' \<and> under_offer N off' off
    \<and> (\<forall>n\<in>set (nodes_along p m). under_node N off' n)"
  using assms
proof (induction p m off rule: limit_along.induct)
  case (1 n cs off)
  then show ?case
    using limit_offer_ok(1)[of N n off] limit_offer_under[of N n off] by simp
next
  case (2 i p n cs off)
  then have ok: "node_ok N n" "sane_offer N (limit_offer n off)"
    using limit_offer_ok(1) by auto
  with 2 obtain off' where off': "limit_along p (cs ! i) (limit_offer n off) = Inr off'"
      "sane_offer N off'" "under_offer N off' (limit_offer n off)"
      "\<forall>n\<in>set (nodes_along p (cs ! i)). under_node N off' n"
    by auto
  have "under_node N off' n" "under_offer N off' off"
    using off'(3) limit_offer_under[OF ok(1), of off] 2(4)
    by (auto intro: under_node_trans under_offer_trans)
  then show ?case using off' 2 by auto
qed

end
