(* ===== verification/Energy_Properties.thy ===== *)
theory Energy_Properties
  imports Energy_Correct
begin

text \<open>
  What the limits enforced by the energy manager satisfy. The rounds of trading keep the
  invariant of the tree of markets; the books of the root balance with those of its children,
  so the limits enforced on the charging points add up to what the root has sold.
\<close>

section \<open>Well-formed requests\<close>

text \<open>The ranges the type definitions give, and a conversion that is not without any output.\<close>

definition limits_nonneg :: "LimitsReq \<Rightarrow> bool" where
  "limits_nonneg l = (le_opt 0 (ac_max_current_A l) \<and> le_opt 0 (total_power_W l))"

definition entry_ok :: "ScheduleReqEntry \<Rightarrow> bool" where
  "entry_ok e =
    (sane (limits_to_root e) \<and> limits_nonneg (limits_to_leaves e)
     \<and> (case conversion_efficiency e of None \<Rightarrow> True | Some k \<Rightarrow> 0 < k))"

definition schedule_ok :: "ScheduleReq option \<Rightarrow> bool" where
  "schedule_ok s = (case s of None \<Rightarrow> True | Some es \<Rightarrow> list_all entry_ok es)"

fun request_ok :: "EnergyFlowRequest \<Rightarrow> bool" where
  "request_ok (EnergyFlowRequest n cs) =
    (schedule_ok (schedule_import n) \<and> schedule_ok (schedule_export n) \<and> list_all request_ok cs)"

lemma merge_limits_sane:
  assumes "entry_ok r"
  shows "sane (merge_limits r no_limits)"
proof -
  have eff: "0 < value_or 1 (conversion_efficiency r)"
    using assms by (auto simp: entry_ok_def split: option.splits)
  show ?thesis
    using assms eff
    by (auto simp: entry_ok_def merge_limits_def Let_def sane_iff limits_nonneg_def le_opt_iff
        split: option.splits if_splits)
qed

lemma find_entry_in: "find_entry K t first rs = Some r \<Longrightarrow> r \<in> set rs"
  by (induction K t first rs rule: find_entry.induct) (auto simp: Let_def split: if_splits)

lemma sane_no_limits [simp]:
  "sane no_limits" "sane (no_limits\<lparr>ac_max_current_A := Some 0, total_power_W := Some 0\<rparr>)"
  by (simp_all add: sane_iff)

lemma resample_sane:
  assumes "list_all entry_ok s" "limits_to_root a = no_limits"
  shows "sane (limits_to_root (resample K s a))"
  using assms find_entry_in[of K _ True s]
  by (auto simp: resample_def list_all_iff split: option.split intro!: merge_limits_sane
      simp del: energy_default_defs)

lemma max_available_ok:
  assumes "globals_ok N g" "schedule_ok s" "i < N"
    and "l = (case s of None \<Rightarrow> zero_schedule_req g | Some s \<Rightarrow> get_max_available_energy K g s)"
  shows "length l = N \<and> sane (limits_to_root (l ! i))"
  using assms
  by (cases s) (auto simp: globals_ok_def get_max_available_energy_def schedule_ok_def
      simp del: energy_default_defs intro!: resample_sane)

lemma new_market_node_ok:
  assumes "globals_ok N g" "schedule_ok (schedule_import n)" "schedule_ok (schedule_export n)"
  shows "node_ok N (new_market_node K g n)"
proof -
  have len: "length (import_max_available (new_market_node K g n)) = N"
      "length (export_max_available (new_market_node K g n)) = N"
    using assms(1)
    by (auto simp: new_market_node_def globals_ok_def get_max_available_energy_def split: option.split)
  have sane: "sane (import_limits (new_market_node K g n) i)" "sane (export_limits (new_market_node K g n) i)"
    if "i < N" for i
    using max_available_ok[OF assms(1,2) that refl] max_available_ok[OF assms(1,3) that refl]
    by (auto simp: import_limits_def export_limits_def new_market_node_def)
  have "cur (sold_root (new_market_node K g n) ! i) = 0" "watt_of (sold_root (new_market_node K g n) ! i) = 0"
    if "i < N" for i
    using that assms(1) by (auto simp: cur_def watt_of_def new_market_node_def globals_ok_def)
  then show ?thesis
    using len sane assms(1)
    by (auto simp: node_ok_def slot_ok_def sane_iff in_range_def new_market_node_def globals_ok_def)
qed

lemma new_Market_ok: "globals_ok N g \<Longrightarrow> request_ok req \<Longrightarrow> market_ok N (new_Market K g req)"
proof (induction K g req rule: new_Market.induct)
  case (1 K g n cs)
  then show ?case by (auto simp: list_all_iff intro!: new_market_node_ok)
qed

section \<open>One trade\<close>

text \<open>The markets a trade at a child of the root touches.\<close>

definition moved :: "nat \<Rightarrow> nat \<Rightarrow> Market \<Rightarrow> Market \<Rightarrow> bool" where
  "moved N j m m' =
    (\<exists>t. booked N t (mnode m) (mnode m') \<and> length (children m') = length (children m)
       \<and> booked N t (mnode (children m ! j)) (mnode (children m' ! j))
       \<and> (\<forall>k. k \<noteq> j \<longrightarrow> children m' ! k = children m ! k))"

lemma valid_path_static [simp]: "valid_path p (static m) = valid_path p m"
  by (induction p m rule: valid_path.induct) auto

lemma is_evse_static [simp]: "is_evse (static m) = is_evse m"
  by (cases m) (simp add: is_evse_def)

lemma children_static [simp]: "children (static m) = map static (children m)"
  by (cases m) simp

lemma static_mnode: "mnode (static m) = (mnode m)\<lparr>sold_root := []\<rparr>"
  by (cases m) simp

lemma import_max_static:
  assumes "static m = static m'"
  shows "import_max_available (mnode m) = import_max_available (mnode m')"
    "export_max_available (mnode m) = export_max_available (mnode m')"
  using arg_cong[OF assms, of "\<lambda>m. import_max_available (mnode m)"]
    arg_cong[OF assms, of "\<lambda>m. export_max_available (mnode m)"]
  by (simp_all add: static_mnode)

lemma empty_offer_sane:
  assumes "globals_ok N g"
  shows "sane_offer N \<lparr>offer_optimizer_target = t, import_offer = empty_schedule_req g,
    export_offer = empty_schedule_req g\<rparr>"
  using assms by (auto simp: sane_offer_def globals_ok_def simp del: energy_default_defs)

definition conf_ok :: "float_t \<Rightarrow> globals_t \<Rightarrow> bool" where
  "conf_ok V g = (0 < V \<and> 0 \<le> slice_ampere g \<and> 0 \<le> slice_watt g)"

lemma node_ok_along:
  assumes "market_ok N m" "n \<in> set (nodes_along p m)"
  shows "node_ok N n"
  using assms by (induction p m rule: nodes_along.induct) (auto split: if_splits)

lemma decide_bearable:
  assumes "globals_ok N g" "conf_ok V g" "sane_offer N off" "node_ok N n" "under_node N off n"
  shows "bearable N (trading (broker_decide g V off b)) n"
  unfolding bearable_def
proof (intro allI impI)
  fix i
  assume i: "i < N"
  have "slot_done off (broker_decide g V off b) i"
    using assms(2) i by (intro broker_decide_fits(3)[OF assms(1,3)]) (auto simp: conf_ok_def)
  then show "slot_ok (import_limits n i) (export_limits n i)
      (cur (sold_root n ! i) + cur (trading (broker_decide g V off b) ! i))
      (watt_of (sold_root n ! i) + watt_of (trading (broker_decide g V off b) ! i))"
    using assms(5) i by (intro fits_left[OF assms(4)]) (auto simp: slot_done_def under_node_def)
qed

lemma broker_step:
  assumes g: "globals_ok N g" "conf_ok V g" and m: "market_ok N m" "valid_path (local_market b) m"
  shows "\<exists>off b' m'. create_offer_for_local_market g (local_market b) m = Inr off
    \<and> broker_trade g V off b m = Inr (traded b', b', m')
    \<and> market_ok N m' \<and> static m' = static m \<and> local_market b' = local_market b
    \<and> (\<forall>j. local_market b = [j] \<longrightarrow> moved N j m m')"
proof -
  obtain off where off: "create_offer_for_local_market g (local_market b) m = Inr off"
      "sane_offer N off" "\<forall>n\<in>set (nodes_along (local_market b) m). under_node N off n"
    using limit_along_ok[OF m empty_offer_sane[OF g(1)]]
    by (auto simp: create_offer_for_local_market_def)
  define b' where "b' = broker_decide g V off b"
  have conf: "0 < V" "0 \<le> slice_ampere g" "0 \<le> slice_watt g" using g(2) by (auto simp: conf_ok_def)
  note dec = broker_decide_fits[OF g(1) off(2) conf, where b = b, folded b'_def]
  have only: "\<forall>i<N. only_booking (trading b' ! i)"
    using dec(3) by (simp add: slot_done_def)
  have bear: "\<forall>n\<in>set (nodes_along (local_market b) m). bearable N (trading b') n"
    using off m(1) g node_ok_along unfolding b'_def by (blast intro: decide_bearable)
  obtain m' where m': "market_trade (local_market b) (trading b') m = Inr m'" "market_ok N m'"
      "static m' = static m"
    using market_trade_ok[OF m dec(2) only bear] by blast
  have "moved N j m m'" if lm: "local_market b = [j]" for j
  proof -
    obtain n cs where M: "m = Market n cs" by (cases m)
    have j: "j < length cs" using m(2) lm M by simp
    then obtain c n' where c: "market_trade [] (trading b') (cs ! j) = Inr c" "book (trading b') n = Inr n'"
        "m' = Market n' (cs[j := c])"
      using m'(1) lm M by (auto simp: bind_res_Inr_iff)
    obtain k ks where C: "cs ! j = Market k ks" by (cases "cs ! j")
    have "market_ok N (cs ! j)" using m(1) M j by simp
    then have ok: "node_ok N n" "node_ok N k" using m(1) M C by auto
    have "booked N (trading b') n n'" "booked N (trading b') k (mnode c)"
      using book_booked[OF ok(1) dec(2) only] book_booked[OF ok(2) dec(2) only] c C
      by (auto simp: bind_res_Inr_iff)
    then show ?thesis
      unfolding moved_def using c C M j by auto
  qed
  then show ?thesis
    using off(1,2) m' dec(1)
    by (intro exI[of _ off] exI[of _ b'] exI[of _ m'])
       (auto simp: broker_trade_def sane_offer_def b'_def[symmetric] Let_def)
qed

section \<open>Rounds of trading\<close>

text \<open>
  The books of the root balance with those of its children, and a child that is no charging
  point has nothing in its books.
\<close>

definition balanced :: "nat \<Rightarrow> Market \<Rightarrow> bool" where
  "balanced N m =
    (\<forall>i<N. cur (sold_root (mnode m) ! i)
              = (\<Sum>k<length (children m). cur (sold_root (mnode (children m ! k)) ! i))
         \<and> watt_of (sold_root (mnode m) ! i)
              = (\<Sum>k<length (children m). watt_of (sold_root (mnode (children m ! k)) ! i)))"

definition others_idle :: "nat \<Rightarrow> Market \<Rightarrow> bool" where
  "others_idle N m =
    (\<forall>k<length (children m). \<not> is_evse (children m ! k) \<longrightarrow>
       (\<forall>i<N. cur (sold_root (mnode (children m ! k)) ! i) = 0
              \<and> watt_of (sold_root (mnode (children m ! k)) ! i) = 0))"

lemma sum_bump:
  assumes "j < (n::nat)" "\<And>k. k < n \<Longrightarrow> k \<noteq> j \<Longrightarrow> f' k = f k" "f' j = f j + (x::rat)"
  shows "(\<Sum>k<n. f' k) = (\<Sum>k<n. f k) + x"
proof -
  have "(\<Sum>k<n. f' k) = (\<Sum>k<n. f k + (if k = j then x else 0))"
    using assms by (intro sum.cong) auto
  then show ?thesis using assms(1) by (simp add: sum.distrib)
qed

lemma moved_balanced:
  assumes "moved N j m m'" "balanced N m" "j < length (children m)"
  shows "balanced N m'"
proof -
  obtain t where t: "booked N t (mnode m) (mnode m')" "length (children m') = length (children m)"
      "booked N t (mnode (children m ! j)) (mnode (children m' ! j))"
      "\<forall>k. k \<noteq> j \<longrightarrow> children m' ! k = children m ! k"
    using assms(1) by (auto simp: moved_def)
  have "(\<Sum>k<length (children m). cur (sold_root (mnode (children m' ! k)) ! i))
        = (\<Sum>k<length (children m). cur (sold_root (mnode (children m ! k)) ! i)) + cur (t ! i)"
      "(\<Sum>k<length (children m). watt_of (sold_root (mnode (children m' ! k)) ! i))
        = (\<Sum>k<length (children m). watt_of (sold_root (mnode (children m ! k)) ! i)) + watt_of (t ! i)"
    if "i < N" for i
    using t(3,4) that assms(3) by (auto intro!: sum_bump simp: booked_def)
  then show ?thesis
    using t(1,2) assms(2) by (simp add: balanced_def booked_def)
qed

lemma moved_others_idle:
  assumes "moved N j m m'" "others_idle N m" "is_evse (children m ! j)" "static m' = static m"
  shows "others_idle N m'"
proof -
  have len: "length (children m') = length (children m)"
    and same: "\<And>k. k \<noteq> j \<Longrightarrow> children m' ! k = children m ! k"
    using assms(1) by (auto simp: moved_def)
  have ev: "is_evse (children m' ! j)" if "j < length (children m)"
    using arg_cong[OF assms(4), of children] that len assms(3)
    by (metis children_static is_evse_static nth_map)
  show ?thesis
    unfolding others_idle_def len
  proof (intro allI impI)
    fix k i
    assume k: "k < length (children m)" "\<not> is_evse (children m' ! k)" "i < N"
    then have "k \<noteq> j" using ev by auto
    then show "cur (sold_root (mnode (children m' ! k)) ! i) = 0
        \<and> watt_of (sold_root (mnode (children m' ! k)) ! i) = 0"
      using same[of k] k assms(2) by (simp add: others_idle_def)
  qed
qed

text \<open>The brokers' markets: paths of the tree, and below a root that only distributes, its charging points.\<close>

definition brokers_ok :: "Market \<Rightarrow> nat list list \<Rightarrow> bool" where
  "brokers_ok m ps =
    (\<forall>p\<in>set ps. valid_path p m
       \<and> (\<not> is_evse m \<longrightarrow> (\<exists>j<length (children m). p = [j] \<and> is_evse (children m ! j))))"

lemma brokers_ok_static:
  assumes "static m' = static m"
  shows "brokers_ok m' ps = brokers_ok m ps"
proof -
  have ch: "map static (children m') = map static (children m)"
    using arg_cong[OF assms, of children] by simp
  have len: "length (children m') = length (children m)"
    using map_eq_imp_length_eq[OF ch] .
  have "is_evse (children m' ! j) = is_evse (children m ! j)" if "j < length (children m)" for j
    using ch len that by (metis is_evse_static nth_map)
  moreover have "valid_path p m' = valid_path p m" for p
    using assms by (metis valid_path_static)
  moreover have "is_evse m' = is_evse m"
    using assms by (metis is_evse_static)
  ultimately show ?thesis using len by (auto simp: brokers_ok_def)
qed

definition books_ok :: "nat \<Rightarrow> Market \<Rightarrow> bool" where
  "books_ok N m = (market_ok N m \<and> (\<not> is_evse m \<longrightarrow> balanced N m \<and> others_idle N m))"

lemma broker_step_books:
  assumes "globals_ok N g" "conf_ok V g" "books_ok N m" "brokers_ok m [local_market b]"
  shows "\<exists>off b' m'. create_offer_for_local_market g (local_market b) m = Inr off
    \<and> broker_trade g V off b m = Inr (traded b', b', m')
    \<and> books_ok N m' \<and> static m' = static m \<and> local_market b' = local_market b"
proof -
  obtain off b' m' where st: "create_offer_for_local_market g (local_market b) m = Inr off"
      "broker_trade g V off b m = Inr (traded b', b', m')" "market_ok N m'" "static m' = static m"
      "local_market b' = local_market b" "\<forall>j. local_market b = [j] \<longrightarrow> moved N j m m'"
    using broker_step[of N g V m b] assms by (auto simp: books_ok_def brokers_ok_def)
  have "balanced N m' \<and> others_idle N m'" if "\<not> is_evse m'"
  proof -
    have ne: "\<not> is_evse m" using that st(4) by (metis is_evse_static)
    then obtain j where j: "local_market b = [j]" "j < length (children m)" "is_evse (children m ! j)"
      using assms(4) by (auto simp: brokers_ok_def)
    then show ?thesis
      using moved_balanced[of N j m m'] moved_others_idle[of N j m m'] st(4,6) assms(3) ne
      by (auto simp: books_ok_def)
  qed
  then show ?thesis using st by (auto simp: books_ok_def)
qed

lemma trading_round_books:
  assumes "globals_ok N g" "conf_ok V g" "books_ok N m" "brokers_ok m (map local_market bs)"
  shows "\<exists>h bs' m'. trading_round g V bs m = Inr (h, bs', m') \<and> books_ok N m'
    \<and> static m' = static m \<and> map local_market bs' = map local_market bs"
  using assms(3,4)
proof (induction bs arbitrary: m)
  case Nil
  then show ?case by auto
next
  case (Cons b bs)
  have "brokers_ok m [local_market b]" using Cons.prems(2) by (simp add: brokers_ok_def)
  then obtain off b' m' where st: "create_offer_for_local_market g (local_market b) m = Inr off"
      "broker_trade g V off b m = Inr (traded b', b', m')"
      "books_ok N m'" "static m' = static m" "local_market b' = local_market b"
    using broker_step_books[OF assms(1,2) Cons.prems(1)] by blast
  have "brokers_ok m' (map local_market bs)"
    unfolding brokers_ok_static[OF st(4)] using Cons.prems(2) by (simp add: brokers_ok_def)
  then obtain h bs' m'' where "trading_round g V bs m' = Inr (h, bs', m'')" "books_ok N m''"
      "static m'' = static m'" "map local_market bs' = map local_market bs"
    using Cons.IH[OF st(3)] by blast
  then show ?case using st by auto
qed

lemma trading_rounds_books:
  assumes "globals_ok N g" "conf_ok V g" "books_ok N m" "brokers_ok m (map local_market bs)"
  shows "\<exists>bs' m'. trading_rounds k g V bs m = Inr (bs', m') \<and> books_ok N m'
    \<and> static m' = static m \<and> map local_market bs' = map local_market bs"
  using assms(3,4)
proof (induction k arbitrary: bs m)
  case 0
  then show ?case by simp
next
  case (Suc k)
  obtain h bs' m' where r: "trading_round g V bs m = Inr (h, bs', m')" "books_ok N m'"
      "static m' = static m" "map local_market bs' = map local_market bs"
    using trading_round_books[OF assms(1,2) Suc.prems] by blast
  have "brokers_ok m' (map local_market bs')"
    unfolding brokers_ok_static[OF r(3)] r(4) by (rule Suc.prems(2))
  then show ?case
    using r Suc.IH[of m' bs'] by (cases h) auto
qed

section \<open>The enforced limits\<close>

lemma new_Market_empty_books:
  assumes "globals_ok N g" "i < N"
  shows "cur (sold_root (mnode (new_Market K g req)) ! i) = 0"
    "watt_of (sold_root (mnode (new_Market K g req)) ! i) = 0"
  using assms
  by (cases req; simp add: new_market_node_def cur_def watt_of_def globals_ok_def)+

lemma children_new_Market: "children (new_Market K g req) = map (new_Market K g) (efr_children req)"
  by (cases req) simp

lemma is_evse_new_Market: "is_evse (new_Market K g req) = (node_type (efr req) = NT_Evse)"
  by (cases req) (simp add: is_evse_def new_market_node_def)

lemma new_Market_books:
  assumes "globals_ok N g" "request_ok req"
  shows "books_ok N (new_Market K g req)"
  using new_Market_ok[OF assms, of K] new_Market_empty_books[OF assms(1), of _ K]
  by (auto simp: books_ok_def balanced_def others_idle_def children_new_Market)

text \<open>A charging point somewhere in a request.\<close>

fun has_evse :: "EnergyFlowRequest \<Rightarrow> bool" where
  "has_evse (EnergyFlowRequest n cs) = (node_type n = NT_Evse \<or> list_ex has_evse cs)"

lemma evses_in_copy_new:
  "set (evses_in_copy (new_Market K g req)) = (if has_evse req then {Dangling} else {})"
proof (induction K g req rule: new_Market.induct)
  case (1 K g n cs)
  then have "set (concat (map evses_in_copy (map (new_Market K g) cs)))
      = (if list_ex has_evse cs then {Dangling} else {})"
    by (auto simp: list_ex_iff)
  then show ?case by (auto simp: is_evse_def new_market_node_def)
qed

lemma evses_in_copy_Nil: "\<not> has_evse req \<Longrightarrow> evses_in_copy (new_Market K g req) = []"
  using evses_in_copy_new[of K g req] by (metis set_empty)

text \<open>Charging points below the children of the root.\<close>

definition deep_evse :: "EnergyFlowRequest \<Rightarrow> bool" where
  "deep_evse req = (\<exists>c\<in>set (efr_children req). \<exists>d\<in>set (efr_children c). has_evse d)"

definition evse_children :: "Market \<Rightarrow> nat list" where
  "evse_children m = filter (\<lambda>j. is_evse (children m ! j)) [0..<length (children m)]"

lemma concat_map_if: "concat (map (\<lambda>x. if P x then [f x] else []) xs) = map f (filter P xs)"
  by (induction xs) auto

lemma list_of_evses_flat:
  assumes "\<not> deep_evse req"
  shows "get_list_of_evses (new_Market K g req)
    = (if node_type (efr req) = NT_Evse then [At []] else [])
      @ map (\<lambda>j. At [j]) (evse_children (new_Market K g req))"
proof -
  let ?m = "new_Market K g req"
  have "evses_in_child j (children ?m ! j) = (if is_evse (children ?m ! j) then [At [j]] else [])"
    if "j < length (children ?m)" for j
  proof -
    have "\<forall>d\<in>set (children (children ?m ! j)). evses_in_copy d = []"
      using assms that
      by (auto simp: children_new_Market deep_evse_def dest!: nth_mem intro!: evses_in_copy_Nil)
    then show ?thesis by (simp add: evses_in_child_def concat_eq_Nil_conv)
  qed
  then have "concat (map (\<lambda>j. evses_in_child j (children ?m ! j)) [0..<length (children ?m)])
      = concat (map (\<lambda>j. if is_evse (children ?m ! j) then [At [j]] else []) [0..<length (children ?m)])"
    by (intro arg_cong[where f = concat]) auto
  also have "\<dots> = map (\<lambda>j. At [j]) (evse_children ?m)"
    unfolding evse_children_def by (rule concat_map_if)
  finally show ?thesis by (simp add: get_list_of_evses_def is_evse_new_Market)
qed

lemma create_brokers_flat:
  "create_brokers g (map At ps) = Inr (map (new_Broker g) ps)"
  by (induction ps) auto

lemma create_brokers_dangling:
  "create_brokers g ps = Inr bs \<Longrightarrow> Dangling \<notin> set ps"
  by (induction g ps arbitrary: bs rule: create_brokers.induct) (auto simp: bind_res_Inr_iff)

lemma create_brokers_fails: "Dangling \<in> set ps \<Longrightarrow> create_brokers g ps = Inl Dangling_market"
  by (induction g ps rule: create_brokers.induct) auto

lemma deep_evse_dangling:
  assumes "deep_evse req"
  shows "Dangling \<in> set (get_list_of_evses (new_Market K g req))"
proof -
  obtain c d where cd: "c \<in> set (efr_children req)" "d \<in> set (efr_children c)" "has_evse d"
    using assms by (auto simp: deep_evse_def)
  then obtain j where j: "j < length (efr_children req)" "efr_children req ! j = c"
    by (auto simp: in_set_conv_nth)
  have "Dangling \<in> set (evses_in_child j (children (new_Market K g req) ! j))"
    using j cd evses_in_copy_new[of K g d]
    by (auto simp: evses_in_child_def children_new_Market)
  then show ?thesis
    using j(1) by (auto simp: get_list_of_evses_def children_new_Market intro!: bexI[of _ j])
qed

definition read_from ::
    "time_lib \<Rightarrow> EnergyManager_Conf \<Rightarrow> timepoint \<Rightarrow> nat \<Rightarrow> Market \<Rightarrow> Broker \<Rightarrow> EnforcedLimits \<Rightarrow> bool" where
  "read_from K conf now N m b l =
    (\<exists>n. market_at (local_market b) m = Inr n \<and> node_ok N n \<and> enforced_limits K conf now n = Inr l)"

text \<open>The tree after the run and the tree of requests.\<close>

lemma static_new_Market:
  assumes "static m = static (new_Market K g req)"
  shows "length (children m) = length (efr_children req)"
    and "energy_flow_request (mnode m) = efr req"
    and "j < length (efr_children req) \<Longrightarrow>
           energy_flow_request (mnode (children m ! j)) = efr (efr_children req ! j)"
    and "evse_children m = evse_children (new_Market K g req)"
proof -
  have node: "energy_flow_request (mnode m) = efr req" if "static m = static (new_Market K g req)" for m req
    using arg_cong[OF that, of "\<lambda>m. energy_flow_request (mnode m)"]
    by (cases m; cases req) (simp add: new_market_node_def)
  have ch: "map static (children m) = map static (map (new_Market K g) (efr_children req))"
    using arg_cong[OF assms, of children] by (simp add: children_new_Market)
  show len: "length (children m) = length (efr_children req)"
    using map_eq_imp_length_eq[OF ch] by simp
  show "energy_flow_request (mnode m) = efr req" by (rule node[OF assms])
  have st: "static (children m ! j) = static (new_Market K g (efr_children req ! j))"
    if "j < length (efr_children req)" for j
    using arg_cong[OF ch, of "\<lambda>xs. xs ! j"] that len by simp
  show "energy_flow_request (mnode (children m ! j)) = efr (efr_children req ! j)"
    if "j < length (efr_children req)" using node[OF st[OF that]] .
  show "evse_children m = evse_children (new_Market K g req)"
    unfolding evse_children_def
    using st len by (intro filter_cong) (auto simp: children_new_Market, (metis is_evse_static)+)
qed

lemma optimized_values_total:
  assumes "market_ok N m" "0 < N" "\<forall>b\<in>set bs. valid_path (local_market b) m"
  shows "\<exists>ls. optimized_values K conf now bs m = Inr ls
    \<and> list_all2 (read_from K conf now N m) bs ls"
  using assms(3)
proof (induction bs)
  case Nil
  then show ?case by simp
next
  case (Cons b bs)
  have at: "\<exists>n. market_at p m = Inr n \<and> node_ok N n" if "valid_path p m" "market_ok N m" for p m
    using that by (induction p m rule: market_at.induct) auto
  then obtain n where n: "market_at (local_market b) m = Inr n" "node_ok N n"
    using at[OF _ assms(1), of "local_market b"] Cons.prems by auto
  then obtain l where "enforced_limits K conf now n = Inr l"
    using assms(2) by (cases "sold_root n") (auto simp: enforced_limits_def node_ok_def)
  then show ?case using Cons n by (auto simp: read_from_def)
qed

lemma enforced_limits_schedule:
  "enforced_limits K conf now n = Inr l \<Longrightarrow> schedule l = sold_root n \<and> enforced_uuid l = uuid (energy_flow_request n)
    \<and> limits_root_side l = Some (res_limits_to_root (schedule l ! 0))"
  by (auto simp: enforced_limits_def split: list.splits)

lemma conf_ok_init:
  assumes "globals_init K st interval duration a w d req g0 = Inr g" "0 < V" "0 \<le> a" "0 \<le> w"
  shows "conf_ok V g"
  using assms globals_init_ok[OF assms(1)] by (simp add: conf_ok_def)

text \<open>
  The run of the optimizer on a request without charging points below the children of the
  root: the final state of the market and the limits read from it.
\<close>

lemma run_optimizer_flat:
  assumes "globals_ok N g" "conf_ok (nominal_ac_voltage conf) g" "request_ok req" "0 < N"
    and "\<not> deep_evse req"
  shows "\<exists>bs m ls. run_optimizer K conf g now req = Inr ls \<and> books_ok N m
    \<and> static m = static (new_Market K g req)
    \<and> map local_market bs = (if node_type (efr req) = NT_Evse then [[]] else [])
        @ map (\<lambda>j. [j]) (evse_children m)
    \<and> list_all2 (read_from K conf now N m) bs ls"
proof -
  let ?m = "new_Market K g req"
  define ps where "ps = (if node_type (efr req) = NT_Evse then [[]] else [])
        @ map (\<lambda>j. [j]) (evse_children ?m)"
  have "get_list_of_evses ?m = map At ps"
    unfolding list_of_evses_flat[OF assms(5)] ps_def by simp
  then have bs0: "create_brokers g (get_list_of_evses ?m) = Inr (map (new_Broker g) ps)"
    by (simp add: create_brokers_flat)
  have lm: "map local_market (map (new_Broker g) ps) = ps"
    by (simp add: new_Broker_def comp_def)
  have "valid_path [j] ?m" if "j < length (children ?m)" for j
    using that by (cases ?m) simp
  then have ok: "brokers_ok ?m ps"
    by (auto simp: brokers_ok_def ps_def evse_children_def is_evse_new_Market)
  obtain bs m where r: "trading_rounds max_number_of_trading_rounds g (nominal_ac_voltage conf)
        (map (new_Broker g) ps) ?m = Inr (bs, m)" "books_ok N m" "static m = static ?m"
      "map local_market bs = ps"
    using trading_rounds_books[OF assms(1,2) new_Market_books[OF assms(1,3)],
        where bs = "map (new_Broker g) ps" and K1 = K]
      ok unfolding lm by blast
  have "\<forall>b\<in>set bs. valid_path (local_market b) m"
    using ok r(4) brokers_ok_static[OF r(3), of ps] by (auto simp: brokers_ok_def)
  moreover have "market_ok N m" using r(2) by (simp add: books_ok_def)
  ultimately obtain ls where ls: "optimized_values K conf now bs m = Inr ls"
      "list_all2 (read_from K conf now N m) bs ls"
    using optimized_values_total[of N m bs K conf now] assms(4) by blast
  have "run_optimizer K conf g now req = Inr ls"
    using bs0 r(1) ls(1) by (simp add: run_optimizer_def Let_def)
  then show ?thesis
    using r(2-4) ls(2) unfolding ps_def static_new_Market(4)[OF r(3), symmetric] by blast
qed

lemma run_optimizer_generic:
  assumes "globals_init K st interval duration a w d req g0 = Inr g"
    and "request_ok req" "0 < nominal_ac_voltage conf" "0 \<le> a" "0 \<le> w" "timestamps g \<noteq> []"
    and "node_type (efr req) \<noteq> NT_Evse" "\<not> deep_evse req"
  obtains bs m ls where "run_optimizer K conf g now req = Inr ls"
    "books_ok (length (timestamps g)) m" "static m = static (new_Market K g req)"
    "map local_market bs = map (\<lambda>j. [j]) (evse_children m)"
    "list_all2 (read_from K conf now (length (timestamps g)) m) bs ls"
proof -
  have N: "0 < length (timestamps g)" using assms(6) by simp
  show ?thesis
    using run_optimizer_flat[OF globals_init_ok(1)[OF assms(1)] conf_ok_init[OF assms(1,3-5)]
        assms(2) N assms(8), of K now] that assms(7) by (auto simp del: split_paired_Ex)
qed

lemma run_optimizer_deep:
  "deep_evse req \<Longrightarrow> run_optimizer K conf g now req = Inl Dangling_market"
  by (simp add: run_optimizer_def Let_def create_brokers_fails deep_evse_dangling)

lemma sum_evse_children:
  assumes "\<And>j. j < length (children m) \<Longrightarrow> \<not> is_evse (children m ! j) \<Longrightarrow> f j = (0::rat)"
  shows "(\<Sum>j\<leftarrow>evse_children m. f j) = (\<Sum>j<length (children m). f j)"
proof -
  have "(\<Sum>j\<leftarrow>evse_children m. f j) = (\<Sum>j\<leftarrow>[0..<length (children m)]. f j)"
    unfolding evse_children_def using assms by (intro sum_list_map_filter) auto
  then show ?thesis by (simp add: interv_sum_list_conv_sum_set_nat atLeast0LessThan)
qed

lemma limits_of_children:
  assumes "list_all2 (read_from K conf now N m) bs ls" "map local_market bs = map (\<lambda>j. [j]) js"
    and "\<forall>j\<in>set js. j < length (children m)"
  shows "map schedule ls = map (\<lambda>j. sold_root (mnode (children m ! j))) js
    \<and> map enforced_uuid ls = map (\<lambda>j. uuid (energy_flow_request (mnode (children m ! j)))) js"
  using assms
proof (induction js arbitrary: bs ls)
  case Nil
  then show ?case by simp
next
  case (Cons j js)
  then obtain b bs' l ls' where bl: "bs = b # bs'" "ls = l # ls'" "local_market b = [j]"
      "read_from K conf now N m b l" "list_all2 (read_from K conf now N m) bs' ls'"
      "map local_market bs' = map (\<lambda>j. [j]) js"
    by (auto simp: map_eq_Cons_conv list_all2_Cons1)
  have "market_at [j] m = Inr (mnode (children m ! j))"
    using Cons.prems(3) by (cases m; cases "children m ! j") auto
  then have "schedule l = sold_root (mnode (children m ! j))"
      "enforced_uuid l = uuid (energy_flow_request (mnode (children m ! j)))"
    using bl(3,4) by (auto simp: read_from_def dest: enforced_limits_schedule)
  then show ?case using Cons.IH[OF bl(5,6)] Cons.prems(3) bl by simp
qed

lemma filter_by_index: "map ((!) cs) (filter (\<lambda>j. P (cs ! j)) [0..<length cs]) = filter P cs"
proof -
  have "filter P (map ((!) cs) [0..<length cs]) = map ((!) cs) (filter (P \<circ> (!) cs) [0..<length cs])"
    by (rule filter_map)
  then show ?thesis by (simp add: map_nth comp_def)
qed

text \<open>
  C32: The optimizer returns on every well-formed request whose charging points are all
  directly below a root that only distributes: no trade fails, and there is one enforced limit
  per charging point, with the first slot of the schedule as the limit. A charging point any
  deeper is reached through a pointer to a destroyed copy, and the run ends in undefined
  behaviour.
\<close>

theorem run_optimizer_returns:
  assumes "globals_init K st interval duration a w d req g0 = Inr g"
    and "request_ok req" "0 < nominal_ac_voltage conf" "0 \<le> a" "0 \<le> w" "timestamps g \<noteq> []"
    and "node_type (efr req) \<noteq> NT_Evse"
  shows "if deep_evse req then run_optimizer K conf g now req = Inl Dangling_market
    else \<exists>ls. run_optimizer K conf g now req = Inr ls
      \<and> map enforced_uuid ls
        = map (\<lambda>c. uuid (efr c)) (filter (\<lambda>c. node_type (efr c) = NT_Evse) (efr_children req))
      \<and> (\<forall>l\<in>set ls. limits_root_side l = Some (res_limits_to_root (schedule l ! 0)))"
proof (cases "deep_evse req")
  case True
  then show ?thesis by (simp add: run_optimizer_deep)
next
  case False
  let ?m = "new_Market K g req" and ?cs = "efr_children req"
  obtain bs m ls where r: "run_optimizer K conf g now req = Inr ls" "static m = static ?m"
      "map local_market bs = map (\<lambda>j. [j]) (evse_children m)"
      "list_all2 (read_from K conf now (length (timestamps g)) m) bs ls"
    using run_optimizer_generic[OF assms False] by metis
  note st = static_new_Market[OF r(2)]
  have js: "evse_children m = filter (\<lambda>j. node_type (efr (?cs ! j)) = NT_Evse) [0..<length ?cs]"
    unfolding evse_children_def st(1) by (intro filter_cong) (auto simp: is_evse_def st(3))
  have "map enforced_uuid ls = map (\<lambda>j. uuid (efr (?cs ! j))) (evse_children m)"
    using limits_of_children[OF r(4,3)] st(1,3) by (auto simp: evse_children_def)
  also have "\<dots> = map (\<lambda>c. uuid (efr c)) (filter (\<lambda>c. node_type (efr c) = NT_Evse) ?cs)"
    unfolding js filter_by_index[of ?cs, symmetric] by simp
  moreover have "\<forall>l\<in>set ls. limits_root_side l = Some (res_limits_to_root (schedule l ! 0))"
    using r(4) by (auto simp: list_all2_conv_all_nth in_set_conv_nth read_from_def
        dest!: enforced_limits_schedule)
  ultimately show ?thesis using False r(1) by simp
qed

lemma optimizer_final:
  assumes "globals_init K st interval duration a w d req g0 = Inr g"
    and "run_optimizer K conf g now req = Inr ls"
    and "request_ok req" "0 < nominal_ac_voltage conf" "0 \<le> a" "0 \<le> w"
    and "node_type (efr req) \<noteq> NT_Evse" "timestamps g \<noteq> []"
  obtains m where "market_ok (length (timestamps g)) m" "balanced (length (timestamps g)) m"
    "others_idle (length (timestamps g)) m" "static m = static (new_Market K g req)"
    "map schedule ls = map (\<lambda>j. sold_root (mnode (children m ! j))) (evse_children m)"
proof -
  have "\<not> deep_evse req" using assms(2) run_optimizer_deep by force
  then obtain bs m where r: "books_ok (length (timestamps g)) m" "static m = static (new_Market K g req)"
      "map local_market bs = map (\<lambda>j. [j]) (evse_children m)"
      "list_all2 (read_from K conf now (length (timestamps g)) m) bs ls"
    using run_optimizer_generic[OF assms(1,3-6,8,7), of now] assms(2) by (metis sum.inject(2))
  have "map schedule ls = map (\<lambda>j. sold_root (mnode (children m ! j))) (evse_children m)"
    using limits_of_children[OF r(4,3)] by (auto simp: evse_children_def)
  moreover have "\<not> is_evse m" using static_new_Market(2)[OF r(2)] assms(7) by (simp add: is_evse_def)
  ultimately show ?thesis using that r(1,2) by (auto simp: books_ok_def)
qed

lemma root_sums:
  assumes "globals_init K st interval duration a w d req g0 = Inr g"
    and "run_optimizer K conf g now req = Inr ls"
    and "request_ok req" "0 < nominal_ac_voltage conf" "0 \<le> a" "0 \<le> w"
    and "node_type (efr req) \<noteq> NT_Evse" "i < length (timestamps g)"
    and "r = new_market_node K g (efr req)"
  shows "in_range (\<Sum>l\<leftarrow>ls. cur (schedule l ! i))
           (ac_max_current_A (import_limits r i)) (ac_max_current_A (export_limits r i))
       \<and> in_range (\<Sum>l\<leftarrow>ls. watt_of (schedule l ! i))
           (total_power_W (import_limits r i)) (total_power_W (export_limits r i))"
proof -
  let ?N = "length (timestamps g)" and ?m = "new_Market K g req"
  have "timestamps g \<noteq> []" using assms(8) by auto
  then obtain m where bal: "market_ok ?N m" "balanced ?N m" "others_idle ?N m" and st: "static m = static ?m"
    and sched: "map schedule ls = map (\<lambda>j. sold_root (mnode (children m ! j))) (evse_children m)"
    using optimizer_final[OF assms(1-7)] by blast
  have sums: "(\<Sum>l\<leftarrow>ls. f (schedule l ! i)) = (\<Sum>j\<leftarrow>evse_children m. f (sold_root (mnode (children m ! j)) ! i))"
    for f :: "ScheduleResEntry \<Rightarrow> rat"
    using arg_cong[OF sched, of "\<lambda>xs. sum_list (map (\<lambda>s. f (s ! i)) xs)"] by (simp add: comp_def)
  have "(\<Sum>l\<leftarrow>ls. cur (schedule l ! i)) = cur (sold_root (mnode m) ! i)"
      "(\<Sum>l\<leftarrow>ls. watt_of (schedule l ! i)) = watt_of (sold_root (mnode m) ! i)"
    unfolding sums using bal(2,3) assms(8)
    by (auto simp: balanced_def others_idle_def intro!: sum_evse_children)
  moreover have "node_ok ?N (mnode m)" using bal(1) by (cases m) simp
  moreover have "import_limits (mnode m) i = import_limits r i" "export_limits (mnode m) i = export_limits r i"
    using import_max_static[OF st] unfolding assms(9) import_limits_def export_limits_def
    by (cases req; simp)+
  ultimately show ?thesis
    using assms(8) by (auto simp: node_ok_def slot_ok_def)
qed

lemma mnode_new_Market: "mnode (new_Market K g req) = new_market_node K g (efr req)"
  by (cases req) simp

lemma own_limits:
  assumes "globals_init K st interval duration a w d req g0 = Inr g"
    and "run_optimizer K conf g now req = Inr ls"
    and "request_ok req" "0 < nominal_ac_voltage conf" "0 \<le> a" "0 \<le> w"
    and "node_type (efr req) \<noteq> NT_Evse" "i < length (timestamps g)" "l \<in> set ls"
  shows "\<exists>c\<in>set (efr_children req). let n = new_market_node K g (efr c) in
    in_range (cur (schedule l ! i)) (ac_max_current_A (import_limits n i)) (ac_max_current_A (export_limits n i))
    \<and> in_range (watt_of (schedule l ! i)) (total_power_W (import_limits n i)) (total_power_W (export_limits n i))"
proof -
  let ?N = "length (timestamps g)" and ?m = "new_Market K g req"
  have "timestamps g \<noteq> []" using assms(8) by auto
  then obtain m where ok: "market_ok ?N m" and st: "static m = static ?m"
    and sched: "map schedule ls = map (\<lambda>j. sold_root (mnode (children m ! j))) (evse_children m)"
    using optimizer_final[OF assms(1-7)] by blast
  have len: "length (children m) = length (efr_children req)" using static_new_Market(1)[OF st] .
  have "schedule l \<in> set (map schedule ls)" using assms(9) by simp
  then obtain j where j: "j < length (efr_children req)" "schedule l = sold_root (mnode (children m ! j))"
    unfolding sched using len by (auto simp: evse_children_def)
  have "static (children m ! j) = static (new_Market K g (efr_children req ! j))"
    using arg_cong[OF st, of "\<lambda>m. children m ! j"] j(1) len by (simp add: children_new_Market)
  note lim = import_max_static[OF this]
  have "market_ok ?N (children m ! j)" using ok j(1) len by (cases m) simp
  then have "node_ok ?N (mnode (children m ! j))" by (cases "children m ! j") simp
  then have "slot_ok (import_limits (new_market_node K g (efr (efr_children req ! j))) i)
      (export_limits (new_market_node K g (efr (efr_children req ! j))) i)
      (cur (schedule l ! i)) (watt_of (schedule l ! i))"
    using assms(8) lim j(2) by (simp add: node_ok_def import_limits_def export_limits_def mnode_new_Market)
  then show ?thesis
    using j(1) by (intro bexI[of _ "efr_children req ! j"]) (auto simp: slot_ok_def Let_def)
qed


section \<open>An example\<close>

text \<open>
  A grid connection of 20 A with two charging points of 16 A each, and a clock that only
  knows full hours.
\<close>

definition example_time :: time_lib where
  "example_time = \<lparr>from_rfc3339 = (\<lambda>s. int (length s) * 3600000),
     to_rfc3339 = (\<lambda>t. replicate (nat (t div 3600000)) CHR ''h''), leap_elapsed = (\<lambda>_. 0)\<rparr>"

definition example_conf :: EnergyManager_Conf where
  "example_conf = \<lparr>nominal_ac_voltage = 230, update_interval = 1, schedule_interval_duration = 60,
     schedule_total_duration = 2, conf_slice_ampere = 4, conf_slice_watt = 500, conf_debug = False\<rparr>"

definition example_entry :: "float_t \<Rightarrow> ScheduleReqEntry" where
  "example_entry c = empty_req_entry\<lparr>
     limits_to_root := no_limits\<lparr>ac_max_current_A := Some c, ac_max_phase_count := Some 3\<rparr>,
     limits_to_leaves := no_limits\<lparr>ac_max_current_A := Some c\<rparr>\<rparr>"

definition example_evse :: "string \<Rightarrow> float_t \<Rightarrow> EnergyFlowRequest" where
  "example_evse u c = EnergyFlowRequest (empty_efr_node\<lparr>uuid := u, node_type := NT_Evse,
     schedule_import := Some [(example_entry c)\<lparr>limits_to_root := (limits_to_root (example_entry c))\<lparr>ac_min_current_A := Some 6\<rparr>\<rparr>]\<rparr>) []"

definition example_request :: EnergyFlowRequest where
  "example_request = EnergyFlowRequest (empty_efr_node\<lparr>uuid := ''grid'', node_type := NT_Generic,
     schedule_import := Some [example_entry 20]\<rparr>) [example_evse ''a'' 16, example_evse ''b'' 16]"

definition example_globals :: globals_t where
  "example_globals = projr (globals_init example_time 0 60 2 4 500 False example_request initial_globals)"

lemma example_init:
  "globals_init example_time 0 60 2 4 500 False example_request initial_globals = Inr example_globals"
  by code_simp

lemma example_wf: "request_ok example_request" "\<not> deep_evse example_request"
  "node_type (efr example_request) \<noteq> NT_Evse" "0 < nominal_ac_voltage example_conf"
  by code_simp+

lemma example_slots: "timestamps example_globals = [0, 3600000]"
  by code_simp

theorem run_optimizer_returns_witness:
  "\<exists>ls. run_optimizer example_time example_conf example_globals 0 example_request = Inr ls
    \<and> map enforced_uuid ls = [''a'', ''b'']
    \<and> (\<forall>l\<in>set ls. limits_root_side l = Some (res_limits_to_root (schedule l ! 0)))"
  using run_optimizer_returns[OF example_init example_wf(1,4) _ _ _ example_wf(3), of 0]
    example_wf(2) example_slots
  by (simp add: example_request_def example_evse_def)


end
