(* ===== verification/Energy_Node.thy ===== *)
theory Energy_Node
  imports Energy_Types
begin

text \<open>
  A node of the energy tree that represents a fuse (\<open>modules/EnergyNode/energy_grid\<close>): it
  collects the requests of its consumers, adds its own limits and external ones, merges the
  prices, publishes the complete request and routes enforced limits back. What it publishes
  and calls is appended to its output. An operation that may never return gives \<open>None\<close>.
\<close>

section \<open>State\<close>

record EnergyNode_Conf =
  fuse_limit_A :: float_t
  phase_count :: int

datatype node_effect =
    Subscribe_consumer nat | Subscribe_powermeter | Subscribe_pricing | Connect_external_limits
  | Publish_energy_flow_request EnergyFlowRequest
  | Publish_enforced_limits EnforcedLimits
  | Call_enforce_limits nat EnforcedLimits

record EnergyNode =
  node_id :: string
  node_conf :: EnergyNode_Conf
  consumers :: nat
  powermeters :: nat
  price_informations :: nat
  node_request :: EnergyFlowRequest
  energy_pricing :: EnergyPriceSchedule
  node_out :: "node_effect list"

definition node_emit :: "node_effect \<Rightarrow> EnergyNode \<Rightarrow> EnergyNode" where
  "node_emit e x = x\<lparr>node_out := node_out x @ [e]\<rparr>"

definition update_efr :: "(efr_node \<Rightarrow> efr_node) \<Rightarrow> EnergyNode \<Rightarrow> EnergyNode" where
  "update_efr f x = x\<lparr>node_request :=
     EnergyFlowRequest (f (efr (node_request x))) (efr_children (node_request x))\<rparr>"

section \<open>Local limits\<close>

definition hour :: int where "hour = 3600000"

definition get_local_schedule :: "time_lib \<Rightarrow> timepoint \<Rightarrow> EnergyNode_Conf \<Rightarrow> ScheduleReqEntry" where
  "get_local_schedule K tp conf = empty_req_entry
    \<lparr>timestamp := to_rfc3339 K (tp div hour * hour + leap_elapsed K tp),
     limits_to_root := no_limits\<lparr>ac_max_phase_count := Some (phase_count conf),
       ac_max_current_A := Some (fuse_limit_A conf)\<rparr>,
     limits_to_leaves := no_limits\<lparr>ac_max_phase_count := Some (phase_count conf),
       ac_max_current_A := Some (fuse_limit_A conf)\<rparr>\<rparr>"

text \<open>The powermeter is subscribed under the condition that there is price information.\<close>

definition energy_init :: "time_lib \<Rightarrow> timepoint \<Rightarrow> EnergyNode \<Rightarrow> EnergyNode energy_m" where
  "energy_init K now x =
    (let local_schedule = get_local_schedule K now (node_conf x);
         x = update_efr (\<lambda>n. n\<lparr>uuid := node_id x, node_type := NT_Generic,
               schedule_import := Some [local_schedule],
               schedule_export := Some [local_schedule]\<rparr>) x;
         x = fold (\<lambda>i. node_emit (Subscribe_consumer i)) [0..<consumers x] x
     in if price_informations x = 0 then Inr x
        else if powermeters x = 0 then Inl Out_of_range
        else Inr (node_emit Subscribe_pricing (node_emit Subscribe_powermeter x)))"

section \<open>External limits\<close>

definition cap_to_fuse :: "EnergyNode_Conf \<Rightarrow> ScheduleReqEntry \<Rightarrow> ScheduleReqEntry" where
  "cap_to_fuse conf e =
    (let l = limits_to_root e;
         l = (if ac_max_current_A l = None \<or> the (ac_max_current_A l) > fuse_limit_A conf
              then l\<lparr>ac_max_current_A := Some (fuse_limit_A conf)\<rparr> else l);
         l = (if ac_max_phase_count l = None \<or> the (ac_max_phase_count l) > phase_count conf
              then l\<lparr>ac_max_phase_count := Some (phase_count conf)\<rparr> else l)
     in e\<lparr>limits_to_root := l\<rparr>)"

definition external_schedule :: "time_lib \<Rightarrow> timepoint \<Rightarrow> EnergyNode_Conf \<Rightarrow> ScheduleReq \<Rightarrow> ScheduleReq" where
  "external_schedule K now conf s =
     (if s \<noteq> [] then map (cap_to_fuse conf) s else [get_local_schedule K now conf])"

definition set_external_limits :: "time_lib \<Rightarrow> timepoint \<Rightarrow> ExternalLimits \<Rightarrow> EnergyNode \<Rightarrow> EnergyNode" where
  "set_external_limits K now l x =
    (let x = (case ext_schedule_import l of
                None \<Rightarrow> x
              | Some s \<Rightarrow> update_efr (\<lambda>n. n\<lparr>schedule_import :=
                            Some (external_schedule K now (node_conf x) s)\<rparr>) x)
     in case ext_schedule_export l of
          None \<Rightarrow> x
        | Some s \<Rightarrow> update_efr (\<lambda>n. n\<lparr>schedule_export :=
                      Some (external_schedule K now (node_conf x) s)\<rparr>) x)"

section \<open>Prices\<close>

text \<open>
  The loop of \<open>merge_price_into_schedule\<close>. \<open>ss\<close> and \<open>ps\<close> are what the two iterators have
  left; inside the loop neither is at its end, so the conditions on the iterators in the two
  branches are settled. With equal time stamps neither branch is taken and nothing changes.
\<close>

partial_function (option) merge_loop ::
    "time_lib \<Rightarrow> ScheduleReq \<Rightarrow> PricePerkWh list \<Rightarrow> ScheduleReqEntry \<Rightarrow> PricePerkWh
     \<Rightarrow> ScheduleReqEntry \<Rightarrow> PricePerkWh \<Rightarrow> ScheduleReq \<Rightarrow> ScheduleReq option" where
  "merge_loop K ss ps next_s next_p valid_s valid_p joined =
    (if ss = [] \<or> ps = [] then Some joined
     else if from_rfc3339 K (timestamp next_s) < from_rfc3339 K (price_timestamp next_p) then
       merge_loop K (tl ss) ps (if tl ss \<noteq> [] then hd (tl ss) else next_s) next_p
         next_s valid_p (joined @ [next_s\<lparr>price_per_kwh := Some valid_p\<rparr>])
     else if from_rfc3339 K (price_timestamp next_p) < from_rfc3339 K (timestamp next_s) then
       merge_loop K ss (tl ps) next_s (if tl ps \<noteq> [] then hd (tl ps) else next_p)
         valid_s next_p
         (joined @ [valid_s\<lparr>price_per_kwh := Some next_p, timestamp := price_timestamp next_p\<rparr>])
     else merge_loop K ss ps next_s next_p valid_s valid_p joined)"

text \<open>The joined schedule is a local variable: the schedule itself is not assigned.\<close>

definition merge_price_into_schedule ::
    "time_lib \<Rightarrow> ScheduleReq \<Rightarrow> PricePerkWh list \<Rightarrow> ScheduleReq energy_m option" where
  "merge_price_into_schedule K sched price =
    (case (sched, price) of
       (s # _, p # _) \<Rightarrow> map_option (\<lambda>joined. Inr sched) (merge_loop K sched price s p s p [])
     | _ \<Rightarrow> Some (Inl Out_of_range))"

definition merge_optional ::
    "time_lib \<Rightarrow> ScheduleReq option \<Rightarrow> PricePerkWh list option \<Rightarrow> ScheduleReq option energy_m option" where
  "merge_optional K s p =
    (case (s, p) of
       (Some s', Some p') \<Rightarrow>
         map_option (\<lambda>r. bind_res r (\<lambda>s''. Inr (Some s''))) (merge_price_into_schedule K s' p')
     | _ \<Rightarrow> Some (Inr s))"

definition publish_complete_energy_object :: "time_lib \<Rightarrow> EnergyNode \<Rightarrow> EnergyNode energy_m option" where
  "publish_complete_energy_object K x =
    (let n = efr (node_request x)
     in case merge_optional K (schedule_import n) (price_schedule_import (energy_pricing x)) of
          None \<Rightarrow> None
        | Some (Inl e) \<Rightarrow> Some (Inl e)
        | Some (Inr si) \<Rightarrow>
            (case merge_optional K (schedule_export n) (price_schedule_export (energy_pricing x)) of
               None \<Rightarrow> None
             | Some (Inl e) \<Rightarrow> Some (Inl e)
             | Some (Inr se) \<Rightarrow> Some (Inr
                 (node_emit (Publish_energy_flow_request (EnergyFlowRequest
                    (n\<lparr>schedule_import := si, schedule_export := se\<rparr>)
                    (efr_children (node_request x)))) x))))"

section \<open>Events\<close>

definition update_children :: "EnergyFlowRequest \<Rightarrow> EnergyFlowRequest list \<Rightarrow> EnergyFlowRequest list" where
  "update_children e cs =
    (if list_ex (\<lambda>c. uuid (efr c) = uuid (efr e)) cs
     then map (\<lambda>c. if uuid (efr c) = uuid (efr e) then e else c) cs else cs @ [e])"

definition on_consumer_request :: "time_lib \<Rightarrow> EnergyFlowRequest \<Rightarrow> EnergyNode \<Rightarrow> EnergyNode energy_m option" where
  "on_consumer_request K e x =
     publish_complete_energy_object K (x\<lparr>node_request :=
       EnergyFlowRequest (efr (node_request x)) (update_children e (efr_children (node_request x)))\<rparr>)"

definition on_powermeter :: "time_lib \<Rightarrow> Powermeter \<Rightarrow> EnergyNode \<Rightarrow> EnergyNode energy_m option" where
  "on_powermeter K p x =
     publish_complete_energy_object K (update_efr (\<lambda>n. n\<lparr>energy_usage_root := Some p\<rparr>) x)"

definition on_energy_pricing :: "time_lib \<Rightarrow> EnergyPriceSchedule \<Rightarrow> EnergyNode \<Rightarrow> EnergyNode energy_m option" where
  "on_energy_pricing K p x = publish_complete_energy_object K (x\<lparr>energy_pricing := p\<rparr>)"

definition energy_ready :: "EnergyNode \<Rightarrow> EnergyNode" where
  "energy_ready x = node_emit Connect_external_limits
     (node_emit (Publish_energy_flow_request (node_request x)) x)"

definition handle_enforce_limits :: "EnforcedLimits \<Rightarrow> EnergyNode \<Rightarrow> EnergyNode" where
  "handle_enforce_limits v x =
    (if enforced_uuid v = uuid (efr (node_request x)) then node_emit (Publish_enforced_limits v) x
     else fold (\<lambda>i. node_emit (Call_enforce_limits i v)) [0..<consumers x] x)"

section \<open>Limits are capped by the fuse\<close>

lemma cap_to_fuse_root:
  "\<exists>c. ac_max_current_A (limits_to_root (cap_to_fuse conf e)) = Some c \<and> c \<le> fuse_limit_A conf
     \<and> (\<forall>c'. ac_max_current_A (limits_to_root e) = Some c' \<longrightarrow> c \<le> c')"
  "\<exists>k. ac_max_phase_count (limits_to_root (cap_to_fuse conf e)) = Some k \<and> k \<le> phase_count conf"
  by (auto simp: cap_to_fuse_def Let_def)

text \<open>
  Every entry of the schedules that external limits leave in the request has, on the root
  side, a current of at most the fuse limit, a phase count of at most the configured one, and
  nothing above what the external limits asked for; an empty schedule becomes the local one.
\<close>

theorem external_limits_capped_by_fuse:
  assumes "ext_schedule_import l = Some s"
    and "schedule_import (efr (node_request (set_external_limits K now l x))) = Some s'"
  shows "(if s = [] then s' = [get_local_schedule K now (node_conf x)] else length s' = length s)
    \<and> (\<forall>e\<in>set s'. \<exists>c k. ac_max_current_A (limits_to_root e) = Some c \<and> c \<le> fuse_limit_A (node_conf x)
          \<and> ac_max_phase_count (limits_to_root e) = Some k \<and> k \<le> phase_count (node_conf x))
    \<and> (s \<noteq> [] \<longrightarrow> list_all2 (\<lambda>e e'. limits_to_leaves e' = limits_to_leaves e
          \<and> (\<forall>c. ac_max_current_A (limits_to_root e) = Some c \<longrightarrow>
               (\<exists>c'. ac_max_current_A (limits_to_root e') = Some c' \<and> c' \<le> c))) s s')"
proof -
  have s': "s' = external_schedule K now (node_conf x) s"
    using assms by (auto simp: set_external_limits_def update_efr_def Let_def split: option.splits)
  have "\<exists>c k. ac_max_current_A (limits_to_root e) = Some c \<and> c \<le> fuse_limit_A (node_conf x)
      \<and> ac_max_phase_count (limits_to_root e) = Some k \<and> k \<le> phase_count (node_conf x)"
    if "e \<in> set s'" for e
    using that cap_to_fuse_root[of "node_conf x"]
    by (auto simp: s' external_schedule_def get_local_schedule_def split: if_splits) blast+
  moreover have "limits_to_leaves (cap_to_fuse conf e) = limits_to_leaves e" for conf e
    by (simp add: cap_to_fuse_def Let_def)
  ultimately show ?thesis
    using cap_to_fuse_root(1)
    by (auto simp: s' external_schedule_def list_all2_conv_all_nth) blast
qed

section \<open>Merging prices\<close>

definition stimes :: "time_lib \<Rightarrow> ScheduleReq \<Rightarrow> timepoint list" where
  "stimes K ss = map (\<lambda>e. from_rfc3339 K (timestamp e)) ss"

definition ptimes :: "time_lib \<Rightarrow> PricePerkWh list \<Rightarrow> timepoint list" where
  "ptimes K ps = map (\<lambda>p. from_rfc3339 K (price_timestamp p)) ps"

lemma merge_loop_done: "ss = [] \<or> ps = [] \<Longrightarrow> merge_loop K ss ps ns np vs vp j = Some j"
  by (subst merge_loop.simps) simp

lemma merge_loop_schedule:
  assumes "from_rfc3339 K (timestamp s) < from_rfc3339 K (price_timestamp p)"
  shows "merge_loop K (s # ss) (p # ps) s p vs vp j =
    merge_loop K ss (p # ps) (if ss \<noteq> [] then hd ss else s) p s vp (j @ [s\<lparr>price_per_kwh := Some vp\<rparr>])"
  using assms by (subst merge_loop.simps) simp

lemma merge_loop_price:
  assumes "from_rfc3339 K (price_timestamp p) < from_rfc3339 K (timestamp s)"
  shows "merge_loop K (s # ss) (p # ps) s p vs vp j =
    merge_loop K (s # ss) ps s (if ps \<noteq> [] then hd ps else p) vs p
      (j @ [vs\<lparr>price_per_kwh := Some p, timestamp := price_timestamp p\<rparr>])"
  using assms by (subst merge_loop.simps) simp

lemma merge_loop_returns:
  assumes "set (stimes K ss) \<inter> set (ptimes K ps) = {}"
    and "ss \<noteq> [] \<Longrightarrow> next_s = hd ss" "ps \<noteq> [] \<Longrightarrow> next_p = hd ps"
  shows "merge_loop K ss ps next_s next_p valid_s valid_p joined \<noteq> None"
  using assms
proof (induction "length ss + length ps" arbitrary: ss ps next_s next_p valid_s valid_p joined
    rule: less_induct)
  case less
  show ?case
  proof (cases "ss = [] \<or> ps = []")
    case True
    then show ?thesis by (simp add: merge_loop_done)
  next
    case False
    then obtain s ss' p ps' where L: "ss = s # ss'" "ps = p # ps'" by (auto simp: neq_Nil_conv)
    then have n: "next_s = s" "next_p = p" using less.prems by auto
    have dis: "set (stimes K ss') \<inter> set (ptimes K ps) = {}" "set (stimes K ss) \<inter> set (ptimes K ps') = {}"
      using less.prems(1) L by (auto simp: stimes_def ptimes_def)
    consider "from_rfc3339 K (timestamp s) < from_rfc3339 K (price_timestamp p)"
      | "from_rfc3339 K (price_timestamp p) < from_rfc3339 K (timestamp s)"
      | "from_rfc3339 K (timestamp s) = from_rfc3339 K (price_timestamp p)" by linarith
    then show ?thesis
    proof cases
      case 1
      show ?thesis
        unfolding n L merge_loop_schedule[OF 1]
        using dis(1) L by (intro less.hyps) auto
    next
      case 2
      show ?thesis
        unfolding n L merge_loop_price[OF 2]
        using dis(2) L by (intro less.hyps) auto
    next
      case 3
      then show ?thesis using less.prems(1) L by (auto simp: stimes_def ptimes_def)
    qed
  qed
qed

text \<open>What holds of the iterators before each pass of the loop.\<close>

definition merging :: "time_lib \<Rightarrow> ScheduleReq \<Rightarrow> PricePerkWh list \<Rightarrow> ScheduleReqEntry \<Rightarrow> PricePerkWh \<Rightarrow> bool" where
  "merging K ss ps ns np =
    ((ss \<noteq> [] \<longrightarrow> ns = hd ss) \<and> (ps \<noteq> [] \<longrightarrow> np = hd ps)
     \<and> sorted_wrt (<) (stimes K ss) \<and> sorted_wrt (<) (ptimes K ps))"

lemma merging_tl:
  assumes "merging K (s # ss) (p # ps) ns np"
  shows "merging K ss (p # ps) (if ss \<noteq> [] then hd ss else x) p"
    "merging K (s # ss) ps s (if ps \<noteq> [] then hd ps else y)" "ns = s" "np = p"
  using assms by (auto simp: merging_def stimes_def ptimes_def)

lemma merge_loop_disjoint:
  assumes "merge_loop K ss ps next_s next_p valid_s valid_p joined = Some r"
  shows "merging K ss ps next_s next_p \<longrightarrow> set (stimes K ss) \<inter> set (ptimes K ps) = {}"
proof (rule merge_loop.raw_induct[OF _ assms, where P = "\<lambda>K ss ps ns np vs vp j r.
    merging K ss ps ns np \<longrightarrow> set (stimes K ss) \<inter> set (ptimes K ps) = {}"])
  fix f K ss ps ns np vs vp j r
  assume IH: "\<And>K ss ps ns np vs vp j r. f K ss ps ns np vs vp j = Some r \<Longrightarrow>
      merging K ss ps ns np \<longrightarrow> set (stimes K ss) \<inter> set (ptimes K ps) = {}"
    and body: "(if ss = [] \<or> ps = [] then Some j
     else if from_rfc3339 K (timestamp ns) < from_rfc3339 K (price_timestamp np) then
       f K (tl ss) ps (if tl ss \<noteq> [] then hd (tl ss) else ns) np ns vp (j @ [ns\<lparr>price_per_kwh := Some vp\<rparr>])
     else if from_rfc3339 K (price_timestamp np) < from_rfc3339 K (timestamp ns) then
       f K ss (tl ps) ns (if tl ps \<noteq> [] then hd (tl ps) else np) vs np
         (j @ [vs\<lparr>price_per_kwh := Some np, timestamp := price_timestamp np\<rparr>])
     else f K ss ps ns np vs vp j) = Some r"
  show "merging K ss ps ns np \<longrightarrow> set (stimes K ss) \<inter> set (ptimes K ps) = {}"
  proof (cases "ss = [] \<or> ps = []")
    case True
    then show ?thesis by (auto simp: stimes_def ptimes_def)
  next
    case False
    then obtain s ss' p ps' where L: "ss = s # ss'" "ps = p # ps'" by (auto simp: neq_Nil_conv)
    show ?thesis
    proof
      assume M: "merging K ss ps ns np"
      note M' = merging_tl[OF M[unfolded L]]
      consider (l) "from_rfc3339 K (timestamp s) < from_rfc3339 K (price_timestamp p)"
        | (g) "from_rfc3339 K (price_timestamp p) < from_rfc3339 K (timestamp s)"
        | (e) "from_rfc3339 K (timestamp s) = from_rfc3339 K (price_timestamp p)" by linarith
      then show "set (stimes K ss) \<inter> set (ptimes K ps) = {}"
      proof cases
        case l
        have "set (stimes K ss') \<inter> set (ptimes K ps) = {}"
          using body l unfolding M'(3,4) L by (simp only: list.sel list.simps if_False if_True simp_thms) (use IH M'(1) in blast)
        moreover have "from_rfc3339 K (timestamp s) \<notin> set (ptimes K ps)"
          using l M L by (fastforce simp: merging_def ptimes_def)
        ultimately show ?thesis using L by (auto simp: stimes_def)
      next
        case g
        then have ng: "\<not> from_rfc3339 K (timestamp s) < from_rfc3339 K (price_timestamp p)" by simp
        have "set (stimes K ss) \<inter> set (ptimes K ps') = {}"
          using body g ng unfolding M'(3,4) L by (simp only: list.sel list.simps if_False if_True simp_thms) (use IH M'(2) in blast)
        moreover have "from_rfc3339 K (price_timestamp p) \<notin> set (stimes K ss)"
          using g M L by (fastforce simp: merging_def stimes_def)
        ultimately show ?thesis using L by (auto simp: ptimes_def)
      next
        case e
        then have "f K ss ps ns np vs vp j = Some r" using body M'(3,4) L by simp
        then show ?thesis using IH M by blast
      qed
    qed
  qed
qed

text \<open>
  For a schedule and a price list in strictly increasing order, merging returns exactly
  if no price has the time stamp of a schedule entry, and then the schedule is what it was:
  the joined schedule is dropped. With a common time stamp the loop never ends.
\<close>

theorem price_merge_returns_iff:
  assumes "s \<noteq> []" "p \<noteq> []"
    and "sorted_wrt (<) (map (\<lambda>e. from_rfc3339 K (timestamp e)) s)"
    and "sorted_wrt (<) (map (\<lambda>q. from_rfc3339 K (price_timestamp q)) p)"
  shows "merge_price_into_schedule K s p =
    (if \<exists>e\<in>set s. \<exists>q\<in>set p. from_rfc3339 K (timestamp e) = from_rfc3339 K (price_timestamp q)
     then None else Some (Inr s))"
proof -
  obtain e es q qs where L: "s = e # es" "p = q # qs" using assms(1,2) by (auto simp: neq_Nil_conv)
  have common: "(\<exists>e\<in>set s. \<exists>q\<in>set p. from_rfc3339 K (timestamp e) = from_rfc3339 K (price_timestamp q))
      \<longleftrightarrow> set (stimes K s) \<inter> set (ptimes K p) \<noteq> {}"
    by (force simp: stimes_def ptimes_def)
  show ?thesis
  proof (cases "set (stimes K s) \<inter> set (ptimes K p) = {}")
    case True
    then have "merge_loop K s p e q e q [] \<noteq> None"
      using L by (intro merge_loop_returns) auto
    then show ?thesis
      unfolding common using True L by (auto simp: merge_price_into_schedule_def)
  next
    case False
    have "merge_loop K s p e q e q [] = None"
    proof (rule ccontr)
      assume "merge_loop K s p e q e q [] \<noteq> None"
      then show False
        using merge_loop_disjoint[of K s p e q e q "[]"] False L assms(3,4)
        by (auto simp: merging_def stimes_def ptimes_def)
    qed
    then show ?thesis
      unfolding common using False L by (simp add: merge_price_into_schedule_def)
  qed
qed

section \<open>Examples\<close>

text \<open>A clock whose time stamps are the lengths of the strings, in hours.\<close>

definition hourly :: time_lib where
  "hourly = \<lparr>from_rfc3339 = (\<lambda>s. int (length s) * hour),
     to_rfc3339 = (\<lambda>t. replicate (nat (t div hour)) CHR ''h''), leap_elapsed = (\<lambda>_. 0)\<rparr>"

definition price_at :: "nat \<Rightarrow> PricePerkWh" where
  "price_at h = \<lparr>price_timestamp = replicate h CHR ''h'', price_value = 1 / 4, price_currency = ''EUR''\<rparr>"

definition entry_at :: "nat \<Rightarrow> ScheduleReqEntry" where
  "entry_at h = empty_req_entry\<lparr>timestamp := replicate h CHR ''h''\<rparr>"

theorem price_merge_returns_iff_witness:
  "merge_price_into_schedule hourly [entry_at 9, entry_at 11] [price_at 8, price_at 10]
     = Some (Inr [entry_at 9, entry_at 11])
   \<and> merge_price_into_schedule hourly [entry_at 9, entry_at 11] [price_at 8, price_at 11] = None"
  using price_merge_returns_iff[of "[entry_at 9, entry_at 11]" "[price_at 8, price_at 10]" hourly]
    price_merge_returns_iff[of "[entry_at 9, entry_at 11]" "[price_at 8, price_at 11]" hourly]
  by (simp add: hourly_def entry_at_def price_at_def hour_def)

definition example_node :: EnergyNode where
  "example_node = \<lparr>node_id = ''grid'', node_conf = \<lparr>fuse_limit_A = 20, phase_count = 3\<rparr>, consumers = 2,
     powermeters = 0, price_informations = 0,
     node_request = EnergyFlowRequest empty_efr_node [],
     energy_pricing = \<lparr>price_schedule_import = None, price_schedule_export = None\<rparr>, node_out = []\<rparr>"

definition example_limits :: ExternalLimits where
  "example_limits = \<lparr>ext_schedule_import = Some [(entry_at 9)\<lparr>limits_to_root :=
       no_limits\<lparr>ac_max_current_A := Some 32\<rparr>\<rparr>], ext_schedule_export = None\<rparr>"

theorem external_limits_capped_by_fuse_witness:
  "\<forall>e\<in>set (the (schedule_import (efr (node_request (set_external_limits hourly 0 example_limits example_node))))).
     \<exists>c k. ac_max_current_A (limits_to_root e) = Some c \<and> c \<le> 20
           \<and> ac_max_phase_count (limits_to_root e) = Some k \<and> k \<le> 3"
proof -
  have "schedule_import (efr (node_request (set_external_limits hourly 0 example_limits example_node)))
      = Some (the (schedule_import (efr (node_request (set_external_limits hourly 0 example_limits example_node)))))"
    by (simp add: set_external_limits_def example_limits_def update_efr_def)
  then show ?thesis
    using external_limits_capped_by_fuse[of example_limits
        "[(entry_at 9)\<lparr>limits_to_root := no_limits\<lparr>ac_max_current_A := Some 32\<rparr>\<rparr>]" hourly 0 example_node]
    by (simp add: example_limits_def example_node_def)
qed

end
