(* ===== verification/Energy_System.thy ===== *)
theory Energy_System
  imports Energy_Properties Energy_Node
begin

text \<open>
  The energy node and the energy manager together: what the fuse limit of the node at the
  root of the tree means for the limits the manager enforces, and which time slot an enforced
  limit belongs to.
\<close>

section \<open>The fuse limit\<close>

lemma find_entry_total: "rs \<noteq> [] \<Longrightarrow> \<exists>r\<in>set rs. find_entry K t first rs = Some r"
  by (induction K t first rs rule: find_entry.induct) (auto simp: Let_def)

lemma import_limits_root:
  assumes "globals_ok N g" "i < N" "schedule_import n = Some s" "s \<noteq> []"
  obtains r where "r \<in> set s" "import_limits (new_market_node K g n) i = merge_limits r no_limits"
proof -
  let ?a = "empty_schedule_req g ! i"
  obtain r where r: "r \<in> set s" "find_entry K (from_rfc3339 K (timestamp ?a)) True s = Some r"
    using find_entry_total[OF assms(4)] by blast
  have "import_limits (new_market_node K g n) i = limits_to_root (resample K s ?a)"
    using assms(1-3)
    by (simp add: import_limits_def new_market_node_def get_max_available_energy_def globals_ok_def)
  also have "\<dots> = merge_limits r (limits_to_root ?a)"
    using r(2) by (simp add: resample_def)
  also have "limits_to_root ?a = no_limits"
    using assms(1,2) by (simp add: globals_ok_def del: energy_default_defs)
  finally show ?thesis using r(1) that by blast
qed

lemma merge_local_schedule:
  "ac_max_current_A (merge_limits (get_local_schedule K now conf) no_limits) = Some (fuse_limit_A conf)"
  by (simp add: merge_limits_def get_local_schedule_def Let_def)

lemma energy_init_request:
  assumes "energy_init K now x = Inr x'"
  shows "schedule_import (efr (node_request x')) = Some [get_local_schedule K now (node_conf x)]"
    "schedule_export (efr (node_request x')) = Some [get_local_schedule K now (node_conf x)]"
    "node_type (efr (node_request x')) = NT_Generic"
proof -
  have fold_emit: "node_request (fold (\<lambda>i. node_emit (f i)) xs y) = node_request y" for f xs y
    by (induction xs arbitrary: y) (auto simp: node_emit_def)
  show "schedule_import (efr (node_request x')) = Some [get_local_schedule K now (node_conf x)]"
    "schedule_export (efr (node_request x')) = Some [get_local_schedule K now (node_conf x)]"
    "node_type (efr (node_request x')) = NT_Generic"
    using assms
    by (auto simp: energy_init_def Let_def update_efr_def fold_emit node_emit_def split: if_splits)
qed

lemma fuse_sum:
  assumes "energy_init K now x = Inr x'" "0 \<le> fuse_limit_A (node_conf x)" "1 \<le> phase_count (node_conf x)"
    and "list_all request_ok cs" "req = EnergyFlowRequest (efr (node_request x')) cs"
    and "globals_init K st interval duration a w d req g0 = Inr g"
    and "run_optimizer K conf g now' req = Inr ls"
    and "0 < nominal_ac_voltage conf" "0 \<le> a" "0 \<le> w" "i < length (timestamps g)"
  shows "(\<Sum>l\<leftarrow>ls. cur (schedule l ! i)) \<le> fuse_limit_A (node_conf x)"
proof -
  note n = energy_init_request[OF assms(1)]
  have "entry_ok (get_local_schedule K now (node_conf x))"
    using assms(2,3) by (simp add: entry_ok_def get_local_schedule_def sane_iff limits_nonneg_def)
  then have wf: "request_ok req"
    using n assms(4,5) by (simp add: schedule_ok_def)
  have ne: "node_type (efr req) \<noteq> NT_Evse" using n(3) assms(5) by simp
  have si: "schedule_import (efr req) = Some [get_local_schedule K now (node_conf x)]"
    using n(1) assms(5) by simp
  obtain r where "r = get_local_schedule K now (node_conf x)"
      "import_limits (new_market_node K g (efr req)) i = merge_limits r no_limits"
    using import_limits_root[OF globals_init_ok(1)[OF assms(6)] assms(11) si, of K] by auto
  then have lim: "ac_max_current_A (import_limits (new_market_node K g (efr req)) i) = Some (fuse_limit_A (node_conf x))"
    using merge_local_schedule by simp
  have "in_range (\<Sum>l\<leftarrow>ls. cur (schedule l ! i))
      (ac_max_current_A (import_limits (new_market_node K g (efr req)) i))
      (ac_max_current_A (export_limits (new_market_node K g (efr req)) i))"
    using root_sums[OF assms(6,7) wf assms(8-10) ne assms(11) refl] by blast
  then show ?thesis using lim by (simp add: in_range_def)
qed

text \<open>
  With a freshly initialised energy node at the root of the tree and any well-formed
  requests of charging points below it, the currents that the energy manager enforces on the
  charging points never add up to more than the fuse limit of the node, in any time slot.
\<close>

theorem fuse_limit_respected:
  assumes "energy_init K now x = Inr x'" "0 \<le> fuse_limit_A (node_conf x)" "1 \<le> phase_count (node_conf x)"
    and "list_all request_ok cs" "req = EnergyFlowRequest (efr (node_request x')) cs"
    and "globals_init K st interval duration a w d req g0 = Inr g"
    and "run_optimizer K conf g now' req = Inr ls"
    and "0 < nominal_ac_voltage conf" "0 \<le> a" "0 \<le> w" "i < length (timestamps g)"
  shows "(\<Sum>l\<leftarrow>ls. cur (schedule l ! i)) \<le> fuse_limit_A (node_conf x)"
  by (rule fuse_sum[OF assms])

text \<open>
  External limits that carry no current on the leaf side, as a charging profile in watts
  does, take the fuse limit out of the market: the node still publishes it on the root side of
  every entry, but the root market has no current limit in any slot.
\<close>

theorem power_profile_lifts_fuse_limit:
  assumes "ext_schedule_import l = Some s" "s \<noteq> []"
    and "\<forall>e\<in>set s. ac_max_current_A (limits_to_leaves e) = None"
    and "x' = set_external_limits K now l x"
    and "req = EnergyFlowRequest (efr (node_request x')) cs"
    and "globals_init K st interval duration a w d req g0 = Inr g" "i < length (timestamps g)"
  shows "ac_max_current_A (import_limits (new_market_node K g (efr req)) i) = None"
proof -
  have si: "schedule_import (efr req) = Some (map (cap_to_fuse (node_conf x)) s)"
    using assms(1,2,4,5)
    by (auto simp: set_external_limits_def update_efr_def external_schedule_def Let_def split: option.splits)
  then obtain r where r: "r \<in> set (map (cap_to_fuse (node_conf x)) s)"
      "import_limits (new_market_node K g (efr req)) i = merge_limits r no_limits"
    using import_limits_root[OF globals_init_ok(1)[OF assms(6)] assms(7), of "efr req" _ K] assms(2)
    by (metis map_is_Nil_conv)
  then have "ac_max_current_A (limits_to_leaves r) = None"
    using assms(3) by (auto simp: cap_to_fuse_def Let_def)
  then show ?thesis
    unfolding r(2) by (simp add: merge_limits_def Let_def split: option.split)
qed

section \<open>Time slots\<close>

lemma fold_appends:
  assumes "\<And>c ts. c \<in> set cs \<Longrightarrow> \<exists>us. f c ts = ts @ us"
  shows "\<exists>us. fold f cs ts = ts @ us"
  using assms
proof (induction cs arbitrary: ts)
  case Nil
  then show ?case by simp
next
  case (Cons c cs)
  obtain us where us: "f c ts = ts @ us" using Cons.prems[of c ts] by auto
  obtain vs where "fold f cs (f c ts) = f c ts @ vs" using Cons.IH[of "f c ts"] Cons.prems by auto
  then show ?case using us by simp
qed

lemma add_timestamps_appends: "\<exists>us. add_timestamps K req ts = ts @ us"
proof (induction req arbitrary: ts)
  case (EnergyFlowRequest n cs)
  then show ?case
    using fold_appends[of cs "add_timestamps K" "ts @ schedule_timestamps K (schedule_import n)
      @ schedule_timestamps K (schedule_export n)"] by auto
qed

lemma remdups_adj_strict: "sorted xs \<Longrightarrow> sorted_wrt (<) (remdups_adj (xs :: int list))"
proof (induction xs rule: remdups_adj.induct)
  case (3 x y xs)
  then have "x = y \<or> x < y" by auto
  then show ?case
  proof
    assume "x = y"
    then show ?thesis using 3 by simp
  next
    assume lt: "x < y"
    then have "\<forall>z\<in>set (remdups_adj (y # xs)). x < z" using "3.prems" by auto
    then show ?thesis using 3 lt by simp
  qed
qed simp_all

text \<open>
  The time slots are in strictly increasing order, without duplicates, and every slot of an
  earlier run is still there: once there are slots, the first one, whose limit is the one that
  is enforced, never moves forward in time.
\<close>

theorem first_slot_never_advances:
  assumes "globals_init K st interval duration a w d req g0 = Inr g"
  shows "sorted_wrt (<) (timestamps g) \<and> set (timestamps g0) \<subseteq> set (timestamps g)
    \<and> (timestamps g0 \<noteq> [] \<longrightarrow> hd (timestamps g) \<le> hd (timestamps g0))"
proof -
  obtain us where us: "timestamps g = remdups_adj (sort (timestamps g0 @ us))"
    using assms add_timestamps_appends
    by (auto simp: globals_init_def create_timestamps_def Let_def bind_res_Inr_iff split: if_splits)
       (metis append_assoc)
  have so: "sorted_wrt (<) (timestamps g)" unfolding us by (rule remdups_adj_strict) simp
  have sub: "set (timestamps g0) \<subseteq> set (timestamps g)" unfolding us by simp
  have "hd (timestamps g) \<le> hd (timestamps g0)" if "timestamps g0 \<noteq> []"
  proof -
    have "hd (timestamps g0) \<in> set (timestamps g)" using sub that by auto
    then show ?thesis using so by (cases "timestamps g") (auto simp: less_imp_le)
  qed
  then show ?thesis using so sub by blast
qed

section \<open>Examples\<close>

definition fuse_node :: EnergyNode where
  "fuse_node = projr (energy_init hourly 0 example_node)"

definition two_evses :: "EnergyFlowRequest list" where
  "two_evses = [example_evse ''a'' 16, example_evse ''b'' 16]"

definition fuse_request :: EnergyFlowRequest where
  "fuse_request = EnergyFlowRequest (efr (node_request fuse_node)) two_evses"

definition fuse_slots :: globals_t where
  "fuse_slots = projr (globals_init hourly 0 60 1 4 500 False fuse_request initial_globals)"

lemma fuse_init:
  "energy_init hourly 0 example_node = Inr fuse_node"
  "globals_init hourly 0 60 1 4 500 False fuse_request initial_globals = Inr fuse_slots"
  "list_all request_ok two_evses" "length (timestamps fuse_slots) = 1"
  "fuse_limit_A (node_conf example_node) = 20" "phase_count (node_conf example_node) = 3"
  by code_simp+

theorem fuse_limit_respected_witness:
  "(\<Sum>l\<leftarrow>projr (run_optimizer hourly example_conf fuse_slots 0 fuse_request). cur (schedule l ! 0)) \<le> 20"
proof -
  let ?run = "run_optimizer hourly example_conf fuse_slots 0 fuse_request"
  have run: "?run = Inr (projr ?run)" by code_simp
  show ?thesis
    using fuse_limit_respected[OF fuse_init(1) _ _ fuse_init(3) fuse_request_def fuse_init(2) run example_wf(4),
        of 0] fuse_init(4-6) by simp
qed

definition power_profile :: ExternalLimits where
  "power_profile = \<lparr>ext_schedule_import = Some [(entry_at 0)\<lparr>limits_to_leaves :=
       no_limits\<lparr>total_power_W := Some 44000\<rparr>\<rparr>], ext_schedule_export = None\<rparr>"

definition lifted_request :: EnergyFlowRequest where
  "lifted_request = EnergyFlowRequest
     (efr (node_request (set_external_limits hourly 0 power_profile fuse_node))) two_evses"

definition lifted_slots :: globals_t where
  "lifted_slots = projr (globals_init hourly 0 60 1 4 500 False lifted_request initial_globals)"

theorem power_profile_lifts_fuse_limit_witness:
  "ac_max_current_A (import_limits (new_market_node hourly lifted_slots (efr lifted_request)) 0) = None
   \<and> (\<Sum>l\<leftarrow>projr (run_optimizer hourly example_conf lifted_slots 0 lifted_request). cur (schedule l ! 0)) = 32"
proof -
  have g: "globals_init hourly 0 60 1 4 500 False lifted_request initial_globals = Inr lifted_slots"
    by code_simp
  have len: "length (timestamps lifted_slots) = 1" by code_simp
  have "(\<Sum>l\<leftarrow>projr (run_optimizer hourly example_conf lifted_slots 0 lifted_request). cur (schedule l ! 0)) = 32"
    by code_simp
  then show ?thesis
    using power_profile_lifts_fuse_limit[OF _ _ _ refl lifted_request_def g, of
        "[(entry_at 0)\<lparr>limits_to_leaves := no_limits\<lparr>total_power_W := Some 44000\<rparr>\<rparr>]" 0] len
    by (simp add: power_profile_def)
qed

definition later_slots :: globals_t where
  "later_slots = projr (globals_init hourly (5 * hour) 60 1 4 500 False fuse_request fuse_slots)"

theorem first_slot_never_advances_witness:
  "sorted_wrt (<) (timestamps later_slots) \<and> hd (timestamps later_slots) \<le> 0 \<and> timestamps later_slots = [0, 5 * hour]"
proof -
  have g: "globals_init hourly (5 * hour) 60 1 4 500 False fuse_request fuse_slots = Inr later_slots"
    by code_simp
  have "timestamps fuse_slots = [0]" "timestamps later_slots = [0, 5 * hour]" by code_simp+
  then show ?thesis using first_slot_never_advances[OF g] by simp
qed

end
