(* ===== verification/Evse_Manager.thy ===== *)
theory Evse_Manager
  imports Charger Auth_Connector Energy_Types
begin

text \<open>
  The module around the charger (\<open>modules/EvseManager/EvseManager.cpp\<close> and the command
  handlers of \<open>evse/evse_managerImpl.cpp\<close>): set-up, the events of the board, authorization of
  the high level communication (HLC), reservations, local energy limits, the DC power supply
  and the cable check. The calls to other modules are appended to \<open>mgr_out\<close>; those of the
  charger itself are in its own trace. Log files, telemetry, the Node-RED topics and the
  \<open>ev_info\<close> record that is only published are left out.
\<close>

section \<open>Data\<close>

datatype CertificateStatus =
    CS_Accepted | CS_SignatureError | CS_CertificateExpired | CS_CertificateRevoked
  | CS_NoCertificateAvailable | CS_CertChainError | CS_ContractCancelled

datatype IsolationStatus = IS_Invalid | IS_Valid | IS_Warning | IS_Fault | IS_No_IMD

datatype ps_mode = PS_Off | PS_Export | PS_Import | PS_Fault

datatype CarManufacturer = VolkswagenGroup | Tesla | UnknownManufacturer

record HardwareCapabilities =
  max_current_A_import :: float_t
  min_current_A_import :: float_t
  max_phase_count_import :: int
  min_phase_count_import :: int
  max_current_A_export :: float_t
  min_current_A_export :: float_t
  max_phase_count_export :: int
  min_phase_count_export :: int
  supports_changing_phases_during_charging :: bool

record ps_capabilities =
  max_export_voltage_V :: float_t
  min_export_voltage_V :: float_t
  max_export_current_A :: float_t
  min_export_current_A :: float_t
  max_export_power_W :: float_t
  current_regulation_tolerance_A :: float_t
  peak_current_ripple_A :: float_t
  max_import_voltage_V :: "float_t option"
  min_import_voltage_V :: "float_t option"
  max_import_current_A :: "float_t option"
  min_import_current_A :: "float_t option"
  max_import_power_W :: "float_t option"
  conversion_efficiency_import :: "float_t option"
  conversion_efficiency_export :: "float_t option"

record IsolationMeasurement =
  resistance_P_Ohm :: float_t
  resistance_N_Ohm :: float_t

text \<open>The members of \<open>Conf\<close> that the modelled code reads.\<close>

record Conf =
  connector_id :: int
  evse_id :: string
  evse_id_din :: string
  payment_enable_eim :: bool
  payment_enable_contract :: bool
  ac_nominal_voltage :: float_t
  ev_receipt_required :: bool
  session_logging :: bool
  three_phases :: bool
  has_ventilation :: bool
  country_code :: string
  rcd_enabled :: bool
  max_current_import_A :: float_t
  max_current_export_A :: float_t
  conf_charge_mode :: string
  conf_ac_hlc_enabled :: bool
  conf_ac_hlc_use_5percent :: bool
  conf_ac_enforce_hlc :: bool
  ac_with_soc :: bool
  dc_isolation_voltage_V :: int
  dbg_hlc_auth_after_tstep :: bool
  switch_to_minimum_voltage_after_cable_check :: bool
  hack_skoda_enyaq :: bool
  hack_present_current_offset :: int
  hack_pause_imd_during_precharge :: bool
  hack_allow_bpt_with_iso2 :: bool

text \<open>The event-specific part of a published session event.\<close>

datatype session_payload =
    No_payload
  | Session_started StartSessionReason
  | Transaction_started "float_t option" "float_t option" "int option" string
  | Transaction_finished "float_t option" "float_t option" StopTransactionReason "string option"
  | Session_error evse_error

datatype mgr_effect =
    Hlc_set_Auth_Okay_EIM bool | Hlc_set_Auth_Okay_PnC AuthorizationStatus CertificateStatus
  | Hlc_set_PaymentOptions "string list" | Hlc_set_Certificate_Service_Supported bool
  | Hlc_set_SupportedEnergyTransferMode "string list"
  | Hlc_stop_charging bool | Hlc_contactor_open bool | Hlc_contactor_closed bool
  | Hlc_set_FAILED_ContactorError bool | Hlc_set_RCD_Error bool | Hlc_set_EVSE_Malfunction bool
  | Hlc_set_EVSE_EmergencyShutdown bool | Hlc_set_AC_EVSEMaxCurrent float_t
  | Hlc_cableCheck_Finished bool | Hlc_set_EVSEIsolationStatus IsolationStatus
  | Hlc_set_EVSEID string string | Hlc_set_AC_EVSENominalVoltage float_t | Hlc_set_ReceiptRequired bool
  | Hlc_set_FreeService bool | Hlc_enable_debug_mode | Hlc_set_EVSEEnergyToBeDelivered float_t
  | Hlc_set_DC_EVSECurrentRegulationTolerance float_t | Hlc_set_DC_EVSEPeakCurrentRipple float_t
  | Hlc_set_DC_EVSEMinimumLimits float_t float_t | Hlc_set_MeterInfo Powermeter
  | Hlc_set_DC_EVSEMaximumLimits evse_max_limits | Hlc_set_DC_EVSEPresentVoltageCurrent float_t float_t
  | Slac_enter_bcd | Slac_leave_bcd | Slac_reset bool
  | Ps_setMode ps_mode | Ps_setExportVoltageCurrent float_t float_t
  | Ps_setImportVoltageCurrent float_t float_t | Imd_start | Imd_stop
  | Publish_provided_token ProvidedIdToken | Publish_reservation_event SessionEventEnum string
  | Publish_session_event SessionEventEnum string session_payload | Publish_car_manufacturer CarManufacturer
  | Publish_energy_request efr_node | Publish_limits_enforced EnforcedLimits

record EvseManager =
  config :: Conf
  mcharger :: charger
  powermeters_car_side :: nat
  has_imd :: bool
  has_slac :: bool
  has_hlc :: bool
  hw_capabilities :: HardwareCapabilities
  powersupply_capabilities :: ps_capabilities
  local_three_phases :: bool
  local_energy_limits :: ExternalLimits
  slac_enabled :: bool
  contactor_open :: bool
  hlc_enabled :: bool
  hlc_waiting_for_auth_eim :: bool
  hlc_waiting_for_auth_pnc :: bool
  latest_target_voltage :: float_t
  latest_target_current :: float_t
  autocharge_token :: ProvidedIdToken
  evse_reserved :: bool
  evse_reservation_id :: int
  powersupply_dc_is_on :: bool
  last_is_actually_exporting_to_grid :: bool
  is_actually_exporting_to_grid :: bool
  car_manufacturer :: CarManufacturer
  ac_with_soc_slots :: nat
  latest_powermeter :: Powermeter
  session_uuid :: string
  evse_request :: efr_node
  last_enforced_limits :: LimitsRes
  last_target_voltage :: float_t
  mgr_out :: "mgr_effect list"

definition mgr_emit :: "mgr_effect \<Rightarrow> EvseManager \<Rightarrow> EvseManager" where
  "mgr_emit e m = m\<lparr>mgr_out := mgr_out m @ [e]\<rparr>"

definition emits :: "mgr_effect list \<Rightarrow> EvseManager \<Rightarrow> EvseManager" where
  "emits es m = m\<lparr>mgr_out := mgr_out m @ es\<rparr>"

definition with_charger :: "(charger \<Rightarrow> charger) \<Rightarrow> EvseManager \<Rightarrow> EvseManager" where
  "with_charger f m = m\<lparr>mcharger := f (mcharger m)\<rparr>"

section \<open>Start-up\<close>

definition trim_colons_from_string :: "string \<Rightarrow> string" where
  "trim_colons_from_string text = filter (\<lambda>c. c \<noteq> CHR '':'') text"

text \<open>
  \<open>connectors.emplace(connector_id, 1)\<close> calls the constructor of \<open>std::vector\<close> that makes
  \<open>connector_id\<close> copies of 1.
\<close>

definition create_autocharge_token :: "string \<Rightarrow> int \<Rightarrow> ProvidedIdToken" where
  "create_autocharge_token token cid =
    \<lparr>id_token = ''VID:'' @ trim_colons_from_string token, token_type = TT_Autocharge,
     token_connectors = Some (replicate (nat cid) 1), prevalidated = None\<rparr>"

definition get_manufacturer_from_mac :: "string \<Rightarrow> CarManufacturer" where
  "get_manufacturer_from_mac mac =
    (if length mac < 8 then UnknownManufacturer
     else if take 8 mac = ''00:7D:FA'' then VolkswagenGroup
     else if take 8 mac = ''98:ED:5C'' then Tesla
     else UnknownManufacturer)"

text \<open>The configuration of \<open>init\<close>; \<open>None\<close> is the call of \<open>exit\<close>.\<close>

definition mgr_init :: "bool \<Rightarrow> EvseManager \<Rightarrow> EvseManager option" where
  "mgr_init has_powersupply m =
    (let c = config m;
         slac = (has_slac m \<and> (conf_ac_hlc_enabled c \<or> ac_with_soc c \<or> conf_charge_mode c = ''DC''));
         hlc = (has_hlc m \<and> slac)
     in if conf_charge_mode c = ''DC'' \<and> (\<not> hlc \<or> \<not> slac \<or> \<not> has_powersupply) then None
        else Some (m\<lparr>local_three_phases := three_phases c, slac_enabled := slac, hlc_enabled := hlc,
               evse_reserved := False, evse_reservation_id := 0,
               hlc_waiting_for_auth_eim := False, hlc_waiting_for_auth_pnc := False,
               latest_target_voltage := 0, latest_target_current := 0\<rparr>))"

section \<open>Local energy limits\<close>

definition one_entry :: "string \<Rightarrow> LimitsReq \<Rightarrow> ScheduleReq option" where
  "one_entry ts l = Some [empty_req_entry\<lparr>timestamp := ts, limits_to_leaves := l\<rparr>]"

definition updateLocalEnergyLimit :: "ExternalLimits \<Rightarrow> EvseManager \<Rightarrow> bool \<times> EvseManager" where
  "updateLocalEnergyLimit l m = (True, m\<lparr>local_energy_limits := l\<rparr>)"

definition updateLocalMaxWattLimit :: "string \<Rightarrow> float_t \<Rightarrow> EvseManager \<Rightarrow> bool \<times> EvseManager" where
  "updateLocalMaxWattLimit ts max_watt m =
    (let lim = (\<lambda>p. one_entry ts (no_limits\<lparr>total_power_W := Some p\<rparr>))
     in (True, m\<lparr>local_energy_limits :=
          (if max_watt \<ge> 0
           then \<lparr>ext_schedule_import = lim max_watt, ext_schedule_export = lim 0\<rparr>
           else \<lparr>ext_schedule_import = lim 0, ext_schedule_export = lim (- max_watt)\<rparr>)\<rparr>))"

definition updateLocalMaxCurrentLimit :: "string \<Rightarrow> float_t \<Rightarrow> EvseManager \<Rightarrow> bool \<times> EvseManager" where
  "updateLocalMaxCurrentLimit ts max_current m =
    (if conf_charge_mode (config m) = ''DC'' then (False, m)
     else
       let lim = (\<lambda>c. one_entry ts (no_limits\<lparr>ac_max_current_A := Some c\<rparr>))
       in (True, m\<lparr>local_energy_limits :=
            (if max_current \<ge> 0
             then \<lparr>ext_schedule_import = lim max_current, ext_schedule_export = lim 0\<rparr>
             else \<lparr>ext_schedule_import = lim 0, ext_schedule_export = lim (- max_current)\<rparr>)\<rparr>))"

text \<open>The hardware capabilities as \<open>ready\<close> restricts them by the configuration.\<close>

definition apply_hw_capabilities :: "string \<Rightarrow> HardwareCapabilities \<Rightarrow> EvseManager \<Rightarrow> EvseManager" where
  "apply_hw_capabilities ts hw m =
    (let c = config m;
         hw = (if max_current_import_A c < max_current_A_import hw
               then hw\<lparr>max_current_A_import := max_current_import_A c\<rparr> else hw);
         hw = (if max_current_export_A c < max_current_A_export hw
               then hw\<lparr>max_current_A_export := max_current_export_A c\<rparr> else hw);
         m = m\<lparr>hw_capabilities := hw\<rparr>;
         m = (if conf_charge_mode c = ''AC''
              then snd (updateLocalMaxCurrentLimit ts (max_current_A_import hw) m) else m)
     in if \<not> three_phases c \<and> min_phase_count_import hw = 1
        then m\<lparr>hw_capabilities := hw\<lparr>max_phase_count_import := 1\<rparr>, local_three_phases := False\<rparr>
        else if max_phase_count_import hw = 3 then m\<lparr>local_three_phases := True\<rparr>
        else m)"

section \<open>Charging modes\<close>

definition setup_fake_DC_mode :: "EvseManager \<Rightarrow> EvseManager" where
  "setup_fake_DC_mode m =
    (let c = config m
     in emits [Hlc_set_DC_EVSECurrentRegulationTolerance
                 (current_regulation_tolerance_A (powersupply_capabilities m)),
               Hlc_set_DC_EVSEPeakCurrentRipple (peak_current_ripple_A (powersupply_capabilities m)),
               Hlc_set_DC_EVSEPresentVoltageCurrent 400 0,
               Hlc_set_DC_EVSEMaximumLimits \<lparr>EVSEMaximumCurrentLimit = 400,
                 EVSEMaximumPowerLimit = 200000, EVSEMaximumVoltageLimit = 1000\<rparr>,
               Hlc_set_DC_EVSEMinimumLimits 0 0,
               Hlc_set_SupportedEnergyTransferMode [''DC_core'', ''DC_extended'', ''DC_combo_core'', ''DC_unique'']]
        (with_charger (setup_charger (local_three_phases m) (has_ventilation c) (country_code c) (rcd_enabled c)
           DC (hlc_enabled m) (conf_ac_hlc_use_5percent c) (conf_ac_enforce_hlc c) False) m))"

definition setup_AC_mode :: "EvseManager \<Rightarrow> EvseManager" where
  "setup_AC_mode m =
    (let c = config m;
         transfer_modes = (if three_phases c then [''AC_three_phase_core'', ''AC_single_phase_core'']
                           else [''AC_single_phase_core'']);
         m = with_charger (setup_charger (local_three_phases m) (has_ventilation c) (country_code c) (rcd_enabled c)
               AC (hlc_enabled m) (conf_ac_hlc_use_5percent c) (conf_ac_enforce_hlc c) True) m
     in if hlc_enabled m then mgr_emit (Hlc_set_SupportedEnergyTransferMode transfer_modes) m else m)"

definition switch_DC_mode :: "EvseManager \<Rightarrow> EvseManager" where
  "switch_DC_mode m = setup_fake_DC_mode (with_charger (\<lambda>c. snd (evseReplug c)) m)"

definition switch_AC_mode :: "EvseManager \<Rightarrow> EvseManager" where
  "switch_AC_mode m = setup_AC_mode (with_charger (\<lambda>c. snd (evseReplug c)) m)"

definition payment_options :: "Conf \<Rightarrow> mgr_effect list" where
  "payment_options c =
    (if payment_enable_contract c then [Hlc_set_Certificate_Service_Supported True] else [])
    @ [Hlc_set_PaymentOptions ((if payment_enable_eim c then [''ExternalPayment''] else [])
         @ (if payment_enable_contract c then [''Contract''] else []))]"

definition capability_limits :: "ps_capabilities \<Rightarrow> evse_max_limits" where
  "capability_limits caps = \<lparr>EVSEMaximumCurrentLimit = max_export_current_A caps,
     EVSEMaximumPowerLimit = max_export_power_W caps,
     EVSEMaximumVoltageLimit = max_export_voltage_V caps\<rparr>"

text \<open>
  The set-up of the HLC in \<open>ready\<close>, with the capabilities \<open>caps\<close> that the DC supply reports;
  \<open>None\<close> is the exit on an unsupported charging mode.
\<close>

definition ready_hlc :: "string \<Rightarrow> ps_capabilities \<Rightarrow> EvseManager \<Rightarrow> EvseManager option" where
  "ready_hlc ts caps m =
    (let c = config m;
         begin = emits (Hlc_set_EVSEID (evse_id c) (evse_id_din c) # payment_options c);
         finish = (\<lambda>modes m. (emits ([Hlc_set_SupportedEnergyTransferMode modes,
                     Hlc_set_ReceiptRequired (ev_receipt_required c), Hlc_set_FreeService False]
                     @ (if session_logging c then [Hlc_enable_debug_mode] else [])
                     @ [Hlc_set_FAILED_ContactorError False, Hlc_set_RCD_Error False]) m)
                     \<lparr>ac_with_soc_slots := ac_with_soc_slots m + (if ac_with_soc c then 1 else 0)\<rparr>)
     in if \<not> hlc_enabled m then Some m
        else if conf_charge_mode c = ''AC'' then
          Some (finish (if three_phases c then [''AC_three_phase_core'', ''AC_single_phase_core'']
                        else [''AC_single_phase_core''])
                 (mgr_emit (Hlc_set_AC_EVSENominalVoltage (ac_nominal_voltage c)) (begin m)))
        else if conf_charge_mode c = ''DC'' then
          (let m = (begin m)\<lparr>powersupply_capabilities := caps\<rparr>;
               m = snd (updateLocalMaxWattLimit ts (max_export_power_W caps) m);
               m = emits [Hlc_set_DC_EVSECurrentRegulationTolerance (current_regulation_tolerance_A caps),
                          Hlc_set_DC_EVSEPeakCurrentRipple (peak_current_ripple_A caps),
                          Hlc_set_DC_EVSEPresentVoltageCurrent 0 0,
                          Hlc_set_EVSEEnergyToBeDelivered 10000,
                          Hlc_set_DC_EVSEMaximumLimits (capability_limits caps)] m;
               m = with_charger (inform_new_evse_max_hlc_limits (capability_limits caps)) m;
               m = mgr_emit (Hlc_set_DC_EVSEMinimumLimits (min_export_current_A caps) (min_export_voltage_V caps)) m;
               m = (if has_imd m then mgr_emit Imd_stop m else m)
           in Some (finish [''DC_extended''] m))
        else None)"

text \<open>The end of \<open>ready\<close>: the charger is set up and enabled with no current to give.\<close>

definition ready_start :: "clock \<Rightarrow> EvseManager \<Rightarrow> EvseManager" where
  "ready_start k m =
    (let c = config m;
         m = (if slac_enabled m then mgr_emit (Slac_reset False) m else m);
         m = (if ac_with_soc c then setup_fake_DC_mode m
              else with_charger (setup_charger (local_three_phases m) (has_ventilation c) (country_code c)
                     (rcd_enabled c) (if conf_charge_mode c = ''DC'' then DC else AC) (hlc_enabled m)
                     (conf_ac_hlc_use_5percent c) (conf_ac_enforce_hlc c) False) m)
     in with_charger (\<lambda>ch. snd (enable (mainThread_start (snd (setMaxCurrent_until k 0 (utc_now k) ch))))) m)"

section \<open>Events of the board\<close>

definition forward_to_slac :: "bs_event \<Rightarrow> EvseManager \<Rightarrow> EvseManager" where
  "forward_to_slac e m =
    (if \<not> slac_enabled m then m
     else case e of
            BS_EFtoBCD \<Rightarrow> mgr_emit Slac_enter_bcd m
          | BS_BCDtoEF \<Rightarrow> mgr_emit Slac_leave_bcd m
          | BS_CarPluggedIn \<Rightarrow> mgr_emit Slac_enter_bcd (m\<lparr>car_manufacturer := UnknownManufacturer\<rparr>)
          | BS_CarUnplugged \<Rightarrow> emits [Slac_leave_bcd, Slac_reset False] m
          | _ \<Rightarrow> m)"

definition forward_to_hlc :: "bs_event \<Rightarrow> EvseManager \<Rightarrow> EvseManager" where
  "forward_to_hlc e m =
    (if \<not> hlc_enabled m then m
     else case e of
            BS_CarPluggedIn \<Rightarrow>
              (emits [Hlc_set_FAILED_ContactorError False, Hlc_set_RCD_Error False,
                 Hlc_set_EVSE_Malfunction False, Hlc_set_EVSE_EmergencyShutdown False,
                 Hlc_contactor_open True, Hlc_stop_charging False] m)
              \<lparr>latest_target_voltage := 0, latest_target_current := 0,
               hlc_waiting_for_auth_eim := False, hlc_waiting_for_auth_pnc := False\<rparr>
          | BS_ErrorRelais \<Rightarrow> mgr_emit (Hlc_set_FAILED_ContactorError True) m
          | BS_ErrorRCD \<Rightarrow> mgr_emit (Hlc_set_RCD_Error True) m
          | BS_PermanentFault \<Rightarrow> mgr_emit (Hlc_set_EVSE_Malfunction True) m
          | BS_ErrorOverCurrent \<Rightarrow> mgr_emit (Hlc_set_EVSE_EmergencyShutdown True) m
          | BS_PowerOn \<Rightarrow> mgr_emit (Hlc_contactor_closed True) (m\<lparr>contactor_open := False\<rparr>)
          | BS_PowerOff \<Rightarrow> mgr_emit (Hlc_contactor_open True) (m\<lparr>contactor_open := True\<rparr>)
          | _ \<Rightarrow> m)"

text \<open>
  The last statement connects one more slot to \<open>signalACWithSoCTimeout\<close> with every event; a
  slot that is connected stays connected.
\<close>

definition on_bsp_event :: "clock \<Rightarrow> float_t \<Rightarrow> bs_event \<Rightarrow> EvseManager \<Rightarrow> EvseManager" where
  "on_bsp_event k cable e m =
    (let m = forward_to_hlc e (with_charger (processEvent k cable e) (forward_to_slac e m))
     in if ac_with_soc (config m) then m\<lparr>ac_with_soc_slots := Suc (ac_with_soc_slots m)\<rparr> else m)"

text \<open>With \<open>ac_with_soc\<close>: another subscriber of the same event, connected earlier.\<close>

definition on_bsp_event_soc :: "bs_event \<Rightarrow> EvseManager \<Rightarrow> EvseManager" where
  "on_bsp_event_soc e m =
     (if hlc_enabled m \<and> ac_with_soc (config m) \<and> e = BS_CarUnplugged then switch_DC_mode m else m)"

definition on_DC_EVStatus :: "EvseManager \<Rightarrow> EvseManager" where
  "on_DC_EVStatus m = (if hlc_enabled m \<and> ac_with_soc (config m) then switch_AC_mode m else m)"

definition on_signalACWithSoCTimeout :: "EvseManager \<Rightarrow> EvseManager" where
  "on_signalACWithSoCTimeout m = (switch_DC_mode ^^ ac_with_soc_slots m) m"

definition on_powermeter_billing :: "Powermeter \<Rightarrow> EvseManager \<Rightarrow> EvseManager" where
  "on_powermeter_billing p m =
    (let m = (case current_A p of
                None \<Rightarrow> m
              | Some c \<Rightarrow>
                  (case (pv_L1 c, pv_L2 c, pv_L3 c) of
                     (Some l1, Some l2, Some l3) \<Rightarrow> with_charger (setCurrentDrawnByVehicle l1 l2 l3) m
                   | _ \<Rightarrow> m));
         m = (if hlc_enabled m then mgr_emit (Hlc_set_MeterInfo p) m else m)
     in m\<lparr>latest_powermeter := p\<rparr>)"

definition on_slac_state :: "string \<Rightarrow> EvseManager \<Rightarrow> EvseManager" where
  "on_slac_state s m = with_charger (setMatchingStarted (s \<noteq> ''UNMATCHED'')) m"

definition on_signalMaxCurrent :: "float_t \<Rightarrow> EvseManager \<Rightarrow> EvseManager" where
  "on_signalMaxCurrent ampere m = (if hlc_enabled m then mgr_emit (Hlc_set_AC_EVSEMaxCurrent ampere) m else m)"

definition on_slac_error_routine :: "EvseManager \<Rightarrow> EvseManager" where
  "on_slac_error_routine m = with_charger requestErrorSequence m"

section \<open>Reservation\<close>

text \<open>The reservation events carry the session id, as \<open>evse_managerImpl\<close> publishes them.\<close>

definition set_session_uuid :: "string \<Rightarrow> EvseManager \<Rightarrow> EvseManager" where
  "set_session_uuid fresh m = (if session_uuid m = [] then m\<lparr>session_uuid := fresh\<rparr> else m)"

definition signalReservationEvent :: "string \<Rightarrow> SessionEventEnum \<Rightarrow> EvseManager \<Rightarrow> EvseManager" where
  "signalReservationEvent fresh e m =
    (let m = (if e = SE_ReservationStart then set_session_uuid fresh m else m)
     in mgr_emit (Publish_reservation_event e (session_uuid m)) m)"

definition evse_reserve :: "string \<Rightarrow> int \<Rightarrow> EvseManager \<Rightarrow> bool \<times> EvseManager" where
  "evse_reserve fresh rid m =
    (if getCurrentState (mcharger m) = Disabled then (False, m)
     else if getCurrentState (mcharger m) = Faulted then (False, m)
     else if getCurrentState (mcharger m) \<noteq> Idle then (False, m)
     else if \<not> evse_reserved m then
       (True, signalReservationEvent fresh SE_ReservationStart
                (m\<lparr>evse_reserved := True, evse_reservation_id := rid\<rparr>))
     else (False, m))"

definition evse_cancel_reservation :: "string \<Rightarrow> bool \<Rightarrow> EvseManager \<Rightarrow> EvseManager" where
  "evse_cancel_reservation fresh signal_event m =
    (if evse_reserved m then
       (let m = m\<lparr>evse_reserved := False, evse_reservation_id := 0\<rparr>
        in if signal_event then signalReservationEvent fresh SE_ReservationEnd m else m)
     else m)"

section \<open>Session events\<close>

text \<open>
  The two handlers of \<open>Charger::signalEvent\<close>: that of the module and that of
  \<open>evse_managerImpl\<close>, which owns the session id. They are connected in this order. \<open>c\<close> is the
  charger at the time of the signal, \<open>fresh\<close> the id that would be generated.
\<close>

definition module_signalEvent :: "string \<Rightarrow> SessionEventEnum \<Rightarrow> charger \<Rightarrow> EvseManager \<Rightarrow> EvseManager" where
  "module_signalEvent fresh s c m =
    (let m = (if s = SE_Disabled \<or> s = SE_PermanentFault then evse_cancel_reservation fresh True m else m)
     in if hlc_enabled m \<and> s = SE_SessionStarted \<and> getSessionStartedReason c = AuthorizedFirst then
          emits [Hlc_set_PaymentOptions [''ExternalPayment''], Hlc_set_Certificate_Service_Supported False] m
        else if hlc_enabled m \<and> s = SE_SessionFinished then emits (payment_options (config m)) m
        else m)"

definition session_payload_of :: "SessionEventEnum \<Rightarrow> charger \<Rightarrow> EvseManager \<Rightarrow> session_payload" where
  "session_payload_of e c m =
    (let p = latest_powermeter m;
         energy_import = pv_total (energy_Wh_import p);
         energy_export = (case energy_Wh_export p of None \<Rightarrow> None | Some x \<Rightarrow> pv_total x)
     in case e of
          SE_SessionStarted \<Rightarrow> Session_started (getSessionStartedReason c)
        | SE_TransactionStarted \<Rightarrow> Transaction_started energy_import energy_export
            (if evse_reserved m then Some (evse_reservation_id m) else None) (getAuthTag c)
        | SE_TransactionFinished \<Rightarrow> Transaction_finished energy_import energy_export
            (getTransactionFinishedReason c)
            (if getStopTransactionIdTag c = [] then None else Some (getStopTransactionIdTag c))
        | SE_Error \<Rightarrow> Session_error (getErrorState c)
        | _ \<Rightarrow> No_payload)"

definition evse_signalEvent :: "string \<Rightarrow> SessionEventEnum \<Rightarrow> charger \<Rightarrow> EvseManager \<Rightarrow> EvseManager" where
  "evse_signalEvent fresh e c m =
    (let payload = session_payload_of e c m;
         m = (if e = SE_SessionStarted then set_session_uuid fresh m
              else if e = SE_TransactionStarted \<and> evse_reserved m then evse_cancel_reservation fresh False m
              else m);
         m = mgr_emit (Publish_session_event e (session_uuid m) payload) m
     in if e = SE_SessionFinished then m\<lparr>session_uuid := []\<rparr> else m)"

definition on_signalEvent :: "string \<Rightarrow> SessionEventEnum \<Rightarrow> charger \<Rightarrow> EvseManager \<Rightarrow> EvseManager" where
  "on_signalEvent fresh e c m = evse_signalEvent fresh e c (module_signalEvent fresh e c m)"

section \<open>Authorization\<close>

definition on_Require_Auth_EIM :: "EvseManager \<Rightarrow> EvseManager" where
  "on_Require_Auth_EIM m =
    (let m = mgr_emit (Publish_provided_token (autocharge_token m)) m
     in if (dbg_hlc_auth_after_tstep (config m) \<and> Authorized_EIM_ready_for_HLC (mcharger m))
           \<or> (\<not> dbg_hlc_auth_after_tstep (config m) \<and> Authorized_EIM (mcharger m))
        then mgr_emit (Hlc_set_Auth_Okay_EIM True)
               (m\<lparr>hlc_waiting_for_auth_eim := False, hlc_waiting_for_auth_pnc := False\<rparr>)
        else m\<lparr>hlc_waiting_for_auth_eim := True, hlc_waiting_for_auth_pnc := False\<rparr>)"

definition on_EVCCIDD :: "string \<Rightarrow> EvseManager \<Rightarrow> EvseManager" where
  "on_EVCCIDD token m =
    (let m = m\<lparr>autocharge_token := create_autocharge_token token (connector_id (config m)),
               car_manufacturer := get_manufacturer_from_mac token\<rparr>
     in mgr_emit (Publish_car_manufacturer (car_manufacturer m)) m)"

definition on_Require_Auth_PnC :: "ProvidedIdToken \<Rightarrow> EvseManager \<Rightarrow> EvseManager" where
  "on_Require_Auth_PnC tok m =
    (let m = mgr_emit (Publish_provided_token (tok\<lparr>token_connectors := Some [connector_id (config m)]\<rparr>)) m
     in if Authorized_PnC (mcharger m)
        then m\<lparr>hlc_waiting_for_auth_eim := False, hlc_waiting_for_auth_pnc := False\<rparr>
        else m\<lparr>hlc_waiting_for_auth_eim := False, hlc_waiting_for_auth_pnc := True\<rparr>)"

definition charger_was_authorized :: "EvseManager \<Rightarrow> EvseManager" where
  "charger_was_authorized m =
    (let m = (if hlc_waiting_for_auth_pnc m \<and> Authorized_PnC (mcharger m)
              then mgr_emit (Hlc_set_Auth_Okay_PnC AS_Accepted CS_Accepted)
                     (m\<lparr>hlc_waiting_for_auth_eim := False, hlc_waiting_for_auth_pnc := False\<rparr>)
              else m)
     in if hlc_waiting_for_auth_eim m \<and> Authorized_EIM (mcharger m)
        then mgr_emit (Hlc_set_Auth_Okay_EIM True)
               (m\<lparr>hlc_waiting_for_auth_eim := False, hlc_waiting_for_auth_pnc := False\<rparr>)
        else m)"

text \<open>
  \<open>cert\<close> is the certificate status of the validation result. The answer to a plug and charge
  token goes to \<open>r_hlc[0]\<close>, whether there is one or not: \<open>None\<close> is the access past the end.
\<close>

definition handle_authorize_response ::
    "ProvidedIdToken \<Rightarrow> ValidationResult \<Rightarrow> CertificateStatus option \<Rightarrow> EvseManager \<Rightarrow> EvseManager option" where
  "handle_authorize_response tok vr cert m =
    (let pnc = (token_type tok = TT_PlugAndCharge);
         answer = (\<lambda>m. if \<not> pnc then Some m
                        else if \<not> has_hlc m then None
                        else Some (mgr_emit (Hlc_set_Auth_Okay_PnC (authorization_status vr)
                                     (value_or CS_Accepted cert)) m))
     in if authorization_status vr = AS_Accepted then
          (if hlc_waiting_for_auth_pnc m \<and> \<not> pnc then Some m
           else answer (charger_was_authorized (with_charger (Authorize True (id_token tok) pnc) m)))
        else answer m)"

definition handle_withdraw_authorization :: "EvseManager \<Rightarrow> EvseManager" where
  "handle_withdraw_authorization m = with_charger (Authorize False [] False) m"

definition mgr_handle_stop_transaction :: "StopTransactionRequest \<Rightarrow> EvseManager \<Rightarrow> bool \<times> EvseManager" where
  "mgr_handle_stop_transaction request m =
    (let m = (if hlc_enabled m then mgr_emit (Hlc_stop_charging True) m else m);
         (r, c) = cancelTransaction request (mcharger m)
     in (r, m\<lparr>mcharger := c\<rparr>))"

section \<open>DC power supply\<close>

definition imd_stop :: "EvseManager \<Rightarrow> EvseManager" where
  "imd_stop m = (if has_imd m then mgr_emit Imd_stop m else m)"

definition imd_start :: "EvseManager \<Rightarrow> EvseManager" where
  "imd_start m = (if has_imd m then mgr_emit Imd_start m else m)"

definition powersupply_DC_on :: "EvseManager \<Rightarrow> EvseManager" where
  "powersupply_DC_on m =
    (if \<not> powersupply_dc_is_on m
     then (mgr_emit (Ps_setMode PS_Export) m)\<lparr>powersupply_dc_is_on := True\<rparr> else m)"

definition powersupply_DC_off :: "EvseManager \<Rightarrow> EvseManager" where
  "powersupply_DC_off m = (mgr_emit (Ps_setMode PS_Off) m)\<lparr>powersupply_dc_is_on := False\<rparr>"

definition limit_above :: "float_t option \<Rightarrow> float_t \<Rightarrow> float_t" where
  "limit_above l x = (case l of None \<Rightarrow> x | Some v \<Rightarrow> if x > v then v else x)"

definition limit_below :: "float_t option \<Rightarrow> float_t \<Rightarrow> float_t" where
  "limit_below l x = (case l of None \<Rightarrow> x | Some v \<Rightarrow> if x < v then v else x)"

definition limit_power :: "float_t option \<Rightarrow> float_t \<Rightarrow> float_t \<Rightarrow> float_t" where
  "limit_power l voltage x = (case l of None \<Rightarrow> x | Some p \<Rightarrow> if voltage * x > p then p / voltage else x)"

text \<open>
  \<open>None\<close>: \<open>max_import_voltage_V.value()\<close> of an empty optional throws.
\<close>

definition powersupply_DC_set :: "float_t \<Rightarrow> float_t \<Rightarrow> EvseManager \<Rightarrow> (bool \<times> EvseManager) option" where
  "powersupply_DC_set voltage current m =
    (let caps = powersupply_capabilities m;
         hack = hack_allow_bpt_with_iso2 (config m)
     in if hack \<and> is_actually_exporting_to_grid m then
          (let m = (if \<not> last_is_actually_exporting_to_grid m then mgr_emit (Ps_setMode PS_Import) m else m);
               m = m\<lparr>last_is_actually_exporting_to_grid := is_actually_exporting_to_grid m\<rparr>
           in case min_import_voltage_V caps of
                None \<Rightarrow> Some (False, m)
              | Some vmin \<Rightarrow>
                  (if voltage < vmin then Some (False, m)
                   else case max_import_voltage_V caps of
                          None \<Rightarrow> None
                        | Some vmax \<Rightarrow>
                            (if voltage > vmax then Some (False, m)
                             else
                               let i = limit_above (max_import_current_A caps) current;
                                   i = limit_below (min_import_current_A caps) i;
                                   i = limit_power (max_import_power_W caps) voltage i
                               in Some (True, mgr_emit (Ps_setImportVoltageCurrent voltage i) m))))
        else
          (let m = (if hack \<and> last_is_actually_exporting_to_grid m
                    then mgr_emit (Ps_setMode PS_Export) m else m);
               m = m\<lparr>last_is_actually_exporting_to_grid := is_actually_exporting_to_grid m\<rparr>
           in if voltage \<ge> min_export_voltage_V caps \<and> voltage \<le> max_export_voltage_V caps then
                (let i = limit_above (Some (max_export_current_A caps)) current;
                     i = limit_below (Some (min_export_current_A caps)) i;
                     i = limit_power (Some (max_export_power_W caps)) voltage i
                 in Some (True, mgr_emit (Ps_setExportVoltageCurrent voltage i) m))
              else Some (False, m)))"

definition on_DC_EVTargetVoltageCurrent :: "float_t \<Rightarrow> float_t \<Rightarrow> EvseManager \<Rightarrow> EvseManager option" where
  "on_DC_EVTargetVoltageCurrent v i m =
    (if hack_skoda_enyaq (config m) \<and> (v < 300 \<or> i < 0) then Some m
     else if v \<noteq> latest_target_voltage m \<or> i \<noteq> latest_target_current m then
       (case powersupply_DC_set v i (m\<lparr>latest_target_voltage := v, latest_target_current := i\<rparr>) of
          None \<Rightarrow> None
        | Some (_, m) \<Rightarrow> Some (if \<not> contactor_open m then powersupply_DC_on m else m))
     else Some m)"

definition on_DC_Open_Contactor :: "bool \<Rightarrow> EvseManager \<Rightarrow> EvseManager" where
  "on_DC_Open_Contactor b m = imd_stop (if b then powersupply_DC_off m else m)"

definition on_signal_DC_supply_off :: "EvseManager \<Rightarrow> EvseManager" where
  "on_signal_DC_supply_off m = imd_stop (powersupply_DC_off m)"

definition on_currentDemand_Finished :: "EvseManager \<Rightarrow> EvseManager" where
  "on_currentDemand_Finished m = powersupply_DC_off m"

definition on_currentDemand_Started :: "EvseManager \<Rightarrow> EvseManager" where
  "on_currentDemand_Started m = with_charger notifyCurrentDemandStarted m"

definition on_voltage_current :: "float_t \<Rightarrow> float_t \<Rightarrow> EvseManager \<Rightarrow> EvseManager" where
  "on_voltage_current v i m =
    (let present_voltage = (if v > 0 then v else 0);
         present_current = (if i > 0 then i else 0);
         offset = hack_present_current_offset (config m);
         present_current = (if offset > 0 then present_current + of_int offset else present_current);
         m = (if hack_pause_imd_during_precharge (config m) \<and> v * i > 1000 then imd_start m else m)
     in mgr_emit (Hlc_set_DC_EVSEPresentVoltageCurrent present_voltage present_current) m)"

section \<open>Cable check\<close>

text \<open>
  What the thread of the cable check sees: whether the contactors are reported closed in time,
  the voltages of the supply as it waits for them (an entry per pass of the loop, \<open>None\<close> when no
  measurement arrives in two seconds; the list ends when the thirty seconds are over), and the
  isolation measurement, if one arrives in ten seconds.
\<close>

record cable_check_env =
  contactors_closed :: bool
  rising :: "float_t option list"
  isolation :: "IsolationMeasurement option"
  falling :: "float_t option list"

fun wait_powersupply_DC :: "(float_t \<Rightarrow> bool) \<Rightarrow> float_t option list \<Rightarrow> EvseManager \<Rightarrow> bool \<times> EvseManager" where
  "wait_powersupply_DC reached [] m = (False, m)"
| "wait_powersupply_DC reached (None # vs) m = (False, powersupply_DC_off m)"
| "wait_powersupply_DC reached (Some v # vs) m =
     (if reached v then (True, m) else wait_powersupply_DC reached vs m)"

definition wait_powersupply_DC_voltage_reached ::
    "float_t \<Rightarrow> float_t option list \<Rightarrow> EvseManager \<Rightarrow> bool \<times> EvseManager" where
  "wait_powersupply_DC_voltage_reached target = wait_powersupply_DC (\<lambda>v. \<bar>v - target\<bar> < 10)"

definition wait_powersupply_DC_below_voltage ::
    "float_t \<Rightarrow> float_t option list \<Rightarrow> EvseManager \<Rightarrow> bool \<times> EvseManager" where
  "wait_powersupply_DC_below_voltage target = wait_powersupply_DC (\<lambda>v. v < target)"

definition judge_isolation :: "IsolationMeasurement \<Rightarrow> EvseManager \<Rightarrow> bool \<times> EvseManager" where
  "judge_isolation x m =
    (let vmax = max_export_voltage_V (powersupply_capabilities m);
         min_resistance_ok = 500 * vmax; min_resistance_warning = 100 * vmax
     in if resistance_N_Ohm x < min_resistance_warning \<or> resistance_P_Ohm x < min_resistance_warning then
          (False, imd_stop (mgr_emit (Hlc_set_EVSEIsolationStatus IS_Fault) m))
        else if resistance_N_Ohm x < min_resistance_ok \<or> resistance_P_Ohm x < min_resistance_ok then
          (True, mgr_emit (Hlc_set_EVSEIsolationStatus IS_Warning) m)
        else (True, mgr_emit (Hlc_set_EVSEIsolationStatus IS_Valid) m))"

definition check_isolation :: "cable_check_env \<Rightarrow> EvseManager \<Rightarrow> (bool \<times> EvseManager) option" where
  "check_isolation env m =
    (case isolation env of
       None \<Rightarrow> Some (False, powersupply_DC_off m)
     | Some x \<Rightarrow>
         let minvoltage = (if switch_to_minimum_voltage_after_cable_check (config m)
                           then min_export_voltage_V (powersupply_capabilities m)
                           else of_int (dc_isolation_voltage_V (config m)));
             minvoltage = (if minvoltage < 60 then 60 else minvoltage)
         in case powersupply_DC_set minvoltage 2 m of
              None \<Rightarrow> None
            | Some (_, m) \<Rightarrow>
                let (below, m) = wait_powersupply_DC_below_voltage (minvoltage + 20) (falling env) m
                in Some (if \<not> below then (False, m) else judge_isolation x m))"

definition cable_check_thread :: "cable_check_env \<Rightarrow> EvseManager \<Rightarrow> EvseManager option" where
  "cable_check_thread env m =
    (let v = of_int (dc_isolation_voltage_V (config m));
         outcome =
           (if \<not> contactors_closed env then Some (False, m)
            else case powersupply_DC_set v 2 m of
                   None \<Rightarrow> None
                 | Some (False, m) \<Rightarrow> Some (False, m)
                 | Some (True, m) \<Rightarrow>
                     let m = imd_start (powersupply_DC_on m);
                         (reached, m) = wait_powersupply_DC_voltage_reached v (rising env) m
                     in if \<not> reached then Some (False, imd_stop (powersupply_DC_off m))
                        else check_isolation env m)
     in case outcome of
          None \<Rightarrow> None
        | Some (ok, m) \<Rightarrow>
            Some (mgr_emit (Hlc_cableCheck_Finished ok)
              (if hack_pause_imd_during_precharge (config m) then imd_stop m else m)))"

definition cable_check :: "cable_check_env \<Rightarrow> EvseManager \<Rightarrow> EvseManager option" where
  "cable_check env m =
    (if \<not> has_imd m
     then Some (emits [Hlc_cableCheck_Finished False, Hlc_set_EVSEIsolationStatus IS_No_IMD] m)
     else cable_check_thread env m)"

end
