(* ===== verification/Evse_Energy.thy ===== *)
theory Evse_Energy
  imports Evse_Manager
begin

text \<open>
  The energy interface of the EVSE manager (\<open>modules/EvseManager/energy_grid/energyImpl.cpp\<close>):
  the request it publishes every second and the limits it applies to the charger. The two
  powermeter subscriptions only store what they receive.
\<close>

section \<open>Requests\<close>

definition energy_grid_init :: "string \<Rightarrow> EvseManager \<Rightarrow> EvseManager" where
  "energy_grid_init info_id m = m\<lparr>evse_request := (evse_request m)\<lparr>uuid := info_id, node_type := NT_Evse\<rparr>\<rparr>"

definition on_powermeter_car_side :: "Powermeter \<Rightarrow> EvseManager \<Rightarrow> EvseManager" where
  "on_powermeter_car_side p m = m\<lparr>evse_request := (evse_request m)\<lparr>energy_usage_leaves := Some p\<rparr>\<rparr>"

definition on_powermeter_grid_side :: "Powermeter \<Rightarrow> EvseManager \<Rightarrow> EvseManager" where
  "on_powermeter_grid_side p m = m\<lparr>evse_request := (evse_request m)\<lparr>energy_usage_root := Some p\<rparr>\<rparr>"

text \<open>The start of the current hour, with leap seconds.\<close>

definition this_hour :: "time_lib \<Rightarrow> timepoint \<Rightarrow> string" where
  "this_hour K now = to_rfc3339 K (now div 3600000 * 3600000 + leap_elapsed K now)"

definition import_entry :: "string \<Rightarrow> EvseManager \<Rightarrow> ScheduleReqEntry" where
  "import_entry tp m =
    (let hw = hw_capabilities m
     in empty_req_entry\<lparr>timestamp := tp,
          limits_to_root := no_limits
            \<lparr>ac_max_phase_count := Some (max_phase_count_import hw),
             ac_min_phase_count := Some (min_phase_count_import hw),
             ac_max_current_A := Some (max_current_A_import hw),
             ac_min_current_A := Some (min_current_A_import hw),
             ac_supports_changing_phases_during_charging := Some (supports_changing_phases_during_charging hw)\<rparr>,
          conversion_efficiency := conversion_efficiency_export (powersupply_capabilities m)\<rparr>)"

definition export_entry :: "string \<Rightarrow> EvseManager \<Rightarrow> ScheduleReqEntry" where
  "export_entry tp m =
    (let hw = hw_capabilities m
     in empty_req_entry\<lparr>timestamp := tp,
          limits_to_root := no_limits
            \<lparr>ac_max_phase_count := Some (max_phase_count_export hw),
             ac_min_phase_count := Some (min_phase_count_export hw),
             ac_max_current_A := Some (max_current_A_export hw),
             ac_min_current_A := Some (min_current_A_export hw),
             ac_supports_changing_phases_during_charging := Some (supports_changing_phases_during_charging hw)\<rparr>,
          conversion_efficiency := conversion_efficiency_import (powersupply_capabilities m)\<rparr>)"

definition clear_import_request_schedule :: "string \<Rightarrow> EvseManager \<Rightarrow> EvseManager" where
  "clear_import_request_schedule tp m =
     m\<lparr>evse_request := (evse_request m)\<lparr>schedule_import := Some [import_entry tp m]\<rparr>\<rparr>"

definition clear_export_request_schedule :: "string \<Rightarrow> EvseManager \<Rightarrow> EvseManager" where
  "clear_export_request_schedule tp m =
     m\<lparr>evse_request := (evse_request m)\<lparr>schedule_export := Some [export_entry tp m]\<rparr>\<rparr>"

definition clear_request_schedules :: "string \<Rightarrow> EvseManager \<Rightarrow> EvseManager" where
  "clear_request_schedules tp m = clear_export_request_schedule tp (clear_import_request_schedule tp m)"

definition energy_needed :: "EvseState \<Rightarrow> bool" where
  "energy_needed s = (s = Charging \<or> s = PrepareCharging \<or> s = WaitingForEnergy \<or> s = WaitingForAuthentication)"

definition cap_import_entry :: "HardwareCapabilities \<Rightarrow> ScheduleReqEntry \<Rightarrow> ScheduleReqEntry" where
  "cap_import_entry hw e =
    (let l = limits_to_root e;
         l = (if ac_max_current_A l = None \<or> the (ac_max_current_A l) > max_current_A_import hw
              then l\<lparr>ac_max_current_A := Some (max_current_A_import hw)\<rparr> else l);
         l = (if ac_max_phase_count l = None \<or> the (ac_max_phase_count l) > max_phase_count_import hw
              then l\<lparr>ac_max_phase_count := Some (max_phase_count_import hw)\<rparr> else l)
     in e\<lparr>limits_to_root := l\<lparr>ac_min_phase_count := Some (min_phase_count_import hw),
            ac_min_current_A := Some (min_current_A_import hw),
            ac_supports_changing_phases_during_charging := Some (supports_changing_phases_during_charging hw)\<rparr>\<rparr>)"

definition cap_export_entry :: "HardwareCapabilities \<Rightarrow> ScheduleReqEntry \<Rightarrow> ScheduleReqEntry" where
  "cap_export_entry hw e =
    (let l = limits_to_root e;
         l = (if ac_max_current_A l = None \<or> the (ac_max_current_A l) > max_current_A_export hw
              then l\<lparr>ac_max_current_A := Some (max_current_A_export hw)\<rparr> else l);
         l = (if ac_max_phase_count l = None \<or> the (ac_max_phase_count l) > max_phase_count_export hw
              then l\<lparr>ac_max_phase_count := Some (max_phase_count_export hw)\<rparr> else l)
     in e\<lparr>limits_to_root := l\<lparr>ac_min_phase_count := Some (min_phase_count_export hw),
            ac_min_current_A := Some (min_current_A_export hw),
            ac_supports_changing_phases_during_charging := Some (supports_changing_phases_during_charging hw)\<rparr>\<rparr>)"

definition map_import :: "(ScheduleReqEntry \<Rightarrow> ScheduleReqEntry) \<Rightarrow> EvseManager \<Rightarrow> EvseManager" where
  "map_import f m = m\<lparr>evse_request := (evse_request m)
     \<lparr>schedule_import := map_option (map f) (schedule_import (evse_request m))\<rparr>\<rparr>"

definition map_export :: "(ScheduleReqEntry \<Rightarrow> ScheduleReqEntry) \<Rightarrow> EvseManager \<Rightarrow> EvseManager" where
  "map_export f m = m\<lparr>evse_request := (evse_request m)
     \<lparr>schedule_export := map_option (map f) (schedule_export (evse_request m))\<rparr>\<rparr>"

text \<open>Element 0 of a schedule that is there and not empty, as \<open>clear_request_schedules\<close> leaves it.\<close>

definition map_first :: "(ScheduleReqEntry \<Rightarrow> ScheduleReqEntry) \<Rightarrow> ScheduleReq option \<Rightarrow> ScheduleReq option" where
  "map_first f s = (case s of Some (e # es) \<Rightarrow> Some (f e # es) | _ \<Rightarrow> s)"

definition map_first_entries :: "(ScheduleReqEntry \<Rightarrow> ScheduleReqEntry) \<Rightarrow> EvseManager \<Rightarrow> EvseManager" where
  "map_first_entries f m = m\<lparr>evse_request := (evse_request m)
     \<lparr>schedule_import := map_first f (schedule_import (evse_request m)),
      schedule_export := map_first f (schedule_export (evse_request m))\<rparr>\<rparr>"

definition copy_local_import :: "string \<Rightarrow> EvseManager \<Rightarrow> EvseManager" where
  "copy_local_import tp m =
    (case ext_schedule_import (local_energy_limits m) of
       None \<Rightarrow> m
     | Some [] \<Rightarrow> clear_import_request_schedule tp m
     | Some s \<Rightarrow> m\<lparr>evse_request := (evse_request m)\<lparr>schedule_import := Some s\<rparr>\<rparr>)"

definition copy_local_export :: "string \<Rightarrow> EvseManager \<Rightarrow> EvseManager" where
  "copy_local_export tp m =
    (case ext_schedule_export (local_energy_limits m) of
       None \<Rightarrow> m
     | Some [] \<Rightarrow> clear_export_request_schedule tp m
     | Some s \<Rightarrow> m\<lparr>evse_request := (evse_request m)\<lparr>schedule_export := Some s\<rparr>\<rparr>)"

definition set_leaf_current :: "float_t option \<Rightarrow> ScheduleReqEntry \<Rightarrow> ScheduleReqEntry" where
  "set_leaf_current c e = e\<lparr>limits_to_leaves := (limits_to_leaves e)\<lparr>ac_max_current_A := c\<rparr>\<rparr>"

definition set_leaf_power :: "float_t option \<Rightarrow> ScheduleReqEntry \<Rightarrow> ScheduleReqEntry" where
  "set_leaf_power p e = e\<lparr>limits_to_leaves := (limits_to_leaves e)\<lparr>total_power_W := p\<rparr>\<rparr>"

text \<open>One pass of the loop that publishes the request.\<close>

definition is_DC :: "EvseManager \<Rightarrow> bool" where
  "is_DC m = (conf_charge_mode (config m) = ''DC'')"

definition energy_loop :: "time_lib \<Rightarrow> timepoint \<Rightarrow> EvseManager \<Rightarrow> EvseManager" where
  "energy_loop K now m =
    (let s = getCurrentState (mcharger m);
         tp = this_hour K now;
         hw = hw_capabilities m;
         m = map_first_entries (\<lambda>e. e\<lparr>timestamp := tp\<rparr>) m;
         m = (if energy_needed s then
                (let m = map_import (cap_import_entry hw) (copy_local_import tp m);
                     m = map_export (cap_export_entry hw) (copy_local_export tp m)
                 in if is_DC m then map_export (set_leaf_current None) (map_import (set_leaf_current None) m) else m)
              else
                (let m = clear_request_schedules tp m
                 in if is_DC m then map_first_entries (set_leaf_power (Some 0)) m
                    else map_first_entries (set_leaf_current (Some 0)) m))
     in mgr_emit (Publish_energy_request (evse_request m)) m)"

definition energy_grid_ready :: "time_lib \<Rightarrow> timepoint \<Rightarrow> EvseManager \<Rightarrow> EvseManager" where
  "energy_grid_ready K now m = clear_request_schedules (this_hour K now) m"

section \<open>Enforced limits\<close>

text \<open>The current for the charger, and the switch of the number of phases on the way to it.\<close>

definition enforced_phases :: "LimitsRes \<Rightarrow> EvseManager \<Rightarrow> int \<times> EvseManager" where
  "enforced_phases l m =
    (let phasecount = (if local_three_phases m then 3 else 1)
     in case ac_max_phase_count l of
          Some n \<Rightarrow>
            (if n < phasecount \<and> supports_changing_phases_during_charging (hw_capabilities m)
             then (n, with_charger (\<lambda>c. snd (switchThreePhasesWhileCharging (n = 3) c)) m)
             else (phasecount, m))
        | None \<Rightarrow> (phasecount, m))"

text \<open>
  A power divided by zero volts or phases is infinite or not a number, which is not below the
  limit (a negative power with zero phases, which is below it, does not occur: phase counts of
  a request are positive).
\<close>

definition enforced_limit :: "LimitsRes \<Rightarrow> int \<Rightarrow> EvseManager \<Rightarrow> float_t" where
  "enforced_limit l phasecount m =
    (let limit = value_or 0 (ac_max_current_A l)
     in case total_power_W l of
          None \<Rightarrow> limit
        | Some p \<Rightarrow>
            let a = p / ac_nominal_voltage (config m) / of_int phasecount
            in if ac_nominal_voltage (config m) \<noteq> 0 \<and> phasecount \<noteq> 0 \<and> a < limit then a else limit)"

definition apply_limit :: "time_lib \<Rightarrow> clock \<Rightarrow> string \<Rightarrow> float_t \<Rightarrow> EvseManager \<Rightarrow> EvseManager" where
  "apply_limit K k until limit m =
    (let valid = from_rfc3339 K until;
         m = (if limit \<ge> 0 then with_charger (\<lambda>c. snd (setMaxCurrent_until k limit valid c)) m
              else with_charger (\<lambda>c. snd (setMaxCurrent_until k (- limit) valid c)) m)
     in if limit > 1 / 100000 \<or> limit < - 1 / 100000
        then with_charger (\<lambda>c. snd (resumeChargingPowerAvailable k c)) m else m)"

definition dc_current_limit :: "float_t \<Rightarrow> float_t \<Rightarrow> ps_capabilities \<Rightarrow> float_t" where
  "dc_current_limit watt target_voltage caps =
    (let i = (if target_voltage > 10 then watt / target_voltage else max_export_current_A caps);
         i = (if i > max_export_current_A caps then max_export_current_A caps else i)
     in case max_import_current_A caps of
          None \<Rightarrow> i | Some n \<Rightarrow> if i < - n then - n else i)"

definition dc_power_limit :: "float_t \<Rightarrow> ps_capabilities \<Rightarrow> float_t" where
  "dc_power_limit watt caps =
    (let p = (if watt > max_export_power_W caps then max_export_power_W caps else watt)
     in case max_import_power_W caps of
          None \<Rightarrow> p | Some n \<Rightarrow> if p < - n then - n else p)"

text \<open>
  The sign of the limits is dropped for the HLC. The flag is assigned for the power and then
  again for the current: the second assignment wins.
\<close>

definition dc_signed_limits :: "float_t \<Rightarrow> float_t \<Rightarrow> EvseManager \<Rightarrow> float_t \<times> float_t \<times> EvseManager" where
  "dc_signed_limits p i m =
    (if p < 0 \<or> i < 0 then
       (if hack_allow_bpt_with_iso2 (config m) then
          (let m = m\<lparr>is_actually_exporting_to_grid := p < 0\<rparr>;
               m = m\<lparr>is_actually_exporting_to_grid := i < 0\<rparr>
           in (\<bar>p\<bar>, \<bar>i\<bar>, m))
        else (0, 0, m))
     else (p, i, m\<lparr>is_actually_exporting_to_grid := False\<rparr>))"

definition apply_dc_limits :: "LimitsRes \<Rightarrow> float_t \<Rightarrow> EvseManager \<Rightarrow> EvseManager" where
  "apply_dc_limits l watt m =
    (let target_voltage = latest_target_voltage m;
         caps = powersupply_capabilities m
     in if total_power_W (last_enforced_limits m) \<noteq> Some watt
           \<or> ac_max_current_A (last_enforced_limits m) \<noteq> ac_max_current_A l
           \<or> target_voltage \<noteq> last_target_voltage m
        then
          (let m = m\<lparr>last_enforced_limits := l, last_target_voltage := target_voltage\<rparr>;
               (p, i, m) = dc_signed_limits (dc_power_limit watt caps)
                             (dc_current_limit watt target_voltage caps) m;
               lims = \<lparr>EVSEMaximumCurrentLimit = i, EVSEMaximumPowerLimit = p,
                       EVSEMaximumVoltageLimit = max_export_voltage_V caps\<rparr>
           in with_charger (inform_new_evse_max_hlc_limits lims)
                (mgr_emit (Hlc_set_DC_EVSEMaximumLimits lims) m))
        else m)"

text \<open>
  The second component is the exception that \<open>ac_max_current_A.value()\<close> throws in DC mode when
  the limits have a power but no current.
\<close>

definition evse_handle_enforce_limits ::
    "time_lib \<Rightarrow> clock \<Rightarrow> EnforcedLimits \<Rightarrow> EvseManager \<Rightarrow> EvseManager \<times> energy_error option" where
  "evse_handle_enforce_limits K k v m =
    (if enforced_uuid v \<noteq> uuid (evse_request m) then (m, None)
     else
       let m = mgr_emit (Publish_limits_enforced v) m;
           m = (case limits_root_side v of
                  None \<Rightarrow> apply_limit K k (valid_until v) 0 m
                | Some l \<Rightarrow>
                    let (phasecount, m) = enforced_phases l m
                    in apply_limit K k (valid_until v) (enforced_limit l phasecount m) m)
       in case limits_root_side v of
            None \<Rightarrow> (m, None)
          | Some l \<Rightarrow>
              (if \<not> is_DC m then (m, None)
               else case total_power_W l of
                      None \<Rightarrow> (m, None)
                    | Some watt \<Rightarrow>
                        (if ac_max_current_A l = None then (m, Some Bad_optional_access)
                         else (apply_dc_limits l watt m, None))))"

end
