(* ===== verification/Evse_Properties.thy ===== *)
theory Evse_Properties
  imports Evse_Energy Charger_Invariants Energy_Node
begin

text \<open>
  Properties of the EVSE manager: what it commands the DC power supply to do, when a cable
  check is reported as passed, what stands behind an authorization it hands to the HLC, and
  how enforced limits reach the charger.
\<close>

section \<open>Frame rules\<close>

named_theorems mgr_frame \<open>what the small operations leave alone\<close>

lemma mgr_emit_frame [simp]:
  "config (mgr_emit e m) = config m" "mcharger (mgr_emit e m) = mcharger m"
  "has_imd (mgr_emit e m) = has_imd m" "has_hlc (mgr_emit e m) = has_hlc m"
  "powersupply_capabilities (mgr_emit e m) = powersupply_capabilities m"
  "hw_capabilities (mgr_emit e m) = hw_capabilities m"
  "contactor_open (mgr_emit e m) = contactor_open m"
  "evse_reserved (mgr_emit e m) = evse_reserved m"
  "hlc_waiting_for_auth_eim (mgr_emit e m) = hlc_waiting_for_auth_eim m"
  "hlc_waiting_for_auth_pnc (mgr_emit e m) = hlc_waiting_for_auth_pnc m"
  "session_uuid (mgr_emit e m) = session_uuid m"
  "evse_request (mgr_emit e m) = evse_request m"
  "mgr_out (mgr_emit e m) = mgr_out m @ [e]"
  by (simp_all add: mgr_emit_def)

text \<open>
  The operations on the supply and the isolation monitor only touch their own state and
  append commands of a known kind.
\<close>

definition supply_frame :: "EvseManager \<Rightarrow> EvseManager \<Rightarrow> bool" where
  "supply_frame m m' =
    (config m' = config m \<and> mcharger m' = mcharger m \<and> has_imd m' = has_imd m
     \<and> powersupply_capabilities m' = powersupply_capabilities m
     \<and> is_actually_exporting_to_grid m' = is_actually_exporting_to_grid m)"

lemma supply_frame_refl [simp]: "supply_frame m m"
  by (simp add: supply_frame_def)

lemma supply_frame_trans: "supply_frame a b \<Longrightarrow> supply_frame b c \<Longrightarrow> supply_frame a c"
  by (simp add: supply_frame_def)

lemma supply_frame_ops [simp]:
  "supply_frame m (imd_stop m)" "supply_frame m (imd_start m)" "supply_frame m (powersupply_DC_on m)"
  "supply_frame m (powersupply_DC_off m)" "supply_frame m (mgr_emit e m)"
  by (simp_all add: supply_frame_def imd_stop_def imd_start_def powersupply_DC_on_def
      powersupply_DC_off_def mgr_emit_def)

section \<open>Commands to the DC supply\<close>

text \<open>A voltage and current that the supply can deliver to the car.\<close>

definition export_command_ok :: "ps_capabilities \<Rightarrow> mgr_effect \<Rightarrow> bool" where
  "export_command_ok caps e =
    (case e of
       Ps_setExportVoltageCurrent v i \<Rightarrow>
         min_export_voltage_V caps \<le> v \<and> v \<le> max_export_voltage_V caps
         \<and> i \<le> max_export_current_A caps \<and> v * i \<le> max_export_power_W caps
     | _ \<Rightarrow> True)"

text \<open>Capabilities that make sense: a positive lowest voltage and an ordered range of currents.\<close>

definition caps_ok :: "ps_capabilities \<Rightarrow> bool" where
  "caps_ok caps = (0 < min_export_voltage_V caps \<and> min_export_current_A caps \<le> max_export_current_A caps)"

definition appends :: "(mgr_effect \<Rightarrow> bool) \<Rightarrow> EvseManager \<Rightarrow> EvseManager \<Rightarrow> bool" where
  "appends P m m' = (\<exists>es. mgr_out m' = mgr_out m @ es \<and> list_all P es)"

lemma appends_refl [simp]: "appends P m m"
  by (simp add: appends_def)

lemma appends_trans: "appends P a b \<Longrightarrow> appends P b c \<Longrightarrow> appends P a c"
  unfolding appends_def by (metis append.assoc list_all_append)

lemma appends_emit [simp]: "appends P m (mgr_emit e m) = P e"
  by (auto simp: appends_def)

lemma appends_ops:
  "P Imd_stop \<Longrightarrow> appends P m (imd_stop m)"
  "P Imd_start \<Longrightarrow> appends P m (imd_start m)"
  "P (Ps_setMode PS_Export) \<Longrightarrow> appends P m (powersupply_DC_on m)"
  "P (Ps_setMode PS_Off) \<Longrightarrow> appends P m (powersupply_DC_off m)"
  by (auto simp: appends_def imd_stop_def imd_start_def powersupply_DC_on_def powersupply_DC_off_def)

lemma limited_current:
  assumes "caps_ok caps" "min_export_voltage_V caps \<le> v"
    and "i = limit_power (Some (max_export_power_W caps)) v (limit_below (Some (min_export_current_A caps))
               (limit_above (Some (max_export_current_A caps)) i0))"
  shows "i \<le> max_export_current_A caps \<and> v * i \<le> max_export_power_W caps"
proof -
  let ?j = "limit_below (Some (min_export_current_A caps)) (limit_above (Some (max_export_current_A caps)) i0)"
  have v: "0 < v" using assms(1,2) by (simp add: caps_ok_def)
  have j: "?j \<le> max_export_current_A caps"
    using assms(1) by (auto simp: limit_below_def limit_above_def caps_ok_def)
  have "max_export_power_W caps / v \<le> ?j" if "v * ?j > max_export_power_W caps"
    using that v by (simp add: divide_le_eq mult.commute less_imp_le)
  then show ?thesis
    using assms(3) j v by (auto simp: limit_power_def)
qed

lemma powersupply_DC_set_commands:
  assumes "powersupply_DC_set v i m = Some (r, m')" "caps_ok (powersupply_capabilities m)"
    and "\<And>mo. P (Ps_setMode mo)" "\<And>v i. P (Ps_setImportVoltageCurrent v i)"
    and "\<And>v i. export_command_ok (powersupply_capabilities m) (Ps_setExportVoltageCurrent v i)
           \<Longrightarrow> P (Ps_setExportVoltageCurrent v i)"
  shows "appends P m m' \<and> supply_frame m m'"
  using assms(1,3,4) limited_current[OF assms(2), of v _ i]
  by (auto simp: powersupply_DC_set_def Let_def appends_def supply_frame_def mgr_emit_def export_command_ok_def
      intro!: assms(5) split: if_splits option.splits)

lemma wait_commands:
  assumes "wait_powersupply_DC reached vs m = (r, m')" "P (Ps_setMode PS_Off)"
  shows "appends P m m' \<and> supply_frame m m' \<and> (r \<longrightarrow> (\<exists>v. Some v \<in> set vs \<and> reached v))"
  using assms
  by (induction reached vs m rule: wait_powersupply_DC.induct)
     (auto simp: appends_ops split: if_splits)

text \<open>The commands a cable check may give, apart from the report of its result.\<close>

definition check_command :: "ps_capabilities \<Rightarrow> mgr_effect \<Rightarrow> bool" where
  "check_command caps e =
    (case e of
       Ps_setMode mo \<Rightarrow> True | Ps_setImportVoltageCurrent v i \<Rightarrow> True | Imd_start \<Rightarrow> True | Imd_stop \<Rightarrow> True
     | Hlc_set_EVSEIsolationStatus s \<Rightarrow> True
     | Ps_setExportVoltageCurrent v i \<Rightarrow> export_command_ok caps e
     | _ \<Rightarrow> False)"

lemma check_command_simps [simp]:
  "check_command caps (Ps_setMode mo)" "check_command caps (Ps_setImportVoltageCurrent v i)"
  "check_command caps Imd_start" "check_command caps Imd_stop"
  "check_command caps (Hlc_set_EVSEIsolationStatus s)"
  "export_command_ok caps (Ps_setExportVoltageCurrent v i) \<Longrightarrow> check_command caps (Ps_setExportVoltageCurrent v i)"
  "\<not> check_command caps (Hlc_cableCheck_Finished ok)"
  by (simp_all add: check_command_def)

lemma judge_isolation_sound:
  assumes "judge_isolation x m = (ok, m')"
  shows "appends (check_command caps) m m' \<and> supply_frame m m'
    \<and> (ok \<longrightarrow> 100 * max_export_voltage_V (powersupply_capabilities m) \<le> resistance_N_Ohm x
            \<and> 100 * max_export_voltage_V (powersupply_capabilities m) \<le> resistance_P_Ohm x)"
  using assms
  by (auto simp: judge_isolation_def Let_def intro: appends_trans[OF _ appends_ops(1)]
      supply_frame_trans[OF supply_frame_ops(5) supply_frame_ops(1)] split: if_splits)

definition isolation_voltage :: "EvseManager \<Rightarrow> float_t" where
  "isolation_voltage m = of_int (dc_isolation_voltage_V (config m))"

definition minimum_voltage :: "EvseManager \<Rightarrow> float_t" where
  "minimum_voltage m = max 60 (if switch_to_minimum_voltage_after_cable_check (config m)
     then min_export_voltage_V (powersupply_capabilities m) else isolation_voltage m)"

text \<open>What has been observed when the check of the isolation passes.\<close>

definition isolation_passed :: "cable_check_env \<Rightarrow> EvseManager \<Rightarrow> bool" where
  "isolation_passed env m =
    ((\<exists>x. isolation env = Some x
        \<and> 100 * max_export_voltage_V (powersupply_capabilities m) \<le> resistance_N_Ohm x
        \<and> 100 * max_export_voltage_V (powersupply_capabilities m) \<le> resistance_P_Ohm x)
     \<and> (\<exists>v. Some v \<in> set (falling env) \<and> v < minimum_voltage m + 20))"

lemma isolation_passed_frame: "supply_frame m m' \<Longrightarrow> isolation_passed env m' = isolation_passed env m"
  by (simp add: isolation_passed_def minimum_voltage_def isolation_voltage_def supply_frame_def)

lemma check_isolation_sound:
  assumes "check_isolation env m = Some (ok, m')" "caps_ok (powersupply_capabilities m)"
    and caps: "caps = powersupply_capabilities m"
  shows "appends (check_command caps) m m' \<and> supply_frame m m' \<and> (ok \<longrightarrow> isolation_passed env m)"
proof (cases "isolation env")
  case None
  then show ?thesis using assms by (auto simp: check_isolation_def intro: appends_ops)
next
  case (Some x)
  have mv: "(if (if switch_to_minimum_voltage_after_cable_check (config m)
        then min_export_voltage_V (powersupply_capabilities m) else of_int (dc_isolation_voltage_V (config m))) < 60
      then 60 else (if switch_to_minimum_voltage_after_cable_check (config m)
        then min_export_voltage_V (powersupply_capabilities m) else of_int (dc_isolation_voltage_V (config m))))
      = minimum_voltage m"
    by (simp add: minimum_voltage_def isolation_voltage_def max_def not_less)
  obtain r m1 where s: "powersupply_DC_set (minimum_voltage m) 2 m = Some (r, m1)"
    using assms(1) Some unfolding check_isolation_def Let_def mv by (auto split: option.splits)
  obtain below m2 where w: "wait_powersupply_DC_below_voltage (minimum_voltage m + 20) (falling env) m1 = (below, m2)"
    by fastforce
  have res: "(ok, m') = (if \<not> below then (False, m2) else judge_isolation x m2)"
    using assms(1) Some s w unfolding check_isolation_def Let_def mv by auto
  have f1: "appends (check_command caps) m m1" "supply_frame m m1"
    using powersupply_DC_set_commands[OF s assms(2), of "check_command caps"] caps by auto
  have f2: "appends (check_command caps) m1 m2" "supply_frame m1 m2"
      "below \<longrightarrow> (\<exists>v. Some v \<in> set (falling env) \<and> v < minimum_voltage m + 20)"
    using wait_commands[OF w[unfolded wait_powersupply_DC_below_voltage_def], of "check_command caps"] by auto
  note f12 = appends_trans[OF f1(1) f2(1)] supply_frame_trans[OF f1(2) f2(2)]
  show ?thesis
  proof (cases below)
    case False
    then show ?thesis using res f12 by simp
  next
    case True
    then have j: "judge_isolation x m2 = (ok, m')" using res by simp
    have caps2: "powersupply_capabilities m2 = powersupply_capabilities m"
      using f12(2) by (simp add: supply_frame_def)
    show ?thesis
      using judge_isolation_sound[OF j, of caps] f12 f2(3) True Some caps2
      by (auto simp: isolation_passed_def intro: appends_trans supply_frame_trans)
  qed
qed

text \<open>From the test voltage on: the supply is set, switched on and watched, then the isolation is measured.\<close>

lemma voltage_test_sound:
  assumes set: "powersupply_DC_set (isolation_voltage m) 2 m = Some (True, m2)"
    and rise: "wait_powersupply_DC_voltage_reached (isolation_voltage m) (rising env) (imd_start (powersupply_DC_on m2)) = (reached, m4)"
    and result: "(if \<not> reached then Some (False, imd_stop (powersupply_DC_off m4)) else check_isolation env m4) = Some (ok, m1)"
    and caps: "caps_ok (powersupply_capabilities m)"
  shows "appends (check_command (powersupply_capabilities m)) m m1
    \<and> (ok \<longrightarrow> isolation_passed env m \<and> (\<exists>v. Some v \<in> set (rising env) \<and> \<bar>v - isolation_voltage m\<bar> < 10))"
proof -
  let ?P = "check_command (powersupply_capabilities m)" and ?m3 = "imd_start (powersupply_DC_on m2)"
  have f2: "appends ?P m m2" "supply_frame m m2"
    using powersupply_DC_set_commands[OF set caps, of ?P] by auto
  have "appends ?P m ?m3"
    by (rule appends_trans[OF f2(1) appends_trans[OF appends_ops(3) appends_ops(2)]]) simp_all
  moreover have "supply_frame m ?m3"
    by (rule supply_frame_trans[OF f2(2) supply_frame_trans[OF supply_frame_ops(3) supply_frame_ops(2)]])
  ultimately have f4: "appends ?P m m4" "supply_frame m m4"
      "reached \<longrightarrow> (\<exists>v. Some v \<in> set (rising env) \<and> \<bar>v - isolation_voltage m\<bar> < 10)"
    using wait_commands[OF rise[unfolded wait_powersupply_DC_voltage_reached_def], of ?P]
    by (auto intro: appends_trans supply_frame_trans)
  show ?thesis
  proof (cases reached)
    case False
    have "appends ?P m (imd_stop (powersupply_DC_off m4))"
      by (rule appends_trans[OF f4(1) appends_trans[OF appends_ops(4) appends_ops(1)]]) simp_all
    then show ?thesis using result False by simp
  next
    case True
    have "powersupply_capabilities m4 = powersupply_capabilities m" using f4(2) by (simp add: supply_frame_def)
    then have i: "appends ?P m4 m1 \<and> supply_frame m4 m1 \<and> (ok \<longrightarrow> isolation_passed env m4)"
      using result True caps by (intro check_isolation_sound) simp_all
    have "appends ?P m m1" using i by (intro appends_trans[OF f4(1)]) simp
    then show ?thesis using i f4(3) True isolation_passed_frame[OF f4(2)] by simp
  qed
qed


section \<open>Target values of the car\<close>


section \<open>Authorization of the HLC\<close>

lemma Authorize_sets [simp]:
  "authorized (Authorize True t p c)" "authorized_pnc (Authorize True t p c) = p"
  by (simp_all add: Authorize_def Let_def)

definition backed :: "charger \<Rightarrow> mgr_effect \<Rightarrow> bool" where
  "backed c e =
    (case e of
       Hlc_set_Auth_Okay_EIM ok \<Rightarrow> ok \<longrightarrow> authorized c \<and> \<not> authorized_pnc c
     | Hlc_set_Auth_Okay_PnC s cs \<Rightarrow> s = AS_Accepted \<longrightarrow> authorized c \<and> authorized_pnc c
     | _ \<Rightarrow> True)"

lemma charger_was_authorized_backed:
  "appends (backed (mcharger m)) m (charger_was_authorized m) \<and> mcharger (charger_was_authorized m) = mcharger m
   \<and> has_hlc (charger_was_authorized m) = has_hlc m"
  by (auto simp: charger_was_authorized_def Let_def appends_def backed_def Authorized_PnC_def Authorized_EIM_def
      mgr_emit_def)

lemma with_charger_simps [simp]:
  "mcharger (with_charger f m) = f (mcharger m)" "mgr_out (with_charger f m) = mgr_out m"
  "has_hlc (with_charger f m) = has_hlc m" "config (with_charger f m) = config m"
  "hlc_waiting_for_auth_pnc (with_charger f m) = hlc_waiting_for_auth_pnc m"
  "hw_capabilities (with_charger f m) = hw_capabilities m"
  "evse_request (with_charger f m) = evse_request m"
  "powersupply_capabilities (with_charger f m) = powersupply_capabilities m"
  by (simp_all add: with_charger_def)

text \<open>
  Every acceptance that the manager sends to the HLC, on a request of the HLC or on the
  answer of the authorization module, is backed by the charger: it is authorized then, by
  external means for the EIM answer and by plug and charge for the PnC answer.
\<close>

theorem hlc_acceptance_backed_by_charger:
  "appends (backed (mcharger m)) m (on_Require_Auth_EIM m)
   \<and> mcharger (on_Require_Auth_EIM m) = mcharger m
   \<and> (case handle_authorize_response tok vr cert m of
        None \<Rightarrow> token_type tok = TT_PlugAndCharge \<and> \<not> has_hlc m
      | Some m' \<Rightarrow> appends (backed (mcharger m')) m m')"
proof -
  let ?m1 = "charger_was_authorized (with_charger (Authorize True (id_token tok) (token_type tok = TT_PlugAndCharge)) m)"
  note w = charger_was_authorized_backed[of "with_charger (Authorize True (id_token tok) (token_type tok = TT_PlugAndCharge)) m"]
  have a: "appends (backed (mcharger ?m1)) m ?m1"
    using w by (simp add: appends_def)
  have pnc: "appends (backed (mcharger ?m1)) m (mgr_emit (Hlc_set_Auth_Okay_PnC s cs) ?m1)"
    if "token_type tok = TT_PlugAndCharge" for s cs
    by (rule appends_trans[OF a]) (use that w in \<open>simp add: backed_def\<close>)
  have no_acc: "appends (backed (mcharger m)) m (mgr_emit (Hlc_set_Auth_Okay_PnC s cs) m)" if "s \<noteq> AS_Accepted" for s cs
    using that by (simp add: backed_def)
  have "appends (backed (mcharger m)) m (on_Require_Auth_EIM m) \<and> mcharger (on_Require_Auth_EIM m) = mcharger m"
    by (auto simp: on_Require_Auth_EIM_def Let_def appends_def backed_def Authorized_EIM_def
        Authorized_EIM_ready_for_HLC_def mgr_emit_def)
  moreover have "case handle_authorize_response tok vr cert m of
        None \<Rightarrow> token_type tok = TT_PlugAndCharge \<and> \<not> has_hlc m
      | Some m' \<Rightarrow> appends (backed (mcharger m')) m m'"
  proof (cases "token_type tok = TT_PlugAndCharge")
    case True
    note p = pnc[OF True, unfolded True]
    show ?thesis
      using p no_acc w True
      by (cases "authorization_status vr = AS_Accepted"; cases "has_hlc m")
         (simp_all add: handle_authorize_response_def Let_def)
  next
    case False
    then show ?thesis
      using a by (simp add: handle_authorize_response_def Let_def)
  qed
  ultimately show ?thesis by blast
qed

section \<open>The published energy request\<close>

lemma cap_import_root:
  "\<exists>c k. ac_max_current_A (limits_to_root (cap_import_entry hw e)) = Some c \<and> c \<le> max_current_A_import hw
     \<and> ac_max_phase_count (limits_to_root (cap_import_entry hw e)) = Some k \<and> k \<le> max_phase_count_import hw
     \<and> limits_to_leaves (cap_import_entry hw e) = limits_to_leaves e"
  by (auto simp: cap_import_entry_def Let_def)

definition import_entry_ok :: "HardwareCapabilities \<Rightarrow> ScheduleReqEntry \<Rightarrow> bool" where
  "import_entry_ok hw e = (\<exists>c k. ac_max_current_A (limits_to_root e) = Some c \<and> c \<le> max_current_A_import hw
     \<and> ac_max_phase_count (limits_to_root e) = Some k \<and> k \<le> max_phase_count_import hw)"

lemma import_entry_ok_cases:
  "import_entry_ok hw (cap_import_entry hw e)"
  "import_entry_ok (hw_capabilities m) (import_entry tp m)"
  "import_entry_ok hw (set_leaf_current c e) = import_entry_ok hw e"
  "import_entry_ok hw (set_leaf_power p e) = import_entry_ok hw e"
  using cap_import_root[of hw e]
  by (auto simp: import_entry_ok_def import_entry_def set_leaf_current_def set_leaf_power_def Let_def)

text \<open>How the steps of the loop change the request.\<close>

lemma request_steps [simp]:
  "schedule_import (evse_request (map_import f m)) = map_option (map f) (schedule_import (evse_request m))"
  "schedule_import (evse_request (map_export f m)) = schedule_import (evse_request m)"
  "schedule_import (evse_request (copy_local_export tp m)) = schedule_import (evse_request m)"
  "schedule_import (evse_request (map_first_entries f m)) = map_first f (schedule_import (evse_request m))"
  "schedule_import (evse_request (clear_request_schedules tp m)) = Some [import_entry tp m]"
  by (simp_all add: map_import_def map_export_def copy_local_export_def clear_export_request_schedule_def
      map_first_entries_def clear_request_schedules_def clear_import_request_schedule_def
      split: option.split list.split)

definition request_frame :: "EvseManager \<Rightarrow> EvseManager \<Rightarrow> bool" where
  "request_frame m m' = (is_DC m' = is_DC m \<and> mgr_out m' = mgr_out m \<and> hw_capabilities m' = hw_capabilities m
     \<and> powersupply_capabilities m' = powersupply_capabilities m)"

lemma request_frame_steps:
  "request_frame m (map_import f m)" "request_frame m (map_export f m)" "request_frame m (map_first_entries f m)"
  "request_frame m (copy_local_import tp m)" "request_frame m (copy_local_export tp m)"
  "request_frame m (clear_request_schedules tp m)"
  by (simp_all add: request_frame_def is_DC_def map_import_def map_export_def map_first_entries_def copy_local_import_def
      copy_local_export_def clear_request_schedules_def clear_import_request_schedule_def
      clear_export_request_schedule_def split: option.split list.split)

lemmas request_frame_simps [simp] = request_frame_steps[unfolded request_frame_def, THEN conjunct1]
  request_frame_steps[unfolded request_frame_def, THEN conjunct2, THEN conjunct1]
  request_frame_steps[unfolded request_frame_def, THEN conjunct2, THEN conjunct2, THEN conjunct1]
  request_frame_steps[unfolded request_frame_def, THEN conjunct2, THEN conjunct2, THEN conjunct2]

lemma import_entry_frame [simp]: "import_entry tp (map_first_entries f m) = import_entry tp m"
  by (simp add: import_entry_def Let_def)

text \<open>
  The request published in each pass has, in every entry of its import schedule, a current
  and a number of phases within the hardware capabilities on the root side. While the charger
  needs no energy, the request is a single entry that asks for nothing: no current in AC mode,
  no power in DC mode.
\<close>

theorem published_request_within_hardware:
  assumes "schedule_import (evse_request (energy_loop K now m)) = Some s"
  shows "mgr_out (energy_loop K now m) = mgr_out m @ [Publish_energy_request (evse_request (energy_loop K now m))]
    \<and> (\<forall>e\<in>set s. import_entry_ok (hw_capabilities m) e)
    \<and> (\<not> energy_needed (currentState (mcharger m)) \<longrightarrow>
         (\<exists>e. s = [e] \<and> (if is_DC m then total_power_W (limits_to_leaves e) = Some 0
                         else ac_max_current_A (limits_to_leaves e) = Some 0)))"
proof -
  have out: "mgr_out (energy_loop K now m) = mgr_out m @ [Publish_energy_request (evse_request (energy_loop K now m))]"
    by (simp add: energy_loop_def Let_def)
  show ?thesis
  proof (cases "energy_needed (currentState (mcharger m))")
    case True
    define m1 where "m1 = copy_local_import (this_hour K now)
      (map_first_entries (\<lambda>e. e\<lparr>timestamp := this_hour K now\<rparr>) m)"
    have "\<exists>f. schedule_import (evse_request (energy_loop K now m))
        = map_option (map (\<lambda>e. f (cap_import_entry (hw_capabilities m) e))) (schedule_import (evse_request m1))
        \<and> (f = id \<or> f = set_leaf_current None)"
      by (cases "is_DC m")
         (use True in \<open>auto simp: energy_loop_def Let_def getCurrentState_def m1_def option.map_comp comp_def id_def
            intro: exI[of _ "\<lambda>x. x"] exI[of _ "set_leaf_current None"]\<close>)
    then obtain f where f: "schedule_import (evse_request (energy_loop K now m))
        = map_option (map (\<lambda>e. f (cap_import_entry (hw_capabilities m) e))) (schedule_import (evse_request m1))"
        "f = id \<or> f = set_leaf_current None" by blast
    then obtain s0 where "s = map (\<lambda>e. f (cap_import_entry (hw_capabilities m) e)) s0"
      using assms by (cases "schedule_import (evse_request m1)") simp_all
    then have "\<forall>e\<in>set s. import_entry_ok (hw_capabilities m) e"
      using f(2) by (auto simp: import_entry_ok_cases)
    then show ?thesis using out True by blast
  next
    case False
    have "s = [(if is_DC m then set_leaf_power (Some 0) else set_leaf_current (Some 0)) (import_entry (this_hour K now) m)]"
      using assms False by (cases "is_DC m") (simp_all add: energy_loop_def Let_def getCurrentState_def map_first_def)
    then show ?thesis
      using out by (auto simp: import_entry_ok_cases) (auto simp: set_leaf_power_def set_leaf_current_def)
  qed
qed

section \<open>Enforced limits\<close>

lemma setMaxCurrent_valid:
  assumes "0 \<le> v" "v \<le> CHARGER_ABSOLUTE_MAX_CURRENT" "utc_now k < until"
  shows "maxCurrent (snd (setMaxCurrent_until k v until c)) = clip_to_cable v c"
    "maxCurrentValidUntil (snd (setMaxCurrent_until k v until c)) = until"
  using assms by (simp_all add: setMaxCurrent_until_def Let_def emit_def)

lemma resume_keeps_valid_current:
  assumes "utc_now k < maxCurrentValidUntil c"
  shows "maxCurrent (snd (resumeChargingPowerAvailable k c)) = maxCurrent c"
    "maxCurrentValidUntil (snd (resumeChargingPowerAvailable k c)) = maxCurrentValidUntil c"
  using assms by (simp_all add: resumeChargingPowerAvailable_def powerAvailable_def Let_def)

lemma apply_limit_current:
  assumes "\<bar>limit\<bar> \<le> CHARGER_ABSOLUTE_MAX_CURRENT" "utc_now k < from_rfc3339 K until"
  shows "maxCurrent (mcharger (apply_limit K k until limit m)) = clip_to_cable \<bar>limit\<bar> (mcharger m)"
    "maxCurrentValidUntil (mcharger (apply_limit K k until limit m)) = from_rfc3339 K until"
  using assms
  by (simp_all add: apply_limit_def Let_def setMaxCurrent_valid resume_keeps_valid_current)

lemma enforced_phases_frame:
  "clip_to_cable v (mcharger (snd (enforced_phases l m))) = clip_to_cable v (mcharger m)"
  "config (snd (enforced_phases l m)) = config m"
  by (simp_all add: enforced_phases_def Let_def switchThreePhasesWhileCharging_def clip_to_cable_def emit_def
      split: option.split)

lemma apply_dc_limits_current:
  "maxCurrent (mcharger (apply_dc_limits l w m)) = maxCurrent (mcharger m)"
  "maxCurrentValidUntil (mcharger (apply_dc_limits l w m)) = maxCurrentValidUntil (mcharger m)"
  by (simp_all add: apply_dc_limits_def dc_signed_limits_def Let_def inform_new_evse_max_hlc_limits_def mgr_emit_def
      with_charger_def)

lemma enforce_sets_current:
  assumes "enforced_uuid v = uuid (evse_request m)" "limits_root_side v = Some l"
    and "utc_now k < from_rfc3339 K (valid_until v)"
    and "limit = enforced_limit l (fst (enforced_phases l m)) m" "\<bar>limit\<bar> \<le> CHARGER_ABSOLUTE_MAX_CURRENT"
    and "m' = fst (evse_handle_enforce_limits K k v m)"
  shows "maxCurrent (mcharger m') = clip_to_cable \<bar>limit\<bar> (mcharger m)"
    "maxCurrentValidUntil (mcharger m') = from_rfc3339 K (valid_until v)"
proof -
  let ?m0 = "mgr_emit (Publish_limits_enforced v) m"
  define pm where "pm = enforced_phases l ?m0"
  define m1 where "m1 = apply_limit K k (valid_until v) (enforced_limit l (fst pm) (snd pm)) (snd pm)"
  have ph: "fst pm = fst (enforced_phases l m)"
    by (simp add: pm_def enforced_phases_def Let_def mgr_emit_def split: option.split)
  have lim: "enforced_limit l (fst pm) (snd pm) = limit"
    using assms(4) ph by (simp add: enforced_limit_def Let_def pm_def enforced_phases_frame split: option.split)
  have "m' = m1 \<or> (\<exists>w. m' = apply_dc_limits l w m1)"
    using assms(1,2,6)
    by (auto simp: evse_handle_enforce_limits_def Let_def pm_def m1_def case_prod_beta split: if_splits option.splits)
  then have "maxCurrent (mcharger m') = maxCurrent (mcharger m1)
      \<and> maxCurrentValidUntil (mcharger m') = maxCurrentValidUntil (mcharger m1)"
    by (auto simp: apply_dc_limits_current)
  then show "maxCurrent (mcharger m') = clip_to_cable \<bar>limit\<bar> (mcharger m)"
    "maxCurrentValidUntil (mcharger m') = from_rfc3339 K (valid_until v)"
    using apply_limit_current[OF assms(5,3), of "snd pm"] lim
    by (simp_all add: m1_def pm_def enforced_phases_frame)
qed

lemma clip_le: "clip_to_cable v c \<le> v"
  by (simp add: clip_to_cable_def)

text \<open>
  A valid enforced limit for this charging point takes effect at once: the charger may draw
  no more than the enforced current, no more than the enforced power at the nominal voltage over
  the phases in use, no more than the cable of a socket carries, and only until the limit expires.
\<close>

theorem enforced_limit_applied:
  assumes "enforced_uuid v = uuid (evse_request m)" "limits_root_side v = Some l"
    and "utc_now k < from_rfc3339 K (valid_until v)"
    and "ac_max_current_A l = Some a" "0 \<le> a" "a \<le> CHARGER_ABSOLUTE_MAX_CURRENT"
    and "\<And>w. total_power_W l = Some w \<Longrightarrow> 0 \<le> w"
    and "0 < ac_nominal_voltage (config m)" "phases = fst (enforced_phases l m)" "0 < phases"
    and "c = mcharger (fst (evse_handle_enforce_limits K k v m))"
  shows "maxCurrent c \<le> a
    \<and> (\<forall>w. total_power_W l = Some w \<longrightarrow> maxCurrent c * ac_nominal_voltage (config m) * of_int phases \<le> w)
    \<and> (connector_type (mcharger m) = IEC62196Type2Socket \<longrightarrow> maxCurrent c \<le> maxCurrentCable (mcharger m))
    \<and> maxCurrentValidUntil c = from_rfc3339 K (valid_until v)"
proof -
  define limit where "limit = enforced_limit l phases m"
  let ?v = "ac_nominal_voltage (config m)"
  have vp: "0 < ?v" "0 < (of_int phases :: rat)" using assms(8,10) by simp_all
  have range: "0 \<le> limit" "limit \<le> a"
    using assms(4,5,7) vp by (auto simp: limit_def enforced_limit_def Let_def split: option.split)
  have power: "limit * ?v * of_int phases \<le> w" if "total_power_W l = Some w" for w
  proof -
    have "limit \<le> w / ?v / of_int phases"
      using that assms(4,10) vp by (auto simp: limit_def enforced_limit_def Let_def)
    then show ?thesis using vp by (simp add: le_divide_eq mult.assoc)
  qed
  have c: "maxCurrent c = clip_to_cable limit (mcharger m)" "maxCurrentValidUntil c = from_rfc3339 K (valid_until v)"
    using enforce_sets_current[OF assms(1-3), of limit] range assms(6,9,11) by (simp_all add: limit_def)
  have le: "maxCurrent c \<le> limit" using c(1) clip_le by simp
  have "maxCurrent c * ?v * of_int phases \<le> w" if "total_power_W l = Some w" for w
  proof -
    have "maxCurrent c * ?v * of_int phases \<le> limit * ?v * of_int phases"
      using le vp by (intro mult_right_mono) simp_all
    then show ?thesis using power[OF that] by linarith
  qed
  moreover have "maxCurrent c \<le> maxCurrentCable (mcharger m)" if "connector_type (mcharger m) = IEC62196Type2Socket"
    using that c(1) by (simp add: clip_to_cable_def)
  ultimately show ?thesis using le range c(2) by auto
qed

section \<open>Examples\<close>

definition sample_hw :: HardwareCapabilities where
  "sample_hw = \<lparr>max_current_A_import = 32, min_current_A_import = 6, max_phase_count_import = 3,
     min_phase_count_import = 1, max_current_A_export = 16, min_current_A_export = 0,
     max_phase_count_export = 3, min_phase_count_export = 1,
     supports_changing_phases_during_charging = True\<rparr>"

definition sample_supply :: ps_capabilities where
  "sample_supply = \<lparr>max_export_voltage_V = 1000, min_export_voltage_V = 200, max_export_current_A = 100,
     min_export_current_A = 1, max_export_power_W = 50000, current_regulation_tolerance_A = 1,
     peak_current_ripple_A = 1, max_import_voltage_V = None, min_import_voltage_V = None,
     max_import_current_A = None, min_import_current_A = None, max_import_power_W = None,
     conversion_efficiency_import = None, conversion_efficiency_export = None\<rparr>"

definition sample_conf :: "string \<Rightarrow> Conf" where
  "sample_conf mode = \<lparr>connector_id = 1, evse_id = ''DE*PNX*E1'', evse_id_din = ''49A80737A45678'',
     payment_enable_eim = True, payment_enable_contract = True, ac_nominal_voltage = 230,
     ev_receipt_required = False, session_logging = False, three_phases = True, has_ventilation = True,
     country_code = ''DE'', rcd_enabled = True, max_current_import_A = 32, max_current_export_A = 0,
     conf_charge_mode = mode, conf_ac_hlc_enabled = False, conf_ac_hlc_use_5percent = False,
     conf_ac_enforce_hlc = False, ac_with_soc = False, dc_isolation_voltage_V = 500,
     dbg_hlc_auth_after_tstep = False, switch_to_minimum_voltage_after_cable_check = True,
     hack_skoda_enyaq = False, hack_present_current_offset = 0, hack_pause_imd_during_precharge = False,
     hack_allow_bpt_with_iso2 = False\<rparr>"

definition sample_values :: phase_values where
  "sample_values = \<lparr>pv_total = None, pv_DC = None, pv_L1 = None, pv_L2 = None, pv_L3 = None, pv_N = None\<rparr>"

definition sample_powermeter :: Powermeter where
  "sample_powermeter = \<lparr>pm_timestamp = [], meter_id = None, phase_seq_error = None, energy_Wh_import = sample_values,
     energy_Wh_export = None, power_W = None, voltage_V = None, VAR = None, current_A = None, frequency_Hz = None\<rparr>"

definition sample_manager :: "string \<Rightarrow> string \<Rightarrow> EvseManager" where
  "sample_manager mode name = energy_grid_init name
    \<lparr>config = sample_conf mode, mcharger = sample_new, powermeters_car_side = 0, has_imd = True, has_slac = True,
     has_hlc = True, hw_capabilities = sample_hw, powersupply_capabilities = sample_supply,
     local_three_phases = True, local_energy_limits = \<lparr>ext_schedule_import = None, ext_schedule_export = None\<rparr>,
     slac_enabled = True, contactor_open = False, hlc_enabled = True, hlc_waiting_for_auth_eim = False,
     hlc_waiting_for_auth_pnc = False, latest_target_voltage = 0, latest_target_current = 0,
     autocharge_token = create_autocharge_token [] 1, evse_reserved = False, evse_reservation_id = 0,
     powersupply_dc_is_on = False, last_is_actually_exporting_to_grid = False,
     is_actually_exporting_to_grid = False, car_manufacturer = UnknownManufacturer, ac_with_soc_slots = 0,
     latest_powermeter = sample_powermeter, session_uuid = [], evse_request = empty_efr_node,
     last_enforced_limits = no_res_limits, last_target_voltage = 0, mgr_out = []\<rparr>"

definition good_cable :: cable_check_env where
  "good_cable = \<lparr>contactors_closed = True, rising = [Some 480, Some 499],
     isolation = Some \<lparr>resistance_P_Ohm = 900000, resistance_N_Ohm = 200000\<rparr>, falling = [Some 300, Some 205]\<rparr>"



definition sample_request :: "EvseManager" where
  "sample_request = energy_loop hourly 0 ((sample_manager ''AC'' ''e'')
     \<lparr>mcharger := sample_new\<lparr>currentState := Charging\<rparr>,
      local_energy_limits := \<lparr>ext_schedule_import = one_entry [] (no_limits\<lparr>ac_max_current_A := Some 20\<rparr>),
        ext_schedule_export = None\<rparr>\<rparr>)"

theorem published_request_within_hardware_witness:
  "\<exists>s. schedule_import (evse_request sample_request) = Some s \<and> length s = 1
     \<and> (\<forall>e\<in>set s. import_entry_ok sample_hw e \<and> ac_max_current_A (limits_to_leaves e) = Some 20)"
proof -
  let ?s = "the (schedule_import (evse_request sample_request))"
  have run: "schedule_import (evse_request sample_request) = Some ?s" "length ?s = 1"
    "list_all (\<lambda>e. ac_max_current_A (limits_to_leaves e) = Some 20) ?s" "hw_capabilities (sample_manager ''AC'' ''e'') = sample_hw"
    by code_simp+
  then show ?thesis
    using published_request_within_hardware[OF run(1)[unfolded sample_request_def]]
    by (auto simp: list_all_iff sample_request_def)
qed

definition sample_limits :: "string \<Rightarrow> EnforcedLimits" where
  "sample_limits name = \<lparr>enforced_uuid = name, valid_until = ''h'',
     limits_root_side = Some (no_res_limits\<lparr>ac_max_current_A := Some 20, total_power_W := Some 6900\<rparr>),
     schedule = []\<rparr>"

theorem enforced_limit_applied_witness:
  "maxCurrent (mcharger (fst (evse_handle_enforce_limits hourly \<lparr>sys_now = 0, utc_now = 0\<rparr> (sample_limits ''e'')
     (sample_manager ''AC'' ''e'')))) * 230 * 3 \<le> 6900"
proof -
  let ?m = "sample_manager ''AC'' ''e''" and ?l = "no_res_limits\<lparr>ac_max_current_A := Some 20, total_power_W := Some 6900\<rparr>"
  have ex: "enforced_uuid (sample_limits ''e'') = uuid (evse_request ?m)" "limits_root_side (sample_limits ''e'') = Some ?l"
    "from_rfc3339 hourly (valid_until (sample_limits ''e'')) > utc_now \<lparr>sys_now = 0, utc_now = 0\<rparr>"
    "ac_max_current_A ?l = Some 20" "total_power_W ?l = Some 6900" "ac_nominal_voltage (config ?m) = 230"
    "fst (enforced_phases ?l ?m) = 3" "20 \<le> CHARGER_ABSOLUTE_MAX_CURRENT"
    by code_simp+
  show ?thesis
    using enforced_limit_applied[OF ex(1,2,3,4) _ ex(8) _ _ ex(7)[symmetric] _ refl] ex(5,6) by simp
qed

end
