(* ===== verification/Station.thy ===== *)
theory Station
  imports Energy_System Evse_Properties
begin

text \<open>
  The loop through the whole station: the energy node publishes its fuse limit, the energy
  manager trades and enforces, and each EVSE manager applies what it receives to its charger.
\<close>

lemma optimized_values_root_side:
  "optimized_values K conf now bs m = Inr ls \<Longrightarrow>
     list_all (\<lambda>l. limits_root_side l = Some (res_limits_to_root (schedule l ! 0))) ls"
  by (induction bs arbitrary: ls) (auto simp: bind_res_Inr_iff dest!: enforced_limits_schedule)

lemma run_optimizer_root_side:
  "run_optimizer K conf g now req = Inr ls \<Longrightarrow>
     list_all (\<lambda>l. limits_root_side l = Some (res_limits_to_root (schedule l ! 0))) ls"
  by (auto simp: run_optimizer_def Let_def bind_res_Inr_iff dest: optimized_values_root_side)

text \<open>
  The EVSE manager an enforced limit is delivered to, in time and within what the charger takes;
  the limit lets the car draw energy and does not ask it to give any.
\<close>

definition delivered :: "time_lib \<Rightarrow> clock \<Rightarrow> EnforcedLimits \<Rightarrow> EvseManager \<Rightarrow> bool" where
  "delivered K k l m =
    (enforced_uuid l = uuid (evse_request m) \<and> utc_now k < from_rfc3339 K (valid_until l)
     \<and> 0 \<le> cur (schedule l ! 0) \<and> cur (schedule l ! 0) \<le> CHARGER_ABSOLUTE_MAX_CURRENT
     \<and> 0 \<le> watt_of (schedule l ! 0) \<and> 0 < ac_nominal_voltage (config m)
     \<and> (case ac_max_phase_count (res_limits_to_root (schedule l ! 0)) of None \<Rightarrow> True | Some n \<Rightarrow> 0 < n))"

lemma delivered_current:
  assumes "delivered K k l m" "limits_root_side l = Some (res_limits_to_root (schedule l ! 0))"
  shows "maxCurrent (mcharger (fst (evse_handle_enforce_limits K k l m))) \<le> cur (schedule l ! 0)"
proof -
  let ?l = "res_limits_to_root (schedule l ! 0)"
  define limit where "limit = enforced_limit ?l (fst (enforced_phases ?l m)) m"
  have ph: "0 < fst (enforced_phases ?l m)"
    using assms(1) by (auto simp: delivered_def enforced_phases_def Let_def split: option.splits)
  have "0 \<le> limit" "limit \<le> cur (schedule l ! 0)"
    using assms(1) ph
    by (auto simp: limit_def enforced_limit_def Let_def delivered_def cur_def watt_of_def split: option.splits)
  then show ?thesis
    using enforce_sets_current(1)[OF _ assms(2) _ limit_def _ refl, of k K] clip_le[of limit "mcharger m"] assms(1)
    by (simp add: delivered_def)
qed

lemma sum_le_list_all2:
  "list_all2 (\<lambda>l m. f l m \<le> (g l :: rat)) ls ms \<Longrightarrow> (\<Sum>(l, m)\<leftarrow>zip ls ms. f l m) \<le> (\<Sum>l\<leftarrow>ls. g l)"
  by (induction rule: list_all2_induct) (auto intro: add_mono)


definition long_interval :: EnergyManager_Conf where
  "long_interval = example_conf\<lparr>update_interval := 3600\<rparr>"


end
