(* ===== verification/V2g_Context.thy ===== *)
theory V2g_Context
  imports Evse_Manager "HOL-Library.Word"
begin

unbundle bit_operations_syntax

text \<open>
  The state shared by the DIN 70121 and the ISO 15118-2 server of the module EvseV2G
  (\<open>v2g.hpp\<close>), its initialisation and helpers (\<open>v2g_ctx.cpp\<close>, \<open>tools.cpp\<close>), and the commands of
  the other modules (\<open>charger/ISO15118_chargerImpl.cpp\<close>). The fields of the current connection
  are in the same record. Values that the charger publishes are appended to \<open>v2g_out\<close>.
\<close>

section \<open>Messages, phases and events\<close>

datatype V2gMsgTypeId =
    V2G_SUPPORTED_APP_PROTOCOL_MSG | V2G_SESSION_SETUP_MSG | V2G_SERVICE_DISCOVERY_MSG
  | V2G_SERVICE_DETAIL_MSG | V2G_PAYMENT_SERVICE_SELECTION_MSG | V2G_PAYMENT_DETAILS_MSG
  | V2G_AUTHORIZATION_MSG | V2G_CHARGE_PARAMETER_DISCOVERY_MSG | V2G_METERING_RECEIPT_MSG
  | V2G_CERTIFICATE_UPDATE_MSG | V2G_CERTIFICATE_INSTALLATION_MSG | V2G_CHARGING_STATUS_MSG
  | V2G_CABLE_CHECK_MSG | V2G_PRE_CHARGE_MSG | V2G_POWER_DELIVERY_MSG | V2G_CURRENT_DEMAND_MSG
  | V2G_WELDING_DETECTION_MSG | V2G_SESSION_STOP_MSG | V2G_UNKNOWN_MSG

fun msg_id :: "V2gMsgTypeId \<Rightarrow> nat" where
  "msg_id V2G_SUPPORTED_APP_PROTOCOL_MSG = 0"
| "msg_id V2G_SESSION_SETUP_MSG = 1"
| "msg_id V2G_SERVICE_DISCOVERY_MSG = 2"
| "msg_id V2G_SERVICE_DETAIL_MSG = 3"
| "msg_id V2G_PAYMENT_SERVICE_SELECTION_MSG = 4"
| "msg_id V2G_PAYMENT_DETAILS_MSG = 5"
| "msg_id V2G_AUTHORIZATION_MSG = 6"
| "msg_id V2G_CHARGE_PARAMETER_DISCOVERY_MSG = 7"
| "msg_id V2G_METERING_RECEIPT_MSG = 8"
| "msg_id V2G_CERTIFICATE_UPDATE_MSG = 9"
| "msg_id V2G_CERTIFICATE_INSTALLATION_MSG = 10"
| "msg_id V2G_CHARGING_STATUS_MSG = 11"
| "msg_id V2G_CABLE_CHECK_MSG = 12"
| "msg_id V2G_PRE_CHARGE_MSG = 13"
| "msg_id V2G_POWER_DELIVERY_MSG = 14"
| "msg_id V2G_CURRENT_DEMAND_MSG = 15"
| "msg_id V2G_WELDING_DETECTION_MSG = 16"
| "msg_id V2G_SESSION_STOP_MSG = 17"
| "msg_id V2G_UNKNOWN_MSG = 18"

text \<open>The bit masks of the state tables: \<open>1 << a | 1 << b\<close>, and the test \<open>mask & (1 << m)\<close>.\<close>

definition allowed_requests :: "V2gMsgTypeId list \<Rightarrow> int" where
  "allowed_requests ms = foldr (\<lambda>m acc. push_bit (msg_id m) 1 OR acc) ms 0"

definition is_allowed :: "int \<Rightarrow> V2gMsgTypeId \<Rightarrow> bool" where
  "is_allowed requests m = (requests AND push_bit (msg_id m) 1 \<noteq> 0)"

datatype v2g_event =
    V2G_EVENT_NO_EVENT | V2G_EVENT_TERMINATE_CONNECTION | V2G_EVENT_SEND_AND_TERMINATE
  | V2G_EVENT_SEND_RECV_EXI_MSG | V2G_EVENT_IGNORE_MSG

datatype v2g_protocol =
    V2G_PROTO_DIN70121 | V2G_PROTO_ISO15118_2010 | V2G_PROTO_ISO15118_2013
  | V2G_PROTO_ISO15118_2015 | V2G_UNKNOWN_PROTOCOL

datatype charging_phase =
    PHASE_INIT | PHASE_AUTH | PHASE_PARAMETER | PHASE_ISOLATION | PHASE_PRECHARGE | PHASE_CHARGE
  | PHASE_WELDING | PHASE_STOP

datatype dlink_action_t = MQTT_DLINK_ACTION_ERROR | MQTT_DLINK_ACTION_TERMINATE | MQTT_DLINK_ACTION_PAUSE

section \<open>Data of the message sets\<close>

text \<open>
  Enumerations and structures of the two message sets, with the elements the servers read and
  write. The two sets share them; the codes of a response are those of both sets.
\<close>

datatype response_code =
    RC_OK | RC_OK_NewSessionEstablished | RC_OK_OldSessionJoined | RC_OK_CertificateExpiresSoon
  | RC_FAILED | RC_FAILED_SequenceError | RC_FAILED_ServiceIDInvalid | RC_FAILED_UnknownSession
  | RC_FAILED_ServiceSelectionInvalid | RC_FAILED_PaymentSelectionInvalid | RC_FAILED_CertificateExpired
  | RC_FAILED_SignatureError | RC_FAILED_NoCertificateAvailable | RC_FAILED_CertChainError
  | RC_FAILED_ChallengeInvalid | RC_FAILED_ContractCanceled | RC_FAILED_WrongChargeParameter
  | RC_FAILED_PowerDeliveryNotApplied | RC_FAILED_TariffSelectionInvalid | RC_FAILED_ChargingProfileInvalid
  | RC_FAILED_EVSEPresentVoltageToLow | RC_FAILED_MeteringSignatureNotValid
  | RC_FAILED_NoChargeServiceSelected | RC_FAILED_WrongEnergyTransferMode | RC_FAILED_ContactorError
  | RC_FAILED_CertificateNotAllowedAtThisEVSE | RC_FAILED_CertificateRevoked

text \<open>\<open>code >= FAILED\<close>: the four positive codes come first in both enumerations.\<close>

definition failed :: "response_code \<Rightarrow> bool" where
  "failed r = (r \<noteq> RC_OK \<and> r \<noteq> RC_OK_NewSessionEstablished \<and> r \<noteq> RC_OK_OldSessionJoined
    \<and> r \<noteq> RC_OK_CertificateExpiresSoon)"

datatype EVSEProcessing = EP_Finished | EP_Ongoing | EP_Ongoing_WaitingForCustomerInteraction

datatype DC_EVSEStatusCode =
    EVSE_NotReady | EVSE_Ready | EVSE_Shutdown | EVSE_UtilityInterruptEvent
  | EVSE_IsolationMonitoringActive | EVSE_EmergencyShutdown | EVSE_Malfunction

datatype EVSENotification = EN_None | EN_StopCharging | EN_ReNegotiation

datatype EnergyTransferMode =
    AC_single_phase_core | AC_three_phase_core | DC_core | DC_extended | DC_combo_core | DC_unique

datatype PaymentOption = PO_Contract | PO_ExternalPayment

datatype unit_symbol = U_h | U_m | U_s | U_A | U_V | U_W | U_Wh

record physical_value =
  Multiplier :: int
  Value :: int
  PUnit :: unit_symbol

record dc_ev_status =
  EVReady :: int
  EVErrorCode :: int
  EVRESSSOC :: int

record dc_evse_status =
  EVSEIsolationStatus :: IsolationStatus
  EVSEIsolationStatus_isUsed :: bool
  EVSENotification :: EVSENotification
  EVSEStatusCode :: DC_EVSEStatusCode
  NotificationMaxDelay :: nat

record pmax_entry =
  rel_start :: "32 word"
  rel_duration :: "32 word"
  PMax :: physical_value

record sa_schedule_tuple =
  SAScheduleTupleID :: nat
  PMaxSchedule :: "pmax_entry list"

record v2g_service =
  ServiceID :: nat
  ServiceScope :: "string option"
  FreeService :: bool

section \<open>The context\<close>

datatype v2g_publication =
    Pub_EVCCIDD string | Pub_Require_Auth_EIM | Pub_Start_CableCheck | Pub_currentDemand_Started
  | Pub_currentDemand_Finished | Pub_DC_Open_Contactor bool | Pub_AC_Open_Contactor bool
  | Pub_AC_Close_Contactor bool | Pub_V2G_Setup_Finished
  | Pub_DC_EVTargetVoltageCurrent float_t float_t | Pub_DC_EVStatus int int int
  | Pub_DC_EVMaximumLimits "float_t option" "float_t option" "float_t option"
  | Pub_DC_EVRemainingTime "int option" "int option"
  | Pub_RequestedEnergyTransferMode EnergyTransferMode | Pub_DC_EVEnergyCapacity float_t
  | Pub_DC_EVEnergyRequest float_t | Pub_DC_FullSOC int | Pub_DC_BulkSOC int
  | Pub_DC_ChargingComplete int | Pub_DC_BulkChargingComplete int | Pub_EV_ChargingSession_Terminate
  | Pub_SelectedPaymentOption PaymentOption | Pub_DepartureTime int | Pub_AC_EAmount float_t
  | Pub_AC_EVMaxVoltage float_t | Pub_AC_EVMaxCurrent float_t | Pub_AC_EVMinCurrent float_t

record v2g_context =
  evse_ac_current_limit :: float_t
  last_v2g_msg :: V2gMsgTypeId
  current_v2g_msg :: V2gMsgTypeId
  v2g_state :: nat
  is_dc_charger :: bool
  debugMode :: bool
  supported_protocols :: "v2g_protocol list"
  selected_protocol :: v2g_protocol
  intl_emergency_shutdown :: bool
  stop_hlc :: bool
  is_connection_terminated :: bool
  terminate_connection_on_failed_response :: bool
  contactor_is_closed :: bool
  com_setup_timeout :: bool
  meter_info_is_used :: bool
  meter_reading :: int
  v2g_meter_id :: string
  initialize_once :: bool
  session_id :: "64 word"
  notification_max_delay :: nat
  evse_isolation_status :: IsolationStatus
  evse_isolation_status_is_used :: bool
  evse_notification :: EVSENotification
  evse_status_code :: "charging_phase \<Rightarrow> DC_EVSEStatusCode"
  evse_processing :: "charging_phase \<Rightarrow> EVSEProcessing"
  v2g_evse_id :: string
  date_time_now_is_used :: bool
  charge_service_id :: nat
  free_service :: bool
  energy_transfer_modes :: "EnergyTransferMode list"
  energy_transfer_modes_len :: nat
  evse_service_list :: "v2g_service list"
  service_parameter_list :: "nat list list"
  evse_sa_schedule_list :: "sa_schedule_tuple list"
  evse_sa_schedule_list_is_used :: bool
  payment_option_list :: "PaymentOption list"
  payment_option_list_len :: nat
  cert_install_res_b64_buffer :: "string option"
  rcd :: bool
  receipt_required :: bool
  evse_current_regulation_tolerance :: physical_value
  evse_current_regulation_tolerance_is_used :: bool
  evse_energy_to_be_delivered :: physical_value
  evse_energy_to_be_delivered_is_used :: bool
  evse_maximum_current_limit :: physical_value
  evse_maximum_current_limit_is_used :: bool
  evse_current_limit_achieved :: bool
  evse_maximum_power_limit :: physical_value
  evse_maximum_power_limit_is_used :: bool
  evse_power_limit_achieved :: bool
  evse_maximum_voltage_limit :: physical_value
  evse_maximum_voltage_limit_is_used :: bool
  evse_voltage_limit_achieved :: bool
  evse_minimum_current_limit :: physical_value
  evse_minimum_voltage_limit :: physical_value
  evse_peak_current_ripple :: physical_value
  evse_present_voltage :: physical_value
  evse_present_current :: physical_value
  evse_nominal_voltage :: physical_value
  iso_selected_payment_option :: PaymentOption
  gen_challenge :: "8 word list"
  contract_valid_crt :: bool
  contract_key :: "8 word list option"
  renegotiation_required :: bool
  is_charging :: bool
  sa_schedule_tuple_id :: nat
  bulk_charging_complete :: int
  charging_complete :: int
  received_session_id :: "64 word"
  ev_status :: dc_ev_status
  ev_maximum_current_limit :: "float_t option"
  ev_maximum_power_limit :: "float_t option"
  ev_maximum_voltage_limit :: "float_t option"
  v2g_target_current :: "float_t option"
  v2g_target_voltage :: "float_t option"
  remaining_time_to_bulk_soc :: "float_t option"
  remaining_time_to_full_soc :: "float_t option"
  is_tls_connection :: bool
  dlink_action :: dlink_action_t
  v2g_out :: "v2g_publication list"

definition publish :: "v2g_publication \<Rightarrow> v2g_context \<Rightarrow> v2g_context" where
  "publish p c = c\<lparr>v2g_out := v2g_out c @ [p]\<rparr>"

section \<open>Physical values\<close>

text \<open>\<open>trunc\<close> is the conversion of a floating point number to an integer.\<close>

definition trunc :: "float_t \<Rightarrow> int" where
  "trunc x = (if x \<ge> 0 then \<lfloor>x\<rfloor> else - \<lfloor>- x\<rfloor>)"

definition pow10 :: "int \<Rightarrow> float_t" where
  "pow10 n = (if n \<ge> 0 then 10 ^ nat n else 1 / 10 ^ nat (- n))"

definition calc_physical_value :: "int \<Rightarrow> int \<Rightarrow> float_t" where
  "calc_physical_value v m = of_int v * pow10 m"

definition calc :: "physical_value \<Rightarrow> float_t" where
  "calc p = calc_physical_value (Value p) (Multiplier p)"

definition init_physical_value :: "unit_symbol \<Rightarrow> physical_value" where
  "init_physical_value u = \<lparr>Multiplier = 0, Value = 0, PUnit = u\<rparr>"

definition INT16_MAX :: int where "INT16_MAX = 32767"
definition INT16_MIN :: int where "INT16_MIN = - 32768"

text \<open>The integer division of C truncates.\<close>

definition div10 :: "int \<Rightarrow> int" where
  "div10 v = (if v \<ge> 0 then v div 10 else - ((- v) div 10))"

function scale_down :: "int \<Rightarrow> int \<Rightarrow> int \<times> int" where
  "scale_down m v = (if v > INT16_MAX \<or> v < INT16_MIN then scale_down (m + 1) (div10 v) else (m, v))"
  by pat_completeness auto
termination
  by (relation "measure (\<lambda>(m, v). nat \<bar>v\<bar>)") (auto simp: div10_def INT16_MAX_def INT16_MIN_def)

declare scale_down.simps [simp del]

definition PHY_VALUE_MULT_MIN :: int where "PHY_VALUE_MULT_MIN = - 3"
definition PHY_VALUE_MULT_MAX :: int where "PHY_VALUE_MULT_MAX = 3"

definition populate_physical_value :: "physical_value \<Rightarrow> int \<Rightarrow> unit_symbol \<Rightarrow> bool \<times> physical_value" where
  "populate_physical_value pv v u =
    (let (m, v) = scale_down 0 v
     in if m < PHY_VALUE_MULT_MIN \<or> m > PHY_VALUE_MULT_MAX then (False, pv)
        else (True, \<lparr>Multiplier = m, Value = v, PUnit = u\<rparr>))"

fun add_decimals :: "nat \<Rightarrow> int \<Rightarrow> float_t \<Rightarrow> int \<times> float_t" where
  "add_decimals 0 m v = (m, v)"
| "add_decimals (Suc n) m v =
    (if trunc (v * 10) < INT16_MAX \<and> trunc (v * 10) > INT16_MIN
     then add_decimals n (m - 1) (v * 10) else add_decimals n m v)"

text \<open>
  The last assignment converts the number to 16 bits; \<open>None\<close> when it does not fit, which is
  undefined.
\<close>

definition populate_physical_value_float ::
    "physical_value \<Rightarrow> float_t \<Rightarrow> nat \<Rightarrow> unit_symbol \<Rightarrow> physical_value option" where
  "populate_physical_value_float pv v decimals u =
    (let (ok, pv') = populate_physical_value pv (trunc v) u
     in if \<not> ok then Some pv
        else
          let (m, v) = (if Multiplier pv' = 0 then add_decimals decimals 0 v else (Multiplier pv', v))
          in if INT16_MIN \<le> trunc v \<and> trunc v \<le> INT16_MAX
             then Some (pv'\<lparr>Multiplier := m, Value := trunc v\<rparr>) else None)"

section \<open>Publishing values of the car\<close>

text \<open>
  The floating point values received last are \<open>None\<close> until the first one is received: they are
  initialised to not-a-number, which differs from every value.
\<close>

definition publish_DC_EVMaximumLimits ::
    "float_t option \<Rightarrow> float_t option \<Rightarrow> float_t option \<Rightarrow> v2g_context \<Rightarrow> v2g_context" where
  "publish_DC_EVMaximumLimits i p v c =
    (let changed = (\<lambda>new old. new \<noteq> None \<and> new \<noteq> old);
         change = (changed i (ev_maximum_current_limit c) \<or> changed p (ev_maximum_power_limit c)
                   \<or> changed v (ev_maximum_voltage_limit c));
         c = (if i \<noteq> None then c\<lparr>ev_maximum_current_limit := i\<rparr> else c);
         c = (if p \<noteq> None then c\<lparr>ev_maximum_power_limit := p\<rparr> else c);
         c = (if v \<noteq> None then c\<lparr>ev_maximum_voltage_limit := v\<rparr> else c)
     in if change then publish (Pub_DC_EVMaximumLimits i p v) c else c)"

definition publish_DC_EVTargetVoltageCurrent :: "float_t \<Rightarrow> float_t \<Rightarrow> v2g_context \<Rightarrow> v2g_context" where
  "publish_DC_EVTargetVoltageCurrent v i c =
    (if v2g_target_voltage c \<noteq> Some v \<or> v2g_target_current c \<noteq> Some i
     then publish (Pub_DC_EVTargetVoltageCurrent v i) (c\<lparr>v2g_target_voltage := Some v, v2g_target_current := Some i\<rparr>)
     else c)"

text \<open>The points in time are published in seconds; \<open>now\<close> is the system time.\<close>

definition publish_DC_EVRemainingTime ::
    "int \<Rightarrow> float_t option \<Rightarrow> float_t option \<Rightarrow> v2g_context \<Rightarrow> v2g_context" where
  "publish_DC_EVRemainingTime now full bulk c =
    (let fresh = (\<lambda>new old. if new \<noteq> None \<and> new \<noteq> old then map_option (\<lambda>t. trunc (of_int now + t)) new else None);
         f = fresh full (remaining_time_to_full_soc c);
         b = fresh bulk (remaining_time_to_bulk_soc c);
         c = (if f \<noteq> None then c\<lparr>remaining_time_to_full_soc := full\<rparr> else c);
         c = (if b \<noteq> None then c\<lparr>remaining_time_to_bulk_soc := bulk\<rparr> else c)
     in if f \<noteq> None \<or> b \<noteq> None then publish (Pub_DC_EVRemainingTime f b) c else c)"

definition publish_DC_EVStatusType :: "dc_ev_status \<Rightarrow> v2g_context \<Rightarrow> v2g_context" where
  "publish_DC_EVStatusType s c =
    (if EVErrorCode (ev_status c) \<noteq> EVErrorCode s \<or> EVReady (ev_status c) \<noteq> EVReady s
        \<or> EVRESSSOC (ev_status c) \<noteq> EVRESSSOC s
     then publish (Pub_DC_EVStatus (EVErrorCode s) (EVReady s) (EVRESSSOC s)) (c\<lparr>ev_status := s\<rparr>) else c)"

section \<open>Initialisation\<close>

definition v2g_ctx_init_charging_state :: "bool \<Rightarrow> v2g_context \<Rightarrow> v2g_context" where
  "v2g_ctx_init_charging_state terminated c =
    c\<lparr>stop_hlc := False, intl_emergency_shutdown := False, is_connection_terminated := terminated,
      last_v2g_msg := V2G_UNKNOWN_MSG, current_v2g_msg := V2G_UNKNOWN_MSG, v2g_state := 0,
      selected_protocol := V2G_UNKNOWN_PROTOCOL, renegotiation_required := False, is_charging := False,
      com_setup_timeout := False\<rparr>"

definition init_values_once :: "v2g_context \<Rightarrow> v2g_context" where
  "init_values_once c =
    c\<lparr>free_service := False, v2g_evse_id := ''DE*CBY*ETE1*234'',
      energy_transfer_modes := (energy_transfer_modes c)[0 := AC_single_phase_core], energy_transfer_modes_len := 1,
      date_time_now_is_used := False,
      evse_current_regulation_tolerance := init_physical_value U_A, evse_current_regulation_tolerance_is_used := False,
      evse_energy_to_be_delivered := init_physical_value U_Wh, evse_energy_to_be_delivered_is_used := False,
      evse_maximum_current_limit := init_physical_value U_A, evse_maximum_current_limit_is_used := False,
      evse_current_limit_achieved := False,
      evse_maximum_power_limit := init_physical_value U_W, evse_maximum_power_limit_is_used := False,
      evse_power_limit_achieved := False,
      evse_maximum_voltage_limit := init_physical_value U_V, evse_maximum_voltage_limit_is_used := False,
      evse_voltage_limit_achieved := False,
      evse_minimum_current_limit := init_physical_value U_A, evse_minimum_voltage_limit := init_physical_value U_V,
      evse_peak_current_ripple := init_physical_value U_A, evse_nominal_voltage := init_physical_value U_V,
      payment_option_list := (payment_option_list c)[0 := PO_ExternalPayment], payment_option_list_len := 1,
      evse_service_list := [], service_parameter_list := []\<rparr>"

definition v2g_ctx_init_charging_values :: "v2g_context \<Rightarrow> v2g_context" where
  "v2g_ctx_init_charging_values c =
    (let c = c\<lparr>session_id := 0, notification_max_delay := 0, evse_isolation_status := IS_Invalid,
               evse_isolation_status_is_used := True, evse_notification := EN_None,
               evse_status_code := (evse_status_code c)(PHASE_PARAMETER := EVSE_Ready, PHASE_ISOLATION := EVSE_Ready,
                 PHASE_PRECHARGE := EVSE_Ready, PHASE_CHARGE := EVSE_Ready),
               evse_processing := (\<lambda>_. EP_Ongoing)(PHASE_PARAMETER := EP_Finished),
               charge_service_id := 1, meter_info_is_used := False\<rparr>;
         c = (if initialize_once c then c else init_values_once c)
     in c\<lparr>evse_present_voltage := init_physical_value U_V, evse_present_current := init_physical_value U_A,
          evse_sa_schedule_list :=
            [\<lparr>SAScheduleTupleID = 1, PMaxSchedule = [\<lparr>rel_start = 0, rel_duration = 0, PMax = init_physical_value U_W\<rparr>]\<rparr>],
          evse_sa_schedule_list_is_used := False, cert_install_res_b64_buffer := None, rcd := False,
          contactor_is_closed := False, receipt_required := False,
          bulk_charging_complete := - 1, charging_complete := - 1, received_session_id := - 1,
          ev_status := \<lparr>EVReady = - 1, EVErrorCode = - 1, EVRESSSOC = - 1\<rparr>,
          ev_maximum_current_limit := None, ev_maximum_power_limit := None, ev_maximum_voltage_limit := None,
          v2g_target_current := None, v2g_target_voltage := None,
          remaining_time_to_bulk_soc := None, remaining_time_to_full_soc := None,
          iso_selected_payment_option := PO_ExternalPayment, gen_challenge := replicate 16 0, initialize_once := True\<rparr>)"

definition v2g_ctx_init_charging_session :: "bool \<Rightarrow> v2g_context \<Rightarrow> v2g_context" where
  "v2g_ctx_init_charging_session terminated c =
     v2g_ctx_init_charging_values (v2g_ctx_init_charging_state terminated c)"

end
