(* ===== verification/V2g_Commands.thy ===== *)
theory V2g_Commands
  imports V2g_Context
begin

text \<open>
  The commands of the other modules to EvseV2G (\<open>charger/ISO15118_chargerImpl.cpp\<close>). Values that
  are not representable leave the old value in place.
\<close>

section \<open>Configuration\<close>

record v2g_conf =
  highlevel_authentication_mode :: string
  supported_DIN70121 :: bool
  supported_ISO15118_2 :: bool
  conf_terminate_on_failed :: bool

text \<open>A write past the end of an array is \<open>None\<close>.\<close>

definition add_payment_option :: "PaymentOption \<Rightarrow> v2g_context \<Rightarrow> v2g_context option" where
  "add_payment_option p c =
    (if payment_option_list_len c < length (payment_option_list c)
     then Some (c\<lparr>payment_option_list := (payment_option_list c)[payment_option_list_len c := p],
                  payment_option_list_len := payment_option_list_len c + 1\<rparr>)
     else None)"

definition chargerImpl_init :: "v2g_conf \<Rightarrow> v2g_context \<Rightarrow> v2g_context option" where
  "chargerImpl_init conf c =
    (let finish = (\<lambda>c. c\<lparr>supported_protocols := supported_protocols c
                           @ (if supported_DIN70121 conf then [V2G_PROTO_DIN70121] else [])
                           @ (if supported_ISO15118_2 conf then [V2G_PROTO_ISO15118_2013] else []),
                         terminate_connection_on_failed_response := conf_terminate_on_failed conf\<rparr>)
     in if highlevel_authentication_mode conf = ''eim'' then map_option finish (add_payment_option PO_ExternalPayment c)
        else if highlevel_authentication_mode conf = ''pnc'' then map_option finish (add_payment_option PO_Contract c)
        else Some (finish c))"

text \<open>The length is taken modulo 256; \<open>field_size\<close> is the size of the field of the message set.\<close>

definition handle_set_EVSEID :: "nat \<Rightarrow> string \<Rightarrow> v2g_context \<Rightarrow> v2g_context" where
  "handle_set_EVSEID field_size evseid c =
    (let len = length evseid mod 256
     in if len < field_size then c\<lparr>v2g_evse_id := take len evseid\<rparr> else c)"

fun add_payment_options :: "string list \<Rightarrow> v2g_context \<Rightarrow> v2g_context option" where
  "add_payment_options [] c = Some c"
| "add_payment_options (p # ps) c =
    (if p = ''Contract'' then Option.bind (add_payment_option PO_Contract c) (add_payment_options ps)
     else if p = ''ExternalPayment'' then Option.bind (add_payment_option PO_ExternalPayment c) (add_payment_options ps)
     else add_payment_options ps c)"

definition handle_set_PaymentOptions :: "string list \<Rightarrow> v2g_context \<Rightarrow> v2g_context option" where
  "handle_set_PaymentOptions ps c = add_payment_options ps (c\<lparr>payment_option_list_len := 0\<rparr>)"

definition add_energy_transfer_mode :: "EnergyTransferMode \<Rightarrow> v2g_context \<Rightarrow> v2g_context option" where
  "add_energy_transfer_mode m c =
    (if energy_transfer_modes_len c < length (energy_transfer_modes c)
     then Some (c\<lparr>energy_transfer_modes := (energy_transfer_modes c)[energy_transfer_modes_len c := m],
                  energy_transfer_modes_len := energy_transfer_modes_len c + 1,
                  is_dc_charger := (if m = AC_single_phase_core \<or> m = AC_three_phase_core then False
                                    else is_dc_charger c)\<rparr>)
     else None)"

fun add_energy_transfer_modes :: "EnergyTransferMode list \<Rightarrow> v2g_context \<Rightarrow> v2g_context option" where
  "add_energy_transfer_modes [] c = Some c"
| "add_energy_transfer_modes (m # ms) c = Option.bind (add_energy_transfer_mode m c) (add_energy_transfer_modes ms)"

definition handle_set_SupportedEnergyTransferMode ::
    "EnergyTransferMode list \<Rightarrow> v2g_context \<Rightarrow> v2g_context option" where
  "handle_set_SupportedEnergyTransferMode ms c =
     add_energy_transfer_modes ms (c\<lparr>energy_transfer_modes_len := 0, is_dc_charger := True\<rparr>)"

section \<open>Electrical values\<close>

definition handle_set_AC_EVSENominalVoltage :: "float_t \<Rightarrow> v2g_context \<Rightarrow> v2g_context" where
  "handle_set_AC_EVSENominalVoltage v c =
     c\<lparr>evse_nominal_voltage := snd (populate_physical_value (evse_nominal_voltage c) (trunc v) U_V)\<rparr>"

definition handle_set_DC_EVSECurrentRegulationTolerance :: "float_t \<Rightarrow> v2g_context \<Rightarrow> v2g_context" where
  "handle_set_DC_EVSECurrentRegulationTolerance v c =
     c\<lparr>evse_current_regulation_tolerance := snd (populate_physical_value (evse_current_regulation_tolerance c) (trunc v) U_A),
       evse_current_regulation_tolerance_is_used := True\<rparr>"

definition handle_set_DC_EVSEPeakCurrentRipple :: "float_t \<Rightarrow> v2g_context \<Rightarrow> v2g_context" where
  "handle_set_DC_EVSEPeakCurrentRipple v c =
     c\<lparr>evse_peak_current_ripple := snd (populate_physical_value (evse_peak_current_ripple c) (trunc v) U_A)\<rparr>"

definition handle_set_ReceiptRequired :: "bool \<Rightarrow> v2g_context \<Rightarrow> v2g_context" where
  "handle_set_ReceiptRequired b c = c\<lparr>receipt_required := b\<rparr>"

definition handle_set_FreeService :: "bool \<Rightarrow> v2g_context \<Rightarrow> v2g_context" where
  "handle_set_FreeService b c = c\<lparr>free_service := b\<rparr>"

definition handle_set_EVSEEnergyToBeDelivered :: "float_t \<Rightarrow> v2g_context \<Rightarrow> v2g_context" where
  "handle_set_EVSEEnergyToBeDelivered v c =
     c\<lparr>evse_energy_to_be_delivered := snd (populate_physical_value (evse_energy_to_be_delivered c) (trunc v) U_Wh),
       evse_energy_to_be_delivered_is_used := True\<rparr>"

definition handle_enable_debug_mode :: "bool \<Rightarrow> v2g_context \<Rightarrow> v2g_context" where
  "handle_enable_debug_mode none c = c\<lparr>debugMode := \<not> none\<rparr>"

definition handle_set_DC_EVSEPresentVoltageCurrent :: "float_t \<Rightarrow> float_t \<Rightarrow> v2g_context \<Rightarrow> v2g_context option" where
  "handle_set_DC_EVSEPresentVoltageCurrent v i c =
    (case populate_physical_value_float (evse_present_voltage c) v 1 U_V of
       None \<Rightarrow> None
     | Some pv \<Rightarrow>
         (case populate_physical_value_float (evse_present_current c) i 1 U_A of
            None \<Rightarrow> None
          | Some pc \<Rightarrow> Some (c\<lparr>evse_present_voltage := pv, evse_present_current := pc\<rparr>)))"

definition handle_set_AC_EVSEMaxCurrent :: "float_t \<Rightarrow> v2g_context \<Rightarrow> v2g_context" where
  "handle_set_AC_EVSEMaxCurrent i c = c\<lparr>evse_ac_current_limit := i\<rparr>"

definition handle_set_DC_EVSEMaximumLimits :: "evse_max_limits \<Rightarrow> v2g_context \<Rightarrow> v2g_context" where
  "handle_set_DC_EVSEMaximumLimits l c =
     c\<lparr>evse_maximum_current_limit :=
         snd (populate_physical_value (evse_maximum_current_limit c) (trunc (EVSEMaximumCurrentLimit l)) U_A),
       evse_maximum_current_limit_is_used := True,
       evse_maximum_power_limit :=
         snd (populate_physical_value (evse_maximum_power_limit c) (trunc (EVSEMaximumPowerLimit l)) U_W),
       evse_maximum_power_limit_is_used := True,
       evse_maximum_voltage_limit :=
         snd (populate_physical_value (evse_maximum_voltage_limit c) (trunc (EVSEMaximumVoltageLimit l)) U_V),
       evse_maximum_voltage_limit_is_used := True\<rparr>"

definition handle_set_DC_EVSEMinimumLimits :: "float_t \<Rightarrow> float_t \<Rightarrow> v2g_context \<Rightarrow> v2g_context" where
  "handle_set_DC_EVSEMinimumLimits i v c =
     c\<lparr>evse_minimum_current_limit := snd (populate_physical_value (evse_minimum_current_limit c) (trunc i) U_A),
       evse_minimum_voltage_limit := snd (populate_physical_value (evse_minimum_voltage_limit c) (trunc v) U_V)\<rparr>"

section \<open>Authorization, status and errors\<close>

definition handle_set_Auth_Okay_EIM :: "bool \<Rightarrow> v2g_context \<Rightarrow> v2g_context" where
  "handle_set_Auth_Okay_EIM ok c =
    (if ok then c\<lparr>evse_processing := (evse_processing c)(PHASE_AUTH := EP_Finished)\<rparr> else c)"

definition handle_set_Auth_Okay_PnC :: "AuthorizationStatus \<Rightarrow> CertificateStatus \<Rightarrow> v2g_context \<Rightarrow> v2g_context" where
  "handle_set_Auth_Okay_PnC s cs c =
     c\<lparr>evse_processing := (evse_processing c)(PHASE_AUTH :=
         (if s = AS_Accepted \<and> cs = CS_Accepted then EP_Finished else EP_Ongoing))\<rparr>"

definition handle_set_RCD_Error :: "bool \<Rightarrow> v2g_context \<Rightarrow> v2g_context" where
  "handle_set_RCD_Error b c = c\<lparr>rcd := b\<rparr>"

text \<open>
  \<open>stop_charging\<close> asks the car to stop and, when the connection is still there after ten seconds
  (\<open>timeout_reached\<close>), makes every further response fail.
\<close>

definition handle_stop_charging :: "bool \<Rightarrow> v2g_context \<Rightarrow> v2g_context" where
  "handle_stop_charging stop c =
    (if stop then c\<lparr>evse_notification := EN_StopCharging, evse_status_code := (\<lambda>_. EVSE_Shutdown)\<rparr>
     else c\<lparr>stop_hlc := False\<rparr>)"

definition stop_charging_timeout :: "bool \<Rightarrow> v2g_context \<Rightarrow> v2g_context" where
  "stop_charging_timeout timeout_reached c = (if timeout_reached then c\<lparr>stop_hlc := True\<rparr> else c)"

definition handle_set_EVSEIsolationStatus :: "IsolationStatus \<Rightarrow> v2g_context \<Rightarrow> v2g_context" where
  "handle_set_EVSEIsolationStatus s c = c\<lparr>evse_isolation_status := s, evse_isolation_status_is_used := True\<rparr>"

definition handle_set_EVSE_UtilityInterruptEvent :: "bool \<Rightarrow> v2g_context \<Rightarrow> v2g_context" where
  "handle_set_EVSE_UtilityInterruptEvent b c =
    (if b then c\<lparr>evse_status_code := (\<lambda>_. EVSE_UtilityInterruptEvent)\<rparr> else c)"

definition handle_set_EVSE_Malfunction :: "bool \<Rightarrow> v2g_context \<Rightarrow> v2g_context" where
  "handle_set_EVSE_Malfunction b c = (if b then c\<lparr>evse_status_code := (\<lambda>_. EVSE_Malfunction)\<rparr> else c)"

definition handle_set_EVSE_EmergencyShutdown :: "bool \<Rightarrow> v2g_context \<Rightarrow> v2g_context" where
  "handle_set_EVSE_EmergencyShutdown b c = c\<lparr>intl_emergency_shutdown := b\<rparr>"

definition handle_set_MeterInfo :: "nat \<Rightarrow> int \<Rightarrow> string option \<Rightarrow> v2g_context \<Rightarrow> v2g_context" where
  "handle_set_MeterInfo field_size reading mid c =
    (let c = c\<lparr>meter_info_is_used := True, meter_reading := reading\<rparr>
     in case mid of
          None \<Rightarrow> c
        | Some m \<Rightarrow> (let len = length m mod 256 in if len < field_size then c\<lparr>v2g_meter_id := take len m\<rparr> else c))"

definition handle_contactor_closed :: "bool \<Rightarrow> v2g_context \<Rightarrow> v2g_context" where
  "handle_contactor_closed b c = c\<lparr>contactor_is_closed := b\<rparr>"

definition handle_contactor_open :: "bool \<Rightarrow> v2g_context \<Rightarrow> v2g_context" where
  "handle_contactor_open b c = c\<lparr>contactor_is_closed := \<not> b\<rparr>"

definition handle_cableCheck_Finished :: "bool \<Rightarrow> v2g_context \<Rightarrow> v2g_context" where
  "handle_cableCheck_Finished ok c =
     c\<lparr>evse_processing := (evse_processing c)(PHASE_ISOLATION := (if ok then EP_Finished else EP_Ongoing))\<rparr>"

text \<open>The commands that arrive while a connection is open.\<close>

datatype v2g_command =
    Set_Auth_Okay_EIM bool | Set_Auth_Okay_PnC AuthorizationStatus CertificateStatus | CableCheck_Finished bool
  | Set_EVSEIsolationStatus IsolationStatus | Stop_charging bool | Stop_charging_timeout bool
  | Set_EmergencyShutdown bool | Set_Malfunction bool | Set_UtilityInterrupt bool | Contactor_closed bool
  | Contactor_open bool | Set_ReceiptRequired bool | Set_MaximumLimits evse_max_limits | Set_AC_MaxCurrent float_t

fun run_command :: "v2g_command \<Rightarrow> v2g_context \<Rightarrow> v2g_context" where
  "run_command (Set_Auth_Okay_EIM b) c = handle_set_Auth_Okay_EIM b c"
| "run_command (Set_Auth_Okay_PnC s cs) c = handle_set_Auth_Okay_PnC s cs c"
| "run_command (CableCheck_Finished b) c = handle_cableCheck_Finished b c"
| "run_command (Set_EVSEIsolationStatus s) c = handle_set_EVSEIsolationStatus s c"
| "run_command (Stop_charging b) c = handle_stop_charging b c"
| "run_command (Stop_charging_timeout b) c = stop_charging_timeout b c"
| "run_command (Set_EmergencyShutdown b) c = handle_set_EVSE_EmergencyShutdown b c"
| "run_command (Set_Malfunction b) c = handle_set_EVSE_Malfunction b c"
| "run_command (Set_UtilityInterrupt b) c = handle_set_EVSE_UtilityInterruptEvent b c"
| "run_command (Contactor_closed b) c = handle_contactor_closed b c"
| "run_command (Contactor_open b) c = handle_contactor_open b c"
| "run_command (Set_ReceiptRequired b) c = handle_set_ReceiptRequired b c"
| "run_command (Set_MaximumLimits l) c = handle_set_DC_EVSEMaximumLimits l c"
| "run_command (Set_AC_MaxCurrent i) c = handle_set_AC_EVSEMaxCurrent i c"

end
