(* ===== verification/V2g_Din.thy ===== *)
theory V2g_Din
  imports V2g_Commands
begin

text \<open>
  The DIN 70121 server (\<open>modules/EvseV2G/din_server.cpp\<close>): one handler per request of the car,
  which fills the response, checks it against the state of the session and sets the state that
  the next request is checked against. The requests and responses have the elements that the
  handlers read and write.
\<close>

section \<open>Messages\<close>

record din_dc_charge_parameter =
  dp_status :: dc_ev_status
  dp_EVMaximumCurrentLimit :: physical_value
  dp_EVMaximumPowerLimit :: "physical_value option"
  dp_EVMaximumVoltageLimit :: physical_value
  dp_EVEnergyCapacity :: "physical_value option"
  dp_EVEnergyRequest :: "physical_value option"
  dp_FullSOC :: "int option"
  dp_BulkSOC :: "int option"

record power_delivery_parameter =
  pd_status :: dc_ev_status
  pd_ChargingComplete :: int
  pd_BulkChargingComplete :: "int option"

record din_power_delivery_req =
  ReadyToChargeState :: bool
  ChargingProfile_SAScheduleTupleID :: "int option"
  DC_EVPowerDeliveryParameter :: "power_delivery_parameter option"

record current_demand_req =
  cd_status :: dc_ev_status
  cd_EVTargetVoltage :: physical_value
  cd_EVTargetCurrent :: physical_value
  cd_BulkChargingComplete :: "int option"
  cd_ChargingComplete :: int
  cd_EVMaximumCurrentLimit :: "physical_value option"
  cd_EVMaximumPowerLimit :: "physical_value option"
  cd_EVMaximumVoltageLimit :: "physical_value option"
  cd_RemainingTimeToFullSoC :: "physical_value option"
  cd_RemainingTimeToBulkSoC :: "physical_value option"

record pre_charge_req =
  pc_status :: dc_ev_status
  pc_EVTargetVoltage :: physical_value
  pc_EVTargetCurrent :: physical_value

text \<open>The body of a request; a decoded body has exactly one element.\<close>

datatype din_request =
    DSessionSetupReq "8 word list"
  | DServiceDiscoveryReq
  | DServicePaymentSelectionReq PaymentOption "nat list"
  | DContractAuthenticationReq
  | DChargeParameterDiscoveryReq EnergyTransferMode bool "din_dc_charge_parameter option"
  | DPowerDeliveryReq din_power_delivery_req
  | DCableCheckReq dc_ev_status
  | DPreChargeReq pre_charge_req
  | DCurrentDemandReq current_demand_req
  | DWeldingDetectionReq dc_ev_status
  | DSessionStopReq
  | DUnsupportedReq
  | DUnknownReq

record din_charge_parameter =
  EVSECurrentRegulationTolerance :: "physical_value option"
  EVSEEnergyToBeDelivered :: "physical_value option"
  EVSEMaximumCurrentLimit' :: physical_value
  EVSEMaximumPowerLimit' :: "physical_value option"
  EVSEMaximumVoltageLimit' :: physical_value
  EVSEMinimumCurrentLimit :: physical_value
  EVSEMinimumVoltageLimit :: physical_value
  EVSEPeakCurrentRipple :: physical_value

record current_demand_res =
  EVSECurrentLimitAchieved :: bool
  EVSEPowerLimitAchieved :: bool
  EVSEVoltageLimitAchieved :: bool
  res_MaximumCurrentLimit :: "physical_value option"
  res_MaximumPowerLimit :: "physical_value option"
  res_MaximumVoltageLimit :: "physical_value option"
  EVSEPresentCurrent :: physical_value
  EVSEPresentVoltage :: physical_value

datatype din_response_body =
    DSessionSetupRes string "int option"
  | DServiceDiscoveryRes nat bool EnergyTransferMode
  | DServicePaymentSelectionRes
  | DContractAuthenticationRes EVSEProcessing
  | DChargeParameterDiscoveryRes dc_evse_status din_charge_parameter EVSEProcessing int
  | DPowerDeliveryRes dc_evse_status
  | DCableCheckRes dc_evse_status EVSEProcessing
  | DPreChargeRes dc_evse_status physical_value
  | DCurrentDemandRes dc_evse_status current_demand_res
  | DWeldingDetectionRes dc_evse_status physical_value
  | DSessionStopRes

record din_response =
  ResponseCode :: response_code
  Body :: din_response_body

section \<open>States\<close>

datatype din_state_id =
    D_WAIT_FOR_SESSIONSETUP | D_WAIT_FOR_SERVICEDISCOVERY | D_WAIT_FOR_PAYMENTSERVICESELECTION
  | D_WAIT_FOR_AUTHORIZATION | D_WAIT_FOR_CHARGEPARAMETERDISCOVERY | D_WAIT_FOR_CABLECHECK
  | D_WAIT_FOR_PRECHARGE | D_WAIT_FOR_PRECHARGE_POWERDELIVERY | D_WAIT_FOR_CURRENTDEMAND
  | D_WAIT_FOR_CURRENTDEMAND_POWERDELIVERY | D_WAIT_FOR_WELDINGDETECTION_SESSIONSTOP
  | D_WAIT_FOR_SESSIONSTOP | D_WAIT_FOR_TERMINATED_SESSION

fun din_id :: "din_state_id \<Rightarrow> nat" where
  "din_id D_WAIT_FOR_SESSIONSETUP = 0"
| "din_id D_WAIT_FOR_SERVICEDISCOVERY = 1"
| "din_id D_WAIT_FOR_PAYMENTSERVICESELECTION = 2"
| "din_id D_WAIT_FOR_AUTHORIZATION = 3"
| "din_id D_WAIT_FOR_CHARGEPARAMETERDISCOVERY = 4"
| "din_id D_WAIT_FOR_CABLECHECK = 5"
| "din_id D_WAIT_FOR_PRECHARGE = 6"
| "din_id D_WAIT_FOR_PRECHARGE_POWERDELIVERY = 7"
| "din_id D_WAIT_FOR_CURRENTDEMAND = 8"
| "din_id D_WAIT_FOR_CURRENTDEMAND_POWERDELIVERY = 9"
| "din_id D_WAIT_FOR_WELDINGDETECTION_SESSIONSTOP = 10"
| "din_id D_WAIT_FOR_SESSIONSTOP = 11"
| "din_id D_WAIT_FOR_TERMINATED_SESSION = 12"

definition din_states :: "int list" where
  "din_states = map allowed_requests
    [[V2G_SESSION_SETUP_MSG],
     [V2G_SERVICE_DISCOVERY_MSG, V2G_SESSION_STOP_MSG],
     [V2G_PAYMENT_SERVICE_SELECTION_MSG, V2G_SESSION_STOP_MSG],
     [V2G_AUTHORIZATION_MSG, V2G_SESSION_STOP_MSG],
     [V2G_CHARGE_PARAMETER_DISCOVERY_MSG, V2G_SESSION_STOP_MSG],
     [V2G_CABLE_CHECK_MSG, V2G_SESSION_STOP_MSG],
     [V2G_PRE_CHARGE_MSG, V2G_SESSION_STOP_MSG],
     [V2G_POWER_DELIVERY_MSG, V2G_PRE_CHARGE_MSG, V2G_SESSION_STOP_MSG],
     [V2G_CURRENT_DEMAND_MSG],
     [V2G_CURRENT_DEMAND_MSG, V2G_POWER_DELIVERY_MSG],
     [V2G_WELDING_DETECTION_MSG, V2G_SESSION_STOP_MSG],
     [V2G_SESSION_STOP_MSG],
     []]"

definition set_state :: "nat \<Rightarrow> v2g_context \<Rightarrow> v2g_context" where
  "set_state s c = c\<lparr>v2g_state := s\<rparr>"

definition din_validate_state :: "nat \<Rightarrow> V2gMsgTypeId \<Rightarrow> response_code" where
  "din_validate_state s m = (if is_allowed (din_states ! s) m then RC_OK else RC_FAILED_SequenceError)"

definition din_validate_response_code :: "response_code \<Rightarrow> v2g_context \<Rightarrow> v2g_event \<times> response_code" where
  "din_validate_response_code r c =
    (if is_connection_terminated c then (V2G_EVENT_TERMINATE_CONNECTION, r)
     else
       let r = (if stop_hlc c \<or> intl_emergency_shutdown c then RC_FAILED else r);
           tmp = din_validate_state (v2g_state c) (current_v2g_msg c);
           r = (if failed tmp then tmp else r);
           r = (if current_v2g_msg c \<noteq> V2G_SESSION_SETUP_MSG \<and> session_id c \<noteq> received_session_id c
                then RC_FAILED_UnknownSession else r)
       in (if terminate_connection_on_failed_response c \<and> failed r then V2G_EVENT_SEND_AND_TERMINATE
           else V2G_EVENT_NO_EVENT, r))"

section \<open>Publishing\<close>

definition publish_opt :: "('a \<Rightarrow> v2g_publication) \<Rightarrow> 'a option \<Rightarrow> v2g_context \<Rightarrow> v2g_context" where
  "publish_opt f v c = (case v of None \<Rightarrow> c | Some x \<Rightarrow> publish (f x) c)"

definition publish_din_charge_parameter_discovery_req ::
    "EnergyTransferMode \<Rightarrow> din_dc_charge_parameter option \<Rightarrow> v2g_context \<Rightarrow> v2g_context" where
  "publish_din_charge_parameter_discovery_req m dc c =
    (let c = publish (Pub_RequestedEnergyTransferMode m) c
     in case dc of
          None \<Rightarrow> c
        | Some p \<Rightarrow>
            let c = publish_opt (\<lambda>v. Pub_DC_EVEnergyCapacity (calc v)) (dp_EVEnergyCapacity p) c;
                c = publish_opt (\<lambda>v. Pub_DC_EVEnergyRequest (calc v)) (dp_EVEnergyRequest p) c;
                c = publish_opt Pub_DC_FullSOC (dp_FullSOC p) c;
                c = publish_opt Pub_DC_BulkSOC (dp_BulkSOC p) c;
                c = publish_DC_EVMaximumLimits (Some (calc (dp_EVMaximumCurrentLimit p)))
                      (map_option calc (dp_EVMaximumPowerLimit p)) (Some (calc (dp_EVMaximumVoltageLimit p))) c
            in publish_DC_EVStatusType (dp_status p) c)"

definition publish_power_delivery_req :: "power_delivery_parameter option \<Rightarrow> v2g_context \<Rightarrow> v2g_context" where
  "publish_power_delivery_req dc c =
    (case dc of
       None \<Rightarrow> c
     | Some p \<Rightarrow>
         let c = publish (Pub_DC_ChargingComplete (pd_ChargingComplete p)) c;
             c = publish_opt Pub_DC_BulkChargingComplete (pd_BulkChargingComplete p) c
         in publish_DC_EVStatusType (pd_status p) c)"

definition publish_precharge_req :: "pre_charge_req \<Rightarrow> v2g_context \<Rightarrow> v2g_context" where
  "publish_precharge_req r c =
     publish_DC_EVStatusType (pc_status r)
       (publish_DC_EVTargetVoltageCurrent (calc (pc_EVTargetVoltage r)) (calc (pc_EVTargetCurrent r)) c)"

definition publish_current_demand_req :: "int \<Rightarrow> current_demand_req \<Rightarrow> v2g_context \<Rightarrow> v2g_context" where
  "publish_current_demand_req now r c =
    (let c = (case cd_BulkChargingComplete r of
                None \<Rightarrow> c
              | Some b \<Rightarrow> if bulk_charging_complete c \<noteq> b
                          then (publish (Pub_DC_BulkChargingComplete b) c)\<lparr>bulk_charging_complete := b\<rparr> else c);
         c = (if charging_complete c \<noteq> cd_ChargingComplete r
              then (publish (Pub_DC_ChargingComplete (cd_ChargingComplete r)) c)
                     \<lparr>charging_complete := cd_ChargingComplete r\<rparr> else c);
         c = publish_DC_EVStatusType (cd_status r) c;
         c = publish_DC_EVTargetVoltageCurrent (calc (cd_EVTargetVoltage r)) (calc (cd_EVTargetCurrent r)) c;
         c = publish_DC_EVMaximumLimits (map_option calc (cd_EVMaximumCurrentLimit r))
               (map_option calc (cd_EVMaximumPowerLimit r)) (map_option calc (cd_EVMaximumVoltageLimit r)) c
     in publish_DC_EVRemainingTime now (map_option calc (cd_RemainingTimeToFullSoC r))
          (map_option calc (cd_RemainingTimeToBulkSoC r)) c)"

section \<open>Handlers\<close>

text \<open>
  What a handler reads from outside: the system time, the random bits of a new session id and
  the size of a field of the message set.
\<close>

record v2g_env =
  time_now :: int
  random_id :: "64 word \<times> 64 word \<times> 64 word \<times> 64 word"
  EVSEID_BYTES_SIZE :: nat

definition hex_digit :: "nat \<Rightarrow> char" where
  "hex_digit n = ''0123456789abcdef'' ! n"

fun format_EVCCID :: "8 word list \<Rightarrow> string" where
  "format_EVCCID [] = ''''"
| "format_EVCCID [b] = [hex_digit (unat b div 16), hex_digit (unat b mod 16)]"
| "format_EVCCID (b # bs) = hex_digit (unat b div 16) # hex_digit (unat b mod 16) # CHR '':'' # format_EVCCID bs"

definition generate_session_id :: "v2g_env \<Rightarrow> 64 word" where
  "generate_session_id env =
    (case random_id env of (a, b, c, d) \<Rightarrow> push_bit 48 a OR push_bit 32 b OR push_bit 16 c OR d)"

definition stop_timer :: "v2g_context \<Rightarrow> v2g_context" where
  "stop_timer c = c\<lparr>com_setup_timeout := False\<rparr>"

definition evse_status :: "charging_phase \<Rightarrow> v2g_context \<Rightarrow> dc_evse_status" where
  "evse_status ph c =
    \<lparr>EVSEIsolationStatus = evse_isolation_status c, EVSEIsolationStatus_isUsed = evse_isolation_status_is_used c,
     EVSENotification = evse_notification c,
     EVSEStatusCode = (if intl_emergency_shutdown c then EVSE_EmergencyShutdown else evse_status_code c ph),
     NotificationMaxDelay = notification_max_delay c\<rparr>"

text \<open>The end of every handler: the response is validated and the next state is set.\<close>

definition din_finish ::
    "response_code \<Rightarrow> din_response_body \<Rightarrow> din_state_id \<Rightarrow> v2g_context \<Rightarrow> v2g_event \<times> din_response \<times> v2g_context" where
  "din_finish r b s c =
    (let (e, r) = din_validate_response_code r c
     in (e, \<lparr>ResponseCode = r, Body = b\<rparr>, set_state (din_id s) c))"

definition handle_din_session_setup :: "v2g_env \<Rightarrow> 8 word list \<Rightarrow> v2g_context \<Rightarrow> v2g_event \<times> din_response \<times> v2g_context" where
  "handle_din_session_setup env evccid c =
    (let c = publish (Pub_EVCCIDD (format_EVCCID evccid)) (stop_timer c);
         c = (if session_id c = 0 then c\<lparr>session_id := generate_session_id env\<rparr> else c)
     in din_finish RC_OK_NewSessionEstablished
          (DSessionSetupRes (take (EVSEID_BYTES_SIZE env) (v2g_evse_id c))
             (if date_time_now_is_used c then Some (time_now env) else None))
          D_WAIT_FOR_SERVICEDISCOVERY c)"

definition handle_din_service_discovery :: "v2g_context \<Rightarrow> v2g_event \<times> din_response \<times> v2g_context" where
  "handle_din_service_discovery c =
    (let m = energy_transfer_modes c ! 0;
         c = (if m \<noteq> DC_core \<and> m \<noteq> DC_extended
              then c\<lparr>energy_transfer_modes := (energy_transfer_modes c)[0 := DC_extended]\<rparr> else c)
     in din_finish RC_OK (DServiceDiscoveryRes (charge_service_id c) (free_service c) (energy_transfer_modes c ! 0))
          D_WAIT_FOR_PAYMENTSERVICESELECTION c)"

definition handle_din_service_payment_selection ::
    "PaymentOption \<Rightarrow> nat list \<Rightarrow> v2g_context \<Rightarrow> v2g_event \<times> din_response \<times> v2g_context" where
  "handle_din_service_payment_selection p ids c =
    (let r = (if p \<noteq> PO_ExternalPayment then RC_FAILED_PaymentSelectionInvalid else RC_OK);
         r = (if ids = [charge_service_id c] then r else RC_FAILED_ServiceSelectionInvalid)
     in din_finish r DServicePaymentSelectionRes D_WAIT_FOR_AUTHORIZATION c)"

definition finished_or_ongoing :: "EVSEProcessing \<Rightarrow> EVSEProcessing" where
  "finished_or_ongoing p = (if p = EP_Finished then EP_Finished else EP_Ongoing)"

definition handle_din_contract_authentication :: "v2g_context \<Rightarrow> v2g_event \<times> din_response \<times> v2g_context" where
  "handle_din_contract_authentication c =
    (let p = finished_or_ongoing (evse_processing c PHASE_AUTH)
     in din_finish RC_OK (DContractAuthenticationRes p)
          (if p = EP_Ongoing then D_WAIT_FOR_AUTHORIZATION else D_WAIT_FOR_CHARGEPARAMETERDISCOVERY) c)"

definition used :: "bool \<Rightarrow> 'a \<Rightarrow> 'a option" where
  "used b x = (if b then Some x else None)"

definition handle_din_charge_parameter ::
    "EnergyTransferMode \<Rightarrow> bool \<Rightarrow> din_dc_charge_parameter option \<Rightarrow> v2g_context
     \<Rightarrow> v2g_event \<times> din_response \<times> v2g_context" where
  "handle_din_charge_parameter m ac dc c =
    (let c = publish_din_charge_parameter_discovery_req m dc c;
         r = (if (m \<noteq> DC_core \<and> m \<noteq> DC_extended) \<or> energy_transfer_modes c ! 0 \<noteq> m
              then RC_FAILED_WrongEnergyTransferMode else RC_OK);
         r = (if ac then RC_FAILED_WrongChargeParameter else r);
         par = \<lparr>EVSECurrentRegulationTolerance =
                  used (evse_current_regulation_tolerance_is_used c) (evse_current_regulation_tolerance c),
                EVSEEnergyToBeDelivered = used (evse_energy_to_be_delivered_is_used c) (evse_energy_to_be_delivered c),
                EVSEMaximumCurrentLimit' = evse_maximum_current_limit c,
                EVSEMaximumPowerLimit' = used (evse_maximum_power_limit_is_used c) (evse_maximum_power_limit c),
                EVSEMaximumVoltageLimit' = evse_maximum_voltage_limit c,
                EVSEMinimumCurrentLimit = evse_minimum_current_limit c,
                EVSEMinimumVoltageLimit = evse_minimum_voltage_limit c,
                EVSEPeakCurrentRipple = evse_peak_current_ripple c\<rparr>;
         p = finished_or_ongoing (evse_processing c PHASE_PARAMETER);
         pmax = (if evse_maximum_power_limit_is_used c
                 then (if of_int INT16_MAX < calc (evse_maximum_power_limit c) then INT16_MAX
                       else trunc (calc (evse_maximum_power_limit c)))
                 else INT16_MAX)
     in din_finish r (DChargeParameterDiscoveryRes (evse_status PHASE_PARAMETER c) par p pmax)
          (if p = EP_Finished then D_WAIT_FOR_CABLECHECK else D_WAIT_FOR_CHARGEPARAMETERDISCOVERY) c)"

definition SASCHEDULETUPLEID :: int where "SASCHEDULETUPLEID = 1"

text \<open>
  A request to start after a current demand overrides the result of the validation. The entries
  of a charging profile are only compared for a log message.
\<close>

definition handle_din_power_delivery ::
    "din_power_delivery_req \<Rightarrow> v2g_context \<Rightarrow> v2g_event \<times> din_response \<times> v2g_context" where
  "handle_din_power_delivery req c =
    (let c = publish_power_delivery_req (DC_EVPowerDeliveryParameter req) c;
         ready = ReadyToChargeState req;
         c = (if \<not> ready
              then (publish (Pub_DC_Open_Contactor True) (publish Pub_currentDemand_Finished c))\<lparr>is_charging := False\<rparr>
              else c);
         st = evse_status PHASE_CHARGE c;
         r = (case ChargingProfile_SAScheduleTupleID req of
                None \<Rightarrow> RC_OK
              | Some i \<Rightarrow> if i \<noteq> SASCHEDULETUPLEID then RC_FAILED_TariffSelectionInvalid else RC_OK);
         r = (if ready \<and> EVSEStatusCode st \<noteq> EVSE_Ready then RC_FAILED_PowerDeliveryNotApplied else r)
     in if ready \<and> last_v2g_msg c \<noteq> V2G_CURRENT_DEMAND_MSG
        then din_finish r (DPowerDeliveryRes st) D_WAIT_FOR_CURRENTDEMAND c
        else
          (let (e, res, c) = din_finish r (DPowerDeliveryRes st) D_WAIT_FOR_WELDINGDETECTION_SESSIONSTOP c
           in if ready then (V2G_EVENT_SEND_AND_TERMINATE, res\<lparr>ResponseCode := RC_FAILED\<rparr>, c) else (e, res, c)))"

definition isolation_ok :: "dc_evse_status \<Rightarrow> bool" where
  "isolation_ok st = (EVSEIsolationStatus_isUsed st
     \<and> (EVSEIsolationStatus st = IS_Valid \<or> EVSEIsolationStatus st = IS_Warning))"

definition handle_din_cable_check :: "dc_ev_status \<Rightarrow> v2g_context \<Rightarrow> v2g_event \<times> din_response \<times> v2g_context" where
  "handle_din_cable_check s c =
    (let c = publish_DC_EVStatusType s c;
         st = evse_status PHASE_ISOLATION c;
         p = finished_or_ongoing (evse_processing c PHASE_ISOLATION)
     in din_finish RC_OK (DCableCheckRes st p)
          (if p = EP_Finished \<and> isolation_ok st \<and> EVSEStatusCode st = EVSE_Ready
           then D_WAIT_FOR_PRECHARGE else D_WAIT_FOR_CABLECHECK) c)"

definition handle_din_pre_charge :: "pre_charge_req \<Rightarrow> v2g_context \<Rightarrow> v2g_event \<times> din_response \<times> v2g_context" where
  "handle_din_pre_charge req c =
    (let c = publish_precharge_req req c
     in din_finish RC_OK (DPreChargeRes (evse_status PHASE_PRECHARGE c) (evse_present_voltage c))
          D_WAIT_FOR_PRECHARGE_POWERDELIVERY c)"

definition current_demand_limits :: "v2g_context \<Rightarrow> current_demand_res" where
  "current_demand_limits c =
    \<lparr>EVSECurrentLimitAchieved = evse_current_limit_achieved c,
     EVSEPowerLimitAchieved = evse_power_limit_achieved c,
     EVSEVoltageLimitAchieved = evse_voltage_limit_achieved c,
     res_MaximumCurrentLimit = used (evse_maximum_current_limit_is_used c) (evse_maximum_current_limit c),
     res_MaximumPowerLimit = used (evse_maximum_power_limit_is_used c) (evse_maximum_power_limit c),
     res_MaximumVoltageLimit = used (evse_maximum_voltage_limit_is_used c) (evse_maximum_voltage_limit c),
     EVSEPresentCurrent = evse_present_current c, EVSEPresentVoltage = evse_present_voltage c\<rparr>"

definition handle_din_current_demand ::
    "v2g_env \<Rightarrow> current_demand_req \<Rightarrow> v2g_context \<Rightarrow> v2g_event \<times> din_response \<times> v2g_context" where
  "handle_din_current_demand env req c =
    (let c = publish_current_demand_req (time_now env) req c
     in din_finish RC_OK (DCurrentDemandRes (evse_status PHASE_CHARGE c) (current_demand_limits c))
          D_WAIT_FOR_CURRENTDEMAND_POWERDELIVERY c)"

definition handle_din_welding_detection :: "dc_ev_status \<Rightarrow> v2g_context \<Rightarrow> v2g_event \<times> din_response \<times> v2g_context" where
  "handle_din_welding_detection s c =
    (let c = publish_DC_EVStatusType s c
     in din_finish RC_OK (DWeldingDetectionRes (evse_status PHASE_WELDING c) (evse_present_voltage c))
          D_WAIT_FOR_WELDINGDETECTION_SESSIONSTOP c)"

definition handle_din_session_stop :: "v2g_context \<Rightarrow> v2g_event \<times> din_response \<times> v2g_context" where
  "handle_din_session_stop c =
    (let c = publish Pub_EV_ChargingSession_Terminate c;
         (_, res, c) = din_finish RC_OK DSessionStopRes D_WAIT_FOR_TERMINATED_SESSION c
     in (V2G_EVENT_SEND_AND_TERMINATE, res, c\<lparr>dlink_action := MQTT_DLINK_ACTION_TERMINATE\<rparr>))"

section \<open>Dispatch\<close>

definition set_current :: "V2gMsgTypeId \<Rightarrow> v2g_context \<Rightarrow> v2g_context" where
  "set_current m c = c\<lparr>current_v2g_msg := m\<rparr>"

text \<open>The first bytes of the session id of the request, the rest is zero.\<close>

definition session_id_from_exi :: "8 word list \<Rightarrow> 64 word" where
  "session_id_from_exi bs = (\<Sum>i<8. if i < length bs then push_bit (8 * i) (ucast (bs ! i)) else 0)"

definition answered ::
    "v2g_event \<times> 'r \<times> v2g_context \<Rightarrow> v2g_event \<times> 'r option \<times> v2g_context" where
  "answered x = (case x of (e, r, c) \<Rightarrow> (e, Some r, c))"

text \<open>
  The whole request: the session id, the start of phases that is announced before the handler
  runs, the handler and, unless the message is ignored, the record of the message. No response
  is \<open>None\<close>.
\<close>

definition din_dispatch ::
    "v2g_env \<Rightarrow> din_request \<Rightarrow> v2g_context \<Rightarrow> v2g_event \<times> din_response option \<times> v2g_context" where
  "din_dispatch env req c =
    (case req of
       DCurrentDemandReq r \<Rightarrow>
         let c = (if last_v2g_msg c = V2G_POWER_DELIVERY_MSG
                  then (publish Pub_currentDemand_Started c)\<lparr>is_charging := True\<rparr> else c)
         in answered (handle_din_current_demand env r (set_current V2G_CURRENT_DEMAND_MSG c))
     | DSessionSetupReq evccid \<Rightarrow> answered (handle_din_session_setup env evccid (set_current V2G_SESSION_SETUP_MSG c))
     | DServiceDiscoveryReq \<Rightarrow> answered (handle_din_service_discovery (set_current V2G_SERVICE_DISCOVERY_MSG c))
     | DServicePaymentSelectionReq p ids \<Rightarrow>
         answered (handle_din_service_payment_selection p ids (set_current V2G_PAYMENT_SERVICE_SELECTION_MSG c))
     | DContractAuthenticationReq \<Rightarrow>
         let c = set_current V2G_AUTHORIZATION_MSG c;
             c = (if last_v2g_msg c \<noteq> V2G_AUTHORIZATION_MSG then publish Pub_Require_Auth_EIM c else c)
         in answered (handle_din_contract_authentication c)
     | DChargeParameterDiscoveryReq m ac dc \<Rightarrow>
         answered (handle_din_charge_parameter m ac dc (set_current V2G_CHARGE_PARAMETER_DISCOVERY_MSG c))
     | DCableCheckReq s \<Rightarrow>
         let c = set_current V2G_CABLE_CHECK_MSG c;
             c = (if last_v2g_msg c = V2G_CHARGE_PARAMETER_DISCOVERY_MSG then publish Pub_Start_CableCheck c else c)
         in answered (handle_din_cable_check s c)
     | DPreChargeReq r \<Rightarrow> answered (handle_din_pre_charge r (set_current V2G_PRE_CHARGE_MSG c))
     | DPowerDeliveryReq r \<Rightarrow> answered (handle_din_power_delivery r (set_current V2G_POWER_DELIVERY_MSG c))
     | DWeldingDetectionReq s \<Rightarrow> answered (handle_din_welding_detection s (set_current V2G_WELDING_DETECTION_MSG c))
     | DSessionStopReq \<Rightarrow> answered (handle_din_session_stop (set_current V2G_SESSION_STOP_MSG c))
     | DUnsupportedReq \<Rightarrow> (V2G_EVENT_IGNORE_MSG, None, set_current V2G_UNKNOWN_MSG c)
     | DUnknownReq \<Rightarrow> (V2G_EVENT_IGNORE_MSG, None, c))"

definition din_handle_request ::
    "v2g_env \<Rightarrow> 8 word list \<Rightarrow> din_request \<Rightarrow> v2g_context \<Rightarrow> v2g_event \<times> din_response option \<times> v2g_context" where
  "din_handle_request env sid req c =
    (let (e, res, c) = din_dispatch env req (c\<lparr>received_session_id := session_id_from_exi sid\<rparr>)
     in (e, res, if e \<noteq> V2G_EVENT_IGNORE_MSG then c\<lparr>last_v2g_msg := current_v2g_msg c\<rparr> else c))"

end
