(* ===== verification/V2g_Iso.thy ===== *)
theory V2g_Iso
  imports V2g_Din
begin

text \<open>
  The ISO 15118-2 server (\<open>modules/EvseV2G/iso_server.cpp\<close>): AC and DC sessions share the handlers
  and differ in the table of states. The document of the response is cleared before a request is
  handled, so what a handler leaves out is zero: the response code OK, the processing finished.
\<close>

section \<open>Messages\<close>

type_synonym bytes = "8 word list"

datatype charge_progress = CP_Start | CP_Stop | CP_Renegotiate | CP_Unknown

datatype charging_session = CS_Terminate | CS_Pause | CS_Unknown

record ac_charge_parameter =
  ap_DepartureTime :: "int option"
  EAmount :: physical_value
  EVMaxVoltage :: physical_value
  EVMaxCurrent :: physical_value
  EVMinCurrent :: physical_value

record iso_dc_charge_parameter =
  dp_DepartureTime :: "int option"
  dp_values :: din_dc_charge_parameter

record profile_entry =
  ChargingProfileEntryStart :: "32 word"
  ChargingProfileEntryMaxPower :: physical_value

record iso_power_delivery_req =
  ChargeProgress :: charge_progress
  req_SAScheduleTupleID :: nat
  ChargingProfile :: "profile_entry list option"
  iso_DC_EVPowerDeliveryParameter :: "power_delivery_parameter option"

record payment_details_req =
  eMAID :: string
  ContractCertificate :: bytes
  SubCertificates :: "bytes list option"

record signed_reference =
  DigestAlgorithm :: string
  DigestValue :: bytes
  RefId :: "string option"
  Transforms_isUsed :: bool
  TransformAlgorithms :: "string list"
  RefType_isUsed :: bool
  RefURI :: "string option"

record signed_info =
  References :: "signed_reference list"
  InfoId :: "string option"
  CanonicalizationAlgorithm :: string
  SignatureAlgorithm :: string
  HMACOutputLength_isUsed :: bool

record iso_signature =
  SignedInfo :: signed_info
  SignatureValue :: bytes

record authorization_req =
  GenChallenge :: "bytes option"
  auth_Id :: "string option"

datatype iso_request =
    ISessionSetupReq bytes
  | IServiceDiscoveryReq "string option"
  | IServiceDetailReq nat
  | IPaymentServiceSelectionReq PaymentOption "nat list"
  | IPaymentDetailsReq payment_details_req
  | IAuthorizationReq authorization_req "iso_signature option"
  | IChargeParameterDiscoveryReq EnergyTransferMode "ac_charge_parameter option" "iso_dc_charge_parameter option"
  | IPowerDeliveryReq iso_power_delivery_req
  | IChargingStatusReq
  | IMeteringReceiptReq
  | ICertificateUpdateReq
  | ICertificateInstallationReq
  | ICableCheckReq dc_ev_status
  | IPreChargeReq pre_charge_req
  | ICurrentDemandReq current_demand_req
  | IWeldingDetectionReq dc_ev_status
  | ISessionStopReq charging_session
  | IUnknownReq

record ac_evse_status =
  ac_EVSENotification :: EVSENotification
  ac_NotificationMaxDelay :: nat
  RCD :: bool

record ac_evse_charge_parameter =
  AC_EVSEStatus :: ac_evse_status
  EVSEMaxCurrent :: "physical_value option"
  EVSENominalVoltage :: physical_value

type_synonym meter_info = "string \<times> int"

record charging_status_res =
  cs_EVSEID :: string
  cs_ReceiptRequired :: bool
  cs_ReceiptRequired_isUsed :: bool
  cs_EVSEMaxCurrent :: "physical_value option option"
  cs_MeterInfo :: "meter_info option"
  cs_SAScheduleTupleID :: nat
  cs_status :: ac_evse_status

record iso_current_demand_res =
  cd_limits :: current_demand_res
  cd_EVSEID :: string
  cd_MeterInfo :: "meter_info option"
  cd_ReceiptRequired :: "bool option"
  cd_SAScheduleTupleID :: nat

datatype iso_response_body =
    ISessionSetupRes string "int option"
  | IServiceDiscoveryRes nat "PaymentOption list" "v2g_service list" bool
  | IServiceDetailRes nat "nat list option"
  | IPaymentServiceSelectionRes
  | IPaymentDetailsRes "(bytes \<times> int) option"
  | IAuthorizationRes EVSEProcessing
  | IChargeParameterDiscoveryRes EVSEProcessing "sa_schedule_tuple list option"
      "ac_evse_charge_parameter + dc_evse_status \<times> din_charge_parameter"
  | IPowerDeliveryRes "ac_evse_status + dc_evse_status"
  | IChargingStatusRes charging_status_res
  | IMeteringReceiptRes "ac_evse_status option"
  | ICertificateUpdateRes
  | ICertificateInstallationRes
  | ICableCheckRes dc_evse_status EVSEProcessing
  | IPreChargeRes dc_evse_status physical_value
  | ICurrentDemandRes dc_evse_status iso_current_demand_res
  | IWeldingDetectionRes dc_evse_status physical_value
  | ISessionStopRes

record iso_response =
  IResponseCode :: response_code
  IBody :: iso_response_body

section \<open>States\<close>

datatype iso_ac_state_id =
    AC_WAIT_FOR_SESSIONSETUP | AC_WAIT_FOR_SERVICEDISCOVERY | AC_WAIT_FOR_SVCDETAIL_PAYMENTSVCSEL
  | AC_WAIT_FOR_PAYMENTDETAILS_CERTINST_CERTUPD | AC_WAIT_FOR_PAYMENTDETAILS | AC_WAIT_FOR_AUTHORIZATION
  | AC_WAIT_FOR_CHARGEPARAMETERDISCOVERY | AC_WAIT_FOR_POWERDELIVERY | AC_WAIT_FOR_CHARGINGSTATUS
  | AC_WAIT_FOR_CHARGINGSTATUS_POWERDELIVERY | AC_WAIT_FOR_METERINGRECEIPT | AC_WAIT_FOR_SESSIONSTOP
  | AC_WAIT_FOR_TERMINATED_SESSION

datatype iso_dc_state_id =
    DC_WAIT_FOR_SESSIONSETUP | DC_WAIT_FOR_SERVICEDISCOVERY | DC_WAIT_FOR_SVCDETAIL_PAYMENTSVCSEL
  | DC_WAIT_FOR_PAYMENTDETAILS_CERTINST_CERTUPD | DC_WAIT_FOR_PAYMENTDETAILS | DC_WAIT_FOR_AUTHORIZATION
  | DC_WAIT_FOR_CHARGEPARAMETERDISCOVERY | DC_WAIT_FOR_CABLECHECK | DC_WAIT_FOR_PRECHARGE
  | DC_WAIT_FOR_PRECHARGE_POWERDELIVERY | DC_WAIT_FOR_CURRENTDEMAND_POWERDELIVERY | DC_WAIT_FOR_CURRENTDEMAND
  | DC_WAIT_FOR_METERINGRECEIPT | DC_WAIT_FOR_WELDINGDETECTION_SESSIONSTOP | DC_WAIT_FOR_TERMINATED_SESSION

fun ac_id :: "iso_ac_state_id \<Rightarrow> nat" where
  "ac_id AC_WAIT_FOR_SESSIONSETUP = 0"
| "ac_id AC_WAIT_FOR_SERVICEDISCOVERY = 1"
| "ac_id AC_WAIT_FOR_SVCDETAIL_PAYMENTSVCSEL = 2"
| "ac_id AC_WAIT_FOR_PAYMENTDETAILS_CERTINST_CERTUPD = 3"
| "ac_id AC_WAIT_FOR_PAYMENTDETAILS = 4"
| "ac_id AC_WAIT_FOR_AUTHORIZATION = 5"
| "ac_id AC_WAIT_FOR_CHARGEPARAMETERDISCOVERY = 6"
| "ac_id AC_WAIT_FOR_POWERDELIVERY = 7"
| "ac_id AC_WAIT_FOR_CHARGINGSTATUS = 8"
| "ac_id AC_WAIT_FOR_CHARGINGSTATUS_POWERDELIVERY = 9"
| "ac_id AC_WAIT_FOR_METERINGRECEIPT = 10"
| "ac_id AC_WAIT_FOR_SESSIONSTOP = 11"
| "ac_id AC_WAIT_FOR_TERMINATED_SESSION = 12"

fun dc_id :: "iso_dc_state_id \<Rightarrow> nat" where
  "dc_id DC_WAIT_FOR_SESSIONSETUP = 0"
| "dc_id DC_WAIT_FOR_SERVICEDISCOVERY = 1"
| "dc_id DC_WAIT_FOR_SVCDETAIL_PAYMENTSVCSEL = 2"
| "dc_id DC_WAIT_FOR_PAYMENTDETAILS_CERTINST_CERTUPD = 3"
| "dc_id DC_WAIT_FOR_PAYMENTDETAILS = 4"
| "dc_id DC_WAIT_FOR_AUTHORIZATION = 5"
| "dc_id DC_WAIT_FOR_CHARGEPARAMETERDISCOVERY = 6"
| "dc_id DC_WAIT_FOR_CABLECHECK = 7"
| "dc_id DC_WAIT_FOR_PRECHARGE = 8"
| "dc_id DC_WAIT_FOR_PRECHARGE_POWERDELIVERY = 9"
| "dc_id DC_WAIT_FOR_CURRENTDEMAND_POWERDELIVERY = 10"
| "dc_id DC_WAIT_FOR_CURRENTDEMAND = 11"
| "dc_id DC_WAIT_FOR_METERINGRECEIPT = 12"
| "dc_id DC_WAIT_FOR_WELDINGDETECTION_SESSIONSTOP = 13"
| "dc_id DC_WAIT_FOR_TERMINATED_SESSION = 14"

definition iso_ac_states :: "int list" where
  "iso_ac_states = map allowed_requests
    [[V2G_SESSION_SETUP_MSG],
     [V2G_SERVICE_DISCOVERY_MSG, V2G_SESSION_STOP_MSG],
     [V2G_SERVICE_DETAIL_MSG, V2G_PAYMENT_SERVICE_SELECTION_MSG, V2G_SESSION_STOP_MSG],
     [V2G_PAYMENT_DETAILS_MSG, V2G_CERTIFICATE_INSTALLATION_MSG, V2G_CERTIFICATE_UPDATE_MSG, V2G_SESSION_STOP_MSG],
     [V2G_PAYMENT_DETAILS_MSG, V2G_SESSION_STOP_MSG],
     [V2G_AUTHORIZATION_MSG, V2G_SESSION_STOP_MSG],
     [V2G_CHARGE_PARAMETER_DISCOVERY_MSG, V2G_SESSION_STOP_MSG],
     [V2G_POWER_DELIVERY_MSG, V2G_SESSION_STOP_MSG],
     [V2G_CHARGING_STATUS_MSG],
     [V2G_CHARGING_STATUS_MSG, V2G_POWER_DELIVERY_MSG],
     [V2G_METERING_RECEIPT_MSG],
     [V2G_SESSION_STOP_MSG],
     []]"

definition iso_dc_states :: "int list" where
  "iso_dc_states = map allowed_requests
    [[V2G_SESSION_SETUP_MSG],
     [V2G_SERVICE_DISCOVERY_MSG, V2G_SESSION_STOP_MSG],
     [V2G_SERVICE_DETAIL_MSG, V2G_PAYMENT_SERVICE_SELECTION_MSG, V2G_SESSION_STOP_MSG],
     [V2G_PAYMENT_DETAILS_MSG, V2G_AUTHORIZATION_MSG, V2G_CERTIFICATE_INSTALLATION_MSG, V2G_CERTIFICATE_UPDATE_MSG,
      V2G_SESSION_STOP_MSG],
     [V2G_PAYMENT_DETAILS_MSG, V2G_SESSION_STOP_MSG],
     [V2G_AUTHORIZATION_MSG, V2G_SESSION_STOP_MSG],
     [V2G_CHARGE_PARAMETER_DISCOVERY_MSG, V2G_SESSION_STOP_MSG],
     [V2G_CABLE_CHECK_MSG, V2G_SESSION_STOP_MSG],
     [V2G_PRE_CHARGE_MSG, V2G_SESSION_STOP_MSG],
     [V2G_PRE_CHARGE_MSG, V2G_POWER_DELIVERY_MSG, V2G_SESSION_STOP_MSG],
     [V2G_CURRENT_DEMAND_MSG, V2G_POWER_DELIVERY_MSG],
     [V2G_CURRENT_DEMAND_MSG],
     [V2G_METERING_RECEIPT_MSG],
     [V2G_WELDING_DETECTION_MSG, V2G_SESSION_STOP_MSG],
     []]"

definition iso_states :: "bool \<Rightarrow> int list" where
  "iso_states dc = (if dc then iso_dc_states else iso_ac_states)"

definition iso_validate_state :: "nat \<Rightarrow> V2gMsgTypeId \<Rightarrow> bool \<Rightarrow> response_code" where
  "iso_validate_state s m dc = (if is_allowed (iso_states dc ! s) m then RC_OK else RC_FAILED_SequenceError)"

definition iso_validate_response_code :: "response_code \<Rightarrow> v2g_context \<Rightarrow> v2g_event \<times> response_code" where
  "iso_validate_response_code r c =
    (if is_connection_terminated c then (V2G_EVENT_TERMINATE_CONNECTION, r)
     else
       let r = (if stop_hlc c \<or> intl_emergency_shutdown c then RC_FAILED else r);
           tmp = iso_validate_state (v2g_state c) (current_v2g_msg c) (is_dc_charger c);
           r = (if failed tmp then tmp else r);
           r = (if current_v2g_msg c \<noteq> V2G_SESSION_SETUP_MSG \<and> session_id c \<noteq> received_session_id c
                then RC_FAILED_UnknownSession else r)
       in (if terminate_connection_on_failed_response c \<and> failed r then V2G_EVENT_SEND_AND_TERMINATE
           else V2G_EVENT_NO_EVENT, r))"

definition iso_finish ::
    "response_code \<Rightarrow> iso_response_body \<Rightarrow> nat \<Rightarrow> v2g_context \<Rightarrow> v2g_event \<times> iso_response \<times> v2g_context" where
  "iso_finish r b s c =
    (let (e, r) = iso_validate_response_code r c
     in (e, \<lparr>IResponseCode = r, IBody = b\<rparr>, set_state s c))"

section \<open>Signatures and certificates\<close>

text \<open>
  The cryptography and the codecs, and what else a handler reads from outside: how often and
  why the thread was woken while it waited, with the commands that other threads have run by
  then, and memory that was never written.
\<close>

datatype wake_up = Woken "v2g_command list" | Wait_timeout "v2g_command list" | Wait_error "v2g_command list"

record xml_reference =
  x_DigestAlgorithm :: string
  x_DigestValue :: bytes
  x_Id :: "string option"
  x_Transforms_isUsed :: bool
  x_Transform_len :: nat
  x_Transform0 :: string
  x_Type_isUsed :: bool
  x_URI :: "string option"

record xml_signed_info =
  x_References :: "xml_reference list"
  x_InfoId :: "string option"
  x_CanonicalizationAlgorithm :: string
  x_SignatureAlgorithm :: string
  x_HMACOutputLength_isUsed :: bool

record iso_env =
  base_env :: v2g_env
  wake_ups :: "wake_up list"
  new_challenge :: bytes
  old_emaid :: string
  eMAID_CHARACTERS_SIZE :: nat
  base64_size :: "bytes \<Rightarrow> nat"
  base64_encode_ok :: "bytes \<Rightarrow> bool"
  base64_decode_ok :: "string \<Rightarrow> bool"
  request_buffer :: bytes
  x509_crt_parse_ok :: "bytes \<Rightarrow> bool"
  x509_subject :: "bytes \<Rightarrow> (string \<times> string) list"
  ecdsa_from_keypair_ok :: "bytes \<Rightarrow> bool"
  encode_iso1ExiFragment :: "authorization_req \<Rightarrow> bytes option"
  encode_xmldsigExiFragment :: "xml_signed_info \<Rightarrow> bytes option"
  sha256 :: "bytes \<Rightarrow> bytes"
  ecdsa_verify :: "bytes option \<Rightarrow> bytes \<Rightarrow> bytes \<Rightarrow> bytes \<Rightarrow> bool"

definition convert_reference :: "signed_reference \<Rightarrow> xml_reference" where
  "convert_reference r =
    \<lparr>x_DigestAlgorithm = DigestAlgorithm r, x_DigestValue = DigestValue r, x_Id = RefId r,
     x_Transforms_isUsed = Transforms_isUsed r, x_Transform_len = length (TransformAlgorithms r),
     x_Transform0 = (case TransformAlgorithms r of [] \<Rightarrow> '''' | a # _ \<Rightarrow> a),
     x_Type_isUsed = RefType_isUsed r, x_URI = RefURI r\<rparr>"

definition convertIso1ToXmldsigSignedInfoType :: "signed_info \<Rightarrow> xml_signed_info" where
  "convertIso1ToXmldsigSignedInfoType s =
    \<lparr>x_References = map convert_reference (References s), x_InfoId = InfoId s,
     x_CanonicalizationAlgorithm = CanonicalizationAlgorithm s, x_SignatureAlgorithm = SignatureAlgorithm s,
     x_HMACOutputLength_isUsed = HMACOutputLength_isUsed s\<rparr>"

definition DIGEST_SIZE :: nat where "DIGEST_SIZE = 32"

definition check_iso1_signature :: "iso_env \<Rightarrow> iso_signature \<Rightarrow> bytes option \<Rightarrow> authorization_req \<Rightarrow> bool" where
  "check_iso1_signature env sig key fragment =
    (case encode_iso1ExiFragment env fragment of
       None \<Rightarrow> False
     | Some buf \<Rightarrow>
         let value = (case References (SignedInfo sig) of [] \<Rightarrow> [] | ref # _ \<Rightarrow> DigestValue ref)
         in length value = DIGEST_SIZE \<and> value = sha256 env buf \<and>
            (case encode_xmldsigExiFragment env (convertIso1ToXmldsigSignedInfoType (SignedInfo sig)) of
               None \<Rightarrow> False
             | Some buf \<Rightarrow>
                 SignatureValue sig \<noteq> [] \<and>
                 (let h = length (SignatureValue sig) div 2
                  in ecdsa_verify env key (sha256 env buf) (take h (SignatureValue sig))
                       (take h (drop h (SignatureValue sig))))))"

definition MAX_EMAID_LEN :: nat where "MAX_EMAID_LEN = 18"
definition MAX_CERT_SIZE :: nat where "MAX_CERT_SIZE = 800"
definition GEN_CHALLENGE_SIZE :: nat where "GEN_CHALLENGE_SIZE = 16"

definition getSubjectData :: "(string \<times> string) list \<Rightarrow> string \<Rightarrow> string option" where
  "getSubjectData subject attr = map_of subject attr"

text \<open>\<open>None\<close> when the buffer of the caller is not written.\<close>

definition getEmaidFromContractCert :: "(string \<times> string) list \<Rightarrow> nat \<Rightarrow> string option" where
  "getEmaidFromContractCert subject len =
    (case getSubjectData subject ''CN'' of
       None \<Rightarrow> None
     | Some v \<Rightarrow>
         let emaid = (if MAX_EMAID_LEN < length v then '''' else takeWhile (\<lambda>ch. ch \<noteq> CHR 0x00) v);
             emaid = filter (\<lambda>ch. ch \<noteq> CHR ''-'') emaid
         in if length emaid > len - 1 then None else Some emaid)"

definition ascii_lower :: "char \<Rightarrow> char" where
  "ascii_lower ch = (let n = of_char ch :: nat in if 65 \<le> n \<and> n \<le> 90 then char_of (n + 32) else ch)"

definition publish_iso_payment_details_req :: "iso_env \<Rightarrow> payment_details_req \<Rightarrow> bool" where
  "publish_iso_payment_details_req env req =
    (length (ContractCertificate req) \<le> MAX_CERT_SIZE \<and> base64_encode_ok env (ContractCertificate req) \<and>
     (case SubCertificates req of
        None \<Rightarrow> True
      | Some subs \<Rightarrow> list_all (\<lambda>s. length s \<le> MAX_CERT_SIZE \<and> base64_encode_ok env s) subs))"

definition MQTT_MAX_PAYLOAD_SIZE :: nat where "MQTT_MAX_PAYLOAD_SIZE = 268435455"

definition publish_iso_certificate_installation_exi_req :: "iso_env \<Rightarrow> bytes \<Rightarrow> bool" where
  "publish_iso_certificate_installation_exi_req env buf =
    (base64_size env buf \<le> MQTT_MAX_PAYLOAD_SIZE \<and> base64_encode_ok env buf)"

section \<open>Publishing\<close>

text \<open>Three of the functions have the body of their DIN counterpart.\<close>

definition publish_iso_pre_charge_req :: "pre_charge_req \<Rightarrow> v2g_context \<Rightarrow> v2g_context" where
  "publish_iso_pre_charge_req r c = publish_precharge_req r c"

definition publish_iso_power_delivery_req :: "iso_power_delivery_req \<Rightarrow> v2g_context \<Rightarrow> v2g_context" where
  "publish_iso_power_delivery_req r c = publish_power_delivery_req (iso_DC_EVPowerDeliveryParameter r) c"

definition publish_iso_current_demand_req :: "int \<Rightarrow> current_demand_req \<Rightarrow> v2g_context \<Rightarrow> v2g_context" where
  "publish_iso_current_demand_req now r c = publish_current_demand_req now r c"

definition publish_iso_welding_detection_req :: "dc_ev_status \<Rightarrow> v2g_context \<Rightarrow> v2g_context" where
  "publish_iso_welding_detection_req s c = publish_DC_EVStatusType s c"

definition publish_iso_charge_parameter_discovery_req ::
    "int \<Rightarrow> EnergyTransferMode \<Rightarrow> ac_charge_parameter option \<Rightarrow> iso_dc_charge_parameter option
     \<Rightarrow> v2g_context \<Rightarrow> v2g_context" where
  "publish_iso_charge_parameter_discovery_req now m ac dc c =
    (let c = publish (Pub_RequestedEnergyTransferMode m) c
     in case ac of
          Some p \<Rightarrow>
            let c = publish_opt (\<lambda>t. Pub_DepartureTime (now + t)) (ap_DepartureTime p) c;
                c = publish (Pub_AC_EAmount (calc (EAmount p))) c;
                c = publish (Pub_AC_EVMaxVoltage (calc (EVMaxVoltage p))) c;
                c = publish (Pub_AC_EVMaxCurrent (calc (EVMaxCurrent p))) c
            in publish (Pub_AC_EVMinCurrent (calc (EVMinCurrent p))) c
        | None \<Rightarrow>
            (case dc of
               None \<Rightarrow> c
             | Some q \<Rightarrow>
                 (case dp_DepartureTime q of
                    None \<Rightarrow> c
                  | Some t \<Rightarrow>
                      let p = dp_values q;
                          c = publish (Pub_DepartureTime (now + t)) c;
                          c = publish_opt (\<lambda>v. Pub_DC_EVEnergyCapacity (calc v)) (dp_EVEnergyCapacity p) c;
                          c = publish_opt (\<lambda>v. Pub_DC_EVEnergyRequest (calc v)) (dp_EVEnergyRequest p) c;
                          c = publish_opt Pub_DC_FullSOC (dp_FullSOC p) c;
                          c = publish_opt Pub_DC_BulkSOC (dp_BulkSOC p) c;
                          c = publish_DC_EVMaximumLimits (Some (calc (dp_EVMaximumCurrentLimit p)))
                                (map_option calc (dp_EVMaximumPowerLimit p)) (Some (calc (dp_EVMaximumVoltageLimit p))) c
                      in publish_DC_EVStatusType (dp_status p) c)))"

section \<open>The charging profile\<close>

text \<open>
  The charging profile of the car against the schedule of the charger: times are sums of 32 bit
  numbers, and a loop that does not end is \<open>None\<close>. The first argument of the inner loop is the
  time of the entry of the car, the state is the index and the time of the schedule entry and
  whether an entry was found; that flag is never reset.
\<close>

definition within_entry :: "pmax_entry list \<Rightarrow> 32 word \<Rightarrow> nat \<Rightarrow> 32 word \<Rightarrow> bool" where
  "within_entry sched t idx ts =
    (if idx < length sched - 1 then ts \<le> t \<and> t < ts + rel_start (sched ! (idx + 1))
     else ts \<le> t \<and> t \<le> ts + rel_duration (sched ! idx))"

partial_function (option) find_schedule_entry ::
    "pmax_entry list \<Rightarrow> 32 word \<Rightarrow> nat \<Rightarrow> 32 word \<Rightarrow> bool \<Rightarrow> (nat \<times> 32 word \<times> bool) option" where
  "find_schedule_entry sched t idx ts found =
    (if idx < length sched \<and> \<not> found then
       let ts' = ts + rel_start (sched ! idx);
           found' = within_entry sched t idx ts'
       in if found' then Some (idx, ts', True)
          else if idx = length sched - 1 then find_schedule_entry sched t idx ts' False
          else find_schedule_entry sched t (idx + 1) ts' False
     else Some (idx, ts, found))"

fun check_profile_entries ::
    "pmax_entry list \<Rightarrow> profile_entry list \<Rightarrow> 32 word \<Rightarrow> nat \<Rightarrow> 32 word \<Rightarrow> bool \<Rightarrow> unit option" where
  "check_profile_entries sched [] t idx ts found = Some ()"
| "check_profile_entries sched (e # es) t idx ts found =
    (let t = t + ChargingProfileEntryStart e
     in case find_schedule_entry sched t idx ts found of
          None \<Rightarrow> None
        | Some (idx, ts, found) \<Rightarrow> check_profile_entries sched es t idx ts found)"

definition check_iso1_charging_profile_values ::
    "profile_entry list option \<Rightarrow> response_code \<Rightarrow> sa_schedule_tuple option \<Rightarrow> unit option" where
  "check_iso1_charging_profile_values profile r tuple =
    (case profile of
       None \<Rightarrow> Some ()
     | Some es \<Rightarrow>
         if r = RC_OK then
           (case tuple of None \<Rightarrow> Some () | Some t \<Rightarrow> check_profile_entries (PMaxSchedule t) es 0 0 0 False)
         else Some ())"

section \<open>Handlers\<close>

definition populate_ac_evse_status :: "v2g_context \<Rightarrow> ac_evse_status" where
  "populate_ac_evse_status c =
    \<lparr>ac_EVSENotification = evse_notification c, ac_NotificationMaxDelay = notification_max_delay c, RCD = rcd c\<rparr>"

definition iso_evse_status :: "charging_phase \<Rightarrow> v2g_context \<Rightarrow> dc_evse_status" where
  "iso_evse_status ph c =
    \<lparr>EVSEIsolationStatus = evse_isolation_status c, EVSEIsolationStatus_isUsed = evse_isolation_status_is_used c,
     EVSENotification = evse_notification c, EVSEStatusCode = evse_status_code c ph,
     NotificationMaxDelay = notification_max_delay c\<rparr>"

definition handle_iso_session_setup :: "iso_env \<Rightarrow> bytes \<Rightarrow> v2g_context \<Rightarrow> v2g_event \<times> iso_response \<times> v2g_context" where
  "handle_iso_session_setup env evccid c =
    (let c = stop_timer (publish (Pub_EVCCIDD (format_EVCCID evccid)) c);
         c = (if session_id c = 0 then c\<lparr>session_id := generate_session_id (base_env env)\<rparr> else c)
     in iso_finish RC_OK_NewSessionEstablished
          (ISessionSetupRes (v2g_evse_id c) (used (date_time_now_is_used c) (time_now (base_env env))))
          (dc_id DC_WAIT_FOR_SERVICEDISCOVERY) c)"

text \<open>
  The scope that the car asks for is searched in the list of the response, which is still empty,
  so all services are offered.
\<close>

definition V2G_SERVICE_ID_CHARGING :: nat where "V2G_SERVICE_ID_CHARGING = 1"

definition handle_iso_service_discovery ::
    "string option \<Rightarrow> v2g_context \<Rightarrow> v2g_event \<times> iso_response \<times> v2g_context" where
  "handle_iso_service_discovery scope c =
    (let c = c\<lparr>charge_service_id := V2G_SERVICE_ID_CHARGING\<rparr>;
         c = (if \<not> is_tls_connection c
                 \<and> (payment_option_list c ! 0 = PO_Contract \<or> payment_option_list c ! 1 = PO_Contract) \<and> \<not> debugMode c
              then c\<lparr>payment_option_list := (payment_option_list c)[0 := PO_ExternalPayment],
                     payment_option_list_len := 1\<rparr> else c)
     in iso_finish RC_OK
          (IServiceDiscoveryRes (charge_service_id c) (take (payment_option_list_len c) (payment_option_list c))
             (evse_service_list c) (evse_service_list c \<noteq> []))
          (dc_id DC_WAIT_FOR_SVCDETAIL_PAYMENTSVCSEL) c)"

fun service_detail_list :: "nat \<Rightarrow> v2g_service list \<Rightarrow> nat list list \<Rightarrow> nat list option \<Rightarrow> nat list option" where
  "service_detail_list i (s # ss) (p # ps) found =
     service_detail_list i ss ps (if ServiceID s = i then Some p else found)"
| "service_detail_list i _ _ found = found"

definition handle_iso_service_detail :: "nat \<Rightarrow> v2g_context \<Rightarrow> v2g_event \<times> iso_response \<times> v2g_context" where
  "handle_iso_service_detail i c =
    (let known = (i = V2G_SERVICE_ID_CHARGING \<or> i \<in> ServiceID ` set (evse_service_list c));
         ps = service_detail_list i (evse_service_list c) (service_parameter_list c) None
     in iso_finish (if known then RC_OK else RC_FAILED_ServiceIDInvalid)
          (IServiceDetailRes i (case ps of None \<Rightarrow> None | Some ps \<Rightarrow> used (ps \<noteq> []) ps))
          (dc_id DC_WAIT_FOR_SVCDETAIL_PAYMENTSVCSEL) c)"

text \<open>Services are checked up to the first one that is not offered.\<close>

definition check_services :: "nat list \<Rightarrow> v2g_context \<Rightarrow> bool \<times> bool" where
  "check_services ids c =
    (let offered = (\<lambda>i. i = V2G_SERVICE_ID_CHARGING \<or> i \<in> ServiceID ` set (evse_service_list c))
     in (V2G_SERVICE_ID_CHARGING \<in> set (takeWhile offered ids), list_all offered ids))"

definition handle_iso_payment_service_selection ::
    "PaymentOption \<Rightarrow> nat list \<Rightarrow> v2g_context \<Rightarrow> v2g_event \<times> iso_response \<times> v2g_context" where
  "handle_iso_payment_service_selection p ids c =
    (let found = (p \<in> set (take (payment_option_list_len c) (payment_option_list c)));
         c = (if found then publish (Pub_SelectedPaymentOption p) c else c);
         r = (if found then RC_OK else RC_FAILED_PaymentSelectionInvalid);
         (charge, services) = check_services ids c;
         r = (if \<not> services then RC_FAILED_ServiceSelectionInvalid else r);
         r = (if \<not> charge then RC_FAILED_NoChargeServiceSelected else r)
     in if p = PO_Contract
        then iso_finish r IPaymentServiceSelectionRes (dc_id DC_WAIT_FOR_PAYMENTDETAILS_CERTINST_CERTUPD) c
        else
          (let (e, res, c) = iso_finish r IPaymentServiceSelectionRes (dc_id DC_WAIT_FOR_AUTHORIZATION) c
           in (e, res, c\<lparr>evse_processing :=
                 (evse_processing c)(PHASE_AUTH := EP_Ongoing_WaitingForCustomerInteraction)\<rparr>)))"

definition payment_details :: "iso_env \<Rightarrow> payment_details_req \<Rightarrow> v2g_context
    \<Rightarrow> response_code \<times> (bytes \<times> int) option \<times> v2g_context" where
  "payment_details env req c =
    (if \<not> publish_iso_payment_details_req env req then (RC_FAILED_CertChainError, None, c)
     else
       let c = c\<lparr>contract_valid_crt := False\<rparr>
       in if iso_selected_payment_option c \<noteq> PO_Contract then (RC_FAILED_CertChainError, None, c)
          else
            let cert = ContractCertificate req; c = c\<lparr>contract_key := None\<rparr>
            in if cert = [] then (RC_FAILED_CertChainError, None, c)
               else
                 let cert_emaid = (case getEmaidFromContractCert (x509_subject env cert) (eMAID_CHARACTERS_SIZE env) of
                                     None \<Rightarrow> old_emaid env | Some e \<Rightarrow> e);
                     emaid = filter (\<lambda>ch. ch \<noteq> CHR ''-'') (eMAID req)
                 in if length cert_emaid \<noteq> length emaid \<or> map ascii_lower emaid \<noteq> map ascii_lower cert_emaid
                       \<or> \<not> x509_crt_parse_ok env cert \<or> \<not> ecdsa_from_keypair_ok env cert
                    then (RC_FAILED_CertChainError, None, c)
                    else (RC_OK, Some (new_challenge env, time_now (base_env env)),
                          c\<lparr>contract_key := Some cert, gen_challenge := new_challenge env, contract_valid_crt := True\<rparr>))"

definition handle_iso_payment_details ::
    "iso_env \<Rightarrow> payment_details_req \<Rightarrow> v2g_context \<Rightarrow> v2g_event \<times> iso_response \<times> v2g_context" where
  "handle_iso_payment_details env req c =
    (let (r, ch, c) = payment_details env req c
     in iso_finish r (IPaymentDetailsRes ch) (dc_id DC_WAIT_FOR_AUTHORIZATION) c)"

definition check_authorization ::
    "iso_env \<Rightarrow> authorization_req \<Rightarrow> iso_signature option \<Rightarrow> v2g_context \<Rightarrow> response_code" where
  "check_authorization env req sig c =
    (if last_v2g_msg c \<noteq> V2G_AUTHORIZATION_MSG \<and> iso_selected_payment_option c = PO_Contract then
       if (case GenChallenge req of None \<Rightarrow> True | Some ch \<Rightarrow> length ch \<noteq> GEN_CHALLENGE_SIZE \<or> ch \<noteq> gen_challenge c)
       then RC_FAILED_ChallengeInvalid
       else (case sig of
               None \<Rightarrow> RC_FAILED_SignatureError
             | Some s \<Rightarrow> if check_iso1_signature env s (contract_key c) req then RC_OK else RC_FAILED_SignatureError)
     else RC_OK)"

definition handle_iso_authorization ::
    "iso_env \<Rightarrow> authorization_req \<Rightarrow> iso_signature option \<Rightarrow> v2g_context \<Rightarrow> v2g_event \<times> iso_response \<times> v2g_context" where
  "handle_iso_authorization env req sig c =
    (let r = check_authorization env req sig c;
         p = (if failed r then EP_Finished else evse_processing c PHASE_AUTH)
     in iso_finish r (IAuthorizationRes p)
          (if p = EP_Finished then dc_id DC_WAIT_FOR_CHARGEPARAMETERDISCOVERY else dc_id DC_WAIT_FOR_AUTHORIZATION) c)"

text \<open>The schedule that is offered when none is configured; the arrays have a first element.\<close>

definition SA_SCHEDULE_DURATION :: "32 word" where "SA_SCHEDULE_DURATION = 86400"

definition ac_pmax :: "EnergyTransferMode \<Rightarrow> v2g_context \<Rightarrow> int" where
  "ac_pmax m c =
    trunc (evse_ac_current_limit c * of_int (trunc (calc (evse_nominal_voltage c)))
           * (if m = AC_single_phase_core then 1 else 3))"

definition default_schedule :: "EnergyTransferMode \<Rightarrow> v2g_context \<Rightarrow> sa_schedule_tuple list" where
  "default_schedule m c =
    (let tuple = hd (evse_sa_schedule_list c); old = PMax (hd (PMaxSchedule tuple));
         p = (if is_dc_charger c then evse_maximum_power_limit c else snd (populate_physical_value old (ac_pmax m c) U_W))
     in [tuple\<lparr>PMaxSchedule := [\<lparr>rel_start = 0, rel_duration = SA_SCHEDULE_DURATION, PMax = p\<rparr>]\<rparr>])"

definition offer_schedule :: "EnergyTransferMode \<Rightarrow> v2g_context \<Rightarrow> v2g_context" where
  "offer_schedule m c =
    (let c = (if evse_processing c PHASE_PARAMETER = EP_Finished \<and> \<not> evse_sa_schedule_list_is_used c
              then c\<lparr>evse_sa_schedule_list := default_schedule m c\<rparr> else c)
     in c\<lparr>renegotiation_required := False\<rparr>)"

definition evse_charge_parameter ::
    "bool \<Rightarrow> bool \<Rightarrow> response_code \<Rightarrow> v2g_context
     \<Rightarrow> (ac_evse_charge_parameter + dc_evse_status \<times> din_charge_parameter) \<times> response_code" where
  "evse_charge_parameter ac dc r c =
    (if is_dc_charger c
     then (Inr (iso_evse_status PHASE_PARAMETER c,
            \<lparr>EVSECurrentRegulationTolerance =
               used (evse_current_regulation_tolerance_is_used c) (evse_current_regulation_tolerance c),
             EVSEEnergyToBeDelivered = used (evse_energy_to_be_delivered_is_used c) (evse_energy_to_be_delivered c),
             EVSEMaximumCurrentLimit' = evse_maximum_current_limit c,
             EVSEMaximumPowerLimit' = Some (evse_maximum_power_limit c),
             EVSEMaximumVoltageLimit' = evse_maximum_voltage_limit c,
             EVSEMinimumCurrentLimit = evse_minimum_current_limit c,
             EVSEMinimumVoltageLimit = evse_minimum_voltage_limit c,
             EVSEPeakCurrentRipple = evse_peak_current_ripple c\<rparr>),
           if ac then RC_FAILED_WrongChargeParameter else r)
     else (Inl \<lparr>AC_EVSEStatus = populate_ac_evse_status c,
                EVSEMaxCurrent = populate_physical_value_float (init_physical_value U_A) (evse_ac_current_limit c) 1 U_A,
                EVSENominalVoltage = evse_nominal_voltage c\<rparr>,
           if dc then RC_FAILED_WrongChargeParameter else r))"

definition handle_iso_charge_parameter_discovery ::
    "iso_env \<Rightarrow> EnergyTransferMode \<Rightarrow> ac_charge_parameter option \<Rightarrow> iso_dc_charge_parameter option
     \<Rightarrow> v2g_context \<Rightarrow> v2g_event \<times> iso_response \<times> v2g_context" where
  "handle_iso_charge_parameter_discovery env m ac dc c =
    (let c = publish_iso_charge_parameter_discovery_req (time_now (base_env env)) m ac dc c;
         r = (if m \<in> set (take (energy_transfer_modes_len c) (energy_transfer_modes c)) then RC_OK
              else RC_FAILED_WrongEnergyTransferMode);
         p = (if evse_processing c PHASE_PARAMETER = EP_Finished then EP_Finished else EP_Ongoing);
         c = offer_schedule m c;
         (par, r) = evse_charge_parameter (ac \<noteq> None) (dc \<noteq> None) r c
     in iso_finish r (IChargeParameterDiscoveryRes p (used (p = EP_Finished) (evse_sa_schedule_list c)) par)
          (if is_dc_charger c
           then (if p = EP_Finished then dc_id DC_WAIT_FOR_CABLECHECK else dc_id DC_WAIT_FOR_CHARGEPARAMETERDISCOVERY)
           else (if p = EP_Finished then ac_id AC_WAIT_FOR_POWERDELIVERY
                 else ac_id AC_WAIT_FOR_CHARGEPARAMETERDISCOVERY)) c)"

text \<open>
  Waiting for the contactor: after each wake-up the commands that arrived meanwhile have taken
  effect. \<open>None\<close> when the wake-ups end while it waits.
\<close>

definition run_commands :: "v2g_command list \<Rightarrow> v2g_context \<Rightarrow> v2g_context" where
  "run_commands cmds c = fold run_command cmds c"

fun wait_contactor ::
    "wake_up list \<Rightarrow> response_code \<Rightarrow> v2g_context \<Rightarrow> (response_code \<times> v2g_context) option" where
  "wait_contactor ws r c =
    (if contactor_is_closed c \<or> intl_emergency_shutdown c \<or> stop_hlc c \<or> is_connection_terminated c then Some (r, c)
     else (case ws of
             [] \<Rightarrow> None
           | Woken cmds # ws \<Rightarrow> wait_contactor ws r (run_commands cmds c)
           | Wait_timeout cmds # ws \<Rightarrow> Some (RC_FAILED_ContactorError, run_commands cmds c)
           | Wait_error cmds # ws \<Rightarrow> Some (r, run_commands cmds c)))"

declare wait_contactor.simps [simp del]

definition charge_progress_action ::
    "iso_env \<Rightarrow> charge_progress \<Rightarrow> v2g_context \<Rightarrow> (response_code \<times> v2g_context) option" where
  "charge_progress_action env p c =
    (case p of
       CP_Start \<Rightarrow>
         let c = publish Pub_V2G_Setup_Finished c
         in if is_dc_charger c \<or> contactor_is_closed c then Some (RC_OK, c)
            else wait_contactor (wake_ups env) RC_OK
                   ((publish (Pub_AC_Close_Contactor True) c)\<lparr>is_charging := True\<rparr>)
     | CP_Stop \<Rightarrow>
         let c = c\<lparr>is_charging := False\<rparr>
         in Some (RC_OK, if \<not> is_dc_charger c then publish (Pub_AC_Open_Contactor True) c
                         else publish (Pub_DC_Open_Contactor True) (publish Pub_currentDemand_Finished c))
     | CP_Renegotiate \<Rightarrow> Some (RC_OK, c\<lparr>renegotiation_required := True\<rparr>)
     | CP_Unknown \<Rightarrow> Some (RC_FAILED, c))"

text \<open>The state after a power delivery, and the code that overrides the response in the last case.\<close>

definition after_power_delivery ::
    "charge_progress \<Rightarrow> response_code \<Rightarrow> v2g_context \<Rightarrow> response_code \<times> v2g_context" where
  "after_power_delivery p r c =
    (let demanded = (last_v2g_msg c = V2G_CURRENT_DEMAND_MSG \<or> last_v2g_msg c = V2G_CHARGING_STATUS_MSG);
         note = (if evse_notification c = EN_ReNegotiation then EN_None else evse_notification c)
     in if p = CP_Renegotiate \<and> demanded then
          (r, set_state (dc_id DC_WAIT_FOR_CHARGEPARAMETERDISCOVERY)
                (if \<not> is_dc_charger c then c\<lparr>evse_notification := note\<rparr>
                 else c\<lparr>evse_processing := (evse_processing c)(PHASE_ISOLATION := EP_Ongoing),
                        evse_notification := note, evse_isolation_status := IS_Invalid\<rparr>))
        else if p = CP_Start \<and> \<not> demanded then
          (r, set_state (if is_dc_charger c then dc_id DC_WAIT_FOR_CURRENTDEMAND else ac_id AC_WAIT_FOR_CHARGINGSTATUS) c)
        else
          (if p \<noteq> CP_Stop then RC_FAILED else r,
           set_state (if is_dc_charger c then dc_id DC_WAIT_FOR_WELDINGDETECTION_SESSIONSTOP
                      else ac_id AC_WAIT_FOR_SESSIONSTOP) c))"

definition handle_iso_power_delivery ::
    "iso_env \<Rightarrow> iso_power_delivery_req \<Rightarrow> v2g_context \<Rightarrow> (v2g_event \<times> iso_response \<times> v2g_context) option" where
  "handle_iso_power_delivery env req c =
    (case charge_progress_action env (ChargeProgress req) (publish_iso_power_delivery_req req c) of
       None \<Rightarrow> None
     | Some (r, c) \<Rightarrow>
         let st = (if is_dc_charger c then Inr (iso_evse_status PHASE_CHARGE c) else Inl (populate_ac_evse_status c));
             r = (if is_dc_charger c \<and> ChargeProgress req = CP_Start
                     \<and> EVSEStatusCode (iso_evse_status PHASE_CHARGE c) \<noteq> EVSE_Ready
                  then RC_FAILED_PowerDeliveryNotApplied else r);
             tuple = find (\<lambda>t. SAScheduleTupleID t = req_SAScheduleTupleID req) (evse_sa_schedule_list c);
             c = (if tuple \<noteq> None then c\<lparr>sa_schedule_tuple_id := req_SAScheduleTupleID req\<rparr> else c);
             r = (if tuple = None then RC_FAILED_TariffSelectionInvalid else r)
         in case check_iso1_charging_profile_values (ChargingProfile req) r tuple of
              None \<Rightarrow> None
            | Some _ \<Rightarrow>
                let (e, r) = iso_validate_response_code r c;
                    (r, c) = after_power_delivery (ChargeProgress req) r c
                in Some (e, \<lparr>IResponseCode = r, IBody = IPowerDeliveryRes st\<rparr>, c))"

text \<open>The meter values are sent once after they have been set.\<close>

definition take_meter_info :: "v2g_context \<Rightarrow> meter_info option \<times> v2g_context" where
  "take_meter_info c =
    (used (meter_info_is_used c) (v2g_meter_id c, meter_reading c), c\<lparr>meter_info_is_used := False\<rparr>)"

definition handle_iso_charging_status :: "v2g_context \<Rightarrow> v2g_event \<times> iso_response \<times> v2g_context" where
  "handle_iso_charging_status c =
    (let contract = (iso_selected_payment_option c = PO_Contract);
         (meter, c) = take_meter_info c
     in iso_finish RC_OK
          (IChargingStatusRes
             \<lparr>cs_EVSEID = v2g_evse_id c, cs_ReceiptRequired = receipt_required c, cs_ReceiptRequired_isUsed = contract,
              cs_EVSEMaxCurrent = used (\<not> contract)
                (populate_physical_value_float (init_physical_value U_A) (evse_ac_current_limit c) 1 U_A),
              cs_MeterInfo = meter, cs_SAScheduleTupleID = sa_schedule_tuple_id c, cs_status = populate_ac_evse_status c\<rparr>)
          (if receipt_required c then ac_id AC_WAIT_FOR_METERINGRECEIPT
           else ac_id AC_WAIT_FOR_CHARGINGSTATUS_POWERDELIVERY) c)"

definition handle_iso_metering_receipt :: "v2g_context \<Rightarrow> v2g_event \<times> iso_response \<times> v2g_context" where
  "handle_iso_metering_receipt c =
     iso_finish RC_OK (IMeteringReceiptRes (used (\<not> is_dc_charger c) (populate_ac_evse_status c)))
       (if \<not> is_dc_charger c then ac_id AC_WAIT_FOR_CHARGINGSTATUS_POWERDELIVERY
        else dc_id DC_WAIT_FOR_CURRENTDEMAND_POWERDELIVERY) c"

definition handle_iso_certificate_update :: "v2g_context \<Rightarrow> v2g_event \<times> iso_response \<times> v2g_context" where
  "handle_iso_certificate_update c =
    (V2G_EVENT_NO_EVENT, \<lparr>IResponseCode = RC_OK, IBody = ICertificateUpdateRes\<rparr>, c)"

text \<open>The wait for a certificate only waits during an emergency shutdown.\<close>

fun wait_certificate :: "wake_up list \<Rightarrow> v2g_context \<Rightarrow> v2g_context option" where
  "wait_certificate ws c =
    (if cert_install_res_b64_buffer c = None \<and> intl_emergency_shutdown c \<and> \<not> stop_hlc c \<and> \<not> is_connection_terminated c
     then (case ws of
             [] \<Rightarrow> None
           | Woken cmds # ws \<Rightarrow> wait_certificate ws (run_commands cmds c)
           | Wait_timeout cmds # ws \<Rightarrow> Some ((run_commands cmds c)\<lparr>intl_emergency_shutdown := True\<rparr>)
           | Wait_error cmds # ws \<Rightarrow> Some (run_commands cmds c))
     else Some c)"

declare wait_certificate.simps [simp del]

definition handle_iso_certificate_installation ::
    "iso_env \<Rightarrow> v2g_context \<Rightarrow> (v2g_event \<times> iso_response \<times> v2g_context) option" where
  "handle_iso_certificate_installation env c =
    (let finish = (\<lambda>r c. iso_finish r ICertificateInstallationRes (dc_id DC_WAIT_FOR_PAYMENTDETAILS) c)
     in if \<not> publish_iso_certificate_installation_exi_req env (request_buffer env) then Some (finish RC_OK c)
        else (case wait_certificate (wake_ups env) c of
                None \<Rightarrow> None
              | Some c \<Rightarrow>
                  (case cert_install_res_b64_buffer c of
                     None \<Rightarrow> Some (finish RC_FAILED c)
                   | Some b \<Rightarrow>
                       if base64_decode_ok env b
                       then Some (V2G_EVENT_SEND_RECV_EXI_MSG, \<lparr>IResponseCode = RC_OK, IBody = ICertificateInstallationRes\<rparr>,
                                  set_state (dc_id DC_WAIT_FOR_PAYMENTDETAILS) c)
                       else Some (finish RC_OK c))))"

definition handle_iso_cable_check :: "dc_ev_status \<Rightarrow> v2g_context \<Rightarrow> v2g_event \<times> iso_response \<times> v2g_context" where
  "handle_iso_cable_check s c =
    (let c = publish_DC_EVStatusType s c; p = evse_processing c PHASE_ISOLATION
     in iso_finish RC_OK (ICableCheckRes (iso_evse_status PHASE_ISOLATION c) p)
          (if p = EP_Finished then dc_id DC_WAIT_FOR_PRECHARGE else dc_id DC_WAIT_FOR_CABLECHECK) c)"

definition handle_iso_pre_charge :: "pre_charge_req \<Rightarrow> v2g_context \<Rightarrow> v2g_event \<times> iso_response \<times> v2g_context" where
  "handle_iso_pre_charge req c =
    (let c = publish_iso_pre_charge_req req c
     in iso_finish RC_OK (IPreChargeRes (iso_evse_status PHASE_PRECHARGE c) (evse_present_voltage c))
          (dc_id DC_WAIT_FOR_PRECHARGE_POWERDELIVERY) c)"

definition set_limits_achieved :: "current_demand_req \<Rightarrow> v2g_context \<Rightarrow> v2g_context" where
  "set_limits_achieved req c =
    (let i = calc (cd_EVTargetCurrent req); v = calc (cd_EVTargetVoltage req)
     in c\<lparr>evse_current_limit_achieved :=
            (evse_maximum_current_limit_is_used c \<and> i \<ge> calc (evse_maximum_current_limit c)),
          evse_power_limit_achieved :=
            (evse_maximum_power_limit_is_used c \<and> i * v \<ge> calc (evse_maximum_power_limit c)),
          evse_voltage_limit_achieved :=
            (evse_maximum_voltage_limit_is_used c \<and> v \<ge> calc (evse_maximum_voltage_limit c))\<rparr>)"

definition handle_iso_current_demand ::
    "iso_env \<Rightarrow> current_demand_req \<Rightarrow> v2g_context \<Rightarrow> v2g_event \<times> iso_response \<times> v2g_context" where
  "handle_iso_current_demand env req c =
    (let c = publish_iso_current_demand_req (time_now (base_env env)) req c;
         c = set_limits_achieved req c;
         (meter, c) = take_meter_info c;
         receipt = used (iso_selected_payment_option c = PO_Contract \<and> receipt_required c) (receipt_required c)
     in iso_finish RC_OK
          (ICurrentDemandRes (iso_evse_status PHASE_CHARGE c)
             \<lparr>cd_limits = current_demand_limits c, cd_EVSEID = v2g_evse_id c, cd_MeterInfo = meter,
              cd_ReceiptRequired = receipt, cd_SAScheduleTupleID = sa_schedule_tuple_id c\<rparr>)
          (if receipt = Some True then dc_id DC_WAIT_FOR_METERINGRECEIPT
           else dc_id DC_WAIT_FOR_CURRENTDEMAND_POWERDELIVERY) c)"

definition handle_iso_welding_detection :: "dc_ev_status \<Rightarrow> v2g_context \<Rightarrow> v2g_event \<times> iso_response \<times> v2g_context" where
  "handle_iso_welding_detection s c =
    (let c = publish_iso_welding_detection_req s c
     in iso_finish RC_OK (IWeldingDetectionRes (iso_evse_status PHASE_WELDING c) (evse_present_voltage c))
          (dc_id DC_WAIT_FOR_WELDINGDETECTION_SESSIONSTOP) c)"

text \<open>A pause is not supported: it ends the session with a failure.\<close>

definition handle_iso_session_stop :: "charging_session \<Rightarrow> v2g_context \<Rightarrow> v2g_event \<times> iso_response \<times> v2g_context" where
  "handle_iso_session_stop s c =
    (let (_, r) = iso_validate_response_code RC_OK c;
         r = (if s = CS_Pause then RC_FAILED else r);
         c = publish Pub_EV_ChargingSession_Terminate (c\<lparr>dlink_action := MQTT_DLINK_ACTION_TERMINATE\<rparr>)
     in (V2G_EVENT_SEND_AND_TERMINATE, \<lparr>IResponseCode = r, IBody = ISessionStopRes\<rparr>,
         set_state (dc_id DC_WAIT_FOR_TERMINATED_SESSION) c))"

section \<open>Dispatch\<close>

definition iso_dispatch ::
    "iso_env \<Rightarrow> iso_request \<Rightarrow> v2g_context \<Rightarrow> (v2g_event \<times> iso_response option \<times> v2g_context) option" where
  "iso_dispatch env req c =
    (case req of
       ICurrentDemandReq r \<Rightarrow>
         let c = (if last_v2g_msg c = V2G_POWER_DELIVERY_MSG
                  then (publish Pub_currentDemand_Started c)\<lparr>is_charging := True\<rparr> else c)
         in Some (answered (handle_iso_current_demand env r (set_current V2G_CURRENT_DEMAND_MSG c)))
     | ISessionSetupReq evccid \<Rightarrow>
         Some (answered (handle_iso_session_setup env evccid (set_current V2G_SESSION_SETUP_MSG c)))
     | IServiceDiscoveryReq scope \<Rightarrow>
         Some (answered (handle_iso_service_discovery scope (set_current V2G_SERVICE_DISCOVERY_MSG c)))
     | IServiceDetailReq i \<Rightarrow> Some (answered (handle_iso_service_detail i (set_current V2G_SERVICE_DETAIL_MSG c)))
     | IPaymentServiceSelectionReq p ids \<Rightarrow>
         Some (answered (handle_iso_payment_service_selection p ids (set_current V2G_PAYMENT_SERVICE_SELECTION_MSG c)))
     | IPaymentDetailsReq r \<Rightarrow>
         Some (answered (handle_iso_payment_details env r (set_current V2G_PAYMENT_DETAILS_MSG c)))
     | IAuthorizationReq r sig \<Rightarrow>
         let c = set_current V2G_AUTHORIZATION_MSG c;
             c = (if last_v2g_msg c \<noteq> V2G_AUTHORIZATION_MSG \<and> iso_selected_payment_option c = PO_ExternalPayment
                  then publish Pub_Require_Auth_EIM c else c)
         in Some (answered (handle_iso_authorization env r sig c))
     | IChargeParameterDiscoveryReq m ac dc \<Rightarrow>
         Some (answered (handle_iso_charge_parameter_discovery env m ac dc
           (set_current V2G_CHARGE_PARAMETER_DISCOVERY_MSG c)))
     | IPowerDeliveryReq r \<Rightarrow>
         map_option answered (handle_iso_power_delivery env r (set_current V2G_POWER_DELIVERY_MSG c))
     | IChargingStatusReq \<Rightarrow> Some (answered (handle_iso_charging_status (set_current V2G_CHARGING_STATUS_MSG c)))
     | IMeteringReceiptReq \<Rightarrow> Some (answered (handle_iso_metering_receipt (set_current V2G_METERING_RECEIPT_MSG c)))
     | ICertificateUpdateReq \<Rightarrow> Some (answered (handle_iso_certificate_update (set_current V2G_CERTIFICATE_UPDATE_MSG c)))
     | ICertificateInstallationReq \<Rightarrow>
         map_option answered
           (handle_iso_certificate_installation env (set_current V2G_CERTIFICATE_INSTALLATION_MSG c))
     | ICableCheckReq s \<Rightarrow>
         let c = set_current V2G_CABLE_CHECK_MSG c;
             c = (if last_v2g_msg c = V2G_CHARGE_PARAMETER_DISCOVERY_MSG then publish Pub_Start_CableCheck c else c)
         in Some (answered (handle_iso_cable_check s c))
     | IPreChargeReq r \<Rightarrow> Some (answered (handle_iso_pre_charge r (set_current V2G_PRE_CHARGE_MSG c)))
     | IWeldingDetectionReq s \<Rightarrow>
         Some (answered (handle_iso_welding_detection s (set_current V2G_WELDING_DETECTION_MSG c)))
     | ISessionStopReq s \<Rightarrow> Some (answered (handle_iso_session_stop s (set_current V2G_SESSION_STOP_MSG c)))
     | IUnknownReq \<Rightarrow> Some (V2G_EVENT_IGNORE_MSG, None, c))"

text \<open>
  The whole request. The tables are read with the state before the handler and, for the log, with
  the state after it; \<open>None\<close> is also a read past the end of the table.
\<close>

definition iso_handle_request ::
    "iso_env \<Rightarrow> bytes \<Rightarrow> iso_request \<Rightarrow> v2g_context \<Rightarrow> (v2g_event \<times> iso_response option \<times> v2g_context) option" where
  "iso_handle_request env sid req c =
    (if v2g_state c < length (iso_states (is_dc_charger c)) then
       (case iso_dispatch env req (c\<lparr>received_session_id := session_id_from_exi sid\<rparr>) of
          None \<Rightarrow> None
        | Some (e, res, c) \<Rightarrow>
            if v2g_state c < length (iso_states (is_dc_charger c))
            then Some (e, res, if e \<noteq> V2G_EVENT_IGNORE_MSG then c\<lparr>last_v2g_msg := current_v2g_msg c\<rparr> else c)
            else None)
     else None)"

end
