(* ===== verification/V2g_Server.thy ===== *)
theory V2g_Server
  imports V2g_Iso
begin

text \<open>
  A V2G connection (\<open>modules/EvseV2G/v2g_server.cpp\<close> and the functions of \<open>connection.cpp\<close> that
  read, write and tear down): the transport header, the negotiation of the protocol, the loop
  that answers requests, and the threads of the TCP and the TLS server around it.
\<close>

section \<open>Message identifiers\<close>

datatype V2G_Message_ID =
    SupportedAppProtocolReq | SupportedAppProtocolRes | SessionSetupReq | SessionSetupRes
  | ServiceDiscoveryReq | ServiceDiscoveryRes | ServiceDetailReq | ServiceDetailRes
  | ServicePaymentSelectionReq | ServicePaymentSelectionRes | PaymentServiceSelectionReq | PaymentServiceSelectionRes
  | PaymentDetailsReq | PaymentDetailsRes | ContractAuthenticationReq | ContractAuthenticationRes
  | AuthorizationReq | AuthorizationRes | ChargeParameterDiscoveryReq | ChargeParameterDiscoveryRes
  | MeteringReceiptReq | MeteringReceiptRes | CertificateUpdateReq | CertificateUpdateRes
  | CertificateInstallationReq | CertificateInstallationRes | ChargingStatusReq | ChargingStatusRes
  | CableCheckReq | CableCheckRes | PreChargeReq | PreChargeRes | PowerDeliveryReq | PowerDeliveryRes
  | CurrentDemandReq | CurrentDemandRes | WeldingDetectionReq | WeldingDetectionRes
  | SessionStopReq | SessionStopRes | UnknownMessage

fun get_V2G_Message_ID :: "V2gMsgTypeId \<Rightarrow> v2g_protocol \<Rightarrow> bool \<Rightarrow> V2G_Message_ID" where
  "get_V2G_Message_ID V2G_SUPPORTED_APP_PROTOCOL_MSG p is_req =
     (if is_req then SupportedAppProtocolReq else SupportedAppProtocolRes)"
| "get_V2G_Message_ID V2G_SESSION_SETUP_MSG p is_req = (if is_req then SessionSetupReq else SessionSetupRes)"
| "get_V2G_Message_ID V2G_SERVICE_DISCOVERY_MSG p is_req = (if is_req then ServiceDiscoveryReq else ServiceDiscoveryRes)"
| "get_V2G_Message_ID V2G_SERVICE_DETAIL_MSG p is_req = (if is_req then ServiceDetailReq else ServiceDetailRes)"
| "get_V2G_Message_ID V2G_PAYMENT_SERVICE_SELECTION_MSG p is_req =
     (if is_req then (if p = V2G_PROTO_DIN70121 then ServicePaymentSelectionReq else PaymentServiceSelectionReq)
      else (if p = V2G_PROTO_DIN70121 then ServicePaymentSelectionRes else PaymentServiceSelectionRes))"
| "get_V2G_Message_ID V2G_PAYMENT_DETAILS_MSG p is_req = (if is_req then PaymentDetailsReq else PaymentDetailsRes)"
| "get_V2G_Message_ID V2G_AUTHORIZATION_MSG p is_req =
     (if is_req then (if p = V2G_PROTO_DIN70121 then ContractAuthenticationReq else AuthorizationReq)
      else (if p = V2G_PROTO_DIN70121 then ContractAuthenticationRes else AuthorizationRes))"
| "get_V2G_Message_ID V2G_CHARGE_PARAMETER_DISCOVERY_MSG p is_req =
     (if is_req then ChargeParameterDiscoveryReq else ChargeParameterDiscoveryRes)"
| "get_V2G_Message_ID V2G_METERING_RECEIPT_MSG p is_req = (if is_req then MeteringReceiptReq else MeteringReceiptRes)"
| "get_V2G_Message_ID V2G_CERTIFICATE_UPDATE_MSG p is_req = (if is_req then CertificateUpdateReq else CertificateUpdateRes)"
| "get_V2G_Message_ID V2G_CERTIFICATE_INSTALLATION_MSG p is_req =
     (if is_req then CertificateInstallationReq else CertificateInstallationRes)"
| "get_V2G_Message_ID V2G_CHARGING_STATUS_MSG p is_req = (if is_req then ChargingStatusReq else ChargingStatusRes)"
| "get_V2G_Message_ID V2G_CABLE_CHECK_MSG p is_req = (if is_req then CableCheckReq else CableCheckRes)"
| "get_V2G_Message_ID V2G_PRE_CHARGE_MSG p is_req = (if is_req then PreChargeReq else PreChargeRes)"
| "get_V2G_Message_ID V2G_POWER_DELIVERY_MSG p is_req = (if is_req then PowerDeliveryReq else PowerDeliveryRes)"
| "get_V2G_Message_ID V2G_CURRENT_DEMAND_MSG p is_req = (if is_req then CurrentDemandReq else CurrentDemandRes)"
| "get_V2G_Message_ID V2G_WELDING_DETECTION_MSG p is_req = (if is_req then WeldingDetectionReq else WeldingDetectionRes)"
| "get_V2G_Message_ID V2G_SESSION_STOP_MSG p is_req = (if is_req then SessionStopReq else SessionStopRes)"
| "get_V2G_Message_ID V2G_UNKNOWN_MSG p is_req = UnknownMessage"

section \<open>Reading and writing\<close>

text \<open>
  A round of the loop that reads: the commands that other threads have run before it, the time
  since the loop began, and what the socket delivers. \<open>Rx_again\<close> is an interrupted call or a wait
  without data.
\<close>

datatype rx_result = Rx_data bytes | Rx_again | Rx_closed | Rx_error

record rx_step =
  rx_commands :: "v2g_command list"
  rx_elapsed :: int
  rx_result :: rx_result

definition V2G_SEQUENCE_TIMEOUT_60S :: int where "V2G_SEQUENCE_TIMEOUT_60S = 60000"

definition is_sequence_timeout :: "int \<Rightarrow> bool" where
  "is_sequence_timeout elapsed = (elapsed > V2G_SEQUENCE_TIMEOUT_60S)"

datatype read_result = Read bytes | Read_failed bytes

definition read_finished :: "bytes \<Rightarrow> v2g_context \<Rightarrow> read_result" where
  "read_finished buf c = (if is_connection_terminated c then Read_failed buf else Read buf)"

text \<open>
  \<open>count\<close> is how many bytes are still to be read. The result is what was read, the commands that
  were run meanwhile and the rounds that are left; \<open>None\<close> when they do not suffice.
\<close>

fun connection_read ::
    "rx_step list \<Rightarrow> nat \<Rightarrow> bytes \<Rightarrow> v2g_context
     \<Rightarrow> (read_result \<times> v2g_command list \<times> rx_step list \<times> v2g_context) option" where
  "connection_read steps count buf c =
    (if count \<le> length buf then Some (read_finished buf c, [], steps, c)
     else
       (case steps of
          [] \<Rightarrow> None
        | s # steps \<Rightarrow>
            let c = run_commands (rx_commands s) c
            in map_option (\<lambda>(r, cmds, rest). (r, rx_commands s @ cmds, rest))
                 (if is_sequence_timeout (rx_elapsed s) \<or> is_connection_terminated c
                  then Some (read_finished buf c, [], steps, c)
                  else (case rx_result s of
                          Rx_again \<Rightarrow> connection_read steps count buf c
                        | Rx_closed \<Rightarrow> Some (Read buf, [], steps, c)
                        | Rx_error \<Rightarrow> Some (Read_failed buf, [], steps, c)
                        | Rx_data bs \<Rightarrow>
                            if bs = [] then Some (Read buf, [], steps, c)
                            else connection_read steps count (buf @ take (count - length buf) bs) c))))"

declare connection_read.simps [simp del]

text \<open>A write delivers all bytes, is cut short by the other side, or fails.\<close>

datatype tx_result = Tx_data nat | Tx_again | Tx_error

fun connection_write :: "tx_result list \<Rightarrow> nat \<Rightarrow> nat \<Rightarrow> int option" where
  "connection_write rs count written =
    (if count \<le> written then Some (int written)
     else
       (case rs of
          [] \<Rightarrow> None
        | Tx_again # rs \<Rightarrow> connection_write rs count written
        | Tx_error # rs \<Rightarrow> Some (- 1)
        | Tx_data n # rs \<Rightarrow> if n = 0 then Some (int written) else connection_write rs count (written + n)))"

declare connection_write.simps [simp del]

section \<open>The transport header\<close>

definition V2GTP_HEADER_LENGTH :: "32 word" where "V2GTP_HEADER_LENGTH = 8"
definition DEFAULT_BUFFER_SIZE :: "32 word" where "DEFAULT_BUFFER_SIZE = 8192"

text \<open>
  The result of reading a message; \<open>Incoming_overflow\<close> when more bytes were written than the buffer
  has. The length of the payload and the sum with the length of the header have 32 bits.
\<close>

datatype incoming = Incoming bytes | Incoming_closed | Incoming_error | Incoming_overflow

definition payload_too_long :: "32 word \<Rightarrow> bool" where
  "payload_too_long payload_len = (payload_len + V2GTP_HEADER_LENGTH > DEFAULT_BUFFER_SIZE)"

definition incoming_payload :: "32 word \<Rightarrow> read_result \<Rightarrow> incoming" where
  "incoming_payload payload_len r =
    (case r of
       Read buf \<Rightarrow>
         if uint V2GTP_HEADER_LENGTH + int (length buf) > uint DEFAULT_BUFFER_SIZE then Incoming_overflow
         else if int (length buf) \<noteq> uint payload_len then Incoming_error else Incoming buf
     | Read_failed buf \<Rightarrow>
         if uint V2GTP_HEADER_LENGTH + int (length buf) > uint DEFAULT_BUFFER_SIZE then Incoming_overflow else Incoming_error)"

definition v2g_incoming_v2gtp ::
    "(bytes \<Rightarrow> 32 word option) \<Rightarrow> rx_step list \<Rightarrow> v2g_context
     \<Rightarrow> (incoming \<times> v2g_command list \<times> rx_step list \<times> v2g_context) option" where
  "v2g_incoming_v2gtp read_v2gtpHeader steps c =
    (case connection_read steps (unat V2GTP_HEADER_LENGTH) [] c of
       None \<Rightarrow> None
     | Some (Read_failed _, cmds, steps, c) \<Rightarrow> Some (Incoming_error, cmds, steps, c)
     | Some (Read header, cmds, steps, c) \<Rightarrow>
         if header = [] then Some (Incoming_closed, cmds, steps, c)
         else if length header \<noteq> unat V2GTP_HEADER_LENGTH then Some (Incoming_error, cmds, steps, c)
         else
           (case read_v2gtpHeader header of
              None \<Rightarrow> Some (Incoming_error, cmds, steps, c)
            | Some payload_len \<Rightarrow>
                if payload_too_long payload_len then Some (Incoming_error, cmds, steps, c)
                else map_option (\<lambda>(r, cmds', rest). (incoming_payload payload_len r, cmds @ cmds', rest))
                       (connection_read steps (unat payload_len) [] c)))"

section \<open>Negotiation of the protocol\<close>

record app_protocol =
  ProtocolNamespace :: string
  VersionNumberMajor :: nat
  VersionNumberMinor :: nat
  SchemaID :: nat
  Priority :: nat

datatype handshake_code = OK_SuccessfulNegotiation | Failed_NoNegotiation

record handshake_response =
  handshake_code :: handshake_code
  handshake_SchemaID :: "nat option"

definition DIN_70121_MSG_DEF :: string where "DIN_70121_MSG_DEF = ''urn:din:70121:2012:MsgDef''"
definition ISO_15118_2013_MSG_DEF :: string where "ISO_15118_2013_MSG_DEF = ''urn:iso:15118:2:2013:MsgDef''"

text \<open>The namespace is copied up to the first zero.\<close>

definition is_din :: "v2g_context \<Rightarrow> app_protocol \<Rightarrow> bool" where
  "is_din c a = (V2G_PROTO_DIN70121 \<in> set (supported_protocols c)
     \<and> takeWhile (\<lambda>ch. ch \<noteq> CHR 0x00) (ProtocolNamespace a) = DIN_70121_MSG_DEF \<and> VersionNumberMajor a = 2)"

definition is_iso :: "v2g_context \<Rightarrow> app_protocol \<Rightarrow> bool" where
  "is_iso c a = (V2G_PROTO_ISO15118_2013 \<in> set (supported_protocols c)
     \<and> takeWhile (\<lambda>ch. ch \<noteq> CHR 0x00) (ProtocolNamespace a) = ISO_15118_2013_MSG_DEF \<and> VersionNumberMajor a = 2)"

text \<open>
  The loop over the protocols that the car offers: the priority of the best one so far, its schema
  and the selected protocol. Twenty is the lowest priority.
\<close>

fun negotiate ::
    "app_protocol list \<Rightarrow> nat \<Rightarrow> nat option \<Rightarrow> v2g_context \<Rightarrow> nat option \<times> v2g_context" where
  "negotiate [] prio schema c = (schema, c)"
| "negotiate (a # as) prio schema c =
    (if is_din c a \<and> prio \<ge> Priority a then
       negotiate as (Priority a) (Some (SchemaID a)) (c\<lparr>selected_protocol := V2G_PROTO_DIN70121\<rparr>)
     else if is_iso c a \<and> prio \<ge> Priority a then
       negotiate as (Priority a) (Some (SchemaID a)) (c\<lparr>selected_protocol := V2G_PROTO_ISO15118_2013\<rparr>)
     else negotiate as prio schema c)"

text \<open>
  The answer to a request that was decoded, or \<open>None\<close> for one that was not. A response that cannot
  be encoded is sent as it is in the buffer.
\<close>

definition v2g_handle_apphandshake ::
    "app_protocol list option \<Rightarrow> bool \<Rightarrow> v2g_context \<Rightarrow> v2g_event \<times> handshake_response \<times> v2g_context" where
  "v2g_handle_apphandshake req encoded c =
    (let c = c\<lparr>current_v2g_msg := V2G_SUPPORTED_APP_PROTOCOL_MSG\<rparr>
     in case req of
          None \<Rightarrow> (V2G_EVENT_TERMINATE_CONNECTION, \<lparr>handshake_code = Failed_NoNegotiation, handshake_SchemaID = None\<rparr>, c)
        | Some as \<Rightarrow>
            let (schema, c) = negotiate as 20 None c;
                e = (if schema = None then V2G_EVENT_SEND_AND_TERMINATE else V2G_EVENT_NO_EVENT);
                code = (if schema = None then Failed_NoNegotiation else OK_SuccessfulNegotiation)
            in if is_connection_terminated c
               then (V2G_EVENT_TERMINATE_CONNECTION, \<lparr>handshake_code = code, handshake_SchemaID = schema\<rparr>, c)
               else
                 let abort = (intl_emergency_shutdown c \<or> stop_hlc c \<or> e = V2G_EVENT_SEND_AND_TERMINATE);
                     code = (if abort then Failed_NoNegotiation else code);
                     e = (if abort \<and> terminate_connection_on_failed_response c then V2G_EVENT_SEND_AND_TERMINATE else e);
                     e = (if \<not> encoded then V2G_EVENT_SEND_AND_TERMINATE else e)
                 in (e, \<lparr>handshake_code = code, handshake_SchemaID = schema\<rparr>, c))"

section \<open>The connection\<close>

text \<open>
  What the connection gets from the libraries: the codecs, and for every message the environment
  of the handler, whether the response could be encoded and how it was written. The record of what
  happened lists the commands of the other modules and the requests with the event and the answer
  of the handler, whether the answer was sent or not.
\<close>

record server_env =
  read_v2gtpHeader :: "bytes \<Rightarrow> 32 word option"
  decode_appHandExiDocument :: "bytes \<Rightarrow> app_protocol list option"
  decode_dinExiDocument :: "bytes \<Rightarrow> (bytes \<times> din_request) option"
  decode_iso1ExiDocument :: "bytes \<Rightarrow> (bytes \<times> iso_request) option"

record turn =
  turn_env :: iso_env
  encoded :: bool
  header_written :: bool
  response_len :: nat
  written :: "tx_result list"

datatype conn_event =
    Conn_command v2g_command
  | Conn_din din_request v2g_event "din_response option"
  | Conn_iso iso_request v2g_event "iso_response option"
  | Conn_sent V2gMsgTypeId

text \<open>\<open>None\<close> when the writing does not end; otherwise whether it was successful.\<close>

definition v2g_outgoing_v2gtp :: "turn \<Rightarrow> bool option" where
  "v2g_outgoing_v2gtp t =
    (if \<not> header_written t then Some False
     else map_option (\<lambda>n. n \<noteq> - 1) (connection_write (written t) (response_len t) 0))"

definition handle_message ::
    "server_env \<Rightarrow> v2g_protocol \<Rightarrow> turn \<Rightarrow> bytes \<Rightarrow> v2g_context \<Rightarrow> (v2g_event \<times> conn_event list \<times> v2g_context) option" where
  "handle_message env p t buf c =
    (if p = V2G_PROTO_ISO15118_2013 then
       (case decode_iso1ExiDocument env buf of
          None \<Rightarrow> Some (V2G_EVENT_IGNORE_MSG, [], c)
        | Some (sid, req) \<Rightarrow>
            map_option (\<lambda>(e, res, c). (e, [Conn_iso req e res], c)) (iso_handle_request (turn_env t) sid req c))
     else
       (case decode_dinExiDocument env buf of
          None \<Rightarrow> Some (V2G_EVENT_IGNORE_MSG, [], c)
        | Some (sid, req) \<Rightarrow>
            let (e, res, c) = din_handle_request (base_env (turn_env t)) sid req c in Some (e, [Conn_din req e res], c)))"

text \<open>What follows the handler: whether the loop goes on, and the response that is sent.\<close>

definition respond :: "turn \<Rightarrow> v2g_event \<Rightarrow> v2g_context \<Rightarrow> (bool \<times> conn_event list) option" where
  "respond t e c =
    (if e = V2G_EVENT_IGNORE_MSG then Some (True, [])
     else if e = V2G_EVENT_TERMINATE_CONNECTION then Some (False, [])
     else if e \<noteq> V2G_EVENT_SEND_RECV_EXI_MSG \<and> \<not> encoded t then Some (False, [])
     else map_option (\<lambda>ok. (ok \<and> e \<noteq> V2G_EVENT_SEND_AND_TERMINATE, if ok then [Conn_sent (current_v2g_msg c)] else []))
            (v2g_outgoing_v2gtp t))"

fun message_loop ::
    "server_env \<Rightarrow> v2g_protocol \<Rightarrow> turn list \<Rightarrow> rx_step list \<Rightarrow> v2g_context \<Rightarrow> (conn_event list \<times> v2g_context) option" where
  "message_loop env p [] steps c = None"
| "message_loop env p (t # ts) steps c =
    (case v2g_incoming_v2gtp (read_v2gtpHeader env) steps c of
       None \<Rightarrow> None
     | Some (Incoming_overflow, _) \<Rightarrow> None
     | Some (Incoming buf, cmds, steps, c) \<Rightarrow>
         (case handle_message env p t buf c of
            None \<Rightarrow> None
          | Some (e, es, c) \<Rightarrow>
              (case respond t e c of
                 None \<Rightarrow> None
               | Some (go_on, sent) \<Rightarrow>
                   map_option (\<lambda>(es', c). (map Conn_command cmds @ es @ sent @ es', c))
                     (if go_on then message_loop env p ts steps c else Some ([], c))))
     | Some (_, cmds, steps, c) \<Rightarrow> Some (map Conn_command cmds, c))"

text \<open>
  The whole connection. The context is initialised again when it ends. \<open>None\<close> when it does not end
  within the given rounds, does not return from a handler or writes past the buffer.
\<close>

definition negotiated_session ::
    "server_env \<Rightarrow> turn list \<Rightarrow> rx_step list \<Rightarrow> v2g_event \<Rightarrow> v2g_context \<Rightarrow> (conn_event list \<times> v2g_context) option" where
  "negotiated_session env ts steps e c =
    (if e = V2G_EVENT_SEND_AND_TERMINATE \<or> e = V2G_EVENT_TERMINATE_CONNECTION then Some ([], c)
     else if selected_protocol c \<in> {V2G_PROTO_DIN70121, V2G_PROTO_ISO15118_2010, V2G_PROTO_ISO15118_2013}
     then message_loop env (selected_protocol c) ts steps c
     else Some ([], c))"

definition serve_connection ::
    "server_env \<Rightarrow> turn \<Rightarrow> turn list \<Rightarrow> rx_step list \<Rightarrow> v2g_context \<Rightarrow> (conn_event list \<times> v2g_context) option" where
  "serve_connection env t ts steps c =
    (case v2g_incoming_v2gtp (read_v2gtpHeader env) steps c of
       None \<Rightarrow> None
     | Some (Incoming_overflow, _) \<Rightarrow> None
     | Some (Incoming buf, cmds, steps, c) \<Rightarrow>
         if is_connection_terminated c then Some (map Conn_command cmds, c)
         else
           (let (e, res, c) = v2g_handle_apphandshake (decode_appHandExiDocument env buf) (encoded t) c
            in if e = V2G_EVENT_TERMINATE_CONNECTION then Some (map Conn_command cmds, c)
               else
                 (case v2g_outgoing_v2gtp t of
                    None \<Rightarrow> None
                  | Some False \<Rightarrow> Some (map Conn_command cmds, c)
                  | Some True \<Rightarrow>
                      map_option (\<lambda>(es, c). (map Conn_command cmds @ Conn_sent V2G_SUPPORTED_APP_PROTOCOL_MSG # es, c))
                        (negotiated_session env ts steps e c)))
     | Some (_, cmds, steps, c) \<Rightarrow> Some (map Conn_command cmds, c))"

definition v2g_handle_connection ::
    "server_env \<Rightarrow> turn \<Rightarrow> turn list \<Rightarrow> rx_step list \<Rightarrow> v2g_context \<Rightarrow> (conn_event list \<times> v2g_context) option" where
  "v2g_handle_connection env t ts steps c =
     map_option (\<lambda>(es, c). (es, v2g_ctx_init_charging_state True c))
       (serve_connection env t ts steps (v2g_ctx_init_charging_state False c))"

section \<open>The threads\<close>

definition connection_teardown :: "v2g_context \<Rightarrow> v2g_context" where
  "connection_teardown c =
    (let c = (if is_charging c
              then publish (if is_dc_charger c then Pub_DC_Open_Contactor True else Pub_AC_Open_Contactor True)
                     (publish Pub_currentDemand_Finished c)
              else c)
     in stop_timer (v2g_ctx_init_charging_session True c))"

definition connection_handle_tcp ::
    "server_env \<Rightarrow> turn \<Rightarrow> turn list \<Rightarrow> rx_step list \<Rightarrow> v2g_context \<Rightarrow> (conn_event list \<times> v2g_context) option" where
  "connection_handle_tcp env t ts steps c =
    (if v2g_state c = 0
     then map_option (\<lambda>(es, c). (es, connection_teardown c)) (v2g_handle_connection env t ts steps (c\<lparr>is_tls_connection := False\<rparr>))
     else Some ([], c))"

text \<open>The flag tells whether the TLS handshake succeeded.\<close>

definition connection_handle_tls ::
    "bool \<Rightarrow> server_env \<Rightarrow> turn \<Rightarrow> turn list \<Rightarrow> rx_step list \<Rightarrow> v2g_context \<Rightarrow> (conn_event list \<times> v2g_context) option" where
  "connection_handle_tls handshake env t ts steps c =
     map_option (\<lambda>(es, c). (es, connection_teardown c))
       (if handshake \<and> v2g_state c = 0
        then v2g_handle_connection env t ts steps (c\<lparr>is_tls_connection := True\<rparr>) else Some ([], c))"

end
