(* ===== verification/V2g_Traces.thy ===== *)
theory V2g_Traces
  imports V2g_Commands "HOL-Library.Sublist"
begin

text \<open>
  Traces of a charging session: the requests that were answered and the commands of the other
  modules, and predicates on what has happened in which order. The DIN and the ISO server share
  them.
\<close>

datatype ('q, 'r) session_event = Answered 'q 'r | Commanded v2g_command

fun authorization_given :: "('q, 'r) session_event \<Rightarrow> bool" where
  "authorization_given (Commanded cmd) = (cmd = Set_Auth_Okay_EIM True \<or> cmd = Set_Auth_Okay_PnC AS_Accepted CS_Accepted)"
| "authorization_given (Answered _ _) = False"

fun cable_checked :: "('q, 'r) session_event \<Rightarrow> bool" where
  "cable_checked (Commanded cmd) = (cmd = CableCheck_Finished True)"
| "cable_checked (Answered _ _) = False"

fun isolation_reported :: "('q, 'r) session_event \<Rightarrow> bool" where
  "isolation_reported (Commanded cmd) =
     (cmd = Set_EVSEIsolationStatus IS_Valid \<or> cmd = Set_EVSEIsolationStatus IS_Warning)"
| "isolation_reported (Answered _ _) = False"

text \<open>Events that satisfy the predicates occur in this order.\<close>

definition in_order :: "('a \<Rightarrow> bool) list \<Rightarrow> 'a list \<Rightarrow> bool" where
  "in_order ps tr = (\<exists>es. subseq es tr \<and> list_all2 (\<lambda>p e. p e) ps es)"

lemma in_order_empty [simp]: "in_order [] tr"
  by (auto simp: in_order_def intro: exI[of _ "[]"])

lemma in_order_mono: "in_order ps tr \<Longrightarrow> in_order ps (tr @ [e])"
  by (auto simp: in_order_def intro: list_emb_append2)

lemma in_order_snoc: "in_order ps tr \<Longrightarrow> p e \<Longrightarrow> in_order (ps @ [p]) (tr @ [e])"
  unfolding in_order_def by (metis list_all2_appendI list_all2_Cons list_all2_Nil list_emb_append_mono subseq_order.order_refl)

lemma in_order_mem: "in_order [p] tr \<longleftrightarrow> (\<exists>e \<in> set tr. p e)"
  unfolding in_order_def list_all2_Cons1 list_all2_Nil by (metis subseq_singleton_left)

lemma in_order_single: "in_order [p] tr \<Longrightarrow> q e \<Longrightarrow> in_order [p, q] (tr @ [e])"
  using in_order_snoc[of "[p]" tr q e] by simp

lemma in_order_cmd: "in_order [p] tr \<or> p e \<Longrightarrow> in_order [p] (tr @ [e])"
  by (auto simp: in_order_mem)

text \<open>
  A session that has to pass a list of steps: from the step number \<open>k\<close> on, the \<open>n\<close> steps that were
  passed are preceded by an event that satisfies \<open>p\<close>.
\<close>

definition chain :: "('e \<Rightarrow> bool) list \<Rightarrow> ('e \<Rightarrow> bool) \<Rightarrow> nat \<Rightarrow> nat \<Rightarrow> 'e list \<Rightarrow> bool" where
  "chain steps p k n tr = (k < n \<longrightarrow> in_order (p # drop k (take n steps)) tr)"

lemma chain_keep: "n' = n \<or> n' = 0 \<Longrightarrow> chain steps p k n tr \<Longrightarrow> chain steps p k n' (tr @ [e])"
  by (auto simp: chain_def intro: in_order_mono)

lemma chain_advance:
  assumes "n' = Suc n" "n < length steps" "(steps ! n) e" "n = k \<longrightarrow> in_order [p] tr" "chain steps p k n tr"
  shows "chain steps p k n' (tr @ [e])"
proof (cases "k < Suc n")
  case True
  then have "in_order (p # drop k (take n steps)) tr"
    using assms(4,5) by (cases "n = k") (auto simp: chain_def)
  from in_order_snoc[of _ _ "steps ! n", OF this assms(3)] show ?thesis
    using True assms(1,2) by (simp add: chain_def take_Suc_conv_app_nth)
next
  case False
  then show ?thesis using assms(1) by (simp add: chain_def)
qed

end
