(* ===== verification/V2g_Din_Correct.thy ===== *)
theory V2g_Din_Correct
  imports V2g_Din V2g_Traces
begin

text \<open>
  Properties of the DIN 70121 server: the bit masks of the state table, what a response that
  lets the session go on means, the protocol automaton that the handlers implement and what
  must have happened in a session before the car may draw current.
\<close>

section \<open>Bit masks\<close>

lemma msg_id_eq_iff [simp]: "msg_id a = msg_id b \<longleftrightarrow> a = b"
  by (cases a; cases b) simp_all

lemma bit_allowed_requests: "bit (allowed_requests ms) n \<longleftrightarrow> n \<in> msg_id ` set ms"
  by (induction ms) (auto simp: allowed_requests_def bit_or_iff bit_exp_iff)

lemma is_allowed_iff [simp]: "is_allowed (allowed_requests ms) m \<longleftrightarrow> m \<in> set ms"
proof -
  have "is_allowed (allowed_requests ms) m \<longleftrightarrow> bit (allowed_requests ms) (msg_id m)"
    unfolding is_allowed_def bit_iff_and_push_bit_not_eq_0 ..
  then show ?thesis by (auto simp: bit_allowed_requests)
qed

section \<open>Frame of the publications\<close>

text \<open>The part of the context that decides about the session.\<close>

definition core :: "v2g_context \<Rightarrow> _" where
  "core c = ((v2g_state c, last_v2g_msg c, current_v2g_msg c, terminate_connection_on_failed_response c,
     is_connection_terminated c, stop_hlc c, intl_emergency_shutdown c), (evse_processing c, evse_isolation_status c,
     evse_isolation_status_is_used c, evse_status_code c, evse_notification c, notification_max_delay c),
     (session_id c, received_session_id c, is_dc_charger c, iso_selected_payment_option c, contactor_is_closed c))"

lemma core_publish [simp]: "core (publish p c) = core c"
  by (simp add: core_def publish_def)

lemma core_unchanged [simp]:
  "core (c\<lparr>bulk_charging_complete := b\<rparr>) = core c"
  "core (c\<lparr>charging_complete := b\<rparr>) = core c"
  "core (c\<lparr>is_charging := ch\<rparr>) = core c"
  "core (c\<lparr>com_setup_timeout := ch\<rparr>) = core c"
  "core (c\<lparr>energy_transfer_modes := ms\<rparr>) = core c"
  "core (c\<lparr>ev_status := st\<rparr>) = core c"
  "core (c\<lparr>v2g_target_voltage := tv, v2g_target_current := tv'\<rparr>) = core c"
  "core (c\<lparr>ev_maximum_current_limit := tv\<rparr>) = core c"
  "core (c\<lparr>ev_maximum_power_limit := tv\<rparr>) = core c"
  "core (c\<lparr>ev_maximum_voltage_limit := tv\<rparr>) = core c"
  "core (c\<lparr>remaining_time_to_full_soc := tv\<rparr>) = core c"
  "core (c\<lparr>remaining_time_to_bulk_soc := tv\<rparr>) = core c"
  by (simp_all add: core_def)

lemma core_publications [simp]:
  "core (publish_opt f v c) = core c"
  "core (publish_DC_EVStatusType s c) = core c"
  "core (publish_DC_EVTargetVoltageCurrent tv ti c) = core c"
  "core (publish_DC_EVMaximumLimits i p u c) = core c"
  "core (publish_DC_EVRemainingTime now fl bl c) = core c"
  by (simp_all add: publish_opt_def publish_DC_EVStatusType_def publish_DC_EVTargetVoltageCurrent_def
      publish_DC_EVMaximumLimits_def publish_DC_EVRemainingTime_def Let_def split: option.split)

lemma core_publish_requests [simp]:
  "core (publish_din_charge_parameter_discovery_req m dc c) = core c"
  "core (publish_power_delivery_req pd c) = core c"
  "core (publish_precharge_req pc c) = core c"
  "core (publish_current_demand_req now cd c) = core c"
  by (simp_all add: publish_din_charge_parameter_discovery_req_def publish_power_delivery_req_def
      publish_precharge_req_def publish_current_demand_req_def Let_def split: option.split)

lemma core_evse_status: "core c = core d \<Longrightarrow> evse_status ph c = evse_status ph d"
  by (simp add: core_def evse_status_def)

section \<open>Responses that let the session go on\<close>

lemma failed_simps [simp]:
  "\<not> failed RC_OK" "\<not> failed RC_OK_NewSessionEstablished" "failed RC_FAILED"
  "failed RC_FAILED_SequenceError" "failed RC_FAILED_UnknownSession" "failed RC_FAILED_PowerDeliveryNotApplied"
  by (simp_all add: failed_def)

lemma din_validate_continues:
  assumes "din_validate_response_code r c = (V2G_EVENT_NO_EVENT, r')" "terminate_connection_on_failed_response c"
  shows "is_allowed (din_states ! v2g_state c) (current_v2g_msg c) \<and> r' = r \<and> \<not> failed r
    \<and> (current_v2g_msg c \<noteq> V2G_SESSION_SETUP_MSG \<longrightarrow> session_id c = received_session_id c)"
  using assms by (auto simp: din_validate_response_code_def din_validate_state_def Let_def split: if_splits)

lemma din_finish_continues:
  assumes "din_finish r b s c1 = (V2G_EVENT_NO_EVENT, res, c')" "core c1 = core c"
    "terminate_connection_on_failed_response c"
  shows "is_allowed (din_states ! v2g_state c) (current_v2g_msg c)" "\<not> failed (ResponseCode res)" "\<not> failed r"
    "Body res = b" "core c' = core (set_state (din_id s) c)"
    "current_v2g_msg c \<noteq> V2G_SESSION_SETUP_MSG \<longrightarrow> session_id c = received_session_id c"
proof -
  have c1: "v2g_state c1 = v2g_state c" "current_v2g_msg c1 = current_v2g_msg c" "session_id c1 = session_id c"
    "received_session_id c1 = received_session_id c"
    "terminate_connection_on_failed_response c1 = terminate_connection_on_failed_response c"
    using assms(2) by (simp_all add: core_def)
  obtain r' where v: "din_validate_response_code r c1 = (V2G_EVENT_NO_EVENT, r')"
    and res: "res = \<lparr>ResponseCode = r', Body = b\<rparr>" and c': "c' = set_state (din_id s) c1"
    using assms(1) by (auto simp: din_finish_def split: prod.splits)
  show "core c' = core (set_state (din_id s) c)" using assms(2) c' by (simp add: core_def set_state_def)
  have a: "is_allowed (din_states ! v2g_state c1) (current_v2g_msg c1) \<and> r' = r \<and> \<not> failed r
      \<and> (current_v2g_msg c1 \<noteq> V2G_SESSION_SETUP_MSG \<longrightarrow> session_id c1 = received_session_id c1)"
    using din_validate_continues[OF v] assms(3) c1(5) by simp
  then show "is_allowed (din_states ! v2g_state c) (current_v2g_msg c)" "\<not> failed (ResponseCode res)" "\<not> failed r"
    "Body res = b" "current_v2g_msg c \<noteq> V2G_SESSION_SETUP_MSG \<longrightarrow> session_id c = received_session_id c"
    using res c1 by simp_all
qed

lemma core_fields:
  assumes "core c = core d"
  shows "v2g_state c = v2g_state d \<and> last_v2g_msg c = last_v2g_msg d \<and> current_v2g_msg c = current_v2g_msg d
    \<and> terminate_connection_on_failed_response c = terminate_connection_on_failed_response d
    \<and> evse_processing c = evse_processing d \<and> evse_isolation_status c = evse_isolation_status d
    \<and> session_id c = session_id d \<and> received_session_id c = received_session_id d
    \<and> is_connection_terminated c = is_connection_terminated d \<and> stop_hlc c = stop_hlc d
    \<and> intl_emergency_shutdown c = intl_emergency_shutdown d \<and> is_dc_charger c = is_dc_charger d
    \<and> iso_selected_payment_option c = iso_selected_payment_option d
    \<and> contactor_is_closed c = contactor_is_closed d \<and> (\<forall>ph. evse_status ph c = evse_status ph d)"
  using assms core_evse_status[OF assms] by (auto simp: core_def)

lemmas publications_frame [simp] = core_publish[THEN core_fields] core_publications[THEN core_fields]
  core_publish_requests[THEN core_fields]

section \<open>The protocol automaton\<close>

text \<open>
  The protocol as the standard describes it: which message a request is, and the state after it
  has been answered with a given body. A session stop ends the session.
\<close>

fun din_msg :: "din_request \<Rightarrow> V2gMsgTypeId" where
  "din_msg (DSessionSetupReq _) = V2G_SESSION_SETUP_MSG"
| "din_msg DServiceDiscoveryReq = V2G_SERVICE_DISCOVERY_MSG"
| "din_msg (DServicePaymentSelectionReq _ _) = V2G_PAYMENT_SERVICE_SELECTION_MSG"
| "din_msg DContractAuthenticationReq = V2G_AUTHORIZATION_MSG"
| "din_msg (DChargeParameterDiscoveryReq _ _ _) = V2G_CHARGE_PARAMETER_DISCOVERY_MSG"
| "din_msg (DPowerDeliveryReq _) = V2G_POWER_DELIVERY_MSG"
| "din_msg (DCableCheckReq _) = V2G_CABLE_CHECK_MSG"
| "din_msg (DPreChargeReq _) = V2G_PRE_CHARGE_MSG"
| "din_msg (DCurrentDemandReq _) = V2G_CURRENT_DEMAND_MSG"
| "din_msg (DWeldingDetectionReq _) = V2G_WELDING_DETECTION_MSG"
| "din_msg DSessionStopReq = V2G_SESSION_STOP_MSG"
| "din_msg DUnsupportedReq = V2G_UNKNOWN_MSG"
| "din_msg DUnknownReq = V2G_UNKNOWN_MSG"

definition cable_check_passed :: "dc_evse_status \<Rightarrow> EVSEProcessing \<Rightarrow> bool" where
  "cable_check_passed st p = (p = EP_Finished \<and> isolation_ok st \<and> EVSEStatusCode st = EVSE_Ready)"

definition din_next :: "din_request \<Rightarrow> din_response_body \<Rightarrow> din_state_id option" where
  "din_next req b = (case b of
     DSessionSetupRes _ _ \<Rightarrow> Some D_WAIT_FOR_SERVICEDISCOVERY
   | DServiceDiscoveryRes _ _ _ \<Rightarrow> Some D_WAIT_FOR_PAYMENTSERVICESELECTION
   | DServicePaymentSelectionRes \<Rightarrow> Some D_WAIT_FOR_AUTHORIZATION
   | DContractAuthenticationRes p \<Rightarrow>
       Some (if p = EP_Ongoing then D_WAIT_FOR_AUTHORIZATION else D_WAIT_FOR_CHARGEPARAMETERDISCOVERY)
   | DChargeParameterDiscoveryRes _ _ p _ \<Rightarrow>
       Some (if p = EP_Finished then D_WAIT_FOR_CABLECHECK else D_WAIT_FOR_CHARGEPARAMETERDISCOVERY)
   | DCableCheckRes st p \<Rightarrow> Some (if cable_check_passed st p then D_WAIT_FOR_PRECHARGE else D_WAIT_FOR_CABLECHECK)
   | DPreChargeRes _ _ \<Rightarrow> Some D_WAIT_FOR_PRECHARGE_POWERDELIVERY
   | DPowerDeliveryRes _ \<Rightarrow>
       (case req of
          DPowerDeliveryReq r \<Rightarrow>
            Some (if ReadyToChargeState r then D_WAIT_FOR_CURRENTDEMAND else D_WAIT_FOR_WELDINGDETECTION_SESSIONSTOP)
        | _ \<Rightarrow> None)
   | DCurrentDemandRes _ _ \<Rightarrow> Some D_WAIT_FOR_CURRENTDEMAND_POWERDELIVERY
   | DWeldingDetectionRes _ _ \<Rightarrow> Some D_WAIT_FOR_WELDINGDETECTION_SESSIONSTOP
   | DSessionStopRes \<Rightarrow> None)"

text \<open>The answer belongs to the request.\<close>

fun din_res_msg :: "din_response_body \<Rightarrow> V2gMsgTypeId" where
  "din_res_msg (DSessionSetupRes _ _) = V2G_SESSION_SETUP_MSG"
| "din_res_msg (DServiceDiscoveryRes _ _ _) = V2G_SERVICE_DISCOVERY_MSG"
| "din_res_msg DServicePaymentSelectionRes = V2G_PAYMENT_SERVICE_SELECTION_MSG"
| "din_res_msg (DContractAuthenticationRes _) = V2G_AUTHORIZATION_MSG"
| "din_res_msg (DChargeParameterDiscoveryRes _ _ _ _) = V2G_CHARGE_PARAMETER_DISCOVERY_MSG"
| "din_res_msg (DPowerDeliveryRes _) = V2G_POWER_DELIVERY_MSG"
| "din_res_msg (DCableCheckRes _ _) = V2G_CABLE_CHECK_MSG"
| "din_res_msg (DPreChargeRes _ _) = V2G_PRE_CHARGE_MSG"
| "din_res_msg (DCurrentDemandRes _ _) = V2G_CURRENT_DEMAND_MSG"
| "din_res_msg (DWeldingDetectionRes _ _) = V2G_WELDING_DETECTION_MSG"
| "din_res_msg DSessionStopRes = V2G_SESSION_STOP_MSG"

text \<open>What the charger reports of itself in an answer.\<close>

definition din_reports :: "v2g_context \<Rightarrow> din_request \<Rightarrow> din_response_body \<Rightarrow> bool" where
  "din_reports c req b = (case b of
     DContractAuthenticationRes p \<Rightarrow> p = finished_or_ongoing (evse_processing c PHASE_AUTH)
   | DCableCheckRes st p \<Rightarrow>
       st = evse_status PHASE_ISOLATION c \<and> p = finished_or_ongoing (evse_processing c PHASE_ISOLATION)
   | DPowerDeliveryRes st \<Rightarrow>
       st = evse_status PHASE_CHARGE c \<and>
       (case req of DPowerDeliveryReq r \<Rightarrow> ReadyToChargeState r \<longrightarrow> EVSEStatusCode st = EVSE_Ready | _ \<Rightarrow> False)
   | _ \<Rightarrow> True)"

definition din_step :: "v2g_context \<Rightarrow> din_request \<Rightarrow> din_response \<Rightarrow> v2g_context \<Rightarrow> bool" where
  "din_step c req res c' = (is_allowed (din_states ! v2g_state c) (din_msg req) \<and> \<not> failed (ResponseCode res)
     \<and> map_option din_id (din_next req (Body res)) = Some (v2g_state c')
     \<and> din_res_msg (Body res) = din_msg req \<and> din_reports c req (Body res) \<and> last_v2g_msg c' = din_msg req
     \<and> terminate_connection_on_failed_response c' = terminate_connection_on_failed_response c
     \<and> evse_processing c' = evse_processing c \<and> evse_isolation_status c' = evse_isolation_status c)"

lemma din_finish_step:
  assumes "din_finish r b s c1 = (V2G_EVENT_NO_EVENT, res, c')" "terminate_connection_on_failed_response c1"
  shows "is_allowed (din_states ! v2g_state c1) (current_v2g_msg c1) \<and> \<not> failed (ResponseCode res) \<and> \<not> failed r
    \<and> Body res = b \<and> v2g_state c' = din_id s \<and> current_v2g_msg c' = current_v2g_msg c1
    \<and> terminate_connection_on_failed_response c' = terminate_connection_on_failed_response c1
    \<and> evse_processing c' = evse_processing c1 \<and> evse_isolation_status c' = evse_isolation_status c1
    \<and> (current_v2g_msg c1 \<noteq> V2G_SESSION_SETUP_MSG \<longrightarrow> session_id c1 = received_session_id c1)"
  using din_finish_continues[OF assms(1) refl assms(2)] by (auto simp: core_def set_state_def)

lemma set_current_frame [simp]:
  "evse_status ph (set_current m c) = evse_status ph c"
  "v2g_state (set_current m c) = v2g_state c"
  "last_v2g_msg (set_current m c) = last_v2g_msg c"
  "current_v2g_msg (set_current m c) = m"
  "terminate_connection_on_failed_response (set_current m c) = terminate_connection_on_failed_response c"
  "evse_processing (set_current m c) = evse_processing c"
  "evse_isolation_status (set_current m c) = evse_isolation_status c"
  "is_connection_terminated (set_current m c) = is_connection_terminated c"
  "stop_hlc (set_current m c) = stop_hlc c"
  "intl_emergency_shutdown (set_current m c) = intl_emergency_shutdown c"
  by (simp_all add: evse_status_def set_current_def)

lemma evse_status_frame [simp]:
  "evse_status ph (c\<lparr>received_session_id := sid\<rparr>) = evse_status ph c"
  "evse_status ph (c\<lparr>is_charging := b\<rparr>) = evse_status ph c"
  by (simp_all add: evse_status_def)

lemma handle_din_charge_parameter_finish:
  "\<exists>r par pmax. handle_din_charge_parameter m ac dc c =
     (let p = finished_or_ongoing (evse_processing c PHASE_PARAMETER)
      in din_finish r (DChargeParameterDiscoveryRes (evse_status PHASE_PARAMETER c) par p pmax)
           (if p = EP_Finished then D_WAIT_FOR_CABLECHECK else D_WAIT_FOR_CHARGEPARAMETERDISCOVERY)
           (publish_din_charge_parameter_discovery_req m dc c))"
  unfolding handle_din_charge_parameter_def Let_def by (simp, blast)

lemma handle_din_cable_check_finish:
  "handle_din_cable_check s c =
    (let st = evse_status PHASE_ISOLATION c; p = finished_or_ongoing (evse_processing c PHASE_ISOLATION)
     in din_finish RC_OK (DCableCheckRes st p)
          (if cable_check_passed st p then D_WAIT_FOR_PRECHARGE else D_WAIT_FOR_CABLECHECK) (publish_DC_EVStatusType s c))"
  by (simp add: handle_din_cable_check_def Let_def cable_check_passed_def)

lemma din_reports_frame [simp]: "din_reports (c\<lparr>received_session_id := sid\<rparr>) = din_reports c"
  by (simp add: fun_eq_iff din_reports_def split: din_response_body.split)

lemmas din_step_defs = din_step_def din_next_def din_reports_def din_dispatch_def answered_def Let_def

lemmas din_handler_defs = handle_din_session_setup_def handle_din_service_discovery_def
  handle_din_service_payment_selection_def handle_din_contract_authentication_def handle_din_power_delivery_def
  handle_din_pre_charge_def handle_din_current_demand_def handle_din_welding_detection_def
  handle_din_session_stop_def stop_timer_def

text \<open>The handlers implement the automaton.\<close>

lemma din_dispatch_step:
  assumes "din_dispatch env req c = (V2G_EVENT_NO_EVENT, Some res, c')" "terminate_connection_on_failed_response c"
  shows "din_step c req res (c'\<lparr>last_v2g_msg := current_v2g_msg c'\<rparr>)"
proof (cases req)
  case (DChargeParameterDiscoveryReq m ac dc)
  then show ?thesis
    using assms handle_din_charge_parameter_finish[of m ac dc "set_current V2G_CHARGE_PARAMETER_DISCOVERY_MSG c"]
    by (auto simp: din_step_defs split: prod.splits dest!: din_finish_step)
next
  case (DCableCheckReq s)
  then show ?thesis
    using assms
    by (cases "last_v2g_msg c = V2G_CHARGE_PARAMETER_DISCOVERY_MSG")
       (auto simp: din_step_defs handle_din_cable_check_finish split: prod.splits dest!: din_finish_step)
next
  case (DSessionSetupReq x)
  with assms show ?thesis by (auto simp: din_step_defs din_handler_defs split: if_splits prod.splits dest!: din_finish_step)
next
  case DServiceDiscoveryReq
  with assms show ?thesis by (auto simp: din_step_defs din_handler_defs split: if_splits prod.splits dest!: din_finish_step)
next
  case (DServicePaymentSelectionReq x y)
  with assms show ?thesis by (auto simp: din_step_defs din_handler_defs split: if_splits prod.splits dest!: din_finish_step)
next
  case DContractAuthenticationReq
  with assms show ?thesis by (auto simp: din_step_defs din_handler_defs split: if_splits prod.splits dest!: din_finish_step)
next
  case (DPowerDeliveryReq x)
  with assms show ?thesis by (auto simp: din_step_defs din_handler_defs split: if_splits prod.splits dest!: din_finish_step)
next
  case (DPreChargeReq x)
  with assms show ?thesis by (auto simp: din_step_defs din_handler_defs split: if_splits prod.splits dest!: din_finish_step)
next
  case (DCurrentDemandReq x)
  with assms show ?thesis by (auto simp: din_step_defs din_handler_defs split: if_splits prod.splits dest!: din_finish_step)
next
  case (DWeldingDetectionReq x)
  with assms show ?thesis by (auto simp: din_step_defs din_handler_defs split: if_splits prod.splits dest!: din_finish_step)
next
  case DSessionStopReq
  with assms show ?thesis by (auto simp: din_step_defs din_handler_defs split: if_splits prod.splits dest!: din_finish_step)
qed (use assms in \<open>simp_all add: din_step_defs\<close>)

lemma din_handle_request_step:
  assumes "din_handle_request env sid req c = (V2G_EVENT_NO_EVENT, Some res, c')"
    "terminate_connection_on_failed_response c"
  shows "din_step c req res c'"
proof -
  let ?c = "c\<lparr>received_session_id := session_id_from_exi sid\<rparr>"
  from assms(1) obtain c2 where "din_dispatch env req ?c = (V2G_EVENT_NO_EVENT, Some res, c2)"
    and c': "c' = c2\<lparr>last_v2g_msg := current_v2g_msg c2\<rparr>"
    by (auto simp: din_handle_request_def Let_def split: prod.splits if_splits)
  then have "din_step ?c req res c'"
    using din_dispatch_step assms(2) by simp
  then show ?thesis
    by (simp add: din_step_def)
qed

lemma din_finish_not_ignored [simp]: "din_finish r b s c \<noteq> (V2G_EVENT_IGNORE_MSG, x)"
  by (auto simp: din_finish_def din_validate_response_code_def Let_def)

lemma din_dispatch_ignored:
  assumes "din_dispatch env req c = (V2G_EVENT_IGNORE_MSG, res, c')"
  shows "req = DUnsupportedReq \<or> req = DUnknownReq"
proof (cases req)
  case (DChargeParameterDiscoveryReq m ac dc)
  then show ?thesis
    using assms handle_din_charge_parameter_finish[of m ac dc "set_current V2G_CHARGE_PARAMETER_DISCOVERY_MSG c"]
    by (auto simp: din_step_defs split: prod.splits)
next
  case (DCableCheckReq s)
  then show ?thesis
    using assms by (simp add: din_step_defs handle_din_cable_check_finish split: prod.splits)
next
  case (DSessionSetupReq x)
  with assms show ?thesis by (auto simp: din_step_defs din_handler_defs split: if_splits prod.splits)
next
  case DServiceDiscoveryReq
  with assms show ?thesis by (auto simp: din_step_defs din_handler_defs split: if_splits prod.splits)
next
  case (DServicePaymentSelectionReq x y)
  with assms show ?thesis by (auto simp: din_step_defs din_handler_defs split: if_splits prod.splits)
next
  case DContractAuthenticationReq
  with assms show ?thesis by (auto simp: din_step_defs din_handler_defs split: if_splits prod.splits)
next
  case (DPowerDeliveryReq x)
  with assms show ?thesis by (auto simp: din_step_defs din_handler_defs split: if_splits prod.splits)
next
  case (DPreChargeReq x)
  with assms show ?thesis by (auto simp: din_step_defs din_handler_defs split: if_splits prod.splits)
next
  case (DCurrentDemandReq x)
  with assms show ?thesis by (auto simp: din_step_defs din_handler_defs split: if_splits prod.splits)
next
  case (DWeldingDetectionReq x)
  with assms show ?thesis by (auto simp: din_step_defs din_handler_defs split: if_splits prod.splits)
next
  case DSessionStopReq
  with assms show ?thesis by (auto simp: din_step_defs din_handler_defs split: if_splits prod.splits)
qed (use assms in \<open>simp_all add: din_step_defs\<close>)

lemma din_handle_request_ignored:
  assumes "din_handle_request env sid req c = (V2G_EVENT_IGNORE_MSG, res, c')"
  shows "res = None \<and> v2g_state c' = v2g_state c
    \<and> terminate_connection_on_failed_response c' = terminate_connection_on_failed_response c
    \<and> evse_processing c' = evse_processing c \<and> evse_isolation_status c' = evse_isolation_status c"
proof -
  let ?c = "c\<lparr>received_session_id := session_id_from_exi sid\<rparr>"
  from assms have "din_dispatch env req ?c = (V2G_EVENT_IGNORE_MSG, res, c')"
    by (auto simp: din_handle_request_def Let_def split: prod.splits if_splits)
  with din_dispatch_ignored[OF this] show ?thesis
    by (auto simp: din_dispatch_def)
qed

section \<open>Runs of a session\<close>

type_synonym din_event = "(din_request, din_response) session_event"

text \<open>
  A connection that has not ended: the charging values are initialised when the connection
  before it ends, the state when this one is opened. Requests that are answered, requests that
  are ignored and commands of the other modules follow in any order.
\<close>

inductive din_run :: "din_event list \<Rightarrow> v2g_context \<Rightarrow> bool" where
  opened: "terminate_connection_on_failed_response c
    \<Longrightarrow> din_run (map Commanded cmds)
          (v2g_ctx_init_charging_state False (fold run_command cmds (v2g_ctx_init_charging_session True c)))"
| answer: "din_run tr c \<Longrightarrow> din_handle_request env sid req c = (V2G_EVENT_NO_EVENT, Some res, c')
    \<Longrightarrow> din_run (tr @ [Answered req res]) c'"
| ignore: "din_run tr c \<Longrightarrow> din_handle_request env sid req c = (V2G_EVENT_IGNORE_MSG, res, c') \<Longrightarrow> din_run tr c'"
| command: "din_run tr c \<Longrightarrow> din_run (tr @ [Commanded cmd]) (run_command cmd c)"

text \<open>The events a session has to pass, in this order.\<close>

definition body_is :: "(din_request \<Rightarrow> din_response_body \<Rightarrow> bool) \<Rightarrow> din_event \<Rightarrow> bool" where
  "body_is P e = (case e of Answered req res \<Rightarrow> \<not> failed (ResponseCode res) \<and> P req (Body res) | Commanded _ \<Rightarrow> False)"

definition charging_steps :: "(din_event \<Rightarrow> bool) list" where
  "charging_steps =
    [body_is (\<lambda>_ b. b = DContractAuthenticationRes EP_Finished),
     body_is (\<lambda>_ b. case b of DChargeParameterDiscoveryRes _ _ p _ \<Rightarrow> p = EP_Finished | _ \<Rightarrow> False),
     body_is (\<lambda>_ b. case b of DCableCheckRes st p \<Rightarrow> cable_check_passed st p | _ \<Rightarrow> False),
     body_is (\<lambda>_ b. case b of DPreChargeRes _ _ \<Rightarrow> True | _ \<Rightarrow> False),
     body_is (\<lambda>req b. case req of DPowerDeliveryReq r \<Rightarrow> ReadyToChargeState r | _ \<Rightarrow> False)]"

text \<open>How many of the steps a session in a state has passed.\<close>

definition passed :: "nat \<Rightarrow> nat" where
  "passed s = (if 4 \<le> s \<and> s \<le> 9 then min 5 (s - 3) else 0)"

lemma length_charging_steps [simp]: "length charging_steps = 5"
  by (simp add: charging_steps_def)

lemma allowed_in:
  assumes "s < 13" "is_allowed (din_states ! s) m"
  shows "case m of V2G_SESSION_SETUP_MSG \<Rightarrow> s = 0 | V2G_SERVICE_DISCOVERY_MSG \<Rightarrow> s = 1
    | V2G_PAYMENT_SERVICE_SELECTION_MSG \<Rightarrow> s = 2 | V2G_AUTHORIZATION_MSG \<Rightarrow> s = 3
    | V2G_CHARGE_PARAMETER_DISCOVERY_MSG \<Rightarrow> s = 4 | V2G_CABLE_CHECK_MSG \<Rightarrow> s = 5
    | V2G_PRE_CHARGE_MSG \<Rightarrow> s = 6 \<or> s = 7 | V2G_POWER_DELIVERY_MSG \<Rightarrow> s = 7 \<or> s = 9
    | V2G_CURRENT_DEMAND_MSG \<Rightarrow> s = 8 \<or> s = 9 | V2G_WELDING_DETECTION_MSG \<Rightarrow> s = 10
    | V2G_SESSION_STOP_MSG \<Rightarrow> True | _ \<Rightarrow> False"
proof -
  from assms(1) have "s = 0 \<or> s = 1 \<or> s = 2 \<or> s = 3 \<or> s = 4 \<or> s = 5 \<or> s = 6 \<or> s = 7 \<or> s = 8
    \<or> s = 9 \<or> s = 10 \<or> s = 11 \<or> s = 12" by presburger
  then show ?thesis
    using assms(2) by (elim disjE) (auto simp: din_states_def)
qed

text \<open>The invariant of a run.\<close>

definition din_inv :: "din_event list \<Rightarrow> v2g_context \<Rightarrow> bool" where
  "din_inv tr c = (terminate_connection_on_failed_response c \<and> v2g_state c < 13
     \<and> (evse_processing c PHASE_AUTH = EP_Finished \<longrightarrow> in_order [authorization_given] tr)
     \<and> (evse_processing c PHASE_ISOLATION = EP_Finished \<longrightarrow> in_order [cable_checked] tr)
     \<and> (evse_isolation_status c = IS_Valid \<or> evse_isolation_status c = IS_Warning \<longrightarrow> in_order [isolation_reported] tr)
     \<and> chain charging_steps authorization_given 0 (passed (v2g_state c)) tr \<and> chain charging_steps cable_checked 2 (passed (v2g_state c)) tr
     \<and> chain charging_steps isolation_reported 2 (passed (v2g_state c)) tr)"

lemma din_id_bound [simp]: "din_id n < 13"
  by (cases n) simp_all

lemma finished_or_ongoing_iff [simp]:
  "finished_or_ongoing p = EP_Ongoing \<longleftrightarrow> p \<noteq> EP_Finished"
  "finished_or_ongoing p = EP_Finished \<longleftrightarrow> p = EP_Finished"
  by (simp_all add: finished_or_ongoing_def)

lemma cable_check_passed_reports:
  assumes "cable_check_passed (evse_status ph c) (finished_or_ongoing p)"
  shows "p = EP_Finished" "evse_isolation_status c = IS_Valid \<or> evse_isolation_status c = IS_Warning"
  using assms by (auto simp: cable_check_passed_def isolation_ok_def evse_status_def finished_or_ongoing_def split: if_splits)

text \<open>Every answer keeps the number of steps, resets it, or is the next step.\<close>

lemma din_step_passed:
  assumes "din_step c req res c'" "v2g_state c < 13"
  shows "passed (v2g_state c') = passed (v2g_state c) \<or> passed (v2g_state c') = 0 \<or>
    (passed (v2g_state c') = Suc (passed (v2g_state c)) \<and> passed (v2g_state c) < 5
      \<and> (charging_steps ! passed (v2g_state c)) (Answered req res)
      \<and> (passed (v2g_state c) = 0 \<longrightarrow> evse_processing c PHASE_AUTH = EP_Finished)
      \<and> (passed (v2g_state c) = 2 \<longrightarrow> evse_processing c PHASE_ISOLATION = EP_Finished
           \<and> (evse_isolation_status c = IS_Valid \<or> evse_isolation_status c = IS_Warning)))"
proof -
  have "is_allowed (din_states ! v2g_state c) (din_msg req)" using assms(1) by (simp add: din_step_def)
  note al = allowed_in[OF assms(2) this]
  have "din_res_msg (Body res) = din_msg req" using assms(1) by (simp add: din_step_def)
  then show ?thesis using assms(1) al
    by (cases "Body res"; cases req)
       (auto simp: din_step_def din_next_def din_reports_def passed_def charging_steps_def body_is_def
          split: if_splits dest: cable_check_passed_reports)
qed

lemma din_inv_answer:
  assumes inv: "din_inv tr c" and st: "din_step c req res c'"
  shows "din_inv (tr @ [Answered req res]) c'"
proof -
  let ?s = "v2g_state c" and ?s' = "v2g_state c'" and ?tr = "tr @ [Answered req res]"
  have ord: "(evse_processing c PHASE_AUTH = EP_Finished \<longrightarrow> in_order [authorization_given] tr)"
      "(evse_processing c PHASE_ISOLATION = EP_Finished \<longrightarrow> in_order [cable_checked] tr)"
      "(evse_isolation_status c = IS_Valid \<or> evse_isolation_status c = IS_Warning \<longrightarrow> in_order [isolation_reported] tr)"
    and old: "chain charging_steps authorization_given 0 (passed ?s) tr" "chain charging_steps cable_checked 2 (passed ?s) tr" "chain charging_steps isolation_reported 2 (passed ?s) tr"
    using inv by (auto simp: din_inv_def)
  have "v2g_state c < 13" using inv by (simp add: din_inv_def)
  from din_step_passed[OF st this] consider (keep) "passed ?s' = passed ?s \<or> passed ?s' = 0"
    | (advance) "passed ?s' = Suc (passed ?s)" "passed ?s < 5" "(charging_steps ! passed ?s) (Answered req res)"
        "passed ?s = 0 \<longrightarrow> in_order [authorization_given] tr" "passed ?s = 2 \<longrightarrow> in_order [cable_checked] tr"
        "passed ?s = 2 \<longrightarrow> in_order [isolation_reported] tr"
    by (elim disjE) (use ord in auto)
  then have "chain charging_steps authorization_given 0 (passed ?s') ?tr \<and> chain charging_steps cable_checked 2 (passed ?s') ?tr \<and> chain charging_steps isolation_reported 2 (passed ?s') ?tr"
    by cases (auto intro: chain_keep chain_advance old)
  moreover have "?s' < 13"
    using st by (metis din_id_bound din_step_def option.map_sel option.sel option.simps(3) option.map_disc_iff)
  moreover have "terminate_connection_on_failed_response c'" "evse_processing c' = evse_processing c"
      "evse_isolation_status c' = evse_isolation_status c"
    using st inv by (simp_all add: din_step_def din_inv_def)
  ultimately show ?thesis
    using ord by (auto simp: din_inv_def intro: in_order_mono)
qed

lemma run_command_frame:
  "v2g_state (run_command cmd c) = v2g_state c"
  "terminate_connection_on_failed_response (run_command cmd c) = terminate_connection_on_failed_response c"
  by (cases cmd; simp add: handle_set_Auth_Okay_EIM_def handle_set_Auth_Okay_PnC_def handle_cableCheck_Finished_def
      handle_set_EVSEIsolationStatus_def handle_stop_charging_def stop_charging_timeout_def
      handle_set_EVSE_EmergencyShutdown_def handle_set_EVSE_Malfunction_def handle_set_EVSE_UtilityInterruptEvent_def
      handle_contactor_closed_def handle_contactor_open_def handle_set_ReceiptRequired_def
      handle_set_DC_EVSEMaximumLimits_def handle_set_AC_EVSEMaxCurrent_def)+

lemma run_command_grants:
  "evse_processing (run_command cmd c) PHASE_AUTH = EP_Finished
    \<Longrightarrow> evse_processing c PHASE_AUTH = EP_Finished \<or> authorization_given (Commanded cmd)"
  "evse_processing (run_command cmd c) PHASE_ISOLATION = EP_Finished
    \<Longrightarrow> evse_processing c PHASE_ISOLATION = EP_Finished \<or> cable_checked (Commanded cmd)"
  "evse_isolation_status (run_command cmd c) = st
    \<Longrightarrow> evse_isolation_status c = st \<or> cmd = Set_EVSEIsolationStatus st"
  by (cases cmd; simp add: handle_set_Auth_Okay_EIM_def handle_set_Auth_Okay_PnC_def handle_cableCheck_Finished_def
      handle_set_EVSEIsolationStatus_def handle_stop_charging_def stop_charging_timeout_def
      handle_set_EVSE_EmergencyShutdown_def handle_set_EVSE_Malfunction_def handle_set_EVSE_UtilityInterruptEvent_def
      handle_contactor_closed_def handle_contactor_open_def handle_set_ReceiptRequired_def
      handle_set_DC_EVSEMaximumLimits_def handle_set_AC_EVSEMaxCurrent_def split: if_splits)+

lemma din_inv_command:
  assumes "din_inv tr c"
  shows "din_inv (tr @ [Commanded cmd]) (run_command cmd c)"
  using assms run_command_grants[of cmd c]
  by (auto simp: din_inv_def run_command_frame intro!: in_order_cmd chain_keep)

lemma init_values_once_fields:
  "terminate_connection_on_failed_response (init_values_once c) = terminate_connection_on_failed_response c"
  "v2g_state (init_values_once c) = v2g_state c"
  "evse_processing (init_values_once c) = evse_processing c"
  "evse_isolation_status (init_values_once c) = evse_isolation_status c"
  by (simp_all add: init_values_once_def)

lemma session_init_fields:
  "terminate_connection_on_failed_response (v2g_ctx_init_charging_session t c) = terminate_connection_on_failed_response c"
  "v2g_state (v2g_ctx_init_charging_session t c) = 0"
  "evse_processing (v2g_ctx_init_charging_session t c) = (\<lambda>_. EP_Ongoing)(PHASE_PARAMETER := EP_Finished)"
  "evse_isolation_status (v2g_ctx_init_charging_session t c) = IS_Invalid"
  unfolding v2g_ctx_init_charging_session_def v2g_ctx_init_charging_values_def Let_def
  by (simp_all add: v2g_ctx_init_charging_state_def init_values_once_fields)

lemma din_inv_opened:
  assumes "terminate_connection_on_failed_response c"
  shows "din_inv (map Commanded cmds)
    (v2g_ctx_init_charging_state False (fold run_command cmds (v2g_ctx_init_charging_session True c)))"
proof -
  let ?c = "v2g_ctx_init_charging_session True c"
  have "din_inv [] ?c"
    using assms by (simp add: din_inv_def session_init_fields chain_def passed_def)
  then have "din_inv (map Commanded cmds) (fold run_command cmds ?c)"
    by (induction cmds rule: rev_induct) (simp_all add: din_inv_command)
  then show ?thesis
    by (simp add: din_inv_def v2g_ctx_init_charging_state_def chain_def passed_def)
qed

lemma din_run_inv: "din_run tr c \<Longrightarrow> din_inv tr c"
proof (induction rule: din_run.induct)
  case (answer tr c env sid req res c')
  then have "terminate_connection_on_failed_response c" by (simp add: din_inv_def)
  from din_inv_answer[OF answer.IH din_handle_request_step[OF answer.hyps(2) this]] show ?case .
next
  case (ignore tr c env sid req res c')
  then show ?case
    using din_handle_request_ignored[OF ignore(2)] by (simp add: din_inv_def)
qed (simp_all add: din_inv_opened din_inv_command)

text \<open>A current demand is only answered when all steps have been passed.\<close>

definition may_charge :: "din_event list \<Rightarrow> bool" where
  "may_charge tr = (in_order (authorization_given # charging_steps) tr
     \<and> in_order (cable_checked # drop 2 charging_steps) tr \<and> in_order (isolation_reported # drop 2 charging_steps) tr)"

lemma din_step_current_demand:
  assumes "din_inv tr c" "din_step c (DCurrentDemandReq r) res c'"
  shows "may_charge tr \<and> \<not> failed (ResponseCode res)"
proof -
  have "v2g_state c < 13" "is_allowed (din_states ! v2g_state c) V2G_CURRENT_DEMAND_MSG"
    using assms by (auto simp: din_inv_def din_step_def)
  then have "passed (v2g_state c) = 5"
    using allowed_in[of "v2g_state c" V2G_CURRENT_DEMAND_MSG] by (auto simp: passed_def)
  then show ?thesis
    using assms by (auto simp: din_inv_def chain_def may_charge_def din_step_def)
qed

lemma din_run_current_demand:
  "din_run tr c \<Longrightarrow> tr = before @ Answered (DCurrentDemandReq r) res # after
   \<Longrightarrow> may_charge before \<and> \<not> failed (ResponseCode res)"
proof (induction arbitrary: after rule: din_run.induct)
  case (opened c cmds)
  then show ?case by (auto simp: map_eq_append_conv)
next
  case (answer tr c env sid req res' c')
  show ?case
  proof (cases after rule: rev_cases)
    case Nil
    have "din_inv tr c" using answer(1) by (rule din_run_inv)
    moreover have "din_step c req res' c'"
      using din_handle_request_step[OF answer(2)] \<open>din_inv tr c\<close> by (simp add: din_inv_def)
    ultimately show ?thesis
      using din_step_current_demand answer.prems Nil by simp
  next
    case (snoc ys y)
    then show ?thesis using answer by simp
  qed
next
  case (command tr c cmd)
  then show ?case by (cases after rule: rev_cases) auto
qed simp

end
