(* ===== verification/V2g_Iso_Correct.thy ===== *)
theory V2g_Iso_Correct
  imports V2g_Iso V2g_Din_Correct
begin

text \<open>
  Properties of the ISO 15118-2 server: what a response that lets the session go on means, the
  protocol automaton that the handlers implement, and what must have happened in a DC session
  before the car may draw current.
\<close>

section \<open>Frames\<close>

lemma core_publish_iso_cpd [simp]:
  "core (publish_iso_charge_parameter_discovery_req now m ac dc c) = core c"
  by (simp add: publish_iso_charge_parameter_discovery_req_def Let_def split: option.split)

lemma iso_evse_status_core: "core c = core d \<Longrightarrow> iso_evse_status ph c = iso_evse_status ph d"
  by (simp add: core_def iso_evse_status_def)

lemmas iso_publish_defs = publish_iso_pre_charge_req_def publish_iso_power_delivery_req_def
  publish_iso_current_demand_req_def publish_iso_welding_detection_req_def

lemmas iso_publications_frame [simp] = core_publish_iso_cpd[THEN core_fields] core_publish[THEN iso_evse_status_core]
  core_publications[THEN iso_evse_status_core] core_publish_requests[THEN iso_evse_status_core]

lemma iso_evse_status_frame [simp]:
  "iso_evse_status ph (set_current m c) = iso_evse_status ph c"
  "iso_evse_status ph (c\<lparr>received_session_id := sid\<rparr>) = iso_evse_status ph c"
  "iso_evse_status ph (c\<lparr>is_charging := b\<rparr>) = iso_evse_status ph c"
  "iso_evse_status ph (c\<lparr>sa_schedule_tuple_id := n\<rparr>) = iso_evse_status ph c"
  "iso_evse_status ph (c\<lparr>renegotiation_required := b\<rparr>) = iso_evse_status ph c"
  by (simp_all add: iso_evse_status_def set_current_def)

lemma set_current_iso_frame [simp]:
  "is_dc_charger (set_current m c) = is_dc_charger c"
  "iso_selected_payment_option (set_current m c) = iso_selected_payment_option c"
  by (simp_all add: set_current_def)

section \<open>Responses that let the session go on\<close>

lemma iso_finish_step:
  assumes "iso_finish r b s c1 = (V2G_EVENT_NO_EVENT, res, c')" "terminate_connection_on_failed_response c1"
  shows "is_allowed (iso_states (is_dc_charger c1) ! v2g_state c1) (current_v2g_msg c1)
    \<and> \<not> failed (IResponseCode res) \<and> \<not> failed r \<and> IBody res = b \<and> c' = set_state s c1"
  using assms
  by (auto simp: iso_finish_def iso_validate_response_code_def iso_validate_state_def Let_def split: if_splits)

lemma set_state_frame [simp]:
  "v2g_state (set_state s c) = s"
  "current_v2g_msg (set_state s c) = current_v2g_msg c"
  "terminate_connection_on_failed_response (set_state s c) = terminate_connection_on_failed_response c"
  "evse_processing (set_state s c) = evse_processing c"
  "is_dc_charger (set_state s c) = is_dc_charger c"
  "iso_selected_payment_option (set_state s c) = iso_selected_payment_option c"
  by (simp_all add: set_state_def)

section \<open>The protocol automaton\<close>

fun iso_msg :: "iso_request \<Rightarrow> V2gMsgTypeId" where
  "iso_msg (ISessionSetupReq _) = V2G_SESSION_SETUP_MSG"
| "iso_msg (IServiceDiscoveryReq _) = V2G_SERVICE_DISCOVERY_MSG"
| "iso_msg (IServiceDetailReq _) = V2G_SERVICE_DETAIL_MSG"
| "iso_msg (IPaymentServiceSelectionReq _ _) = V2G_PAYMENT_SERVICE_SELECTION_MSG"
| "iso_msg (IPaymentDetailsReq _) = V2G_PAYMENT_DETAILS_MSG"
| "iso_msg (IAuthorizationReq _ _) = V2G_AUTHORIZATION_MSG"
| "iso_msg (IChargeParameterDiscoveryReq _ _ _) = V2G_CHARGE_PARAMETER_DISCOVERY_MSG"
| "iso_msg (IPowerDeliveryReq _) = V2G_POWER_DELIVERY_MSG"
| "iso_msg IChargingStatusReq = V2G_CHARGING_STATUS_MSG"
| "iso_msg IMeteringReceiptReq = V2G_METERING_RECEIPT_MSG"
| "iso_msg ICertificateUpdateReq = V2G_CERTIFICATE_UPDATE_MSG"
| "iso_msg ICertificateInstallationReq = V2G_CERTIFICATE_INSTALLATION_MSG"
| "iso_msg (ICableCheckReq _) = V2G_CABLE_CHECK_MSG"
| "iso_msg (IPreChargeReq _) = V2G_PRE_CHARGE_MSG"
| "iso_msg (ICurrentDemandReq _) = V2G_CURRENT_DEMAND_MSG"
| "iso_msg (IWeldingDetectionReq _) = V2G_WELDING_DETECTION_MSG"
| "iso_msg (ISessionStopReq _) = V2G_SESSION_STOP_MSG"
| "iso_msg IUnknownReq = V2G_UNKNOWN_MSG"

fun iso_res_msg :: "iso_response_body \<Rightarrow> V2gMsgTypeId" where
  "iso_res_msg (ISessionSetupRes _ _) = V2G_SESSION_SETUP_MSG"
| "iso_res_msg (IServiceDiscoveryRes _ _ _ _) = V2G_SERVICE_DISCOVERY_MSG"
| "iso_res_msg (IServiceDetailRes _ _) = V2G_SERVICE_DETAIL_MSG"
| "iso_res_msg IPaymentServiceSelectionRes = V2G_PAYMENT_SERVICE_SELECTION_MSG"
| "iso_res_msg (IPaymentDetailsRes _) = V2G_PAYMENT_DETAILS_MSG"
| "iso_res_msg (IAuthorizationRes _) = V2G_AUTHORIZATION_MSG"
| "iso_res_msg (IChargeParameterDiscoveryRes _ _ _) = V2G_CHARGE_PARAMETER_DISCOVERY_MSG"
| "iso_res_msg (IPowerDeliveryRes _) = V2G_POWER_DELIVERY_MSG"
| "iso_res_msg (IChargingStatusRes _) = V2G_CHARGING_STATUS_MSG"
| "iso_res_msg (IMeteringReceiptRes _) = V2G_METERING_RECEIPT_MSG"
| "iso_res_msg ICertificateUpdateRes = V2G_CERTIFICATE_UPDATE_MSG"
| "iso_res_msg ICertificateInstallationRes = V2G_CERTIFICATE_INSTALLATION_MSG"
| "iso_res_msg (ICableCheckRes _ _) = V2G_CABLE_CHECK_MSG"
| "iso_res_msg (IPreChargeRes _ _) = V2G_PRE_CHARGE_MSG"
| "iso_res_msg (ICurrentDemandRes _ _) = V2G_CURRENT_DEMAND_MSG"
| "iso_res_msg (IWeldingDetectionRes _ _) = V2G_WELDING_DETECTION_MSG"
| "iso_res_msg ISessionStopRes = V2G_SESSION_STOP_MSG"

text \<open>
  The state of a DC session after an answer; \<open>s\<close> is the state before it and \<open>demanded\<close> whether
  the message before was a current demand or a charging status.
\<close>

definition iso_dc_next :: "nat \<Rightarrow> bool \<Rightarrow> iso_request \<Rightarrow> iso_response_body \<Rightarrow> nat" where
  "iso_dc_next s demanded req b = (case b of
     ISessionSetupRes _ _ \<Rightarrow> 1
   | IServiceDiscoveryRes _ _ _ _ \<Rightarrow> 2
   | IServiceDetailRes _ _ \<Rightarrow> 2
   | IPaymentServiceSelectionRes \<Rightarrow>
       (case req of IPaymentServiceSelectionReq p _ \<Rightarrow> if p = PO_Contract then 3 else 5 | _ \<Rightarrow> s)
   | IPaymentDetailsRes _ \<Rightarrow> 5
   | IAuthorizationRes p \<Rightarrow> if p = EP_Finished then 6 else 5
   | IChargeParameterDiscoveryRes p _ _ \<Rightarrow> if p = EP_Finished then 7 else 6
   | IPowerDeliveryRes _ \<Rightarrow>
       (case req of
          IPowerDeliveryReq r \<Rightarrow>
            if ChargeProgress r = CP_Renegotiate \<and> demanded then 6
            else if ChargeProgress r = CP_Start \<and> \<not> demanded then 11 else 13
        | _ \<Rightarrow> s)
   | IChargingStatusRes r \<Rightarrow> if cs_ReceiptRequired r then 10 else 9
   | IMeteringReceiptRes _ \<Rightarrow> 10
   | ICertificateUpdateRes \<Rightarrow> s
   | ICertificateInstallationRes \<Rightarrow> 4
   | ICableCheckRes _ p \<Rightarrow> if p = EP_Finished then 8 else 7
   | IPreChargeRes _ _ \<Rightarrow> 9
   | ICurrentDemandRes _ r \<Rightarrow> if cd_ReceiptRequired r = Some True then 12 else 10
   | IWeldingDetectionRes _ _ \<Rightarrow> 13
   | ISessionStopRes \<Rightarrow> 14)"

definition demanded_before :: "v2g_context \<Rightarrow> bool" where
  "demanded_before c = (last_v2g_msg c = V2G_CURRENT_DEMAND_MSG \<or> last_v2g_msg c = V2G_CHARGING_STATUS_MSG)"

definition iso_reports :: "v2g_context \<Rightarrow> iso_request \<Rightarrow> iso_response_body \<Rightarrow> bool" where
  "iso_reports c req b = (case b of
     IAuthorizationRes p \<Rightarrow> p = evse_processing c PHASE_AUTH
   | ICableCheckRes st p \<Rightarrow> st = iso_evse_status PHASE_ISOLATION c \<and> p = evse_processing c PHASE_ISOLATION
   | IPowerDeliveryRes st \<Rightarrow>
       st = Inr (iso_evse_status PHASE_CHARGE c) \<and>
       (case req of
          IPowerDeliveryReq r \<Rightarrow> ChargeProgress r = CP_Start \<and> \<not> demanded_before c
            \<longrightarrow> EVSEStatusCode (iso_evse_status PHASE_CHARGE c) = EVSE_Ready
        | _ \<Rightarrow> False)
   | _ \<Rightarrow> True)"

text \<open>What an answer does to the processing phases.\<close>

definition iso_processing ::
    "bool \<Rightarrow> iso_request \<Rightarrow> (charging_phase \<Rightarrow> EVSEProcessing) \<Rightarrow> (charging_phase \<Rightarrow> EVSEProcessing)" where
  "iso_processing demanded req f = (case req of
     IPaymentServiceSelectionReq p _ \<Rightarrow>
       if p = PO_Contract then f else f(PHASE_AUTH := EP_Ongoing_WaitingForCustomerInteraction)
   | IPowerDeliveryReq r \<Rightarrow>
       if ChargeProgress r = CP_Renegotiate \<and> demanded then f(PHASE_ISOLATION := EP_Ongoing) else f
   | _ \<Rightarrow> f)"

text \<open>A power delivery that is refused without closing the connection.\<close>

definition soft_refusal :: "v2g_context \<Rightarrow> iso_request \<Rightarrow> bool" where
  "soft_refusal c req = (case req of
     IPowerDeliveryReq r \<Rightarrow> \<not> (ChargeProgress r = CP_Renegotiate \<and> demanded_before c)
       \<and> \<not> (ChargeProgress r = CP_Start \<and> \<not> demanded_before c) \<and> ChargeProgress r \<noteq> CP_Stop
   | _ \<Rightarrow> False)"

definition iso_dc_step :: "v2g_context \<Rightarrow> iso_request \<Rightarrow> iso_response \<Rightarrow> v2g_context \<Rightarrow> bool" where
  "iso_dc_step c req res c' =
    ((req \<noteq> ICertificateUpdateReq \<and> req \<noteq> ICertificateInstallationReq
        \<longrightarrow> is_allowed (iso_dc_states ! v2g_state c) (iso_msg req))
     \<and> failed (IResponseCode res) = soft_refusal c req
     \<and> v2g_state c' = iso_dc_next (v2g_state c) (demanded_before c) req (IBody res)
     \<and> iso_res_msg (IBody res) = iso_msg req \<and> iso_reports c req (IBody res) \<and> last_v2g_msg c' = iso_msg req
     \<and> evse_processing c' = iso_processing (demanded_before c) req (evse_processing c)
     \<and> terminate_connection_on_failed_response c' \<and> is_dc_charger c'
     \<and> iso_selected_payment_option c' = PO_ExternalPayment)"

lemma core_offer_schedule [simp]: "core (offer_schedule m c) = core c"
  by (simp add: offer_schedule_def Let_def core_def)

lemma handle_iso_cpd_finish:
  "\<exists>r par sched c1. handle_iso_charge_parameter_discovery env m ac dc c =
     (let p = (if evse_processing c PHASE_PARAMETER = EP_Finished then EP_Finished else EP_Ongoing)
      in iso_finish r (IChargeParameterDiscoveryRes p sched par) (if p = EP_Finished then 7 else 6) c1)
    \<and> core c1 = core c"
proof -
  let ?c = "publish_iso_charge_parameter_discovery_req (time_now (base_env env)) m ac dc c"
  let ?r = "if m \<in> set (take (energy_transfer_modes_len ?c) (energy_transfer_modes ?c)) then RC_OK
    else RC_FAILED_WrongEnergyTransferMode"
  obtain par r where cp: "evse_charge_parameter (ac \<noteq> None) (dc \<noteq> None) ?r (offer_schedule m ?c) = (par, r)"
    by fastforce
  have "handle_iso_charge_parameter_discovery env m ac dc c =
    (let p = (if evse_processing c PHASE_PARAMETER = EP_Finished then EP_Finished else EP_Ongoing)
     in iso_finish r (IChargeParameterDiscoveryRes p
          (used (evse_processing c PHASE_PARAMETER = EP_Finished) (evse_sa_schedule_list (offer_schedule m ?c))) par)
          (if p = EP_Finished then 7 else 6) (offer_schedule m ?c))"
    by (cases "evse_processing c PHASE_PARAMETER = EP_Finished")
       (simp_all only: handle_iso_charge_parameter_discovery_def Let_def cp split if_cancel dc_id.simps ac_id.simps
          iso_publications_frame if_True if_False refl simp_thms EVSEProcessing.simps)
  moreover have "core (offer_schedule m ?c) = core c" by simp
  ultimately show ?thesis by blast
qed

lemma payment_details_rejected:
  "iso_selected_payment_option c \<noteq> PO_Contract \<Longrightarrow> payment_details env req c = (r, ch, c') \<Longrightarrow> failed r"
  by (auto simp: payment_details_def Let_def failed_def split: if_splits)

lemma handle_iso_payment_details_refused:
  assumes "iso_selected_payment_option c \<noteq> PO_Contract" "terminate_connection_on_failed_response c"
  shows "handle_iso_payment_details env req c \<noteq> (V2G_EVENT_NO_EVENT, res, c')"
proof -
  obtain r ch c1 where pd: "payment_details env req c = (r, ch, c1)" by (metis prod_cases3)
  have "failed r" using payment_details_rejected[OF assms(1) pd] .
  moreover have "terminate_connection_on_failed_response c1"
    using pd assms(2) by (auto simp: payment_details_def Let_def split: if_splits)
  ultimately show ?thesis
    using pd iso_finish_step[of r "IPaymentDetailsRes ch" "dc_id DC_WAIT_FOR_AUTHORIZATION" c1 res c']
    by (auto simp: handle_iso_payment_details_def)
qed

lemma iso_validate_step:
  assumes "iso_validate_response_code r c = (V2G_EVENT_NO_EVENT, r')" "terminate_connection_on_failed_response c"
  shows "is_allowed (iso_states (is_dc_charger c) ! v2g_state c) (current_v2g_msg c) \<and> \<not> failed r' \<and> \<not> failed r"
  using assms by (auto simp: iso_validate_response_code_def iso_validate_state_def Let_def split: if_splits)

lemma iso_validate_not_ignored:
  "iso_validate_response_code r c \<noteq> (V2G_EVENT_IGNORE_MSG, r')" "iso_validate_response_code r c \<noteq> (V2G_EVENT_SEND_RECV_EXI_MSG, r')"
  by (auto simp: iso_validate_response_code_def Let_def)

lemma iso_finish_not_ignored [simp]:
  "iso_finish r b s c \<noteq> (V2G_EVENT_IGNORE_MSG, x)" "iso_finish r b s c \<noteq> (V2G_EVENT_SEND_RECV_EXI_MSG, x)"
  by (auto simp: iso_finish_def iso_validate_not_ignored split: prod.splits)

lemmas iso_step_defs = iso_dc_step_def iso_dc_next_def iso_reports_def iso_processing_def soft_refusal_def
  iso_dispatch_def answered_def Let_def iso_states_def

lemmas iso_handler_defs = handle_iso_session_setup_def handle_iso_service_discovery_def handle_iso_service_detail_def
  handle_iso_payment_service_selection_def handle_iso_authorization_def handle_iso_charging_status_def
  handle_iso_metering_receipt_def handle_iso_certificate_update_def handle_iso_cable_check_def
  handle_iso_pre_charge_def handle_iso_current_demand_def handle_iso_welding_detection_def
  handle_iso_session_stop_def stop_timer_def take_meter_info_def set_limits_achieved_def iso_publish_defs

lemma charge_progress_action_dc:
  assumes "is_dc_charger c" "charge_progress_action env p c = Some (r, c')"
  shows "core c' = core c"
proof -
  have "core (c\<lparr>renegotiation_required := True\<rparr>) = core c" by (simp add: core_def)
  then show ?thesis
    using assms by (auto simp: charge_progress_action_def Let_def split: charge_progress.splits)
qed

lemma power_delivery_parts:
  assumes "handle_iso_power_delivery env req c = Some (e, res, c')"
    "charge_progress_action env (ChargeProgress req) (publish_iso_power_delivery_req req c) = Some (r1, c1)"
    "is_dc_charger c1"
  shows "\<exists>c2 r2 r3. core c2 = core c1 \<and> iso_validate_response_code r2 c2 = (e, r3)
    \<and> (ChargeProgress req = CP_Start \<longrightarrow> EVSEStatusCode (iso_evse_status PHASE_CHARGE c1) = EVSE_Ready \<or> failed r2)
    \<and> after_power_delivery (ChargeProgress req) r3 c2 = (IResponseCode res, c')
    \<and> IBody res = IPowerDeliveryRes (Inr (iso_evse_status PHASE_CHARGE c1))"
proof -
  let ?st = "iso_evse_status PHASE_CHARGE c1"
  let ?tuple = "find (\<lambda>t. SAScheduleTupleID t = req_SAScheduleTupleID req) (evse_sa_schedule_list c1)"
  let ?c = "if ?tuple \<noteq> None then c1\<lparr>sa_schedule_tuple_id := req_SAScheduleTupleID req\<rparr> else c1"
  let ?r = "if ?tuple = None then RC_FAILED_TariffSelectionInvalid
    else if ChargeProgress req = CP_Start \<and> EVSEStatusCode ?st \<noteq> EVSE_Ready
    then RC_FAILED_PowerDeliveryNotApplied else r1"
  obtain e' r3 where v: "iso_validate_response_code ?r ?c = (e', r3)" by fastforce
  obtain r4 c4 where a: "after_power_delivery (ChargeProgress req) r3 ?c = (r4, c4)" by fastforce
  have "handle_iso_power_delivery env req c =
    (case check_iso1_charging_profile_values (ChargingProfile req) ?r ?tuple of None \<Rightarrow> None
     | Some _ \<Rightarrow> Some (e', \<lparr>IResponseCode = r4, IBody = IPowerDeliveryRes (Inr ?st)\<rparr>, c4))"
    using assms(2,3) v a
    by (cases ?tuple; cases "ChargeProgress req = CP_Start"; cases "EVSEStatusCode ?st = EVSE_Ready")
       (simp_all add: handle_iso_power_delivery_def Let_def split: option.split)
  then have "e' = e" "res = \<lparr>IResponseCode = r4, IBody = IPowerDeliveryRes (Inr ?st)\<rparr>" "c' = c4"
    using assms(1) by (auto split: option.splits)
  moreover have "core ?c = core c1" by (simp add: core_def)
  moreover have "ChargeProgress req = CP_Start \<longrightarrow> EVSEStatusCode ?st = EVSE_Ready \<or> failed ?r"
    by (simp add: failed_def)
  ultimately show ?thesis using v a by auto
qed

lemma after_power_delivery_dc:
  assumes "after_power_delivery p r c = (r', c')" "is_dc_charger c"
  shows "v2g_state c' = (if p = CP_Renegotiate \<and> demanded_before c then 6
      else if p = CP_Start \<and> \<not> demanded_before c then 11 else 13)
    \<and> evse_processing c' = (if p = CP_Renegotiate \<and> demanded_before c
        then (evse_processing c)(PHASE_ISOLATION := EP_Ongoing) else evse_processing c)
    \<and> r' = (if (p = CP_Renegotiate \<and> demanded_before c) \<or> (p = CP_Start \<and> \<not> demanded_before c) \<or> p = CP_Stop
        then r else RC_FAILED)
    \<and> current_v2g_msg c' = current_v2g_msg c \<and> is_dc_charger c'
    \<and> terminate_connection_on_failed_response c' = terminate_connection_on_failed_response c
    \<and> iso_selected_payment_option c' = iso_selected_payment_option c"
  using assms by (auto simp: after_power_delivery_def demanded_before_def Let_def split: if_splits)

lemma power_delivery_dc_step:
  assumes "handle_iso_power_delivery env r (set_current V2G_POWER_DELIVERY_MSG c) = Some (e, res, c')"
    "e \<in> {V2G_EVENT_NO_EVENT, V2G_EVENT_SEND_RECV_EXI_MSG}"
    "terminate_connection_on_failed_response c" "is_dc_charger c"
    "iso_selected_payment_option c = PO_ExternalPayment"
  shows "iso_dc_step c (IPowerDeliveryReq r) res (c'\<lparr>last_v2g_msg := current_v2g_msg c'\<rparr>)"
proof -
  let ?p = "ChargeProgress r" and ?m = "set_current V2G_POWER_DELIVERY_MSG c"
  let ?c = "publish_iso_power_delivery_req r ?m"
  have pub: "core ?c = core ?m" by (simp add: iso_publish_defs)
  obtain r1 c1 where act: "charge_progress_action env ?p ?c = Some (r1, c1)"
    using assms(1) by (auto simp: handle_iso_power_delivery_def split: option.splits)
  have "is_dc_charger ?c" using core_fields[OF pub] assms(4) by simp
  then have c1: "core c1 = core ?m" using charge_progress_action_dc[OF _ act] pub by simp
  then have "is_dc_charger c1" using core_fields[OF c1] assms(4) by simp
  from power_delivery_parts[OF assms(1) act this] obtain c2 r2 r3 where core2: "core c2 = core ?m"
    and val: "iso_validate_response_code r2 c2 = (e, r3)"
    and ready: "?p = CP_Start \<longrightarrow> EVSEStatusCode (iso_evse_status PHASE_CHARGE c1) = EVSE_Ready \<or> failed r2"
    and aft: "after_power_delivery ?p r3 c2 = (IResponseCode res, c')"
    and body: "IBody res = IPowerDeliveryRes (Inr (iso_evse_status PHASE_CHARGE c1))"
    using c1 by auto
  have st: "iso_evse_status PHASE_CHARGE c1 = iso_evse_status PHASE_CHARGE c" using iso_evse_status_core[OF c1] by simp
  have c2: "v2g_state c2 = v2g_state c" "last_v2g_msg c2 = last_v2g_msg c" "is_dc_charger c2"
      "current_v2g_msg c2 = V2G_POWER_DELIVERY_MSG" "terminate_connection_on_failed_response c2"
      "evse_processing c2 = evse_processing c" "iso_selected_payment_option c2 = PO_ExternalPayment"
    using core_fields[OF core2] assms(3-5) by simp_all
  have "e = V2G_EVENT_NO_EVENT" using assms(2) val iso_validate_not_ignored by auto
  with val have "\<not> failed r2" "\<not> failed r3" "is_allowed (iso_dc_states ! v2g_state c) V2G_POWER_DELIVERY_MSG"
    using iso_validate_step[of r2 c2 r3] c2 by (auto simp: iso_states_def)
  moreover have "demanded_before c2 = demanded_before c" using c2 by (simp add: demanded_before_def)
  ultimately show ?thesis
    using after_power_delivery_dc[OF aft c2(3)] c2 ready body st
    by (simp add: iso_dc_step_def iso_dc_next_def iso_reports_def iso_processing_def soft_refusal_def)
qed

lemma charge_parameter_dc_step:
  assumes "handle_iso_charge_parameter_discovery env m ac dc (set_current V2G_CHARGE_PARAMETER_DISCOVERY_MSG c)
      = (V2G_EVENT_NO_EVENT, res, c')"
    "terminate_connection_on_failed_response c" "is_dc_charger c"
    "iso_selected_payment_option c = PO_ExternalPayment"
  shows "iso_dc_step c (IChargeParameterDiscoveryReq m ac dc) res (c'\<lparr>last_v2g_msg := current_v2g_msg c'\<rparr>)"
proof -
  let ?p = "if evse_processing c PHASE_PARAMETER = EP_Finished then EP_Finished else EP_Ongoing"
  obtain r par sched c1 where
      "iso_finish r (IChargeParameterDiscoveryRes ?p sched par) (if ?p = EP_Finished then 7 else 6) c1
        = (V2G_EVENT_NO_EVENT, res, c')"
    and c1: "core c1 = core (set_current V2G_CHARGE_PARAMETER_DISCOVERY_MSG c)"
    using assms(1) handle_iso_cpd_finish[of env m ac dc "set_current V2G_CHARGE_PARAMETER_DISCOVERY_MSG c"]
    by (auto simp: Let_def)
  from iso_finish_step[OF this(1)] show ?thesis
    using core_fields[OF c1] assms by (simp add: iso_step_defs)
qed

text \<open>The response to the selection of a payment option is checked in a context that differs in what was published.\<close>

lemma handle_iso_payment_service_selection_finish:
  "\<exists>r c1. core c1 = core c \<and> handle_iso_payment_service_selection p ids c =
     (if p = PO_Contract
      then iso_finish r IPaymentServiceSelectionRes (dc_id DC_WAIT_FOR_PAYMENTDETAILS_CERTINST_CERTUPD) c1
      else (let (e, res, c) = iso_finish r IPaymentServiceSelectionRes (dc_id DC_WAIT_FOR_AUTHORIZATION) c1
            in (e, res, c\<lparr>evse_processing :=
                 (evse_processing c)(PHASE_AUTH := EP_Ongoing_WaitingForCustomerInteraction)\<rparr>)))"
  unfolding handle_iso_payment_service_selection_def Let_def split_def
  by (rule exI, rule exI, rule conjI[OF _ refl]) simp

lemma handle_iso_payment_service_selection_event:
  "handle_iso_payment_service_selection p ids c \<noteq> (V2G_EVENT_SEND_RECV_EXI_MSG, x)"
  by (cases x) (auto simp: handle_iso_payment_service_selection_def Let_def split: prod.splits)

lemma payment_service_selection_dc_step:
  assumes "handle_iso_payment_service_selection p ids (set_current V2G_PAYMENT_SERVICE_SELECTION_MSG c)
      = (V2G_EVENT_NO_EVENT, res, c')"
    "terminate_connection_on_failed_response c" "is_dc_charger c"
    "iso_selected_payment_option c = PO_ExternalPayment"
  shows "iso_dc_step c (IPaymentServiceSelectionReq p ids) res (c'\<lparr>last_v2g_msg := current_v2g_msg c'\<rparr>)"
proof -
  let ?c = "set_current V2G_PAYMENT_SERVICE_SELECTION_MSG c"
  obtain r c1 where c1: "core c1 = core ?c"
    and "handle_iso_payment_service_selection p ids ?c = (if p = PO_Contract
      then iso_finish r IPaymentServiceSelectionRes (dc_id DC_WAIT_FOR_PAYMENTDETAILS_CERTINST_CERTUPD) c1
      else (let (e, res, c) = iso_finish r IPaymentServiceSelectionRes (dc_id DC_WAIT_FOR_AUTHORIZATION) c1
            in (e, res, c\<lparr>evse_processing :=
                 (evse_processing c)(PHASE_AUTH := EP_Ongoing_WaitingForCustomerInteraction)\<rparr>)))"
    using handle_iso_payment_service_selection_finish[of ?c p ids] by (elim exE conjE) (rule that)
  note h = this(2)[symmetric, unfolded assms(1)]
  show ?thesis
  proof (cases "p = PO_Contract")
    case True
    with h have "iso_finish r IPaymentServiceSelectionRes (dc_id DC_WAIT_FOR_PAYMENTDETAILS_CERTINST_CERTUPD) c1
        = (V2G_EVENT_NO_EVENT, res, c')" by simp
    from iso_finish_step[OF this] show ?thesis
      using core_fields[OF c1] assms(2-) True by (simp add: iso_step_defs)
  next
    case False
    with h obtain c2 where f: "iso_finish r IPaymentServiceSelectionRes (dc_id DC_WAIT_FOR_AUTHORIZATION) c1
        = (V2G_EVENT_NO_EVENT, res, c2)"
      and c': "c' = c2\<lparr>evse_processing := (evse_processing c2)(PHASE_AUTH := EP_Ongoing_WaitingForCustomerInteraction)\<rparr>"
      by (auto split: prod.splits)
    from iso_finish_step[OF f] show ?thesis
      using core_fields[OF c1] assms(2-) False c' by (simp add: iso_step_defs)
  qed
qed

lemma certificate_installation_dc_step:
  assumes "handle_iso_certificate_installation env (set_current V2G_CERTIFICATE_INSTALLATION_MSG c) = Some (e, res, c')"
    "e \<in> {V2G_EVENT_NO_EVENT, V2G_EVENT_SEND_RECV_EXI_MSG}" "wake_ups env = []"
    "terminate_connection_on_failed_response c" "is_dc_charger c"
    "iso_selected_payment_option c = PO_ExternalPayment"
  shows "iso_dc_step c ICertificateInstallationReq res (c'\<lparr>last_v2g_msg := current_v2g_msg c'\<rparr>)"
  using assms wait_certificate.simps[of "[]" "set_current V2G_CERTIFICATE_INSTALLATION_MSG c"]
  by (auto simp: handle_iso_certificate_installation_def iso_step_defs split: if_splits option.splits dest!: iso_finish_step)

text \<open>The handlers implement the automaton.\<close>

lemma iso_dispatch_dc_step:
  assumes "iso_dispatch env req c = Some (e, Some res, c')" "e \<in> {V2G_EVENT_NO_EVENT, V2G_EVENT_SEND_RECV_EXI_MSG}"
    "terminate_connection_on_failed_response c" "is_dc_charger c"
    "iso_selected_payment_option c = PO_ExternalPayment" "wake_ups env = []"
  shows "iso_dc_step c req res (c'\<lparr>last_v2g_msg := current_v2g_msg c'\<rparr>)"
proof (cases req)
  case (ISessionSetupReq x)
  with assms show ?thesis by (auto simp: iso_step_defs iso_handler_defs split: if_splits prod.splits dest!: iso_finish_step)
next
  case (IServiceDiscoveryReq x)
  with assms show ?thesis by (auto simp: iso_step_defs iso_handler_defs split: if_splits prod.splits dest!: iso_finish_step)
next
  case (IServiceDetailReq x)
  with assms show ?thesis by (auto simp: iso_step_defs iso_handler_defs split: if_splits prod.splits dest!: iso_finish_step)
next
  case (IPaymentServiceSelectionReq x y)
  with assms show ?thesis
    by (auto simp: iso_dispatch_def answered_def handle_iso_payment_service_selection_event
        intro: payment_service_selection_dc_step split: prod.splits)
next
  case (IPaymentDetailsReq x)
  with assms show ?thesis
    using handle_iso_payment_details_refused[of "set_current V2G_PAYMENT_DETAILS_MSG c" env x]
    by (auto simp: iso_dispatch_def answered_def handle_iso_payment_details_def split: prod.splits)
next
  case (IAuthorizationReq x y)
  with assms show ?thesis
    by (auto simp: iso_step_defs iso_handler_defs check_authorization_def split: if_splits prod.splits dest!: iso_finish_step)
next
  case (IChargeParameterDiscoveryReq m ac dc)
  with assms show ?thesis
    using handle_iso_cpd_finish[of env m ac dc "set_current V2G_CHARGE_PARAMETER_DISCOVERY_MSG c"]
    by (auto simp: iso_dispatch_def answered_def Let_def intro!: charge_parameter_dc_step split: prod.splits)
next
  case (IPowerDeliveryReq r)
  with assms show ?thesis by (auto simp: iso_dispatch_def answered_def intro: power_delivery_dc_step split: prod.splits)
next
  case IChargingStatusReq
  with assms show ?thesis by (auto simp: iso_step_defs iso_handler_defs split: if_splits prod.splits dest!: iso_finish_step)
next
  case IMeteringReceiptReq
  with assms show ?thesis by (auto simp: iso_step_defs iso_handler_defs split: if_splits prod.splits dest!: iso_finish_step)
next
  case ICertificateUpdateReq
  with assms show ?thesis by (auto simp: iso_step_defs iso_handler_defs)
next
  case ICertificateInstallationReq
  with assms show ?thesis
    by (auto simp: iso_dispatch_def answered_def intro: certificate_installation_dc_step split: prod.splits)
next
  case (ICableCheckReq s)
  with assms show ?thesis by (auto simp: iso_step_defs iso_handler_defs split: if_splits prod.splits dest!: iso_finish_step)
next
  case (IPreChargeReq x)
  with assms show ?thesis by (auto simp: iso_step_defs iso_handler_defs split: if_splits prod.splits dest!: iso_finish_step)
next
  case (ICurrentDemandReq x)
  with assms show ?thesis by (auto simp: iso_step_defs iso_handler_defs used_def split: if_splits prod.splits dest!: iso_finish_step)
next
  case (IWeldingDetectionReq x)
  with assms show ?thesis by (auto simp: iso_step_defs iso_handler_defs split: if_splits prod.splits dest!: iso_finish_step)
qed (use assms in \<open>simp_all add: iso_step_defs iso_handler_defs split: prod.splits\<close>)

end
