(* ===== verification/V2g_Iso_Runs.thy ===== *)
theory V2g_Iso_Runs
  imports V2g_Iso_Correct
begin

text \<open>
  Runs of a DC session with the ISO 15118-2 server. A renegotiation sends the session back to the
  parameters, so the steps that let the car draw current are looked for after the last one.
\<close>

section \<open>Requests\<close>

lemma iso_handle_request_step:
  assumes "iso_handle_request env sid req c = Some (e, Some res, c')"
    "e \<in> {V2G_EVENT_NO_EVENT, V2G_EVENT_SEND_RECV_EXI_MSG}" "wake_ups env = []"
    "terminate_connection_on_failed_response c" "is_dc_charger c" "iso_selected_payment_option c = PO_ExternalPayment"
  shows "iso_dc_step c req res c'"
proof -
  let ?c = "c\<lparr>received_session_id := session_id_from_exi sid\<rparr>"
  from assms(1,2) obtain c2 where "iso_dispatch env req ?c = Some (e, Some res, c2)"
    and c': "c' = c2\<lparr>last_v2g_msg := current_v2g_msg c2\<rparr>"
    by (auto simp: iso_handle_request_def split: if_splits option.splits)
  then have "iso_dc_step ?c req res c'"
    using iso_dispatch_dc_step assms(2-6) by simp
  moreover have d: "demanded_before ?c = demanded_before c" by (simp add: demanded_before_def)
  moreover have "iso_reports ?c = iso_reports c" "soft_refusal ?c = soft_refusal c"
    by (simp_all only: fun_eq_iff iso_reports_def soft_refusal_def d iso_evse_status_frame)
       (simp_all split: iso_response_body.split)
  ultimately show ?thesis by (simp add: iso_dc_step_def)
qed

section \<open>Runs\<close>

type_synonym iso_event = "(iso_request, iso_response) session_event"

text \<open>
  A connection of a DC charger that has not ended. In a DC session a handler only waits when a
  certificate is installed during an emergency shutdown; a session that waits there forever has no
  further events.
\<close>

inductive iso_run :: "iso_event list \<Rightarrow> v2g_context \<Rightarrow> bool" where
  opened: "terminate_connection_on_failed_response c \<Longrightarrow> is_dc_charger c
    \<Longrightarrow> iso_run (map Commanded cmds)
          (v2g_ctx_init_charging_state False (fold run_command cmds (v2g_ctx_init_charging_session True c)))"
| answer: "iso_run tr c \<Longrightarrow> iso_handle_request env sid req c = Some (e, Some res, c') \<Longrightarrow> wake_ups env = []
    \<Longrightarrow> e = V2G_EVENT_NO_EVENT \<or> e = V2G_EVENT_SEND_RECV_EXI_MSG \<Longrightarrow> iso_run (tr @ [Answered req res]) c'"
| command: "iso_run tr c \<Longrightarrow> iso_run (tr @ [Commanded cmd]) (run_command cmd c)"

definition iso_answer :: "(iso_request \<Rightarrow> iso_response_body \<Rightarrow> bool) \<Rightarrow> iso_event \<Rightarrow> bool" where
  "iso_answer P e = (case e of Answered req res \<Rightarrow> \<not> failed (IResponseCode res) \<and> P req (IBody res) | Commanded _ \<Rightarrow> False)"

definition auth_finished :: "iso_event \<Rightarrow> bool" where
  "auth_finished = iso_answer (\<lambda>_ b. b = IAuthorizationRes EP_Finished)"

text \<open>The steps of a DC session after the authorization.\<close>

definition dc_steps :: "(iso_event \<Rightarrow> bool) list" where
  "dc_steps =
    [iso_answer (\<lambda>_ b. case b of IChargeParameterDiscoveryRes p _ _ \<Rightarrow> p = EP_Finished | _ \<Rightarrow> False),
     iso_answer (\<lambda>_ b. case b of ICableCheckRes _ p \<Rightarrow> p = EP_Finished | _ \<Rightarrow> False),
     iso_answer (\<lambda>_ b. case b of IPreChargeRes _ _ \<Rightarrow> True | _ \<Rightarrow> False),
     iso_answer (\<lambda>req _. case req of IPowerDeliveryReq r \<Rightarrow> ChargeProgress r = CP_Start | _ \<Rightarrow> False)]"

definition renegotiated :: "iso_event \<Rightarrow> bool" where
  "renegotiated = iso_answer (\<lambda>req _. case req of IPowerDeliveryReq r \<Rightarrow> ChargeProgress r = CP_Renegotiate | _ \<Rightarrow> False)"

text \<open>What has happened since the last renegotiation.\<close>

definition recent :: "iso_event list \<Rightarrow> iso_event list" where
  "recent tr = rev (takeWhile (\<lambda>e. \<not> renegotiated e) (rev tr))"

lemma recent_snoc [simp]: "recent (tr @ [e]) = (if renegotiated e then [] else recent tr @ [e])"
  by (simp add: recent_def)

lemma recent_empty [simp]: "recent [] = []"
  by (simp add: recent_def)

lemma not_renegotiated_command [simp]: "\<not> renegotiated (Commanded cmd)"
  by (simp add: renegotiated_def iso_answer_def)

definition dc_passed :: "nat \<Rightarrow> nat" where
  "dc_passed s = (if 7 \<le> s \<and> s \<le> 12 then min 4 (s - 6) else 0)"

lemma length_dc_steps [simp]: "length dc_steps = 4"
  by (simp add: dc_steps_def)

lemma dc_allowed_in:
  assumes "s < 15" "is_allowed (iso_dc_states ! s) m"
  shows "case m of V2G_SESSION_SETUP_MSG \<Rightarrow> s = 0 | V2G_SERVICE_DISCOVERY_MSG \<Rightarrow> s = 1
    | V2G_SERVICE_DETAIL_MSG \<Rightarrow> s = 2 | V2G_PAYMENT_SERVICE_SELECTION_MSG \<Rightarrow> s = 2
    | V2G_PAYMENT_DETAILS_MSG \<Rightarrow> s = 3 \<or> s = 4 | V2G_AUTHORIZATION_MSG \<Rightarrow> s = 3 \<or> s = 5
    | V2G_CERTIFICATE_INSTALLATION_MSG \<Rightarrow> s = 3 | V2G_CERTIFICATE_UPDATE_MSG \<Rightarrow> s = 3
    | V2G_CHARGE_PARAMETER_DISCOVERY_MSG \<Rightarrow> s = 6 | V2G_CABLE_CHECK_MSG \<Rightarrow> s = 7
    | V2G_PRE_CHARGE_MSG \<Rightarrow> s = 8 \<or> s = 9 | V2G_POWER_DELIVERY_MSG \<Rightarrow> s = 9 \<or> s = 10
    | V2G_CURRENT_DEMAND_MSG \<Rightarrow> s = 10 \<or> s = 11 | V2G_METERING_RECEIPT_MSG \<Rightarrow> s = 12
    | V2G_WELDING_DETECTION_MSG \<Rightarrow> s = 13 | V2G_SESSION_STOP_MSG \<Rightarrow> True | _ \<Rightarrow> False"
proof -
  from assms(1) have "s = 0 \<or> s = 1 \<or> s = 2 \<or> s = 3 \<or> s = 4 \<or> s = 5 \<or> s = 6 \<or> s = 7 \<or> s = 8
    \<or> s = 9 \<or> s = 10 \<or> s = 11 \<or> s = 12 \<or> s = 13 \<or> s = 14" by presburger
  then show ?thesis
    using assms(2) by (elim disjE) (auto simp: iso_dc_states_def)
qed

lemma iso_dc_step_allowed:
  assumes "iso_dc_step c req res c'" "v2g_state c < 15" "req \<noteq> ICertificateUpdateReq" "req \<noteq> ICertificateInstallationReq"
  shows "is_allowed (iso_dc_states ! v2g_state c) (iso_msg req)"
  using assms by (simp add: iso_dc_step_def)

lemmas iso_progress_defs = iso_dc_step_def iso_dc_next_def iso_reports_def iso_processing_def soft_refusal_def
  renegotiated_def auth_finished_def dc_steps_def dc_passed_def iso_answer_def

text \<open>Every answer keeps the number of steps, resets it, or is the next step.\<close>

definition dc_progress :: "v2g_context \<Rightarrow> iso_event \<Rightarrow> v2g_context \<Rightarrow> bool" where
  "dc_progress c e c' = (let n = dc_passed (v2g_state c); n' = dc_passed (v2g_state c') in
     (n' = n \<and> \<not> renegotiated e \<or> n' = 0
      \<or> (n' = Suc n \<and> n < 4 \<and> (dc_steps ! n) e \<and> \<not> renegotiated e
         \<and> (n = 1 \<longrightarrow> evse_processing c PHASE_ISOLATION = EP_Finished)))
     \<and> (6 \<le> v2g_state c' \<and> v2g_state c' \<le> 12 \<longrightarrow>
          (6 \<le> v2g_state c \<and> v2g_state c \<le> 12) \<or> (evse_processing c PHASE_AUTH = EP_Finished \<and> auth_finished e))
     \<and> (renegotiated e \<longrightarrow> evse_processing c' PHASE_ISOLATION = EP_Ongoing) \<and> v2g_state c' < 15)"

lemma iso_dc_step_progress:
  assumes "iso_dc_step c req res c'" "v2g_state c < 15"
  shows "dc_progress c (Answered req res) c'"
proof (cases "req = ICertificateUpdateReq \<or> req = ICertificateInstallationReq")
  case True
  moreover have "iso_res_msg (IBody res) = iso_msg req" using assms(1) by (simp add: iso_dc_step_def)
  ultimately have "v2g_state c' = v2g_state c \<or> v2g_state c' = 4"
    using assms(1) by (cases "IBody res") (auto simp: iso_dc_step_def iso_dc_next_def)
  moreover have "\<not> renegotiated (Answered req res)" using True by (auto simp: renegotiated_def iso_answer_def)
  ultimately show ?thesis using assms(2) by (auto simp: dc_progress_def Let_def dc_passed_def)
next
  case False
  note al = dc_allowed_in[OF assms(2) iso_dc_step_allowed[OF assms]]
  have "iso_res_msg (IBody res) = iso_msg req" using assms(1) by (simp add: iso_dc_step_def)
  then show ?thesis using assms(1) al False
    by (cases req; cases "IBody res"; simp only: iso_res_msg.simps iso_msg.simps V2gMsgTypeId.distinct)
       (auto simp: dc_progress_def iso_progress_defs split: if_splits)
qed

section \<open>The invariant\<close>

definition iso_inv :: "iso_event list \<Rightarrow> v2g_context \<Rightarrow> bool" where
  "iso_inv tr c = (terminate_connection_on_failed_response c \<and> is_dc_charger c
     \<and> iso_selected_payment_option c = PO_ExternalPayment \<and> v2g_state c < 15
     \<and> (evse_processing c PHASE_AUTH = EP_Finished \<longrightarrow> in_order [authorization_given] tr)
     \<and> (evse_processing c PHASE_ISOLATION = EP_Finished \<longrightarrow> in_order [cable_checked] (recent tr))
     \<and> (6 \<le> v2g_state c \<and> v2g_state c \<le> 12 \<longrightarrow> in_order [authorization_given, auth_finished] tr)
     \<and> in_order (take (dc_passed (v2g_state c)) dc_steps) (recent tr)
     \<and> chain dc_steps cable_checked 1 (dc_passed (v2g_state c)) (recent tr))"

lemma iso_processing_grants:
  "iso_processing d req f PHASE_AUTH = EP_Finished \<Longrightarrow> f PHASE_AUTH = EP_Finished"
  "iso_processing d req f PHASE_ISOLATION = EP_Finished \<Longrightarrow> f PHASE_ISOLATION = EP_Finished"
  by (auto simp: iso_processing_def split: iso_request.splits if_splits)

lemma iso_inv_answer:
  assumes inv: "iso_inv tr c" and st: "iso_dc_step c req res c'"
  shows "iso_inv (tr @ [Answered req res]) c'"
proof -
  let ?n = "dc_passed (v2g_state c)" and ?n' = "dc_passed (v2g_state c')" and ?e = "Answered req res"
  have pr: "dc_progress c ?e c'" using iso_dc_step_progress[OF st] inv by (simp add: iso_inv_def)
  have kept: "in_order (take ?n dc_steps) (recent tr)" "chain dc_steps cable_checked 1 ?n (recent tr)"
    and isolated: "evse_processing c PHASE_ISOLATION = EP_Finished \<longrightarrow> in_order [cable_checked] (recent tr)"
    using inv by (simp_all add: iso_inv_def)
  from pr consider (zero) "?n' = 0" | (keep) "?n' = ?n" "\<not> renegotiated ?e"
    | (advance) "?n' = Suc ?n" "?n < 4" "(dc_steps ! ?n) ?e" "\<not> renegotiated ?e"
        "?n = 1 \<longrightarrow> evse_processing c PHASE_ISOLATION = EP_Finished"
    by (auto simp: dc_progress_def Let_def)
  then have "in_order (take ?n' dc_steps) (recent (tr @ [?e])) \<and> chain dc_steps cable_checked 1 ?n' (recent (tr @ [?e]))"
  proof cases
    case zero
    then show ?thesis by (simp add: chain_def)
  next
    case keep
    then show ?thesis using kept chain_keep[of ?n ?n dc_steps cable_checked 1] by (simp add: in_order_mono)
  next
    case advance
    then have "in_order (take ?n' dc_steps) (recent tr @ [?e])"
      using in_order_snoc[of _ _ "dc_steps ! ?n", OF kept(1)] by (simp add: take_Suc_conv_app_nth)
    moreover have "chain dc_steps cable_checked 1 ?n' (recent tr @ [?e])"
      using advance isolated kept(2) by (intro chain_advance[of _ ?n]) auto
    ultimately show ?thesis using advance(4) by simp
  qed
  moreover have "evse_processing c' PHASE_AUTH = EP_Finished \<longrightarrow> in_order [authorization_given] (tr @ [?e])"
    using st inv iso_processing_grants(1) by (auto simp: iso_dc_step_def iso_inv_def intro: in_order_mono)
  moreover have "evse_processing c' PHASE_ISOLATION = EP_Finished \<longrightarrow> in_order [cable_checked] (recent (tr @ [?e]))"
  proof
    assume fin: "evse_processing c' PHASE_ISOLATION = EP_Finished"
    then have "evse_processing c PHASE_ISOLATION = EP_Finished"
      using st iso_processing_grants(2) by (auto simp: iso_dc_step_def)
    moreover have "\<not> renegotiated ?e" using fin pr by (auto simp: dc_progress_def Let_def)
    ultimately show "in_order [cable_checked] (recent (tr @ [?e]))" using isolated by (simp add: in_order_mono)
  qed
  moreover have "6 \<le> v2g_state c' \<and> v2g_state c' \<le> 12 \<longrightarrow> in_order [authorization_given, auth_finished] (tr @ [?e])"
    using pr inv by (auto simp: dc_progress_def iso_inv_def Let_def intro: in_order_mono in_order_single)
  moreover have "v2g_state c' < 15" "terminate_connection_on_failed_response c'" "is_dc_charger c'"
      "iso_selected_payment_option c' = PO_ExternalPayment"
    using pr st by (simp_all add: dc_progress_def iso_dc_step_def Let_def)
  ultimately show ?thesis by (simp only: iso_inv_def simp_thms)
qed

lemma run_command_session_frame:
  "is_dc_charger (run_command cmd c) = is_dc_charger c"
  "iso_selected_payment_option (run_command cmd c) = iso_selected_payment_option c"
  by (cases cmd; simp add: handle_set_Auth_Okay_EIM_def handle_set_Auth_Okay_PnC_def handle_cableCheck_Finished_def
      handle_set_EVSEIsolationStatus_def handle_stop_charging_def stop_charging_timeout_def
      handle_set_EVSE_EmergencyShutdown_def handle_set_EVSE_Malfunction_def handle_set_EVSE_UtilityInterruptEvent_def
      handle_contactor_closed_def handle_contactor_open_def handle_set_ReceiptRequired_def
      handle_set_DC_EVSEMaximumLimits_def handle_set_AC_EVSEMaxCurrent_def)+

lemma iso_inv_command:
  assumes "iso_inv tr c"
  shows "iso_inv (tr @ [Commanded cmd]) (run_command cmd c)"
  using assms run_command_grants(1,2)[of cmd c]
  by (auto simp: iso_inv_def run_command_frame run_command_session_frame
      intro: in_order_cmd in_order_mono chain_keep[of "dc_passed (v2g_state c)"])

lemma session_init_iso_fields:
  "is_dc_charger (v2g_ctx_init_charging_session t c) = is_dc_charger c"
  "iso_selected_payment_option (v2g_ctx_init_charging_session t c) = PO_ExternalPayment"
  unfolding v2g_ctx_init_charging_session_def v2g_ctx_init_charging_values_def Let_def
  by (simp_all add: v2g_ctx_init_charging_state_def init_values_once_def)

lemma iso_inv_opened:
  assumes "terminate_connection_on_failed_response c" "is_dc_charger c"
  shows "iso_inv (map Commanded cmds)
    (v2g_ctx_init_charging_state False (fold run_command cmds (v2g_ctx_init_charging_session True c)))"
proof -
  let ?c = "v2g_ctx_init_charging_session True c"
  have "iso_inv [] ?c"
    using assms by (simp add: iso_inv_def session_init_fields session_init_iso_fields chain_def dc_passed_def)
  then have "iso_inv (map Commanded cmds) (fold run_command cmds ?c)"
    by (induction cmds rule: rev_induct) (simp_all add: iso_inv_command)
  then show ?thesis
    by (simp add: iso_inv_def v2g_ctx_init_charging_state_def chain_def dc_passed_def)
qed

lemma iso_inv_step:
  assumes "iso_inv tr c" "iso_handle_request env sid req c = Some (e, Some res, c')"
    "e = V2G_EVENT_NO_EVENT \<or> e = V2G_EVENT_SEND_RECV_EXI_MSG" "wake_ups env = []"
  shows "iso_dc_step c req res c'"
  using iso_handle_request_step[OF assms(2) _ assms(4)] assms(1,3) by (auto simp: iso_inv_def)

lemma iso_run_inv: "iso_run tr c \<Longrightarrow> iso_inv tr c"
proof (induction rule: iso_run.induct)
  case (answer tr c env sid req e res c')
  from iso_inv_answer[OF answer.IH iso_inv_step[OF answer.IH answer.hyps(2,4,3)]] show ?case .
qed (simp_all add: iso_inv_opened iso_inv_command)

text \<open>What must have happened before a current demand is answered.\<close>

definition may_draw_current :: "iso_event list \<Rightarrow> bool" where
  "may_draw_current tr = (in_order [authorization_given, auth_finished] tr
     \<and> in_order dc_steps (recent tr) \<and> in_order (cable_checked # drop 1 dc_steps) (recent tr))"

lemma iso_step_current_demand:
  assumes "iso_inv tr c" "iso_dc_step c (ICurrentDemandReq r) res c'"
  shows "may_draw_current tr \<and> \<not> failed (IResponseCode res)"
proof -
  have s: "v2g_state c < 15" "is_allowed (iso_dc_states ! v2g_state c) V2G_CURRENT_DEMAND_MSG"
    using assms by (auto simp: iso_inv_def iso_dc_step_def)
  then have "v2g_state c = 10 \<or> v2g_state c = 11" using dc_allowed_in[OF s] by simp
  then have "dc_passed (v2g_state c) = 4" "6 \<le> v2g_state c" "v2g_state c \<le> 12" by (auto simp: dc_passed_def)
  then show ?thesis
    using assms by (simp add: iso_inv_def chain_def may_draw_current_def iso_dc_step_def soft_refusal_def)
qed

lemma iso_run_current_demand:
  "iso_run tr c \<Longrightarrow> tr = before @ Answered (ICurrentDemandReq r) res # after
   \<Longrightarrow> may_draw_current before \<and> \<not> failed (IResponseCode res)"
proof (induction arbitrary: after rule: iso_run.induct)
  case (opened c cmds)
  then show ?case by (auto simp: map_eq_append_conv)
next
  case (answer tr c env sid req e res' c')
  show ?case
  proof (cases after rule: rev_cases)
    case Nil
    note inv = iso_run_inv[OF answer(1)]
    from iso_step_current_demand[OF inv] iso_inv_step[OF inv answer(2,4,3)] show ?thesis
      using answer.prems Nil by simp
  next
    case (snoc ys y)
    then show ?thesis using answer by simp
  qed
next
  case (command tr c cmd)
  then show ?case by (cases after rule: rev_cases) auto
qed

end
