(* ===== verification/V2g_Server_Correct.thy ===== *)
theory V2g_Server_Correct
  imports V2g_Server V2g_Iso_Runs
begin

text \<open>
  The loop that serves a connection keeps the invariants of the protocols: what holds of the
  events of a session holds of everything that a connection does, from the negotiation on.
\<close>

section \<open>Frames\<close>

lemma run_commands_append: "run_commands (xs @ ys) c = run_commands ys (run_commands xs c)"
  by (simp add: run_commands_def)

lemma run_commands_Nil [simp]: "run_commands [] c = c"
  by (simp add: run_commands_def)

text \<open>While a message is read, only the commands of the other modules change the context.\<close>

lemma connection_read_context:
  "connection_read steps count buf c = Some (r, cmds, rest, c') \<Longrightarrow> c' = run_commands cmds c"
proof (induction steps count buf c arbitrary: r cmds rest c' rule: connection_read.induct)
  case (1 steps count buf c)
  show ?case
  proof (cases "count \<le> length buf")
    case True
    then show ?thesis using "1.prems" by (subst (asm) connection_read.simps) simp
  next
    case False
    then obtain s ss where steps: "steps = s # ss"
      using "1.prems" by (subst (asm) connection_read.simps) (auto split: list.splits)
    let ?c = "run_commands (rx_commands s) c"
    show ?thesis
    proof (cases "is_sequence_timeout (rx_elapsed s) \<or> is_connection_terminated ?c")
      case True
      then show ?thesis using "1.prems" False steps by (subst (asm) connection_read.simps) (auto simp: Let_def)
    next
      case go: False
      note IH = "1.IH"[OF False steps refl go]
      show ?thesis
        using "1.prems" False steps go
        by (subst (asm) connection_read.simps)
           (auto simp: Let_def run_commands_append split: rx_result.splits if_splits dest: IH)
    qed
  qed
qed

lemma v2g_incoming_context:
  "v2g_incoming_v2gtp rd steps c = Some (i, cmds, rest, c') \<Longrightarrow> c' = run_commands cmds c"
  by (auto simp: v2g_incoming_v2gtp_def run_commands_append
      split: option.splits read_result.splits if_splits prod.splits dest!: connection_read_context)

section \<open>Sessions that are served\<close>

text \<open>
  The interface of a protocol to the loop: an invariant of the events and the context that the
  commands and the handlers keep as long as the loop goes on, and a condition that every event
  satisfies when it happens.
\<close>

fun all_good :: "('e list \<Rightarrow> 'e \<Rightarrow> bool) \<Rightarrow> 'e list \<Rightarrow> 'e list \<Rightarrow> bool" where
  "all_good good tr [] = True"
| "all_good good tr (e # es) = (good tr e \<and> all_good good (tr @ [e]) es)"

lemma all_good_append: "all_good good tr (xs @ ys) \<longleftrightarrow> all_good good tr xs \<and> all_good good (tr @ xs) ys"
  by (induction xs arbitrary: tr) auto

lemma all_good_nth: "all_good good tr (before @ e # after) \<Longrightarrow> good (tr @ before) e"
  by (simp add: all_good_append)

locale served_session =
  fixes env :: server_env and protocol :: v2g_protocol and ok_turn :: "turn \<Rightarrow> bool"
    and inv :: "'e list \<Rightarrow> v2g_context \<Rightarrow> bool" and events :: "conn_event \<Rightarrow> 'e list" and good :: "'e list \<Rightarrow> 'e \<Rightarrow> bool"
  assumes command: "inv tr c \<Longrightarrow> inv (tr @ events (Conn_command cmd)) (run_command cmd c)"
    and command_good: "all_good good tr (events (Conn_command cmd))"
    and sent: "events (Conn_sent m) = []"
    and message: "inv tr c \<Longrightarrow> ok_turn t \<Longrightarrow> handle_message env protocol t buf c = Some (e, es, c')
      \<Longrightarrow> all_good good tr (concat (map events es))
        \<and> (e \<noteq> V2G_EVENT_SEND_AND_TERMINATE \<and> e \<noteq> V2G_EVENT_TERMINATE_CONNECTION
           \<longrightarrow> inv (tr @ concat (map events es)) c')"
begin

lemma commands:
  "inv tr c \<Longrightarrow> inv (tr @ concat (map (events \<circ> Conn_command) cmds)) (run_commands cmds c)
    \<and> all_good good tr (concat (map (events \<circ> Conn_command) cmds))"
proof (induction cmds arbitrary: tr c)
  case (Cons cmd cmds)
  from Cons.IH[OF command[OF Cons.prems, of cmd]] show ?case
    by (simp add: run_commands_def all_good_append command_good)
qed simp

lemma respond_goes_on:
  "respond t e c = Some (True, es) \<Longrightarrow> e \<noteq> V2G_EVENT_SEND_AND_TERMINATE \<and> e \<noteq> V2G_EVENT_TERMINATE_CONNECTION"
  by (auto simp: respond_def split: if_splits)

lemma respond_events: "respond t e c = Some (b, es) \<Longrightarrow> concat (map events es) = []"
  by (auto simp: respond_def sent split: if_splits)

lemma loop_good:
  "message_loop env protocol ts steps c = Some (es, c') \<Longrightarrow> inv tr c \<Longrightarrow> list_all ok_turn ts
    \<Longrightarrow> all_good good tr (concat (map events es))"
proof (induction ts arbitrary: steps c es tr)
  case (Cons t ts)
  obtain i cmds steps1 c1 where inc: "v2g_incoming_v2gtp (read_v2gtpHeader env) steps c = Some (i, cmds, steps1, c1)"
    using Cons.prems(1) by (auto split: option.splits)
  let ?tr = "tr @ concat (map (events \<circ> Conn_command) cmds)"
  have c1: "inv ?tr c1" "all_good good tr (concat (map (events \<circ> Conn_command) cmds))"
    using commands[OF Cons.prems(2), of cmds] v2g_incoming_context[OF inc] by simp_all
  show ?case
  proof (cases i)
    case (Incoming buf)
    obtain e es1 c2 where hm: "handle_message env protocol t buf c1 = Some (e, es1, c2)"
      using Cons.prems(1) inc Incoming by (auto split: option.splits)
    obtain b sent' where rs: "respond t e c2 = Some (b, sent')"
      using Cons.prems(1) inc Incoming hm by (auto split: option.splits)
    obtain es2 where es: "es = map Conn_command cmds @ es1 @ sent' @ es2"
      and rest: "(if b then message_loop env protocol ts steps1 c2 else Some ([], c2)) = Some (es2, c')"
      using Cons.prems(1) inc Incoming hm rs by auto
    have msg: "all_good good ?tr (concat (map events es1))"
      "b \<longrightarrow> inv (?tr @ concat (map events es1)) c2"
      using message[OF c1(1) _ hm] Cons.prems(3) rs respond_goes_on[of t e c2 sent'] by auto
    have "all_good good (?tr @ concat (map events es1)) (concat (map events es2))"
      using rest msg(2) Cons.IH[of steps1 c2 es2] Cons.prems(3) by (auto split: if_splits)
    moreover have "concat (map events es) = concat (map (events \<circ> Conn_command) cmds) @ concat (map events es1)
        @ concat (map events es2)"
      unfolding es by (simp only: map_append concat_append respond_events[OF rs] map_map append_Nil)
    ultimately show ?thesis using c1(2) msg(1) by (simp add: all_good_append)
  qed (use Cons.prems(1) inc c1 in auto)
qed simp

end

section \<open>DIN 70121\<close>

text \<open>The events of a DIN session in the record of a connection.\<close>

fun din_events :: "conn_event \<Rightarrow> din_event list" where
  "din_events (Conn_command cmd) = [Commanded cmd]"
| "din_events (Conn_din req e res) =
     (if e = V2G_EVENT_NO_EVENT then (case res of Some r \<Rightarrow> [Answered req r] | None \<Rightarrow> []) else [])"
| "din_events (Conn_iso req e res) = []"
| "din_events (Conn_sent m) = []"

definition din_good :: "din_event list \<Rightarrow> din_event \<Rightarrow> bool" where
  "din_good tr e = (case e of Answered req res \<Rightarrow>
     (case req of DCurrentDemandReq r \<Rightarrow> may_charge tr \<and> \<not> failed (ResponseCode res) | _ \<Rightarrow> True) | Commanded _ \<Rightarrow> True)"

lemma din_dispatch_answers: "din_dispatch env req c = (V2G_EVENT_NO_EVENT, res, c') \<Longrightarrow> res \<noteq> None"
  by (cases req) (auto simp: din_dispatch_def answered_def Let_def split: prod.splits)

lemma din_finish_not_forwarded [simp]:
  "din_finish r b s c \<noteq> (V2G_EVENT_SEND_RECV_EXI_MSG, x)" "(V2G_EVENT_SEND_RECV_EXI_MSG, x) \<noteq> din_finish r b s c"
  by (auto simp: din_finish_def din_validate_response_code_def Let_def)

lemma din_dispatch_not_forwarded: "din_dispatch env req c \<noteq> (V2G_EVENT_SEND_RECV_EXI_MSG, res, c')"
proof (cases req)
  case (DChargeParameterDiscoveryReq m ac dc)
  then show ?thesis
    using handle_din_charge_parameter_finish[of m ac dc "set_current V2G_CHARGE_PARAMETER_DISCOVERY_MSG c"]
    by (auto simp: din_dispatch_def answered_def Let_def split: prod.splits)
next
  case (DCableCheckReq s)
  then show ?thesis
    by (auto simp: din_dispatch_def answered_def Let_def handle_din_cable_check_finish split: prod.splits)
qed (auto simp: din_dispatch_def answered_def Let_def din_handler_defs split: prod.splits if_splits)

lemma din_message:
  assumes "din_inv tr c" "din_handle_request env sid req c = (e, res, c')"
  shows "all_good din_good tr (din_events (Conn_din req e res))
    \<and> (e \<noteq> V2G_EVENT_SEND_AND_TERMINATE \<and> e \<noteq> V2G_EVENT_TERMINATE_CONNECTION
       \<longrightarrow> din_inv (tr @ din_events (Conn_din req e res)) c')"
proof -
  have flag: "terminate_connection_on_failed_response c" using assms(1) by (simp add: din_inv_def)
  obtain c1 where disp: "din_dispatch env req (c\<lparr>received_session_id := session_id_from_exi sid\<rparr>) = (e, res, c1)"
    using assms(2) by (auto simp: din_handle_request_def Let_def split: prod.splits)
  consider (answered) r where "e = V2G_EVENT_NO_EVENT" "res = Some r" | (ignored) "e = V2G_EVENT_IGNORE_MSG"
    | (ends) "e = V2G_EVENT_SEND_AND_TERMINATE \<or> e = V2G_EVENT_TERMINATE_CONNECTION"
    using disp din_dispatch_answers[of env req _ res c1] din_dispatch_not_forwarded by (cases e) auto
  then show ?thesis
  proof cases
    case answered
    then have st: "din_step c req r c'" using din_handle_request_step[OF _ flag] assms(2) by simp
    have "din_good tr (Answered req r)"
      using din_step_current_demand[OF assms(1)] st by (auto simp: din_good_def split: din_request.split)
    then show ?thesis using answered din_inv_answer[OF assms(1) st] by simp
  next
    case ignored
    then show ?thesis
      using assms(1) din_handle_request_ignored[OF assms(2)[unfolded ignored]] by (simp add: din_inv_def)
  qed auto
qed

interpretation din_session: served_session env V2G_PROTO_DIN70121 "\<lambda>_. True" din_inv din_events din_good for env
proof (unfold_locales, goal_cases)
  case (4 tr c t buf e es c')
  show ?case
  proof (cases "decode_dinExiDocument env buf")
    case None
    then show ?thesis using 4 by (auto simp: handle_message_def)
  next
    case (Some m)
    obtain sid req where m: "m = (sid, req)" by fastforce
    obtain e' res c1 where "din_handle_request (base_env (turn_env t)) sid req c = (e', res, c1)" by (metis prod_cases3)
    then show ?thesis using 4 Some m din_message[OF 4(1), of "base_env (turn_env t)" sid req e' res c1]
      by (auto simp: handle_message_def simp del: din_events.simps)
  qed
qed (simp_all add: din_inv_command din_good_def)

section \<open>ISO 15118-2\<close>

fun iso_events :: "conn_event \<Rightarrow> iso_event list" where
  "iso_events (Conn_command cmd) = [Commanded cmd]"
| "iso_events (Conn_iso req e res) =
     (if e = V2G_EVENT_NO_EVENT \<or> e = V2G_EVENT_SEND_RECV_EXI_MSG
      then (case res of Some r \<Rightarrow> [Answered req r] | None \<Rightarrow> []) else [])"
| "iso_events (Conn_din req e res) = []"
| "iso_events (Conn_sent m) = []"

definition iso_good :: "iso_event list \<Rightarrow> iso_event \<Rightarrow> bool" where
  "iso_good tr e = (case e of Answered req res \<Rightarrow>
     (case req of ICurrentDemandReq r \<Rightarrow> may_draw_current tr \<and> \<not> failed (IResponseCode res) | _ \<Rightarrow> True) | Commanded _ \<Rightarrow> True)"

lemma iso_dispatch_unanswered: "iso_dispatch env req c = Some (e, None, c') \<Longrightarrow> e = V2G_EVENT_IGNORE_MSG \<and> c' = c"
  by (cases req) (auto simp: iso_dispatch_def answered_def Let_def split: prod.splits)

lemma power_delivery_not_ignored: "handle_iso_power_delivery env r c \<noteq> Some (V2G_EVENT_IGNORE_MSG, res, c')"
  by (auto simp: handle_iso_power_delivery_def Let_def iso_validate_not_ignored split: option.splits prod.splits)

lemma certificate_installation_not_ignored:
  "handle_iso_certificate_installation env c \<noteq> Some (V2G_EVENT_IGNORE_MSG, res, c')"
  by (auto simp: handle_iso_certificate_installation_def Let_def split: option.splits)

lemma charge_parameter_not_ignored:
  "handle_iso_charge_parameter_discovery env m ac dc c \<noteq> (V2G_EVENT_IGNORE_MSG, res, c')"
  using handle_iso_cpd_finish[of env m ac dc c]
  by (elim exE conjE) (simp only: Let_def iso_finish_not_ignored not_False_eq_True)

lemma iso_dispatch_ignored: "iso_dispatch env req c = Some (V2G_EVENT_IGNORE_MSG, res, c') \<Longrightarrow> res = None \<and> c' = c"
proof (cases req)
  case (IPowerDeliveryReq r)
  then show "iso_dispatch env req c = Some (V2G_EVENT_IGNORE_MSG, res, c') \<Longrightarrow> ?thesis"
    by (auto simp: iso_dispatch_def answered_def power_delivery_not_ignored split: prod.splits)
next
  case ICertificateInstallationReq
  then show "iso_dispatch env req c = Some (V2G_EVENT_IGNORE_MSG, res, c') \<Longrightarrow> ?thesis"
    by (auto simp: iso_dispatch_def answered_def certificate_installation_not_ignored split: prod.splits)
next
  case (IChargeParameterDiscoveryReq m ac dc)
  then show "iso_dispatch env req c = Some (V2G_EVENT_IGNORE_MSG, res, c') \<Longrightarrow> ?thesis"
    by (auto simp: iso_dispatch_def answered_def charge_parameter_not_ignored split: prod.splits)
next
  case (IPaymentDetailsReq r)
  then show "iso_dispatch env req c = Some (V2G_EVENT_IGNORE_MSG, res, c') \<Longrightarrow> ?thesis"
    by (auto simp: iso_dispatch_def answered_def handle_iso_payment_details_def split: prod.splits)
qed (auto simp: iso_dispatch_def answered_def Let_def iso_handler_defs split: prod.splits if_splits)

lemma iso_inv_received [simp]: "iso_inv tr (c\<lparr>received_session_id := sid\<rparr>) = iso_inv tr c"
  by (simp add: iso_inv_def)

lemma iso_message:
  assumes "iso_inv tr c" "iso_handle_request env sid req c = Some (e, res, c')" "wake_ups env = []"
  shows "all_good iso_good tr (iso_events (Conn_iso req e res))
    \<and> (e \<noteq> V2G_EVENT_SEND_AND_TERMINATE \<and> e \<noteq> V2G_EVENT_TERMINATE_CONNECTION
       \<longrightarrow> iso_inv (tr @ iso_events (Conn_iso req e res)) c')"
proof -
  let ?c = "c\<lparr>received_session_id := session_id_from_exi sid\<rparr>"
  obtain c1 where disp: "iso_dispatch env req ?c = Some (e, res, c1)"
    and c': "c' = (if e \<noteq> V2G_EVENT_IGNORE_MSG then c1\<lparr>last_v2g_msg := current_v2g_msg c1\<rparr> else c1)"
    using assms(2) by (auto simp: iso_handle_request_def split: option.splits if_splits prod.splits)
  consider (answered) r where "e = V2G_EVENT_NO_EVENT \<or> e = V2G_EVENT_SEND_RECV_EXI_MSG" "res = Some r"
    | (ignored) "e = V2G_EVENT_IGNORE_MSG"
    | (ends) "e = V2G_EVENT_SEND_AND_TERMINATE \<or> e = V2G_EVENT_TERMINATE_CONNECTION"
    using disp iso_dispatch_unanswered[of env req ?c e c1] by (cases e; cases res) auto
  then show ?thesis
  proof cases
    case answered
    then have st: "iso_dc_step c req r c'" using iso_inv_step[OF assms(1) _ _ assms(3)] assms(2) by simp
    have "iso_good tr (Answered req r)"
      using iso_step_current_demand[OF assms(1)] st by (auto simp: iso_good_def split: iso_request.split)
    then show ?thesis using answered iso_inv_answer[OF assms(1) st] by auto
  next
    case ignored
    then have "c' = ?c" using iso_dispatch_ignored[of env req ?c res c1] disp c' by simp
    then show ?thesis using ignored assms(1) by simp
  qed auto
qed

interpretation iso_session: served_session env V2G_PROTO_ISO15118_2013 "\<lambda>t. wake_ups (turn_env t) = []"
  iso_inv iso_events iso_good for env
proof (unfold_locales, goal_cases)
  case (4 tr c t buf e es c')
  show ?case
  proof (cases "decode_iso1ExiDocument env buf")
    case None
    then show ?thesis using 4 by (auto simp: handle_message_def)
  next
    case (Some m)
    obtain sid req where m: "m = (sid, req)" by fastforce
    obtain res c1 where "iso_handle_request (turn_env t) sid req c = Some (e, res, c1)" "es = [Conn_iso req e res]" "c' = c1"
      using 4(3) Some m by (auto simp: handle_message_def)
    then show ?thesis using iso_message[OF 4(1) _ 4(2)] by (auto simp del: iso_events.simps)
  qed
qed (simp_all add: iso_inv_command iso_good_def)

section \<open>Connections\<close>

text \<open>
  While the car speaks one protocol, a connection has no events of the other one. An invariant
  that does not depend on the selected protocol holds from the negotiation on.
\<close>

interpretation din_idle: served_session env V2G_PROTO_ISO15118_2013 "\<lambda>_. True" "\<lambda>_ _. True" din_events din_good for env
  by unfold_locales (auto simp: din_good_def handle_message_def split: option.splits)

interpretation iso_idle: served_session env V2G_PROTO_DIN70121 "\<lambda>_. True" "\<lambda>_ _. True" iso_events iso_good for env
  by unfold_locales (auto simp: iso_good_def handle_message_def split: option.splits prod.splits)

lemma message_loop_din:
  "p \<noteq> V2G_PROTO_ISO15118_2013 \<Longrightarrow> message_loop env p ts steps c = message_loop env V2G_PROTO_DIN70121 ts steps c"
proof (induction ts arbitrary: steps c)
  case (Cons t ts)
  have msg: "handle_message env p = handle_message env V2G_PROTO_DIN70121"
    using Cons.prems by (simp add: fun_eq_iff handle_message_def)
  show ?case unfolding message_loop.simps msg Cons.IH[OF Cons.prems] ..
qed simp

locale served_connection =
  fixes env :: server_env and ok_turn :: "turn \<Rightarrow> bool"
    and inv :: "'e list \<Rightarrow> v2g_context \<Rightarrow> bool" and events :: "conn_event \<Rightarrow> 'e list" and good :: "'e list \<Rightarrow> 'e \<Rightarrow> bool"
  assumes loops: "message_loop env p ts steps c = Some (es, c') \<Longrightarrow> inv tr c \<Longrightarrow> list_all ok_turn ts
      \<Longrightarrow> all_good good tr (concat (map events es))"
    and commanded: "inv tr c \<Longrightarrow> inv (tr @ concat (map (events \<circ> Conn_command) cmds)) (run_commands cmds c)
      \<and> all_good good tr (concat (map (events \<circ> Conn_command) cmds))"
    and silent: "events (Conn_sent m) = []"
    and negotiated: "inv tr (c\<lparr>selected_protocol := p\<rparr>) = inv tr c" "inv tr (c\<lparr>current_v2g_msg := m\<rparr>) = inv tr c"
begin

lemma negotiate_inv: "negotiate as prio schema c = (schema', c') \<Longrightarrow> inv tr c' = inv tr c"
  by (induction as prio schema c rule: negotiate.induct) (auto simp: negotiated split: if_splits)

lemma handshake_inv: "v2g_handle_apphandshake req enc c = (e, res, c') \<Longrightarrow> inv tr c' = inv tr c"
  by (auto simp: v2g_handle_apphandshake_def Let_def negotiated split: option.splits prod.splits if_splits dest!: negotiate_inv)

lemma serve_good:
  assumes "serve_connection env t ts steps c = Some (es, c')" "inv tr c" "list_all ok_turn ts"
  shows "all_good good tr (concat (map events es))"
proof -
  obtain i cmds steps1 c1 where inc: "v2g_incoming_v2gtp (read_v2gtpHeader env) steps c = Some (i, cmds, steps1, c1)"
    using assms(1) by (auto simp: serve_connection_def split: option.splits)
  let ?tr = "tr @ concat (map (events \<circ> Conn_command) cmds)"
  have c1: "inv ?tr c1" "all_good good tr (concat (map (events \<circ> Conn_command) cmds))"
    using commanded[OF assms(2), of cmds] v2g_incoming_context[OF inc] by simp_all
  consider (short) "es = map Conn_command cmds" | (served) e c2 es2 where "inv ?tr c2"
      "negotiated_session env ts steps1 e c2 = Some (es2, c')"
      "es = map Conn_command cmds @ Conn_sent V2G_SUPPORTED_APP_PROTOCOL_MSG # es2"
  proof (cases "\<exists>buf. i = Incoming buf")
    case True
    then obtain buf e res c2 where i: "i = Incoming buf"
      and hs: "v2g_handle_apphandshake (decode_appHandExiDocument env buf) (encoded t) c1 = (e, res, c2)"
      by (metis prod_cases3)
    have "inv ?tr c2" using handshake_inv[OF hs] c1(1) by simp
    then show thesis
      using assms(1) inc i hs that by (auto simp: serve_connection_def split: if_splits option.splits bool.splits)
  next
    case False
    then show thesis using assms(1) inc that by (auto simp: serve_connection_def split: incoming.splits)
  qed
  then show ?thesis
  proof cases
    case short
    then show ?thesis using c1(2) by simp
  next
    case served
    then have "all_good good ?tr (concat (map events es2))"
      using loops[of _ ts steps1 c2 es2 c'] assms(3) by (auto simp: negotiated_session_def split: if_splits)
    then show ?thesis using served(3) c1(2) by (simp add: all_good_append silent)
  qed
qed

end

interpretation din_connection: served_connection env "\<lambda>_. True" din_inv din_events din_good for env
proof (unfold_locales, goal_cases)
  case (1 p ts steps c es c' tr)
  then show ?case
    using din_session.loop_good[of env ts steps c es c' tr] din_idle.loop_good[of env ts steps c es c' tr]
      message_loop_din[of p env ts steps c]
    by (cases "p = V2G_PROTO_ISO15118_2013") simp_all
next
  case (2 tr c cmds)
  then show ?case using din_session.commands by blast
qed (simp_all add: din_inv_def)

interpretation iso_connection: served_connection env "\<lambda>t. wake_ups (turn_env t) = []" iso_inv iso_events iso_good for env
proof (unfold_locales, goal_cases)
  case (1 p ts steps c es c' tr)
  then show ?case
    using iso_session.loop_good[of env ts steps c es c' tr] iso_idle.loop_good[of env ts steps c es c' tr]
      message_loop_din[of p env ts steps c] list.pred_mono_strong[of "\<lambda>t. wake_ups (turn_env t) = []" ts "\<lambda>_. True"]
    by (cases "p = V2G_PROTO_ISO15118_2013") simp_all
next
  case (2 tr c cmds)
  then show ?case using iso_session.commands by blast
qed (simp_all add: iso_inv_def)

end
