(* ===== verification/V2g_Properties.thy ===== *)
theory V2g_Properties
  imports V2g_Din_Correct Evse_Properties
begin

text \<open>
  Properties of the conversion of physical values and of a DIN 70121 session, alone and together
  with the EVSE manager that receives the values the server publishes.
\<close>

section \<open>Physical values\<close>

lemma div10_bounds:
  "\<bar>div10 v\<bar> \<le> \<bar>v\<bar>" "10 * \<bar>div10 v\<bar> \<le> \<bar>v\<bar>" "\<bar>v\<bar> < 10 * \<bar>div10 v\<bar> + 10" "0 \<le> v \<Longrightarrow> 0 \<le> div10 v" "v \<le> 0 \<Longrightarrow> div10 v \<le> 0"
  by (auto simp: div10_def)

text \<open>The digits that are cut off are those below the multiplier.\<close>

lemma scale_down_spec:
  "0 \<le> m0 \<Longrightarrow> scale_down m0 v = (m, w) \<Longrightarrow>
    m0 \<le> m \<and> INT16_MIN \<le> w \<and> w \<le> INT16_MAX \<and> (0 \<le> v \<longrightarrow> 0 \<le> w) \<and> (v \<le> 0 \<longrightarrow> w \<le> 0)
    \<and> \<bar>w\<bar> * 10 ^ nat (m - m0) \<le> \<bar>v\<bar> \<and> \<bar>v\<bar> < (\<bar>w\<bar> + 1) * 10 ^ nat (m - m0)"
proof (induction m0 v rule: scale_down.induct)
  case (1 m0 v)
  show ?case
  proof (cases "v > INT16_MAX \<or> v < INT16_MIN")
    case True
    then have rec: "scale_down (m0 + 1) (div10 v) = (m, w)" using "1.prems" by (simp add: scale_down.simps[of m0])
    have IH: "m0 + 1 \<le> m" "INT16_MIN \<le> w" "w \<le> INT16_MAX" "0 \<le> div10 v \<longrightarrow> 0 \<le> w" "div10 v \<le> 0 \<longrightarrow> w \<le> 0"
      "\<bar>w\<bar> * 10 ^ nat (m - (m0 + 1)) \<le> \<bar>div10 v\<bar>" "\<bar>div10 v\<bar> < (\<bar>w\<bar> + 1) * 10 ^ nat (m - (m0 + 1))"
      using "1.IH"[OF True _ rec] "1.prems"(1) by auto
    have e: "nat (m - m0) = Suc (nat (m - (m0 + 1)))" using IH(1) by simp
    have "\<bar>w\<bar> * 10 ^ nat (m - m0) \<le> \<bar>v\<bar>"
      using IH(6) div10_bounds(2)[of v] unfolding e by simp
    moreover have "\<bar>v\<bar> < (\<bar>w\<bar> + 1) * 10 ^ nat (m - m0)"
      using IH(7) div10_bounds(3)[of v] unfolding e by (simp add: algebra_simps)
    ultimately show ?thesis
      using IH div10_bounds(4,5)[of v] by auto
  next
    case False
    then show ?thesis using "1.prems" by (simp add: scale_down.simps[of m0])
  qed
qed

lemma scale_down_steps: "\<bar>v\<bar> < 32768 * 10 ^ k \<Longrightarrow> fst (scale_down m v) \<le> m + int k"
proof (induction k arbitrary: m v)
  case 0
  then show ?case by (auto simp: scale_down.simps[of m v] INT16_MAX_def INT16_MIN_def)
next
  case (Suc k)
  have "\<bar>div10 v\<bar> < 32768 * 10 ^ k" using Suc.prems div10_bounds(2)[of v] by simp
  from Suc.IH[OF this, of "m + 1"] show ?case by (simp add: scale_down.simps[of m v])
qed

text \<open>
  The conversion of a number to a physical value stores at most the number, loses less than
  one unit of the last digit it keeps, stays in the 16 bits of the value and in the range of the
  multiplier, and refuses only numbers of 32768000 and more, for which it changes nothing.
\<close>

theorem populate_physical_value_rounds_down:
  "case populate_physical_value pv v u of
     (True, p) \<Rightarrow> INT16_MIN \<le> Value p \<and> Value p \<le> INT16_MAX \<and> 0 \<le> Multiplier p \<and> Multiplier p \<le> PHY_VALUE_MULT_MAX
       \<and> PUnit p = u \<and> \<bar>calc p\<bar> \<le> of_int \<bar>v\<bar> \<and> \<bar>of_int v - calc p\<bar> < pow10 (Multiplier p)
   | (False, p) \<Rightarrow> p = pv \<and> 32768000 \<le> \<bar>v\<bar>"
proof -
  obtain m w where sd: "scale_down 0 v = (m, w)" by fastforce
  note sp = scale_down_spec[OF order.refl sd]
  show ?thesis
  proof (cases "m \<le> PHY_VALUE_MULT_MAX")
    case True
    let ?P = "10 ^ nat m :: int"
    have "\<bar>v - w * ?P\<bar> < ?P"
      using sp by (cases "0 \<le> v") (auto simp: algebra_simps abs_of_nonneg abs_of_nonpos abs_less_iff)
    then have "(of_int \<bar>v - w * ?P\<bar> :: rat) < of_int ?P" by (simp only: of_int_less_iff)
    moreover have "\<bar>w * ?P\<bar> \<le> \<bar>v\<bar>" using sp by (simp add: abs_mult)
    then have "(of_int \<bar>w * ?P\<bar> :: rat) \<le> of_int \<bar>v\<bar>" by (simp only: of_int_le_iff)
    ultimately show ?thesis
      using sp True sd by (simp add: populate_physical_value_def PHY_VALUE_MULT_MIN_def calc_def calc_physical_value_def pow10_def)
  next
    case False
    then have "32768000 \<le> \<bar>v\<bar>"
      using scale_down_steps[of v 3 0] sd by (cases "\<bar>v\<bar> < 32768000") (auto simp: PHY_VALUE_MULT_MAX_def)
    then show ?thesis
      using False sd by (simp add: populate_physical_value_def)
  qed
qed

text \<open>
  The conversion of a floating point number that needs a multiplier writes the number itself
  and not the scaled one into the 16 bits of the value, which it does not fit.
\<close>

theorem populate_physical_value_float_overflows:
  assumes "32768 \<le> v" "v < 32768000"
  shows "populate_physical_value_float pv v decimals u = None"
proof -
  obtain m w where sd: "scale_down 0 (trunc v) = (m, w)" by fastforce
  have t: "32768 \<le> trunc v" "trunc v < 32768000" using assms by (auto simp: trunc_def le_floor_iff floor_less_iff)
  have m3: "m \<le> 3" using scale_down_steps[of "trunc v" 3 0] sd t by simp
  have m0: "m \<noteq> 0"
    using scale_down_spec[OF order.refl sd] t by (auto simp: INT16_MAX_def)
  have "0 \<le> m" using scale_down_spec[OF order.refl sd] by simp
  then show ?thesis
    using sd m3 m0 t
    by (simp add: populate_physical_value_float_def populate_physical_value_def PHY_VALUE_MULT_MIN_def
        PHY_VALUE_MULT_MAX_def INT16_MAX_def)
qed

theorem populate_physical_value_float_overflows_witness:
  "populate_physical_value_float (init_physical_value U_V) 40000 1 U_V = None"
  using populate_physical_value_float_overflows[of 40000] by simp

section \<open>Concrete sessions\<close>

text \<open>An executable session: the requests and commands in the order they arrive.\<close>

datatype din_input = Req "8 word list" din_request | Cmd v2g_command

fun din_exec :: "v2g_env \<Rightarrow> din_input list \<Rightarrow> v2g_context \<Rightarrow> (din_event list \<times> v2g_context) option" where
  "din_exec env [] c = Some ([], c)"
| "din_exec env (Cmd cmd # ins) c = map_option (\<lambda>(tr, c). (Commanded cmd # tr, c)) (din_exec env ins (run_command cmd c))"
| "din_exec env (Req sid req # ins) c =
    (case din_handle_request env sid req c of
       (V2G_EVENT_NO_EVENT, Some res, c) \<Rightarrow>
         map_option (\<lambda>(tr, c). (Answered req res # tr, c)) (din_exec env ins c)
     | _ \<Rightarrow> None)"

lemma din_exec_run:
  "din_run tr c \<Longrightarrow> din_exec env ins c = Some (tr', c') \<Longrightarrow> din_run (tr @ tr') c'"
proof (induction env ins c arbitrary: tr tr' rule: din_exec.induct)
  case (2 env cmd ins c)
  then show ?case using din_run.command[OF "2.prems"(1), of cmd] by fastforce
next
  case (3 env sid req ins c)
  then obtain res c1 tr1 where st: "din_handle_request env sid req c = (V2G_EVENT_NO_EVENT, Some res, c1)"
    and r: "din_exec env ins c1 = Some (tr1, c')" "tr' = Answered req res # tr1"
    by (auto split: prod.splits v2g_event.splits option.splits)
  from "3.IH"[OF st[symmetric] refl refl refl din_run.answer[OF "3.prems"(1) st] r(1)] show ?case using r(2) by simp
qed simp

definition sample_context :: v2g_context where
  "sample_context =
    \<lparr>evse_ac_current_limit = 0, last_v2g_msg = V2G_UNKNOWN_MSG, current_v2g_msg = V2G_UNKNOWN_MSG,
     v2g_state = 0, is_dc_charger = True, debugMode = False,
     supported_protocols = [V2G_PROTO_DIN70121, V2G_PROTO_ISO15118_2013],
     selected_protocol = V2G_UNKNOWN_PROTOCOL, intl_emergency_shutdown = False, stop_hlc = False,
     is_connection_terminated = False, terminate_connection_on_failed_response = True,
     contactor_is_closed = False, com_setup_timeout = False, meter_info_is_used = False, meter_reading = 0,
     v2g_meter_id = '''', initialize_once = True, session_id = 0, notification_max_delay = 0,
     evse_isolation_status = IS_Invalid, evse_isolation_status_is_used = False, evse_notification = EN_None,
     evse_status_code = (\<lambda>_. EVSE_NotReady), evse_processing = (\<lambda>_. EP_Ongoing),
     v2g_evse_id = ''DE*CBY*ETE1*234'', date_time_now_is_used = False, charge_service_id = 1,
     free_service = False, energy_transfer_modes = [DC_extended, DC_core, DC_core, DC_core, DC_core, DC_core],
     energy_transfer_modes_len = 1, evse_service_list = [], service_parameter_list = [],
     evse_sa_schedule_list = [], evse_sa_schedule_list_is_used = False,
     payment_option_list = [PO_ExternalPayment, PO_ExternalPayment], payment_option_list_len = 1,
     cert_install_res_b64_buffer = None, rcd = False, receipt_required = False,
     evse_current_regulation_tolerance = init_physical_value U_A,
     evse_current_regulation_tolerance_is_used = False, evse_energy_to_be_delivered = init_physical_value U_A,
     evse_energy_to_be_delivered_is_used = False, evse_maximum_current_limit = init_physical_value U_A,
     evse_maximum_current_limit_is_used = False, evse_current_limit_achieved = False,
     evse_maximum_power_limit = init_physical_value U_A, evse_maximum_power_limit_is_used = False,
     evse_power_limit_achieved = False, evse_maximum_voltage_limit = init_physical_value U_A,
     evse_maximum_voltage_limit_is_used = False, evse_voltage_limit_achieved = False,
     evse_minimum_current_limit = init_physical_value U_A,
     evse_minimum_voltage_limit = init_physical_value U_A, evse_peak_current_ripple = init_physical_value U_A,
     evse_present_voltage = init_physical_value U_A, evse_present_current = init_physical_value U_A,
     evse_nominal_voltage = init_physical_value U_A, iso_selected_payment_option = PO_ExternalPayment,
     gen_challenge = [], contract_valid_crt = False, contract_key = None, renegotiation_required = False, is_charging = False,
     sa_schedule_tuple_id = 0, bulk_charging_complete = 0, charging_complete = 0, received_session_id = 0,
     ev_status = \<lparr>EVReady = - 1, EVErrorCode = - 1, EVRESSSOC = - 1\<rparr>,
     ev_maximum_current_limit = None, ev_maximum_power_limit = None, ev_maximum_voltage_limit = None,
     v2g_target_current = None, v2g_target_voltage = None, remaining_time_to_bulk_soc = None,
     remaining_time_to_full_soc = None, is_tls_connection = False, dlink_action = MQTT_DLINK_ACTION_ERROR,
     v2g_out = []\<rparr>"

definition sample_env :: v2g_env where
  "sample_env = \<lparr>time_now = 1000, random_id = (0, 0, 0, 5), EVSEID_BYTES_SIZE = 32\<rparr>"

definition opened_context :: v2g_context where
  "opened_context = v2g_ctx_init_charging_state False (v2g_ctx_init_charging_session True sample_context)"

definition sample_session :: "din_input list" where
  "sample_session =
    (let sid = [5, 0, 0, 0, 0, 0, 0, 0]; st = \<lparr>EVReady = 1, EVErrorCode = 0, EVRESSSOC = 40\<rparr>;
         volt = (\<lambda>v. \<lparr>Multiplier = 0, Value = v, PUnit = U_V\<rparr>); amp = (\<lambda>v. \<lparr>Multiplier = 0, Value = v, PUnit = U_A\<rparr>)
     in [Req [] (DSessionSetupReq [1, 2, 3, 4, 5, 6]), Req sid DServiceDiscoveryReq,
         Req sid (DServicePaymentSelectionReq PO_ExternalPayment [1]), Req sid DContractAuthenticationReq,
         Cmd (Set_Auth_Okay_EIM True), Req sid DContractAuthenticationReq,
         Req sid (DChargeParameterDiscoveryReq DC_extended False None), Req sid (DCableCheckReq st),
         Cmd (Set_EVSEIsolationStatus IS_Valid), Cmd (CableCheck_Finished True), Req sid (DCableCheckReq st),
         Req sid (DPreChargeReq \<lparr>pc_status = st, pc_EVTargetVoltage = volt 400, pc_EVTargetCurrent = amp 2\<rparr>),
         Req sid (DPowerDeliveryReq \<lparr>ReadyToChargeState = True, ChargingProfile_SAScheduleTupleID = None,
           DC_EVPowerDeliveryParameter = None\<rparr>),
         Req sid (DCurrentDemandReq \<lparr>cd_status = st, cd_EVTargetVoltage = volt 400, cd_EVTargetCurrent = amp 100,
           cd_BulkChargingComplete = None, cd_ChargingComplete = 0, cd_EVMaximumCurrentLimit = None,
           cd_EVMaximumPowerLimit = None, cd_EVMaximumVoltageLimit = None, cd_RemainingTimeToFullSoC = None,
           cd_RemainingTimeToBulkSoC = None\<rparr>)])"

definition ends_with_current_demand :: "din_event list \<Rightarrow> bool" where
  "ends_with_current_demand tr = (tr \<noteq> [] \<and> (case last tr of Answered req res \<Rightarrow>
     (case req of DCurrentDemandReq r \<Rightarrow> True | _ \<Rightarrow> False) | Commanded _ \<Rightarrow> False))"

lemma sample_session_accepted:
  "case din_exec sample_env sample_session opened_context of
     Some (tr, c) \<Rightarrow> ends_with_current_demand tr | None \<Rightarrow> False"
  by code_simp

section \<open>A DIN 70121 session\<close>





lemma din_finish_aborts:
  assumes "din_finish r b s c = (e, res, c')" "intl_emergency_shutdown c \<or> stop_hlc c" "\<not> is_connection_terminated c"
    "terminate_connection_on_failed_response c"
  shows "e = V2G_EVENT_SEND_AND_TERMINATE \<and> failed (ResponseCode res)"
  using assms by (auto simp: din_finish_def din_validate_response_code_def Let_def split: if_splits)

lemma din_dispatch_aborts:
  assumes "din_dispatch env req c = (e, Some res, c')" "intl_emergency_shutdown c \<or> stop_hlc c"
    "\<not> is_connection_terminated c" "terminate_connection_on_failed_response c"
  shows "e = V2G_EVENT_SEND_AND_TERMINATE \<and> failed (ResponseCode res)"
proof (cases req)
  case (DChargeParameterDiscoveryReq m ac dc)
  then show ?thesis
    using assms handle_din_charge_parameter_finish[of m ac dc "set_current V2G_CHARGE_PARAMETER_DISCOVERY_MSG c"]
    by (auto simp: din_step_defs split: prod.splits dest!: din_finish_aborts)
next
  case (DCableCheckReq s)
  then show ?thesis
    using assms
    by (cases "last_v2g_msg c = V2G_CHARGE_PARAMETER_DISCOVERY_MSG")
       (auto simp: din_step_defs handle_din_cable_check_finish split: prod.splits dest!: din_finish_aborts)
next
  case (DPowerDeliveryReq r)
  then show ?thesis
    using assms
    by (cases "ReadyToChargeState r"; cases "last_v2g_msg c = V2G_CURRENT_DEMAND_MSG")
       (auto simp: din_step_defs handle_din_power_delivery_def split: prod.splits dest!: din_finish_aborts)
next
  case (DSessionSetupReq x)
  with assms show ?thesis
    by (auto simp: din_step_defs din_handler_defs split: prod.splits if_splits dest!: din_finish_aborts)
next
  case (DCurrentDemandReq x)
  with assms show ?thesis
    by (auto simp: din_step_defs din_handler_defs split: prod.splits if_splits dest!: din_finish_aborts)
next
  case DServiceDiscoveryReq
  with assms show ?thesis
    by (auto simp: din_step_defs din_handler_defs split: prod.splits if_splits dest!: din_finish_aborts)
next
  case DContractAuthenticationReq
  with assms show ?thesis
    by (auto simp: din_step_defs din_handler_defs split: prod.splits if_splits dest!: din_finish_aborts)
qed (use assms in \<open>simp_all add: din_step_defs din_handler_defs split: prod.splits\<close>,
     use assms(2-4) in \<open>auto dest!: din_finish_aborts\<close>)



section \<open>The EVSE manager listens\<close>

text \<open>
  A precharge request in a state that does not allow it is refused and the connection is
  closed, but its target has already been published; an EVSE manager that does not believe its
  contactors to be open, as after its start, passes the target on and switches the DC supply on.
\<close>

theorem refused_precharge_switches_supply_on:
  assumes "v2g_state c < 13" "v2g_state c \<noteq> 6" "v2g_state c \<noteq> 7" "\<not> is_connection_terminated c"
    "terminate_connection_on_failed_response c"
    and target: "v = calc (pc_EVTargetVoltage r)" "i = calc (pc_EVTargetCurrent r)" "v2g_target_voltage c \<noteq> Some v"
    and mgr: "\<not> contactor_open m" "\<not> hack_skoda_enyaq (config m)" "\<not> hack_allow_bpt_with_iso2 (config m)"
      "v \<noteq> latest_target_voltage m"
  shows "\<exists>res c' m'. din_handle_request env sid (DPreChargeReq r) c = (V2G_EVENT_SEND_AND_TERMINATE, Some res, c')
    \<and> failed (ResponseCode res) \<and> Pub_DC_EVTargetVoltageCurrent v i \<in> set (v2g_out c')
    \<and> on_DC_EVTargetVoltageCurrent v i m = Some m' \<and> powersupply_dc_is_on m'"
proof -
  let ?c = "set_current V2G_PRE_CHARGE_MSG (c\<lparr>received_session_id := session_id_from_exi sid\<rparr>)"
  let ?p = "publish_precharge_req r ?c"
  obtain e res c' where fin: "din_finish RC_OK (DPreChargeRes (evse_status PHASE_PRECHARGE ?p) (evse_present_voltage ?p))
      D_WAIT_FOR_PRECHARGE_POWERDELIVERY ?p = (e, res, c')" by (metis prod_cases3)
  have "\<not> is_allowed (din_states ! v2g_state c) V2G_PRE_CHARGE_MSG"
    using allowed_in[OF assms(1), of V2G_PRE_CHARGE_MSG] assms(2,3) by auto
  then have "e = V2G_EVENT_SEND_AND_TERMINATE" "failed (ResponseCode res)" "v2g_out c' = v2g_out ?p"
    using fin assms(4,5)
    by (auto simp: din_finish_def din_validate_response_code_def din_validate_state_def Let_def set_state_def
        split: if_splits)
  moreover have "Pub_DC_EVTargetVoltageCurrent v i \<in> set (v2g_out ?p)"
    using target
    by (simp add: publish_precharge_req_def publish_DC_EVTargetVoltageCurrent_def publish_DC_EVStatusType_def publish_def
        set_current_def)
  moreover have "\<exists>m'. on_DC_EVTargetVoltageCurrent v i m = Some m' \<and> powersupply_dc_is_on m'"
    using mgr by (simp add: on_DC_EVTargetVoltageCurrent_def powersupply_DC_set_def powersupply_DC_on_def Let_def)
  ultimately show ?thesis
    using fin by (auto simp: din_handle_request_def din_dispatch_def handle_din_pre_charge_def answered_def Let_def)
qed

definition sample_precharge :: pre_charge_req where
  "sample_precharge = \<lparr>pc_status = \<lparr>EVReady = 1, EVErrorCode = 0, EVRESSSOC = 40\<rparr>,
     pc_EVTargetVoltage = \<lparr>Multiplier = 0, Value = 400, PUnit = U_V\<rparr>,
     pc_EVTargetCurrent = \<lparr>Multiplier = 0, Value = 2, PUnit = U_A\<rparr>\<rparr>"

theorem refused_precharge_switches_supply_on_witness:
  "\<exists>m'. on_DC_EVTargetVoltageCurrent 400 2 (sample_manager ''DC'' ''e'') = Some m' \<and> powersupply_dc_is_on m'"
proof -
  let ?m = "sample_manager ''DC'' ''e''"
  have v: "400 = calc (pc_EVTargetVoltage sample_precharge)" "2 = calc (pc_EVTargetCurrent sample_precharge)"
    "v2g_target_voltage opened_context \<noteq> Some 400" by code_simp+
  have c: "v2g_state opened_context < 13" "v2g_state opened_context \<noteq> 6" "v2g_state opened_context \<noteq> 7"
    "\<not> is_connection_terminated opened_context" "terminate_connection_on_failed_response opened_context" by code_simp+
  have m: "\<not> contactor_open ?m" "\<not> hack_skoda_enyaq (config ?m)" "\<not> hack_allow_bpt_with_iso2 (config ?m)"
    "400 \<noteq> latest_target_voltage ?m" by code_simp+
  show ?thesis using refused_precharge_switches_supply_on[OF c v m, of sample_env "[]"] by blast
qed

end
