(* ===== verification/V2g_Iso_Properties.thy ===== *)
theory V2g_Iso_Properties
  imports V2g_Iso_Runs V2g_Properties
begin

text \<open>
  Properties of the ISO 15118-2 server: a DC session up to the first current, the table of
  states, the contactor of an AC session, the charging profile, and plug and charge.
\<close>

section \<open>The charging profile\<close>

text \<open>
  With a schedule of one entry that begins at once, the search for the entry that a time falls
  into ends exactly when the time is in the schedule.
\<close>

lemma find_schedule_entry_diverges:
  assumes "d < t"
  shows "find_schedule_entry [\<lparr>rel_start = 0, rel_duration = d, PMax = p\<rparr>] t 0 0 False = None"
proof -
  let ?sched = "[\<lparr>rel_start = 0, rel_duration = d, PMax = p\<rparr>]"
  have "find_schedule_entry sched t' idx ts found = Some y
      \<Longrightarrow> \<not> (sched = ?sched \<and> idx = 0 \<and> ts = 0 \<and> \<not> found \<and> d < t')" for sched t' idx ts found y
  proof (rule find_schedule_entry.raw_induct[of
        "\<lambda>sched t' idx ts found y. \<not> (sched = ?sched \<and> idx = 0 \<and> ts = 0 \<and> \<not> found \<and> d < t')"], goal_cases)
    case (1 f sched t' idx ts found y)
    then show ?case using 1(2)[of ?sched t' 0 0 False y] by (auto simp: Let_def within_entry_def split: if_splits)
  qed
  then show ?thesis using assms by (metis not_None_eq)
qed

lemma find_schedule_entry_found [simp]: "find_schedule_entry sched t idx ts True = Some (idx, ts, True)"
  by (simp add: find_schedule_entry.simps)

lemma check_profile_entries_found [simp]: "check_profile_entries sched es t idx ts True = Some ()"
  by (induction es arbitrary: t) (simp_all add: Let_def)

lemma check_profile_entries_default:
  "check_profile_entries [\<lparr>rel_start = 0, rel_duration = SA_SCHEDULE_DURATION, PMax = p\<rparr>] (e # es) 0 0 0 False = None
    \<longleftrightarrow> 86400 < ChargingProfileEntryStart e"
proof (cases "86400 < ChargingProfileEntryStart e")
  case True
  then have "find_schedule_entry [\<lparr>rel_start = 0, rel_duration = 86400, PMax = p\<rparr>] (ChargingProfileEntryStart e) 0 0 False = None"
    by (intro find_schedule_entry_diverges) simp
  with True show ?thesis by (simp add: SA_SCHEDULE_DURATION_def)
next
  case False
  then have "find_schedule_entry [\<lparr>rel_start = 0, rel_duration = 86400, PMax = p\<rparr>] (ChargingProfileEntryStart e) 0 0 False
      = Some (0, 0, True)"
    by (subst find_schedule_entry.simps) (simp add: within_entry_def not_less)
  with False show ?thesis by (simp add: SA_SCHEDULE_DURATION_def)
qed

section \<open>The table of states\<close>

lemma iso_finish_state: "iso_finish r b s c = (e, res, c') \<Longrightarrow> c' = set_state s c"
  by (auto simp: iso_finish_def split: prod.splits)

lemma power_delivery_state:
  assumes "handle_iso_power_delivery env r c = Some (e, res, c')" "is_dc_charger c"
  shows "v2g_state c' < 15 \<and> is_dc_charger c'"
proof -
  have pub: "core (publish_iso_power_delivery_req r c) = core c" by (simp add: iso_publish_defs)
  obtain r1 c1 where act: "charge_progress_action env (ChargeProgress r) (publish_iso_power_delivery_req r c) = Some (r1, c1)"
    using assms(1) by (auto simp: handle_iso_power_delivery_def split: option.splits)
  have "core c1 = core c"
    using charge_progress_action_dc[OF _ act] core_fields[OF pub] pub assms(2) by simp
  then have dc: "is_dc_charger c1" using core_fields assms(2) by blast
  from power_delivery_parts[OF assms(1) act dc] obtain c2 r3
    where "core c2 = core c1" and aft: "after_power_delivery (ChargeProgress r) r3 c2 = (IResponseCode res, c')" by blast
  then have "is_dc_charger c2" using core_fields dc by blast
  from after_power_delivery_dc[OF aft this] show ?thesis by simp
qed

lemma certificate_installation_state:
  assumes "handle_iso_certificate_installation env c = Some (e, res, c')" "is_dc_charger c"
  shows "v2g_state c' < 15 \<and> is_dc_charger c'"
proof -
  have "wait_certificate ws c = Some d \<Longrightarrow> is_dc_charger d = is_dc_charger c" for ws d c
  proof (induction ws c arbitrary: d rule: wait_certificate.induct)
    case (1 ws c)
    have run: "is_dc_charger (run_commands cmds c) = is_dc_charger c" for cmds c
      by (induction cmds arbitrary: c) (simp_all add: run_commands_def run_command_session_frame)
    from 1 show ?case
      by (subst (asm) wait_certificate.simps) (auto simp: run split: if_splits list.splits wake_up.splits)
  qed
  then show ?thesis
    using assms by (auto simp: handle_iso_certificate_installation_def Let_def split: if_splits option.splits
        dest!: iso_finish_state)
qed

lemma iso_dispatch_in_table:
  assumes "iso_dispatch env req c = Some (e, res, c')" "is_dc_charger c" "v2g_state c < 15"
  shows "v2g_state c' < 15 \<and> is_dc_charger c'"
proof (cases req)
  case (IChargeParameterDiscoveryReq m ac dc)
  let ?c = "set_current V2G_CHARGE_PARAMETER_DISCOVERY_MSG c"
  obtain res' where "handle_iso_charge_parameter_discovery env m ac dc ?c = (e, res', c')"
    using IChargeParameterDiscoveryReq assms(1) by (auto simp: iso_dispatch_def answered_def split: prod.splits)
  note handled = this
  let ?p = "if evse_processing ?c PHASE_PARAMETER = EP_Finished then EP_Finished else EP_Ongoing"
  obtain r par sched c1 where core: "core c1 = core ?c"
    and fin: "handle_iso_charge_parameter_discovery env m ac dc ?c =
      (let p = ?p in iso_finish r (IChargeParameterDiscoveryRes p sched par) (if p = EP_Finished then 7 else 6) c1)"
    using handle_iso_cpd_finish[of env m ac dc ?c] by blast
  have "c' = set_state (if ?p = EP_Finished then 7 else 6) c1"
    by (rule iso_finish_state[OF trans[OF fin[unfolded Let_def, symmetric] handled]])
  then show ?thesis using core_fields[OF core] assms(2) by simp
next
  case (IPowerDeliveryReq r)
  with assms show ?thesis
    by (auto simp: iso_dispatch_def answered_def split: prod.splits dest!: power_delivery_state)
next
  case ICertificateInstallationReq
  with assms show ?thesis
    by (auto simp: iso_dispatch_def answered_def split: prod.splits dest!: certificate_installation_state)
next
  case (IPaymentDetailsReq r)
  with assms show ?thesis
    by (auto simp: iso_dispatch_def answered_def handle_iso_payment_details_def payment_details_def Let_def
        split: prod.splits if_splits dest!: iso_finish_state)
qed (use assms in \<open>auto simp: iso_dispatch_def answered_def iso_handler_defs Let_def split: prod.splits if_splits
       dest!: iso_finish_state\<close>)

section \<open>The contactor\<close>

lemma run_commands_frame:
  "is_dc_charger (run_commands cmds c) = is_dc_charger c"
  "terminate_connection_on_failed_response (run_commands cmds c) = terminate_connection_on_failed_response c"
  by (induction cmds arbitrary: c) (simp_all add: run_commands_def run_command_session_frame run_command_frame)

text \<open>The wait ends without a failure only when the contactor is closed or the session is aborted.\<close>

lemma wait_contactor_result:
  "wait_contactor ws r c = Some (r', c') \<Longrightarrow> \<forall>cmds. Wait_error cmds \<notin> set ws \<Longrightarrow>
    is_dc_charger c' = is_dc_charger c
    \<and> terminate_connection_on_failed_response c' = terminate_connection_on_failed_response c
    \<and> (contactor_is_closed c' \<or> intl_emergency_shutdown c' \<or> stop_hlc c' \<or> is_connection_terminated c'
       \<or> r' = RC_FAILED_ContactorError)"
proof (induction ws r c arbitrary: r' c' rule: wait_contactor.induct)
  case (1 ws r c)
  show ?case
  proof (cases "contactor_is_closed c \<or> intl_emergency_shutdown c \<or> stop_hlc c \<or> is_connection_terminated c")
    case True
    then show ?thesis using "1.prems" by (subst (asm) wait_contactor.simps) auto
  next
    case False
    then obtain w ws' where ws: "ws = w # ws'"
      using "1.prems"(1) by (subst (asm) wait_contactor.simps) (auto split: list.splits)
    show ?thesis
    proof (cases w)
      case (Woken cmds)
      have step: "wait_contactor ws' r (run_commands cmds c) = Some (r', c')"
        using "1.prems"(1) False ws Woken by (subst (asm) wait_contactor.simps) simp
      have "\<forall>cmds. Wait_error cmds \<notin> set ws'" using "1.prems"(2) ws by simp
      from "1.IH"[OF False ws Woken step this] show ?thesis by (simp add: run_commands_frame)
    next
      case (Wait_timeout cmds)
      then show ?thesis
        using "1.prems"(1) False ws by (subst (asm) wait_contactor.simps) (auto simp: run_commands_frame)
    next
      case (Wait_error cmds)
      then show ?thesis using "1.prems"(2) ws by auto
    qed
  qed
qed

lemma power_delivery_validated:
  assumes "handle_iso_power_delivery env req c = Some (e, res, c')"
    "charge_progress_action env (ChargeProgress req) (publish_iso_power_delivery_req req c) = Some (r1, c1)"
    "\<not> is_dc_charger c1"
  shows "\<exists>c2 r2 r3. (c2 = c1 \<or> c2 = c1\<lparr>sa_schedule_tuple_id := req_SAScheduleTupleID req\<rparr>)
    \<and> iso_validate_response_code r2 c2 = (e, r3) \<and> (r2 = r1 \<or> failed r2)
    \<and> after_power_delivery (ChargeProgress req) r3 c2 = (IResponseCode res, c')"
proof -
  let ?tuple = "find (\<lambda>t. SAScheduleTupleID t = req_SAScheduleTupleID req) (evse_sa_schedule_list c1)"
  let ?c = "if ?tuple \<noteq> None then c1\<lparr>sa_schedule_tuple_id := req_SAScheduleTupleID req\<rparr> else c1"
  let ?r = "if ?tuple = None then RC_FAILED_TariffSelectionInvalid else r1"
  obtain e' r3 where v: "iso_validate_response_code ?r ?c = (e', r3)" by fastforce
  obtain r4 c4 where a: "after_power_delivery (ChargeProgress req) r3 ?c = (r4, c4)" by fastforce
  have "handle_iso_power_delivery env req c =
    (case check_iso1_charging_profile_values (ChargingProfile req) ?r ?tuple of None \<Rightarrow> None
     | Some _ \<Rightarrow> Some (e', \<lparr>IResponseCode = r4, IBody = IPowerDeliveryRes (Inl (populate_ac_evse_status c1))\<rparr>, c4))"
    using assms(2,3) v a
    by (cases ?tuple) (simp_all add: handle_iso_power_delivery_def Let_def split: option.split)
  then have "e' = e" "IResponseCode res = r4" "c' = c4"
    using assms(1) by (auto split: option.splits)
  moreover have "?r = r1 \<or> failed ?r" by (simp add: failed_def)
  ultimately show ?thesis using v a by (intro exI[of _ ?c] exI[of _ ?r] exI[of _ r3]) auto
qed

lemma after_power_delivery_contactor:
  "after_power_delivery p r c = (r', c') \<Longrightarrow> contactor_is_closed c' = contactor_is_closed c"
  by (auto simp: after_power_delivery_def set_state_def Let_def split: if_splits)

lemma iso_validate_not_aborted:
  assumes "iso_validate_response_code r c = (V2G_EVENT_NO_EVENT, r')" "terminate_connection_on_failed_response c"
  shows "\<not> is_connection_terminated c \<and> \<not> stop_hlc c \<and> \<not> intl_emergency_shutdown c \<and> \<not> failed r"
  using assms by (auto simp: iso_validate_response_code_def Let_def split: if_splits)

lemma ac_start_contactor:
  assumes "handle_iso_power_delivery env req c = Some (V2G_EVENT_NO_EVENT, res, c')" "\<not> is_dc_charger c"
    "ChargeProgress req = CP_Start" "terminate_connection_on_failed_response c"
    "\<forall>cmds. Wait_error cmds \<notin> set (wake_ups env)"
  shows "contactor_is_closed c'"
proof -
  have pub: "core (publish_iso_power_delivery_req req c) = core c" by (simp add: iso_publish_defs)
  note f = core_fields[OF pub]
  obtain r1 c1 where act: "charge_progress_action env CP_Start (publish_iso_power_delivery_req req c) = Some (r1, c1)"
    using assms(1,3) by (auto simp: handle_iso_power_delivery_def split: option.splits)
  have w: "\<not> is_dc_charger c1" "terminate_connection_on_failed_response c1"
     "contactor_is_closed c1 \<or> intl_emergency_shutdown c1 \<or> stop_hlc c1 \<or> is_connection_terminated c1
       \<or> r1 = RC_FAILED_ContactorError"
    using act f assms(2,4,5) wait_contactor_result[of "wake_ups env" RC_OK _ r1 c1]
    by (auto simp: charge_progress_action_def Let_def split: if_splits)
  obtain c2 r2 r3 where c2: "c2 = c1 \<or> c2 = c1\<lparr>sa_schedule_tuple_id := req_SAScheduleTupleID req\<rparr>"
    and val: "iso_validate_response_code r2 c2 = (V2G_EVENT_NO_EVENT, r3)" and r2: "r2 = r1 \<or> failed r2"
    and aft: "after_power_delivery (ChargeProgress req) r3 c2 = (IResponseCode res, c')"
    using power_delivery_validated[OF assms(1) _ w(1)] act assms(3) by metis
  have "terminate_connection_on_failed_response c2" using c2 w(2) by auto
  from iso_validate_not_aborted[OF val this] have "contactor_is_closed c2"
    using w(3) c2 r2 by (auto simp: failed_def)
  then show ?thesis using after_power_delivery_contactor[OF aft] by simp
qed

section \<open>Concrete sessions\<close>

declare find_schedule_entry.simps [code]

datatype iso_input = IReq bytes iso_request | ICmd v2g_command

fun iso_exec :: "iso_env \<Rightarrow> iso_input list \<Rightarrow> v2g_context \<Rightarrow> (iso_event list \<times> v2g_context) option" where
  "iso_exec env [] c = Some ([], c)"
| "iso_exec env (ICmd cmd # ins) c = map_option (\<lambda>(tr, c). (Commanded cmd # tr, c)) (iso_exec env ins (run_command cmd c))"
| "iso_exec env (IReq sid req # ins) c =
    (case iso_handle_request env sid req c of
       Some (V2G_EVENT_NO_EVENT, Some res, c) \<Rightarrow>
         map_option (\<lambda>(tr, c). (Answered req res # tr, c)) (iso_exec env ins c)
     | _ \<Rightarrow> None)"

lemma iso_exec_run:
  "wake_ups env = [] \<Longrightarrow> iso_run tr c \<Longrightarrow> iso_exec env ins c = Some (tr', c') \<Longrightarrow> iso_run (tr @ tr') c'"
proof (induction env ins c arbitrary: tr tr' rule: iso_exec.induct)
  case (2 env cmd ins c)
  then show ?case using iso_run.command[OF "2.prems"(2), of cmd] by fastforce
next
  case (3 env sid req ins c)
  then obtain res c1 tr1 where st: "iso_handle_request env sid req c = Some (V2G_EVENT_NO_EVENT, Some res, c1)"
    and r: "iso_exec env ins c1 = Some (tr1, c')" "tr' = Answered req res # tr1"
    by (auto split: prod.splits v2g_event.splits option.splits)
  from iso_run.answer[OF "3.prems"(2) st "3.prems"(1)] have "iso_run (tr @ [Answered req res]) c1" by simp
  from "3.IH"[OF st refl refl refl refl "3.prems"(1) this r(1)] show ?case using r(2) by simp
qed simp

definition sample_iso_env :: iso_env where
  "sample_iso_env =
    \<lparr>base_env = sample_env, wake_ups = [], new_challenge = replicate 16 7, old_emaid = '''', eMAID_CHARACTERS_SIZE = 16,
     base64_size = length, base64_encode_ok = (\<lambda>_. True), base64_decode_ok = (\<lambda>_. True), request_buffer = [],
     x509_crt_parse_ok = (\<lambda>_. True), x509_subject = (\<lambda>_. []), ecdsa_from_keypair_ok = (\<lambda>_. True),
     encode_iso1ExiFragment = (\<lambda>_. Some []), encode_xmldsigExiFragment = (\<lambda>_. Some []),
     sha256 = (\<lambda>_. replicate 32 0), ecdsa_verify = (\<lambda>_ _ _ _. False)\<rparr>"

definition sample_power_delivery :: "charge_progress \<Rightarrow> profile_entry list option \<Rightarrow> iso_power_delivery_req" where
  "sample_power_delivery p es =
    \<lparr>ChargeProgress = p, req_SAScheduleTupleID = 1, ChargingProfile = es, iso_DC_EVPowerDeliveryParameter = None\<rparr>"

definition sample_setup :: "iso_input list" where
  "sample_setup =
    (let sid = [5, 0, 0, 0, 0, 0, 0, 0]; auth = IAuthorizationReq \<lparr>GenChallenge = None, auth_Id = None\<rparr> None
     in [IReq [] (ISessionSetupReq [1, 2, 3, 4, 5, 6]), IReq sid (IServiceDiscoveryReq None),
         IReq sid (IPaymentServiceSelectionReq PO_ExternalPayment [1]),
         ICmd (Set_Auth_Okay_EIM True), IReq sid auth])"

definition sample_charging :: "iso_input list" where
  "sample_charging =
    (let sid = [5, 0, 0, 0, 0, 0, 0, 0]; st = \<lparr>EVReady = 1, EVErrorCode = 0, EVRESSSOC = 40\<rparr>;
         volt = (\<lambda>v. \<lparr>Multiplier = 0, Value = v, PUnit = U_V\<rparr>); amp = (\<lambda>v. \<lparr>Multiplier = 0, Value = v, PUnit = U_A\<rparr>)
     in [IReq sid (IChargeParameterDiscoveryReq DC_extended None None),
         ICmd (CableCheck_Finished True), IReq sid (ICableCheckReq st),
         IReq sid (IPreChargeReq sample_precharge),
         IReq sid (IPowerDeliveryReq (sample_power_delivery CP_Start None)),
         IReq sid (ICurrentDemandReq \<lparr>cd_status = st, cd_EVTargetVoltage = volt 400, cd_EVTargetCurrent = amp 100,
           cd_BulkChargingComplete = None, cd_ChargingComplete = 0, cd_EVMaximumCurrentLimit = None,
           cd_EVMaximumPowerLimit = None, cd_EVMaximumVoltageLimit = None, cd_RemainingTimeToFullSoC = None,
           cd_RemainingTimeToBulkSoC = None\<rparr>)])"

definition is_current_demand :: "iso_event \<Rightarrow> bool" where
  "is_current_demand e = (case e of Answered req res \<Rightarrow> (case req of ICurrentDemandReq r \<Rightarrow> True | _ \<Rightarrow> False)
     | Commanded _ \<Rightarrow> False)"

lemma sample_iso_session_accepted:
  "case iso_exec sample_iso_env (sample_setup @ sample_charging) opened_context of
     Some (tr, c) \<Rightarrow> tr \<noteq> [] \<and> is_current_demand (last tr) | None \<Rightarrow> False"
  by code_simp

section \<open>A DC session\<close>








definition waiting_context :: v2g_context where
  "waiting_context = opened_context\<lparr>is_dc_charger := False, v2g_state := 7, received_session_id := 0,
     last_v2g_msg := V2G_CHARGE_PARAMETER_DISCOVERY_MSG\<rparr>"

definition waiting_env :: iso_env where
  "waiting_env = sample_iso_env\<lparr>wake_ups := [Woken [], Woken [Contactor_closed True]]\<rparr>"


section \<open>Requests that are not answered\<close>

lemma publish_power_delivery_schedule:
  "evse_sa_schedule_list (publish_iso_power_delivery_req r c) = evse_sa_schedule_list c"
  by (simp add: publish_iso_power_delivery_req_def publish_power_delivery_req_def publish_opt_def
      publish_DC_EVStatusType_def publish_def Let_def split: option.split)

lemma charge_progress_action_accepted:
  assumes "is_dc_charger c" "p \<noteq> CP_Unknown"
  shows "\<exists>c1. charge_progress_action env p c = Some (RC_OK, c1) \<and> core c1 = core c
    \<and> evse_sa_schedule_list c1 = evse_sa_schedule_list c"
proof -
  obtain c1 where c1: "charge_progress_action env p c = Some (RC_OK, c1)"
    using assms by (cases p) (auto simp: charge_progress_action_def Let_def)
  moreover have "evse_sa_schedule_list c1 = evse_sa_schedule_list c"
    using c1 assms by (auto simp: charge_progress_action_def publish_def Let_def split: charge_progress.splits if_splits)
  ultimately show ?thesis using charge_progress_action_dc[OF assms(1) c1] by blast
qed

text \<open>The answer depends on the check of the profile alone.\<close>

lemma power_delivery_checks_profile:
  assumes "is_dc_charger c" "ChargeProgress r \<noteq> CP_Unknown" "evse_status_code c PHASE_CHARGE = EVSE_Ready"
    and "find (\<lambda>t. SAScheduleTupleID t = req_SAScheduleTupleID r) (evse_sa_schedule_list c) = Some t"
  shows "handle_iso_power_delivery env r c = None
    \<longleftrightarrow> check_iso1_charging_profile_values (ChargingProfile r) RC_OK (Some t) = None"
proof -
  let ?c = "publish_iso_power_delivery_req r c"
  have pub: "core ?c = core c" by (simp add: iso_publish_defs)
  have "is_dc_charger ?c" using core_fields[OF pub] assms(1) by simp
  from charge_progress_action_accepted[OF this assms(2)] obtain c1
    where act: "charge_progress_action env (ChargeProgress r) ?c = Some (RC_OK, c1)" and core: "core c1 = core c"
      and sched: "evse_sa_schedule_list c1 = evse_sa_schedule_list c"
    using pub publish_power_delivery_schedule by metis
  have "EVSEStatusCode (iso_evse_status PHASE_CHARGE c1) = EVSE_Ready"
    using iso_evse_status_core[OF core] assms(3) by (simp add: iso_evse_status_def)
  then show ?thesis
    using act sched assms(4) core_fields[OF core] assms(1)
    by (simp add: handle_iso_power_delivery_def Let_def split: option.split prod.split)
qed


definition late_profile :: iso_power_delivery_req where
  "late_profile = sample_power_delivery CP_Start
     (Some [\<lparr>ChargingProfileEntryStart = 86401, ChargingProfileEntryMaxPower = init_physical_value U_W\<rparr>])"


text \<open>
  A session stop is answered in a DC session; in an AC session the handler sets a state that is
  not in the table of the AC states, which is then read past its end.
\<close>

theorem session_stop_leaves_ac_table:
  assumes "v2g_state c < length (iso_states (is_dc_charger c))"
  shows "iso_handle_request env sid (ISessionStopReq s) c = None \<longleftrightarrow> \<not> is_dc_charger c"
  using assms
  by (auto simp: iso_handle_request_def iso_dispatch_def answered_def handle_iso_session_stop_def iso_states_def
      iso_dc_states_def iso_ac_states_def publish_def set_current_def Let_def split: prod.splits)

theorem session_stop_leaves_ac_table_witness:
  "iso_handle_request sample_iso_env [] (ISessionStopReq CS_Terminate) (opened_context\<lparr>is_dc_charger := False\<rparr>) = None"
proof -
  let ?c = "opened_context\<lparr>is_dc_charger := False\<rparr>"
  have "v2g_state ?c < length (iso_states (is_dc_charger ?c))" "\<not> is_dc_charger ?c" by code_simp+
  with session_stop_leaves_ac_table[of ?c sample_iso_env "[]" CS_Terminate] show ?thesis by blast
qed

text \<open>
  No payment details are accepted in a DC session: the selected payment option is never set to
  contract, so that every such request ends the connection and plug and charge is not possible.
\<close>

theorem payment_details_close_connection:
  assumes "iso_run tr c" "iso_handle_request env sid (IPaymentDetailsReq r) c = Some (e, res, c')"
  shows "e = V2G_EVENT_SEND_AND_TERMINATE \<or> e = V2G_EVENT_TERMINATE_CONNECTION"
proof -
  let ?c = "set_current V2G_PAYMENT_DETAILS_MSG (c\<lparr>received_session_id := session_id_from_exi sid\<rparr>)"
  have inv: "iso_selected_payment_option c = PO_ExternalPayment" "terminate_connection_on_failed_response c"
    using iso_run_inv[OF assms(1)] by (simp_all add: iso_inv_def)
  obtain res' c1 where "handle_iso_payment_details env r ?c = (e, res', c1)"
    using assms(2) by (auto simp: iso_handle_request_def iso_dispatch_def answered_def split: if_splits prod.splits)
  moreover from this have "e \<noteq> V2G_EVENT_NO_EVENT" "e \<noteq> V2G_EVENT_IGNORE_MSG" "e \<noteq> V2G_EVENT_SEND_RECV_EXI_MSG"
    using handle_iso_payment_details_refused[of ?c env r res' c1] inv
    by (auto simp: handle_iso_payment_details_def split: prod.splits)
  ultimately show ?thesis by (cases e) auto
qed

end
