(* ===== verification/V2g_Server_Properties.thy ===== *)
theory V2g_Server_Properties
  imports V2g_Server_Correct V2g_Iso_Properties
begin

text \<open>
  Properties of a V2G connection: what the car must have passed before it is answered a current
  demand, the selection of the protocol, the length of a message, and what happens to the
  contactor and to a running session when connections end.
\<close>

section \<open>The selection of the protocol\<close>

definition speaks :: "v2g_context \<Rightarrow> app_protocol \<Rightarrow> bool" where
  "speaks c a = (is_din c a \<or> is_iso c a)"

definition select_protocol :: "app_protocol \<Rightarrow> v2g_context \<Rightarrow> v2g_context" where
  "select_protocol a c = c\<lparr>selected_protocol := if is_din c a then V2G_PROTO_DIN70121 else V2G_PROTO_ISO15118_2013\<rparr>"

lemma speaks_select [simp]:
  "speaks (c\<lparr>selected_protocol := p\<rparr>) = speaks c"
  "speaks (select_protocol b c) = speaks c"
  "select_protocol a (select_protocol b c) = select_protocol a c"
  by (simp_all add: fun_eq_iff speaks_def select_protocol_def is_din_def is_iso_def)

text \<open>The chosen one has the best priority, and the last of several with the same one is chosen.\<close>

definition chosen :: "v2g_context \<Rightarrow> app_protocol list \<Rightarrow> nat \<Rightarrow> nat \<Rightarrow> v2g_context \<Rightarrow> bool" where
  "chosen c as prio s c' = (\<exists>xs a ys. as = xs @ a # ys \<and> speaks c a \<and> Priority a \<le> prio
     \<and> (\<forall>b \<in> set xs. speaks c b \<longrightarrow> Priority a \<le> Priority b) \<and> (\<forall>b \<in> set ys. speaks c b \<longrightarrow> Priority a < Priority b)
     \<and> s = SchemaID a \<and> c' = select_protocol a c)"

lemma chosen_Cons:
  assumes "chosen c as prio' s c'" "prio' \<le> prio" "speaks c a \<Longrightarrow> prio' \<le> Priority a"
  shows "chosen c (a # as) prio s c'"
proof -
  obtain xs b ys where b: "as = xs @ b # ys" "speaks c b" "Priority b \<le> prio'"
    "\<forall>b' \<in> set xs. speaks c b' \<longrightarrow> Priority b \<le> Priority b'" "\<forall>b' \<in> set ys. speaks c b' \<longrightarrow> Priority b < Priority b'"
    "s = SchemaID b" "c' = select_protocol b c"
    using assms(1) by (auto simp: chosen_def)
  then show ?thesis
    unfolding chosen_def using assms(2,3) by (intro exI[of _ "a # xs"] exI[of _ b] exI[of _ ys]) auto
qed

lemma negotiate_result:
  "negotiate as prio schema c = (s, c') \<Longrightarrow>
    s = schema \<and> c' = c \<and> (\<forall>a \<in> set as. speaks c a \<longrightarrow> prio < Priority a) \<or> (\<exists>i. s = Some i \<and> chosen c as prio i c')"
proof (induction as arbitrary: prio schema c)
  case (Cons a as)
  show ?case
  proof (cases "speaks c a \<and> Priority a \<le> prio")
    case True
    let ?c = "select_protocol a c"
    have "negotiate as (Priority a) (Some (SchemaID a)) ?c = (s, c')"
      using Cons.prems True by (auto simp: speaks_def select_protocol_def split: if_splits)
    from Cons.IH[OF this] have "s = Some (SchemaID a) \<and> c' = ?c \<and> (\<forall>b \<in> set as. speaks c b \<longrightarrow> Priority a < Priority b)
        \<or> (\<exists>i. s = Some i \<and> chosen c as (Priority a) i c')"
      by (simp add: chosen_def)
    then show ?thesis
    proof
      assume "s = Some (SchemaID a) \<and> c' = ?c \<and> (\<forall>b \<in> set as. speaks c b \<longrightarrow> Priority a < Priority b)"
      then show ?thesis unfolding chosen_def using True by (intro disjI2) (auto intro!: exI[of _ "[]"])
    next
      assume "\<exists>i. s = Some i \<and> chosen c as (Priority a) i c'"
      then show ?thesis using chosen_Cons[of c as "Priority a" _ c' prio a] True by auto
    qed
  next
    case False
    then have "negotiate as prio schema c = (s, c')" using Cons.prems by (auto simp: speaks_def split: if_splits)
    from Cons.IH[OF this] False chosen_Cons[of c as prio _ c' prio a] show ?thesis by auto
  qed
qed simp

text \<open>
  C21: The negotiation selects the supported protocol that the car gives the best priority, the last
  one of several with the same priority, and answers with its schema; it fails exactly when the
  car offers no supported protocol with a priority of at most twenty.
\<close>

theorem negotiation_selects_best_protocol:
  "case negotiate as 20 None c of
     (Some s, c') \<Rightarrow> chosen c as 20 s c'
   | (None, c') \<Rightarrow> c' = c \<and> (\<forall>a \<in> set as. speaks c a \<longrightarrow> 20 < Priority a)"
proof -
  obtain s c' where n: "negotiate as 20 None c = (s, c')" by fastforce
  with negotiate_result[OF n] show ?thesis by auto
qed

definition sample_offer :: "app_protocol list" where
  "sample_offer =
    [\<lparr>ProtocolNamespace = ISO_15118_2013_MSG_DEF, VersionNumberMajor = 2, VersionNumberMinor = 0, SchemaID = 10, Priority = 2\<rparr>,
     \<lparr>ProtocolNamespace = DIN_70121_MSG_DEF, VersionNumberMajor = 2, VersionNumberMinor = 0, SchemaID = 11, Priority = 1\<rparr>]"

theorem negotiation_selects_best_protocol_witness:
  "\<exists>c'. chosen opened_context sample_offer 20 11 c'"
proof -
  have "fst (negotiate sample_offer 20 None opened_context) = Some 11" by code_simp
  with negotiation_selects_best_protocol[of opened_context sample_offer] show ?thesis
    by (cases "negotiate sample_offer 20 None opened_context") auto
qed

section \<open>Messages that are too long\<close>

lemma connection_read_length:
  "connection_read steps count buf c = Some (r, rest) \<Longrightarrow> length buf \<le> count
    \<Longrightarrow> case r of Read b \<Rightarrow> length b \<le> count | Read_failed b \<Rightarrow> length b \<le> count"
proof (induction steps count buf c arbitrary: r rest rule: connection_read.induct)
  case (1 steps count buf c)
  show ?case
  proof (cases "count \<le> length buf")
    case True
    then show ?thesis using "1.prems" by (subst (asm) connection_read.simps) (auto simp: read_finished_def)
  next
    case False
    then obtain s ss where steps: "steps = s # ss"
      using "1.prems" by (subst (asm) connection_read.simps) (auto split: list.splits)
    let ?c = "run_commands (rx_commands s) c"
    show ?thesis
    proof (cases "is_sequence_timeout (rx_elapsed s) \<or> is_connection_terminated ?c")
      case True
      then show ?thesis
        using "1.prems" False steps by (subst (asm) connection_read.simps) (auto simp: read_finished_def Let_def)
    next
      case go: False
      note IH = "1.IH"[OF False steps refl go]
      show ?thesis
        using "1.prems" False steps go
        by (subst (asm) connection_read.simps)
           (auto simp: Let_def split: rx_result.splits if_splits dest!: IH)
    qed
  qed
qed

lemma not_too_long_wraps:
  assumes "\<not> payload_too_long n" "8184 < unat n"
  shows "2 ^ 32 - 8 \<le> unat n"
proof (rule ccontr)
  assume "\<not> ?thesis"
  then have "unat n + 8 < 2 ^ 32" by simp
  then have "unat (n + 8) = unat n + 8" by (simp add: unat_word_ariths)
  then show False using assms by (simp add: payload_too_long_def V2GTP_HEADER_LENGTH_def DEFAULT_BUFFER_SIZE_def word_less_nat_alt)
qed


definition received :: "bytes \<Rightarrow> rx_step" where
  "received bs = \<lparr>rx_commands = [], rx_elapsed = 0, rx_result = Rx_data bs\<rparr>"

definition hung_up :: rx_step where
  "hung_up = \<lparr>rx_commands = [], rx_elapsed = 0, rx_result = Rx_closed\<rparr>"

lemma connection_read_received:
  "\<not> is_connection_terminated c \<Longrightarrow> length buf < count \<Longrightarrow> bs \<noteq> [] \<Longrightarrow>
    connection_read (received bs # steps) count buf c
     = map_option (\<lambda>(r, cmds, rest). (r, cmds, rest)) (connection_read steps count (buf @ take (count - length buf) bs) c)"
  by (subst connection_read.simps) (simp add: received_def is_sequence_timeout_def V2G_SEQUENCE_TIMEOUT_60S_def)

lemma connection_read_hung_up:
  "\<not> is_connection_terminated c \<Longrightarrow> length buf < count \<Longrightarrow>
    connection_read (hung_up # steps) count buf c = Some (Read buf, [], steps, c)"
  by (subst connection_read.simps) (simp add: hung_up_def is_sequence_timeout_def V2G_SEQUENCE_TIMEOUT_60S_def)


section \<open>Sessions over a connection\<close>


definition sample_turn :: turn where
  "sample_turn = \<lparr>turn_env = sample_iso_env, encoded = True, header_written = True, response_len = 2, written = [Tx_data 2]\<rparr>"

definition sample_server :: server_env where
  "sample_server = \<lparr>read_v2gtpHeader = (\<lambda>_. Some 1), decode_appHandExiDocument = (\<lambda>_. Some sample_offer),
     decode_dinExiDocument = (\<lambda>bs. Some ([], DSessionSetupReq bs)),
     decode_iso1ExiDocument = (\<lambda>_. Some ([], IPowerDeliveryReq (sample_power_delivery CP_Start None)))\<rparr>"

definition sample_steps :: "rx_step list" where
  "sample_steps = [received (replicate 8 1), received [1], received (replicate 8 1), received [1], hung_up]"


section \<open>The end of a connection\<close>

text \<open>Closing initialises the charging state before the teardown looks at it.\<close>

lemma handled_not_charging:
  "v2g_handle_connection env t ts steps c = Some (es, c') \<Longrightarrow>
    \<exists>c1. serve_connection env t ts steps (v2g_ctx_init_charging_state False c) = Some (es, c1)
      \<and> \<not> is_charging c' \<and> v2g_out c' = v2g_out c1"
  by (auto simp: v2g_handle_connection_def v2g_ctx_init_charging_state_def)

lemmas teardown_defs = connection_teardown_def stop_timer_def publish_def v2g_ctx_init_charging_session_def
  v2g_ctx_init_charging_state_def v2g_ctx_init_charging_values_def init_values_once_def Let_def

lemma teardown_silent: "\<not> is_charging c \<Longrightarrow> v2g_out (connection_teardown c) = v2g_out c"
  by (simp add: teardown_defs)

text \<open>
  C20: A connection that is lost while current flows never reaches the contactor: whatever the
  connection did, the TCP thread publishes nothing after its last message, although the teardown
  means to open the contactor of a session that is charging.
\<close>

theorem lost_connection_keeps_contactor:
  assumes "v2g_state c = 0"
    and "serve_connection env t ts steps (v2g_ctx_init_charging_state False (c\<lparr>is_tls_connection := False\<rparr>)) = Some (es, c1)"
  shows "\<exists>c'. connection_handle_tcp env t ts steps c = Some (es, c') \<and> v2g_out c' = v2g_out c1"
proof -
  have "v2g_handle_connection env t ts steps (c\<lparr>is_tls_connection := False\<rparr>) = Some (es, v2g_ctx_init_charging_state True c1)"
    using assms(2) by (simp add: v2g_handle_connection_def)
  moreover from handled_not_charging[OF this] assms(2)
  have "\<not> is_charging (v2g_ctx_init_charging_state True c1)" "v2g_out (v2g_ctx_init_charging_state True c1) = v2g_out c1"
    by auto
  ultimately show ?thesis using assms(1) by (simp add: connection_handle_tcp_def teardown_silent)
qed

theorem lost_connection_keeps_contactor_witness:
  "\<exists>es c'. connection_handle_tcp sample_server sample_turn [] [hung_up] sample_context = Some (es, c')
     \<and> v2g_out c' = v2g_out sample_context"
proof -
  let ?c = "v2g_ctx_init_charging_state False (sample_context\<lparr>is_tls_connection := False\<rparr>)"
  have "connection_read [hung_up] 8 [] ?c = Some (Read [], [], [], ?c)"
    by (simp add: connection_read_hung_up v2g_ctx_init_charging_state_def)
  then have "serve_connection sample_server sample_turn [] [hung_up] ?c = Some ([], ?c)"
    by (simp add: serve_connection_def v2g_incoming_v2gtp_def V2GTP_HEADER_LENGTH_def)
  moreover have "v2g_state sample_context = 0" by (simp add: sample_context_def)
  ultimately have "\<exists>c'. connection_handle_tcp sample_server sample_turn [] [hung_up] sample_context = Some ([], c')
      \<and> v2g_out c' = v2g_out ?c"
    by (rule lost_connection_keeps_contactor[rotated])
  then show ?thesis by (auto simp: v2g_ctx_init_charging_state_def)
qed

text \<open>
  C35: A second connection does not disturb a running session when it comes over TCP. Over TLS the
  thread refuses it and then tears the running session down all the same: its state and its
  identifier are cleared, the context counts as terminated, and the contactor of a session that is
  charging is opened.
\<close>

theorem tls_connection_resets_running_session:
  assumes "v2g_state c \<noteq> 0"
  shows "connection_handle_tcp env t ts steps c = Some ([], c)
    \<and> (\<exists>c'. connection_handle_tls handshake env t ts steps c = Some ([], c') \<and> v2g_state c' = 0
      \<and> session_id c' = 0 \<and> is_connection_terminated c'
      \<and> v2g_out c' = v2g_out c @ (if is_charging c then [Pub_currentDemand_Finished,
           if is_dc_charger c then Pub_DC_Open_Contactor True else Pub_AC_Open_Contactor True] else []))"
  using assms by (simp add: connection_handle_tcp_def connection_handle_tls_def teardown_defs)

theorem tls_connection_resets_running_session_witness:
  "v2g_state (sample_context\<lparr>v2g_state := 9\<rparr>) \<noteq> 0
    \<and> (\<exists>c'. connection_handle_tls True sample_server sample_turn [] [] (sample_context\<lparr>v2g_state := 9\<rparr>) = Some ([], c')
      \<and> v2g_state c' = 0)"
proof -
  have "v2g_state (sample_context\<lparr>v2g_state := 9\<rparr>) \<noteq> 0" by simp
  from tls_connection_resets_running_session[OF this, of sample_server sample_turn "[]" "[]" True] this
  show ?thesis by blast
qed

end
