(* ===== verification/V2g_Sdp.thy ===== *)
theory V2g_Sdp
  imports Prelude "HOL-Library.Word"
begin

unbundle bit_operations_syntax

text \<open>
  The discovery of the charger (\<open>modules/EvseV2G/sdp.cpp\<close>): a car asks by UDP multicast for a TCP
  or TLS server and is told the address and the port. An address is the 16 bytes and the 2 bytes
  of the port in network order, a packet the list of its bytes.
\<close>

section \<open>Headers\<close>

definition SDP_VERSION :: "8 word" where "SDP_VERSION = 0x01"
definition SDP_INVERSE_VERSION :: "8 word" where "SDP_INVERSE_VERSION = 0xfe"
definition SDP_HEADER_LEN :: nat where "SDP_HEADER_LEN = 8"
definition SDP_REQUEST_PAYLOAD_LEN :: nat where "SDP_REQUEST_PAYLOAD_LEN = 2"
definition SDP_RESPONSE_PAYLOAD_LEN :: nat where "SDP_RESPONSE_PAYLOAD_LEN = 20"
definition SDP_REQUEST_TYPE :: "16 word" where "SDP_REQUEST_TYPE = 0x9000"
definition SDP_RESPONSE_TYPE :: "16 word" where "SDP_RESPONSE_TYPE = 0x9001"
definition SDP_SECURITY_TLS :: "8 word" where "SDP_SECURITY_TLS = 0x00"
definition SDP_SECURITY_NONE :: "8 word" where "SDP_SECURITY_NONE = 0x10"
definition SDP_TRANSPORT_PROTOCOL_TCP :: "8 word" where "SDP_TRANSPORT_PROTOCOL_TCP = 0x00"

definition sdp_write_header :: "16 word \<Rightarrow> 32 word \<Rightarrow> 8 word list" where
  "sdp_write_header payload_type payload_len =
    [SDP_VERSION, SDP_INVERSE_VERSION,
     ucast (drop_bit 8 payload_type), ucast payload_type,
     ucast (drop_bit 24 payload_len), ucast (drop_bit 16 payload_len), ucast (drop_bit 8 payload_len), ucast payload_len]"

text \<open>The caller passes a buffer of at least eight bytes.\<close>

definition sdp_validate_header :: "8 word list \<Rightarrow> 16 word \<Rightarrow> 32 word \<Rightarrow> bool" where
  "sdp_validate_header buffer expected_type expected_len =
    (buffer ! 0 = SDP_VERSION \<and> buffer ! 1 = SDP_INVERSE_VERSION
     \<and> push_bit 8 (ucast (buffer ! 2)) + ucast (buffer ! 3) = expected_type
     \<and> push_bit 24 (ucast (buffer ! 4)) + push_bit 16 (ucast (buffer ! 5)) + push_bit 8 (ucast (buffer ! 6))
         + ucast (buffer ! 7) = expected_len)"

section \<open>Queries and answers\<close>

record sockaddr_in6 =
  sin6_addr :: "8 word list"
  sin6_port :: "8 word list"

datatype tls_security = TLS_SECURITY_ALLOW | TLS_SECURITY_FORCE | TLS_SECURITY_PROHIBIT

record sdp_context =
  local_tcp_addr :: "sockaddr_in6 option"
  local_tls_addr :: "sockaddr_in6 option"
  sdp_shutdown :: bool

text \<open>
  The addresses that the servers listen on, once the sockets are open: both share the address of
  the interface and have fixed ports.
\<close>

definition DEFAULT_TCP_PORT :: "16 word" where "DEFAULT_TCP_PORT = 61341"
definition DEFAULT_TLS_PORT :: "16 word" where "DEFAULT_TLS_PORT = 64109"

definition htons :: "16 word \<Rightarrow> 8 word list" where
  "htons p = [ucast (drop_bit 8 p), ucast p]"

definition connection_init :: "tls_security \<Rightarrow> 8 word list \<Rightarrow> sdp_context" where
  "connection_init sec addr =
    \<lparr>local_tcp_addr = (if sec \<noteq> TLS_SECURITY_FORCE
                       then Some \<lparr>sin6_addr = addr, sin6_port = htons DEFAULT_TCP_PORT\<rparr> else None),
     local_tls_addr = (if sec \<noteq> TLS_SECURITY_PROHIBIT
                       then Some \<lparr>sin6_addr = addr, sin6_port = htons DEFAULT_TLS_PORT\<rparr> else None),
     sdp_shutdown = False\<rparr>"

definition sdp_create_response :: "sockaddr_in6 \<Rightarrow> 8 word \<Rightarrow> 8 word \<Rightarrow> 8 word list" where
  "sdp_create_response addr security proto =
    (let payload = sin6_addr addr @ sin6_port addr @ [security, proto]
     in sdp_write_header SDP_RESPONSE_TYPE (of_nat (length payload)) @ payload)"

text \<open>The packet that is sent; \<open>None\<close> when nothing is announced.\<close>

definition sdp_send_response :: "sdp_context \<Rightarrow> 8 word \<Rightarrow> 8 word \<Rightarrow> 8 word list option" where
  "sdp_send_response ctx security_requested proto_requested =
    (if proto_requested \<noteq> SDP_TRANSPORT_PROTOCOL_TCP then None
     else if security_requested = SDP_SECURITY_TLS then
       (case local_tls_addr ctx of
          Some a \<Rightarrow> Some (sdp_create_response a SDP_SECURITY_TLS SDP_TRANSPORT_PROTOCOL_TCP)
        | None \<Rightarrow>
            (case local_tcp_addr ctx of
               Some a \<Rightarrow> Some (sdp_create_response a SDP_SECURITY_NONE SDP_TRANSPORT_PROTOCOL_TCP)
             | None \<Rightarrow> None))
     else if security_requested = SDP_SECURITY_NONE then
       (case local_tcp_addr ctx of
          Some a \<Rightarrow> Some (sdp_create_response a SDP_SECURITY_NONE SDP_TRANSPORT_PROTOCOL_TCP)
        | None \<Rightarrow>
            (case local_tls_addr ctx of
               Some a \<Rightarrow> Some (sdp_create_response a SDP_SECURITY_TLS SDP_TRANSPORT_PROTOCOL_TCP)
             | None \<Rightarrow> None))
     else None)"

section \<open>The server\<close>

text \<open>
  What the socket delivers in a round of the loop: nothing, an error, or a datagram, of which
  \<open>recvfrom\<close> copies as much as fits the buffer. The shutdown flag is read before every round.
\<close>

datatype poll_result = Poll_timeout | Poll_error | Recv_error | Datagram "8 word list"

definition sdp_packet :: "sdp_context \<Rightarrow> 8 word list \<Rightarrow> 8 word list option" where
  "sdp_packet ctx packet =
    (let buffer = take (SDP_HEADER_LEN + SDP_REQUEST_PAYLOAD_LEN) packet
     in if length buffer \<noteq> SDP_HEADER_LEN + SDP_REQUEST_PAYLOAD_LEN then None
        else if \<not> sdp_validate_header buffer SDP_REQUEST_TYPE (of_nat SDP_REQUEST_PAYLOAD_LEN) then None
        else sdp_send_response ctx (buffer ! SDP_HEADER_LEN) (buffer ! (SDP_HEADER_LEN + 1)))"

fun sdp_listen :: "sdp_context \<Rightarrow> (bool \<times> poll_result) list \<Rightarrow> 8 word list list" where
  "sdp_listen ctx [] = []"
| "sdp_listen ctx ((shutdown, p) # ps) =
    (if shutdown then []
     else case p of
            Datagram packet \<Rightarrow>
              (case sdp_packet ctx packet of Some r \<Rightarrow> r # sdp_listen ctx ps | None \<Rightarrow> sdp_listen ctx ps)
          | _ \<Rightarrow> sdp_listen ctx ps)"

section \<open>Headers round trip\<close>

lemma join_bytes_16:
  "push_bit 8 (ucast (ucast (drop_bit 8 t) :: 8 word)) + ucast (ucast t :: 8 word) = (t :: 16 word)"
proof -
  have "push_bit 8 (ucast (ucast (drop_bit 8 t) :: 8 word)) + ucast (ucast t :: 8 word)
      = (push_bit 8 (ucast (ucast (drop_bit 8 t) :: 8 word)) OR ucast (ucast t :: 8 word) :: 16 word)"
    by (rule disjunctive_add) (auto simp: bit_simps)
  also have "\<dots> = t"
    by (rule bit_eqI) (auto simp: bit_simps)
  finally show ?thesis .
qed

lemma join_bytes_32:
  "push_bit 24 (ucast (ucast (drop_bit 24 n) :: 8 word)) + push_bit 16 (ucast (ucast (drop_bit 16 n) :: 8 word))
    + push_bit 8 (ucast (ucast (drop_bit 8 n) :: 8 word)) + ucast (ucast n :: 8 word) = (n :: 32 word)"
  (is "?a + ?b + ?c + ?d = n")
proof -
  have "?a + ?b = ?a OR ?b"
    by (rule disjunctive_add) (auto simp: bit_simps)
  moreover have "(?a OR ?b) + ?c = (?a OR ?b) OR ?c"
    by (rule disjunctive_add) (auto simp: bit_simps)
  moreover have "((?a OR ?b) OR ?c) + ?d = ((?a OR ?b) OR ?c) OR ?d"
    by (rule disjunctive_add) (auto simp: bit_simps)
  moreover have "((?a OR ?b) OR ?c) OR ?d = n"
  proof (rule bit_word_eqI)
    fix i :: nat assume "i < LENGTH(32)"
    then show "bit (((?a OR ?b) OR ?c) OR ?d) i = bit n i"
      by (cases "i < 8"; cases "i < 16"; cases "i < 24") (auto simp: bit_simps)
  qed
  ultimately show ?thesis by simp
qed

text \<open>
  A header that was written is accepted exactly for the type and the length it was written with.
\<close>

theorem sdp_header_roundtrip:
  "sdp_validate_header (sdp_write_header payload_type payload_len @ payload) expected_type expected_len
    \<longleftrightarrow> payload_type = expected_type \<and> payload_len = expected_len"
  by (simp add: sdp_validate_header_def sdp_write_header_def join_bytes_16 join_bytes_32 nth_Cons')

section \<open>What is announced\<close>

lemma sdp_header_valid [simp]: "sdp_validate_header (sdp_write_header t n @ payload) t n"
  by (simp add: sdp_validate_header_def sdp_write_header_def join_bytes_16 join_bytes_32 nth_Cons')

lemma sdp_create_response_valid:
  assumes "length (sin6_addr a) = 16" "length (sin6_port a) = 2"
  shows "sdp_validate_header (sdp_create_response a sec proto) SDP_RESPONSE_TYPE 20"
    "drop 8 (sdp_create_response a sec proto) = sin6_addr a @ sin6_port a @ [sec, proto]"
proof -
  have n: "of_nat (length (sin6_addr a @ sin6_port a @ [sec, proto])) = (20 :: 32 word)" using assms by simp
  show "sdp_validate_header (sdp_create_response a sec proto) SDP_RESPONSE_TYPE 20"
    unfolding sdp_create_response_def Let_def n by (rule sdp_header_valid)
  show "drop 8 (sdp_create_response a sec proto) = sin6_addr a @ sin6_port a @ [sec, proto]"
    by (simp add: sdp_create_response_def Let_def sdp_write_header_def)
qed

lemma length_sdp_create_response:
  "length (sdp_create_response a sec proto) = 10 + length (sin6_addr a) + length (sin6_port a)"
  by (simp add: sdp_create_response_def Let_def sdp_write_header_def)

lemma sdp_validate_header_take: "8 \<le> n \<Longrightarrow> sdp_validate_header (take n p) t l = sdp_validate_header p t l"
  by (simp add: sdp_validate_header_def)



end
