(* ===== verification/Yeti_Serial.thy ===== *)
theory Yeti_Serial
  imports Checksum
begin

text \<open>
  The serial link to the microcontroller of the power path (\<open>modules/YetiDriver/yeti_comms/evSerial.cpp\<close>):
  packets with a CRC-32 in consistent overhead byte stuffing, the messages in both directions and
  the reset of the microcontroller. The protobuf encoder and decoder (nanopb, with the generated
  descriptions of the messages) are parameters. A write to the line delivers all its bytes.
\<close>

type_synonym bytes = "8 word list"

section \<open>Messages\<close>

datatype InterfaceControlMode = ICM_NONE | ICM_HIGH | ICM_LOW

record KeepAliveLo =
  time_stamp :: "32 word"
  hw_type :: "32 word"
  hw_revision :: "32 word"
  protocol_version_major :: "32 word"
  protocol_version_minor :: "32 word"
  sw_version_string :: string
  hwcap_max_current :: float_t
  hwcap_min_current :: float_t
  hwcap_max_phase_count :: "32 word"
  hwcap_min_phase_count :: "32 word"
  hwcap_changing_phases :: bool

record PowerMeter =
  meter_time_stamp :: "32 word"
  vrmsL1 :: float_t
  vrmsL2 :: float_t
  vrmsL3 :: float_t
  irmsL1 :: float_t
  irmsL2 :: float_t
  irmsL3 :: float_t
  irmsN :: float_t
  wattHrL1 :: float_t
  wattHrL2 :: float_t
  wattHrL3 :: float_t
  totalWattHr :: float_t
  tempL1 :: float_t
  tempL2 :: float_t
  tempL3 :: float_t
  tempN :: float_t
  wattL1 :: float_t
  wattL2 :: float_t
  wattL3 :: float_t
  freqL1 :: float_t
  freqL2 :: float_t
  freqL3 :: float_t
  phaseSeqError :: bool

datatype LoLevelState = LL_DISABLED | LL_A | LL_B | LL_C | LL_D | LL_E | LL_F | LL_DF | LL_other int

record DebugUpdate =
  debug_time_stamp :: "32 word"
  evse_pwm_voltage_hi :: float_t
  evse_pwm_voltage_lo :: float_t
  supply_voltage_12V :: float_t
  supply_voltage_N12V :: float_t
  lowlevel_state :: LoLevelState
  evse_pwm_running :: bool
  ev_simplified_mode :: bool
  has_ventilation :: bool
  ventilated_charging_active :: bool
  rcd_reclosing_allowed :: bool
  authorized :: bool
  cpu_temperature :: float_t
  rcd_enabled :: bool
  evse_pp_voltage :: float_t
  max_current_cable :: float_t
  watchdog_reset_count :: "32 word"
  simulation :: bool
  control_mode :: InterfaceControlMode
  max_current :: float_t
  use_three_phases :: bool
  rcd_current :: float_t
  relais_on :: bool

datatype StateUpdate_State =
    SU_DISABLED | SU_IDLE | SU_WAITING_FOR_AUTHENTICATION | SU_CHARGING | SU_CHARGING_PAUSED_EV
  | SU_CHARGING_PAUSED_EVSE | SU_CHARGING_FINSIHED | SU_ERROR | SU_FAULTED | SU_other int

datatype ErrorType =
    ET_F | ET_E | ET_DF | ET_RELAIS | ET_VENTILATION_NOT_AVAILABLE | ET_RCD | ET_OVER_CURRENT | ET_other int

text \<open>An enumeration of the wire format is open: a value outside of it is kept.\<close>

datatype InterfaceEvent =
    IE_CAR_PLUGGED_IN | IE_CAR_REQUESTED_POWER | IE_POWER_ON | IE_POWER_OFF | IE_CAR_REQUESTED_STOP_POWER
  | IE_CAR_UNPLUGGED | IE_ERROR_E | IE_ERROR_DF | IE_ERROR_RELAIS | IE_ERROR_RCD
  | IE_ERROR_VENTILATION_NOT_AVAILABLE | IE_ERROR_OVER_CURRENT | IE_ENTER_BCD | IE_LEAVE_BCD
  | IE_PERMANENT_FAULT | IE_EVSE_REPLUG_STARTED | IE_EVSE_REPLUG_FINISHED | IE_other int

record SimulationFeedback =
  pwmDutyCycle :: float_t
  feedback_pwm_voltage_hi :: float_t
  feedback_pwm_voltage_lo :: float_t
  feedback_pwm_running :: bool
  feedback_relais_on :: "32 word"

record SimulationData =
  cp_voltage :: float_t
  pp_resistor :: float_t
  currentL1 :: float_t
  currentL2 :: float_t
  currentL3 :: float_t
  currentN :: float_t
  voltageL1 :: float_t
  voltageL2 :: float_t
  voltageL3 :: float_t
  sim_freqL1 :: float_t
  sim_freqL2 :: float_t
  sim_freqL3 :: float_t
  sim_rcd_current :: float_t
  diode_fail :: bool
  error_e :: bool

datatype LoToHi =
    LoToHi_none
  | LoToHi_state_update StateUpdate_State "ErrorType option"
  | LoToHi_debug_update DebugUpdate
  | LoToHi_keep_alive KeepAliveLo
  | LoToHi_power_meter PowerMeter
  | LoToHi_simulation_feedback SimulationFeedback
  | LoToHi_event InterfaceEvent
  | LoToHi_reset_done

datatype HiToLo =
    HiToLo_set_max_current float_t
  | HiToLo_set_three_phases bool
  | HiToLo_set_has_ventilation bool
  | HiToLo_set_country_code string
  | HiToLo_enable
  | HiToLo_disable
  | HiToLo_set_auth string
  | HiToLo_switch_three_phases_while_charging bool
  | HiToLo_pause_charging
  | HiToLo_resume_charging
  | HiToLo_enable_rcd bool
  | HiToLo_keep_alive "32 word" "32 word" "32 word" "32 word" "32 word" string
  | HiToLo_restart
  | HiToLo_firmware_update bool
  | HiToLo_enable_simulation bool
  | HiToLo_simulation_data SimulationData
  | HiToLo_set_control_mode InterfaceControlMode
  | HiToLo_set_pwm "32 word" float_t
  | HiToLo_allow_power_on bool
  | HiToLo_force_unlock
  | HiToLo_reset
  | HiToLo_replug "32 word"

section \<open>State\<close>

text \<open>
  What the link tells its listeners. \<open>Read_past_buffer\<close> stands for a decoder that is given more
  bytes than the packet has.
\<close>

datatype serial_signal =
    Sig_StateUpdate StateUpdate_State "ErrorType option"
  | Sig_DebugUpdate DebugUpdate
  | Sig_KeepAliveLo KeepAliveLo
  | Sig_PowerMeter PowerMeter
  | Sig_SimulationFeedback SimulationFeedback
  | Sig_Event InterfaceEvent
  | Sig_SpuriousReset
  | Sig_ConnectionTimeout
  | Read_past_buffer

text \<open>
  \<open>msg\<close> is the part of the packet buffer below the pointer \<open>decode\<close>. \<open>line_out\<close> are the bytes written to the
  line and \<open>gpio_resets\<close> the resets through a pin.
\<close>

record evSerial =
  msg :: bytes
  cobs_code :: "8 word"
  cobs_block :: "8 word"
  reset_done_flag :: bool
  forced_reset :: bool
  last_keep_alive_lo_timestamp :: timepoint
  signals :: "serial_signal list"
  line_out :: bytes
  gpio_resets :: "int list"

record link_env =
  pb_encode :: "HiToLo \<Rightarrow> bytes option"
  pb_decode :: "bytes \<Rightarrow> LoToHi option"
  encode_buf :: "nat \<Rightarrow> 8 word"
  utc_now :: timepoint
  unix_timestamp :: "32 word"

definition cobsDecodeReset :: "evSerial \<Rightarrow> evSerial" where
  "cobsDecodeReset s = s\<lparr>cobs_code := 0xFF, cobs_block := 0, msg := []\<rparr>"

text \<open>A new link; its time stamp is the epoch.\<close>

definition new_evSerial :: evSerial where
  "new_evSerial = \<lparr>msg = [], cobs_code = 0xFF, cobs_block = 0, reset_done_flag = False, forced_reset = False,
     last_keep_alive_lo_timestamp = 0, signals = [], line_out = [], gpio_resets = []\<rparr>"

definition emit_signal :: "serial_signal \<Rightarrow> evSerial \<Rightarrow> evSerial" where
  "emit_signal g s = s\<lparr>signals := signals s @ [g]\<rparr>"

section \<open>Checksum\<close>

definition crc32_bit :: "32 word \<Rightarrow> 32 word" where
  "crc32_bit crc = drop_bit 1 crc XOR (0xEDB88320 AND - (crc AND 1))"

definition crc32_byte :: "32 word \<Rightarrow> 8 word \<Rightarrow> 32 word" where
  "crc32_byte crc b = (crc32_bit ^^ 8) (crc XOR ucast b)"

definition crc32 :: "bytes \<Rightarrow> 32 word" where
  "crc32 buf = foldl crc32_byte 0xFFFFFFFF buf"

section \<open>Receiving\<close>

fun dispatch_message :: "link_env \<Rightarrow> LoToHi \<Rightarrow> evSerial \<Rightarrow> evSerial" where
  "dispatch_message env (LoToHi_state_update u e) s = emit_signal (Sig_StateUpdate u e) s"
| "dispatch_message env (LoToHi_debug_update d) s = emit_signal (Sig_DebugUpdate d) s"
| "dispatch_message env (LoToHi_keep_alive k) s =
     (emit_signal (Sig_KeepAliveLo k) s)\<lparr>last_keep_alive_lo_timestamp := utc_now env\<rparr>"
| "dispatch_message env (LoToHi_power_meter p) s =
     emit_signal (Sig_PowerMeter (p\<lparr>meter_time_stamp := unix_timestamp env\<rparr>)) s"
| "dispatch_message env (LoToHi_simulation_feedback f) s = emit_signal (Sig_SimulationFeedback f) s"
| "dispatch_message env (LoToHi_event e) s = emit_signal (Sig_Event e) s"
| "dispatch_message env LoToHi_reset_done s =
     (let s = s\<lparr>reset_done_flag := True\<rparr> in if \<not> forced_reset s then emit_signal Sig_SpuriousReset s else s)"
| "dispatch_message env LoToHi_none s = s"

definition handlePacket :: "link_env \<Rightarrow> bytes \<Rightarrow> evSerial \<Rightarrow> evSerial" where
  "handlePacket env buf s =
    (if crc32 buf \<noteq> 0 then s
     else if length buf < 4 then emit_signal Read_past_buffer s
     else
       (case pb_decode env (take (length buf - 4) buf) of
          None \<Rightarrow> s
        | Some m \<Rightarrow> dispatch_message env m s))"

definition MSG_SIZE :: int where "MSG_SIZE = 2048"

definition cobsDecodeByte :: "link_env \<Rightarrow> 8 word \<Rightarrow> evSerial \<Rightarrow> evSerial" where
  "cobsDecodeByte env b s =
    (let s = (if int (length (msg s)) = MSG_SIZE - 1 \<and> b \<noteq> 0 then cobsDecodeReset s else s)
     in if cobs_block s \<noteq> 0 then
          if b = 0 then cobsDecodeReset s
          else s\<lparr>msg := msg s @ [b], cobs_block := cobs_block s - 1\<rparr>
        else
          let s = (if cobs_code s \<noteq> 0xFF then s\<lparr>msg := msg s @ [0]\<rparr> else s);
              s = s\<lparr>cobs_code := b, cobs_block := b\<rparr>
          in if b = 0 then
               cobsDecodeReset
                 (if msg s = [] then s else handlePacket env (take (length (msg s) - 1) (msg s)) s)
             else s\<lparr>cobs_block := cobs_block s - 1\<rparr>)"

definition cobsDecode :: "link_env \<Rightarrow> bytes \<Rightarrow> evSerial \<Rightarrow> evSerial" where
  "cobsDecode env buf s = fold (cobsDecodeByte env) buf s"

definition serial_timed_out :: "timepoint \<Rightarrow> evSerial \<Rightarrow> bool" where
  "serial_timed_out now s = (now - last_keep_alive_lo_timestamp s \<ge> 5000)"

text \<open>One round of the thread that watches the keep-alive messages.\<close>

definition timeoutDetection :: "link_env \<Rightarrow> evSerial \<Rightarrow> evSerial" where
  "timeoutDetection env s =
    (if serial_timed_out (utc_now env) s then emit_signal Sig_ConnectionTimeout s else s)"

section \<open>Sending\<close>

text \<open>
  The encoder writes into a buffer of uninitialised memory at two positions: the next byte and the
  code byte of the block that is open.
\<close>

fun cobs_loop :: "bytes \<Rightarrow> (nat \<Rightarrow> 8 word) \<Rightarrow> nat \<Rightarrow> nat \<Rightarrow> 8 word \<Rightarrow> (nat \<Rightarrow> 8 word) \<times> nat \<times> nat \<times> 8 word" where
  "cobs_loop [] buffer encode codep code = (buffer, encode, codep, code)"
| "cobs_loop (b # bs) buffer encode codep code =
    (let (buffer, encode, code) = (if b \<noteq> 0 then (buffer(encode := b), encode + 1, code + 1) else (buffer, encode, code))
     in if b = 0 \<or> code = 0xFF
        then cobs_loop bs (buffer(codep := code)) (if b = 0 \<or> bs \<noteq> [] then encode + 1 else encode) encode 1
        else cobs_loop bs buffer encode codep code)"

definition cobsEncode :: "(nat \<Rightarrow> 8 word) \<Rightarrow> bytes \<Rightarrow> bytes" where
  "cobsEncode buffer data =
    (let (buffer, encode, codep, code) = cobs_loop data buffer 1 0 1;
         buffer = buffer(codep := code);
         buffer = buffer(encode := 0)
     in map buffer [0..<encode + 1])"

fun crc_bytes :: "nat \<Rightarrow> 32 word \<Rightarrow> bytes" where
  "crc_bytes 0 crc = []"
| "crc_bytes (Suc n) crc = ucast crc # crc_bytes n (drop_bit 8 crc)"

definition linkWrite :: "link_env \<Rightarrow> HiToLo \<Rightarrow> evSerial \<Rightarrow> bool \<times> evSerial" where
  "linkWrite env m s =
    (case pb_encode env m of
       None \<Rightarrow> (False, s)
     | Some payload \<Rightarrow>
         (True, s\<lparr>line_out := line_out s @ cobsEncode (encode_buf env) (payload @ crc_bytes 4 (crc32 payload))\<rparr>))"

definition send_message :: "link_env \<Rightarrow> HiToLo \<Rightarrow> evSerial \<Rightarrow> evSerial" where
  "send_message env m s = snd (linkWrite env m s)"

definition c_str :: "string \<Rightarrow> string" where
  "c_str s = takeWhile (\<lambda>c. c \<noteq> CHR 0x00) s"

definition serial_setMaxCurrent :: "link_env \<Rightarrow> float_t \<Rightarrow> evSerial \<Rightarrow> evSerial" where
  "serial_setMaxCurrent env c = send_message env (HiToLo_set_max_current c)"

definition serial_setThreePhases :: "link_env \<Rightarrow> bool \<Rightarrow> evSerial \<Rightarrow> evSerial" where
  "serial_setThreePhases env n = send_message env (HiToLo_set_three_phases n)"

definition serial_enableRCD :: "link_env \<Rightarrow> bool \<Rightarrow> evSerial \<Rightarrow> evSerial" where
  "serial_enableRCD env e = send_message env (HiToLo_enable_rcd e)"

definition serial_setHasVentilation :: "link_env \<Rightarrow> bool \<Rightarrow> evSerial \<Rightarrow> evSerial" where
  "serial_setHasVentilation env v = send_message env (HiToLo_set_has_ventilation v)"

definition serial_setCountryCode :: "link_env \<Rightarrow> string \<Rightarrow> evSerial \<Rightarrow> evSerial" where
  "serial_setCountryCode env iso3166_alpha2_code s =
    (if length (c_str iso3166_alpha2_code) < 10
     then send_message env (HiToLo_set_country_code (c_str iso3166_alpha2_code)) s else s)"

definition serial_setControlMode :: "link_env \<Rightarrow> InterfaceControlMode \<Rightarrow> evSerial \<Rightarrow> evSerial" where
  "serial_setControlMode env c = send_message env (HiToLo_set_control_mode c)"

definition serial_setAuth :: "link_env \<Rightarrow> string \<Rightarrow> evSerial \<Rightarrow> evSerial" where
  "serial_setAuth env userid s =
    (if length (c_str userid) < 50 then send_message env (HiToLo_set_auth (c_str userid)) s else s)"

definition serial_setPWM :: "link_env \<Rightarrow> 32 word \<Rightarrow> float_t \<Rightarrow> evSerial \<Rightarrow> evSerial" where
  "serial_setPWM env mode dc = send_message env (HiToLo_set_pwm mode dc)"

definition serial_allowPowerOn :: "link_env \<Rightarrow> bool \<Rightarrow> evSerial \<Rightarrow> evSerial" where
  "serial_allowPowerOn env p = send_message env (HiToLo_allow_power_on p)"

definition serial_forceUnlock :: "link_env \<Rightarrow> evSerial \<Rightarrow> bool \<times> evSerial" where
  "serial_forceUnlock env s = (True, send_message env HiToLo_force_unlock s)"

definition serial_enable :: "link_env \<Rightarrow> evSerial \<Rightarrow> evSerial" where
  "serial_enable env = send_message env HiToLo_enable"

definition serial_disable :: "link_env \<Rightarrow> evSerial \<Rightarrow> evSerial" where
  "serial_disable env = send_message env HiToLo_disable"

definition serial_switchThreePhasesWhileCharging :: "link_env \<Rightarrow> bool \<Rightarrow> evSerial \<Rightarrow> evSerial" where
  "serial_switchThreePhasesWhileCharging env n = send_message env (HiToLo_switch_three_phases_while_charging n)"

definition serial_replug :: "link_env \<Rightarrow> int \<Rightarrow> evSerial \<Rightarrow> evSerial" where
  "serial_replug env t = send_message env (HiToLo_replug (of_int t))"

definition serial_pauseCharging :: "link_env \<Rightarrow> evSerial \<Rightarrow> evSerial" where
  "serial_pauseCharging env = send_message env HiToLo_pause_charging"

definition serial_resumeCharging :: "link_env \<Rightarrow> evSerial \<Rightarrow> evSerial" where
  "serial_resumeCharging env = send_message env HiToLo_resume_charging"

definition serial_restart :: "link_env \<Rightarrow> evSerial \<Rightarrow> evSerial" where
  "serial_restart env = send_message env HiToLo_restart"

definition serial_firmwareUpdate :: "link_env \<Rightarrow> bool \<Rightarrow> evSerial \<Rightarrow> evSerial" where
  "serial_firmwareUpdate env rom = send_message env (HiToLo_firmware_update rom)"

definition serial_enableSimulation :: "link_env \<Rightarrow> bool \<Rightarrow> evSerial \<Rightarrow> evSerial" where
  "serial_enableSimulation env b = send_message env (HiToLo_enable_simulation b)"

definition serial_setSimulationData :: "link_env \<Rightarrow> SimulationData \<Rightarrow> evSerial \<Rightarrow> evSerial" where
  "serial_setSimulationData env d = send_message env (HiToLo_simulation_data d)"

definition serial_keepAlive :: "link_env \<Rightarrow> evSerial \<Rightarrow> evSerial" where
  "serial_keepAlive env = send_message env (HiToLo_keep_alive 0 0 0 0 1 ''n/a'')"

section \<open>Reset\<close>

text \<open>
  The loop that waits for the reset; what the reading thread receives while it sleeps is given for
  every round.
\<close>

fun wait_reset :: "link_env \<Rightarrow> nat \<Rightarrow> bytes list \<Rightarrow> evSerial \<Rightarrow> bool \<times> evSerial" where
  "wait_reset env 0 chunks s = (False, s)"
| "wait_reset env (Suc n) chunks s =
    (if reset_done_flag s then (True, s)
     else
       (case chunks of
          [] \<Rightarrow> wait_reset env n [] s
        | c # cs \<Rightarrow> wait_reset env n cs (cobsDecode env c s)))"

definition serial_reset :: "link_env \<Rightarrow> int \<Rightarrow> bytes list \<Rightarrow> evSerial \<Rightarrow> bool \<times> evSerial" where
  "serial_reset env reset_pin chunks s =
    (let s = s\<lparr>reset_done_flag := False, forced_reset := True\<rparr>;
         s = (if reset_pin > 0 then s\<lparr>gpio_resets := gpio_resets s @ [reset_pin]\<rparr> else send_message env HiToLo_reset s);
         (success, s) = wait_reset env 20 chunks s;
         s = s\<lparr>reset_done_flag := False, forced_reset := False\<rparr>
     in (success, serial_keepAlive env (serial_keepAlive env (serial_keepAlive env s))))"

end
