(* ===== verification/Yeti_Driver.thy ===== *)
theory Yeti_Driver
  imports Yeti_Serial Evse_Manager
begin

text \<open>
  The driver of the power path (\<open>modules/YetiDriver\<close>): the board support that the EVSE manager uses, the
  power meter and the signals of the serial link that they listen to. Telemetry for external
  services and the JSON documents on MQTT topics are not modelled.
\<close>

section \<open>Conversions\<close>

fun cast_event_type :: "InterfaceEvent \<Rightarrow> bs_event option" where
  "cast_event_type IE_CAR_PLUGGED_IN = Some BS_CarPluggedIn"
| "cast_event_type IE_CAR_REQUESTED_POWER = Some BS_CarRequestedPower"
| "cast_event_type IE_POWER_ON = Some BS_PowerOn"
| "cast_event_type IE_POWER_OFF = Some BS_PowerOff"
| "cast_event_type IE_CAR_REQUESTED_STOP_POWER = Some BS_CarRequestedStopPower"
| "cast_event_type IE_CAR_UNPLUGGED = Some BS_CarUnplugged"
| "cast_event_type IE_ERROR_E = Some BS_ErrorE"
| "cast_event_type IE_ERROR_DF = Some BS_ErrorDF"
| "cast_event_type IE_ERROR_RELAIS = Some BS_ErrorRelais"
| "cast_event_type IE_ERROR_RCD = Some BS_ErrorRCD"
| "cast_event_type IE_ERROR_VENTILATION_NOT_AVAILABLE = Some BS_ErrorVentilationNotAvailable"
| "cast_event_type IE_ERROR_OVER_CURRENT = Some BS_ErrorOverCurrent"
| "cast_event_type IE_ENTER_BCD = Some BS_EFtoBCD"
| "cast_event_type IE_LEAVE_BCD = Some BS_BCDtoEF"
| "cast_event_type IE_PERMANENT_FAULT = Some BS_PermanentFault"
| "cast_event_type IE_EVSE_REPLUG_STARTED = Some BS_EvseReplugStarted"
| "cast_event_type IE_EVSE_REPLUG_FINISHED = Some BS_EvseReplugFinished"
| "cast_event_type (IE_other n) = None"

definition str_to_control_mode :: "string \<Rightarrow> InterfaceControlMode" where
  "str_to_control_mode d = (if d = ''low'' then ICM_LOW else if d = ''high'' then ICM_HIGH else ICM_NONE)"

fun state_to_string :: "StateUpdate_State \<Rightarrow> string" where
  "state_to_string SU_DISABLED = ''Disabled''"
| "state_to_string SU_IDLE = ''Idle''"
| "state_to_string SU_WAITING_FOR_AUTHENTICATION = ''Waiting for Auth''"
| "state_to_string SU_CHARGING = ''Charging''"
| "state_to_string SU_CHARGING_PAUSED_EV = ''Car Paused''"
| "state_to_string SU_CHARGING_PAUSED_EVSE = ''EVSE Paused''"
| "state_to_string SU_CHARGING_FINSIHED = ''Finished''"
| "state_to_string SU_ERROR = ''Error''"
| "state_to_string SU_FAULTED = ''Faulted''"
| "state_to_string (SU_other n) = ''Unknown''"

fun error_type_to_string :: "ErrorType \<Rightarrow> string" where
  "error_type_to_string ET_F = ''EVSE Fault''"
| "error_type_to_string ET_E = ''Car Fault''"
| "error_type_to_string ET_DF = ''Diode Fault''"
| "error_type_to_string ET_RELAIS = ''Relais Fault''"
| "error_type_to_string ET_VENTILATION_NOT_AVAILABLE = ''Ventilation n/a''"
| "error_type_to_string ET_RCD = ''RCD Fault''"
| "error_type_to_string e = ''Unknown''"

fun lowlevelstate_to_string :: "LoLevelState \<Rightarrow> bool \<Rightarrow> string" where
  "lowlevelstate_to_string LL_DISABLED pwm_on = ''Disabled''"
| "lowlevelstate_to_string LL_A pwm_on = ''A'' @ (if pwm_on then ''2'' else ''1'')"
| "lowlevelstate_to_string LL_B pwm_on = ''B'' @ (if pwm_on then ''2'' else ''1'')"
| "lowlevelstate_to_string LL_C pwm_on = ''C'' @ (if pwm_on then ''2'' else ''1'')"
| "lowlevelstate_to_string LL_D pwm_on = ''D'' @ (if pwm_on then ''2'' else ''1'')"
| "lowlevelstate_to_string LL_E pwm_on = ''E''"
| "lowlevelstate_to_string LL_F pwm_on = ''F''"
| "lowlevelstate_to_string LL_DF pwm_on = ''DF''"
| "lowlevelstate_to_string (LL_other n) pwm_on = ''Unknown''"

definition phases :: "float_t \<Rightarrow> float_t \<Rightarrow> float_t \<Rightarrow> phase_values" where
  "phases a b c = \<lparr>pv_total = None, pv_DC = None, pv_L1 = Some a, pv_L2 = Some b, pv_L3 = Some c, pv_N = None\<rparr>"

definition yeti_to_everest :: "string \<Rightarrow> PowerMeter \<Rightarrow> Powermeter" where
  "yeti_to_everest now p =
    \<lparr>pm_timestamp = now, meter_id = Some ''YETI_POWERMETER'', phase_seq_error = Some (phaseSeqError p),
     energy_Wh_import = (phases (wattHrL1 p) (wattHrL2 p) (wattHrL3 p))\<lparr>pv_total := Some (totalWattHr p)\<rparr>,
     energy_Wh_export = None,
     power_W = Some ((phases (wattL1 p) (wattL2 p) (wattL3 p))\<lparr>pv_total := Some (wattL1 p + wattL2 p + wattL3 p)\<rparr>),
     voltage_V = Some (phases (vrmsL1 p) (vrmsL2 p) (vrmsL3 p)), VAR = None,
     current_A = Some ((phases (irmsL1 p) (irmsL2 p) (irmsL3 p))\<lparr>pv_N := Some (irmsN p)\<rparr>),
     frequency_Hz = Some (phases (freqL1 p) (freqL2 p) (freqL3 p))\<rparr>"

section \<open>State\<close>

record bs_telemetry =
  tel_temperature :: float_t
  tel_fan_rpm :: float_t
  tel_supply_voltage_12V :: float_t
  tel_supply_voltage_minus_12V :: float_t
  tel_rcd_current :: float_t
  tel_relais_on :: bool

datatype yeti_publication =
    Publish_event bs_event
  | Publish_nr_of_phases_available int
  | Publish_telemetry bs_telemetry
  | Publish_powermeter Powermeter
  | Publish_extras "32 word" "32 word" "32 word" "32 word" "32 word" string
  | Publish_simulation_feedback SimulationFeedback

datatype yeti_error =
    Unknown_interface_event
  | Yeti_reset_not_successful
  | Yeti_spurious_reset
  | Yeti_UART_timeout
  | Caps_not_received

record yeti_conf =
  caps_min_current_A :: float_t
  conf_control_mode :: string
  reset_gpio :: int

text \<open>\<open>connected\<close> tells whether the module listens to spurious resets and timeouts.\<close>

record yeti =
  serial :: evSerial
  caps :: HardwareCapabilities
  caps_received :: bool
  connected :: bool
  published :: "yeti_publication list"

definition publish_yeti :: "yeti_publication \<Rightarrow> yeti \<Rightarrow> yeti" where
  "publish_yeti p y = y\<lparr>published := published y @ [p]\<rparr>"

definition board_support_init :: "yeti_conf \<Rightarrow> yeti \<Rightarrow> yeti" where
  "board_support_init cfg y =
    y\<lparr>caps := \<lparr>max_current_A_import = 6, min_current_A_import = caps_min_current_A cfg,
        max_phase_count_import = 3, min_phase_count_import = 1,
        max_current_A_export = 6, min_current_A_export = caps_min_current_A cfg,
        max_phase_count_export = 3, min_phase_count_export = 1,
        supports_changing_phases_during_charging = False\<rparr>\<rparr>"

section \<open>Signals of the link\<close>

definition on_debug_update :: "DebugUpdate \<Rightarrow> yeti \<Rightarrow> yeti" where
  "on_debug_update d y =
     publish_yeti (Publish_telemetry
         \<lparr>tel_temperature = cpu_temperature d, tel_fan_rpm = 0, tel_supply_voltage_12V = supply_voltage_12V d,
          tel_supply_voltage_minus_12V = supply_voltage_N12V d, tel_rcd_current = Yeti_Serial.rcd_current d,
          tel_relais_on = relais_on d\<rparr>)
       (publish_yeti (Publish_nr_of_phases_available (if use_three_phases d then 3 else 1)) y)"

definition on_keep_alive :: "yeti_conf \<Rightarrow> KeepAliveLo \<Rightarrow> yeti \<Rightarrow> yeti" where
  "on_keep_alive cfg l y =
    (let min_current = (if caps_min_current_A cfg \<ge> 0 then caps_min_current_A cfg else hwcap_min_current l)
     in y\<lparr>caps := \<lparr>max_current_A_import = hwcap_max_current l, min_current_A_import = min_current,
             max_phase_count_import = uint (hwcap_max_phase_count l), min_phase_count_import = uint (hwcap_min_phase_count l),
             max_current_A_export = hwcap_max_current l, min_current_A_export = min_current,
             max_phase_count_export = uint (hwcap_max_phase_count l), min_phase_count_export = uint (hwcap_min_phase_count l),
             supports_changing_phases_during_charging = hwcap_changing_phases l\<rparr>,
          caps_received := True\<rparr>)"

definition publish_extras :: "KeepAliveLo \<Rightarrow> yeti \<Rightarrow> yeti" where
  "publish_extras k = publish_yeti (Publish_extras (time_stamp k) (hw_type k) (hw_revision k)
     (protocol_version_major k) (protocol_version_minor k) (sw_version_string k))"

fun on_signal :: "yeti_conf \<Rightarrow> string \<Rightarrow> serial_signal \<Rightarrow> yeti \<Rightarrow> (yeti_error, yeti) result" where
  "on_signal cfg now (Sig_Event e) y =
    (case cast_event_type e of None \<Rightarrow> Inl Unknown_interface_event | Some ev \<Rightarrow> Inr (publish_yeti (Publish_event ev) y))"
| "on_signal cfg now (Sig_DebugUpdate d) y = Inr (on_debug_update d y)"
| "on_signal cfg now (Sig_KeepAliveLo k) y = Inr (on_keep_alive cfg k (publish_extras k y))"
| "on_signal cfg now (Sig_PowerMeter p) y = Inr (publish_yeti (Publish_powermeter (yeti_to_everest now p)) y)"
| "on_signal cfg now (Sig_SimulationFeedback f) y = Inr (publish_yeti (Publish_simulation_feedback f) y)"
| "on_signal cfg now Sig_SpuriousReset y = (if connected y then Inl Yeti_spurious_reset else Inr y)"
| "on_signal cfg now Sig_ConnectionTimeout y = (if connected y then Inl Yeti_UART_timeout else Inr y)"
| "on_signal cfg now g y = Inr y"

fun on_signals :: "yeti_conf \<Rightarrow> string \<Rightarrow> serial_signal list \<Rightarrow> yeti \<Rightarrow> (yeti_error, yeti) result" where
  "on_signals cfg now [] y = Inr y"
| "on_signals cfg now (g # gs) y = bind_res (on_signal cfg now g y) (on_signals cfg now gs)"

text \<open>Bytes from the line, and a round of the thread that watches the link.\<close>

definition yeti_receive :: "yeti_conf \<Rightarrow> link_env \<Rightarrow> string \<Rightarrow> bytes \<Rightarrow> yeti \<Rightarrow> (yeti_error, yeti) result" where
  "yeti_receive cfg env now bs y =
    (let s = cobsDecode env bs (serial y)
     in on_signals cfg now (appended (signals (serial y)) (signals s)) (y\<lparr>serial := s\<rparr>))"

definition yeti_watch :: "yeti_conf \<Rightarrow> link_env \<Rightarrow> string \<Rightarrow> yeti \<Rightarrow> (yeti_error, yeti) result" where
  "yeti_watch cfg env now y =
    (let s = timeoutDetection env (serial y)
     in on_signals cfg now (appended (signals (serial y)) (signals s)) (y\<lparr>serial := s\<rparr>))"

section \<open>Start\<close>

text \<open>
  The wait for the capabilities: \<open>seen i\<close> tells whether they have been received at the check in round
  \<open>i\<close>. The result is the round in which the loop is left.
\<close>

function wait_caps :: "(nat \<Rightarrow> bool) \<Rightarrow> nat \<Rightarrow> nat" where
  "wait_caps seen i = (if i < 50 then (if seen i then i else wait_caps seen (i + 1)) else i)"
  by pat_completeness auto
termination
  by (relation "measure (\<lambda>(seen, i). 50 - i)") auto

declare wait_caps.simps [simp del]

definition board_support_ready :: "(nat \<Rightarrow> bool) \<Rightarrow> (yeti_error, unit) result" where
  "board_support_ready seen = (if wait_caps seen 0 = 49 then Inl Caps_not_received else Inr ())"

definition yeti_ready ::
    "yeti_conf \<Rightarrow> link_env \<Rightarrow> bytes list \<Rightarrow> (nat \<Rightarrow> bool) \<Rightarrow> yeti \<Rightarrow> (yeti_error, yeti) result" where
  "yeti_ready cfg env chunks seen y =
    (let (ok, s) = serial_reset env (reset_gpio cfg) chunks (serial y)
     in if \<not> ok then Inl Yeti_reset_not_successful
        else bind_res (board_support_ready seen)
               (\<lambda>_. Inr (y\<lparr>serial := serial_setControlMode env (str_to_control_mode (conf_control_mode cfg)) s, connected := True\<rparr>)))"

section \<open>Commands\<close>

definition bs_handle_setup :: "link_env \<Rightarrow> bool \<Rightarrow> bool \<Rightarrow> string \<Rightarrow> bool \<Rightarrow> yeti \<Rightarrow> yeti" where
  "bs_handle_setup env three ventilation country rcd y =
     y\<lparr>serial := serial_enableRCD env rcd (serial_setThreePhases env three
        (serial_setHasVentilation env ventilation (serial_setCountryCode env country (serial y))))\<rparr>"

definition bs_handle_enable :: "link_env \<Rightarrow> bool \<Rightarrow> yeti \<Rightarrow> yeti" where
  "bs_handle_enable env value y =
     y\<lparr>serial := if value then serial_enable env (serial y) else serial_disable env (serial y)\<rparr>"

definition bs_handle_pwm_on :: "link_env \<Rightarrow> float_t \<Rightarrow> yeti \<Rightarrow> yeti" where
  "bs_handle_pwm_on env value y = y\<lparr>serial := serial_setPWM env 1 value (serial y)\<rparr>"

definition bs_handle_pwm_off :: "link_env \<Rightarrow> yeti \<Rightarrow> yeti" where
  "bs_handle_pwm_off env y = y\<lparr>serial := serial_setPWM env 0 0 (serial y)\<rparr>"

definition bs_handle_pwm_F :: "link_env \<Rightarrow> yeti \<Rightarrow> yeti" where
  "bs_handle_pwm_F env y = y\<lparr>serial := serial_setPWM env 2 0 (serial y)\<rparr>"

definition bs_handle_allow_power_on :: "link_env \<Rightarrow> bool \<Rightarrow> yeti \<Rightarrow> yeti" where
  "bs_handle_allow_power_on env value y = y\<lparr>serial := serial_allowPowerOn env value (serial y)\<rparr>"

definition bs_handle_force_unlock :: "link_env \<Rightarrow> yeti \<Rightarrow> bool \<times> yeti" where
  "bs_handle_force_unlock env y = (let (ok, s) = serial_forceUnlock env (serial y) in (ok, y\<lparr>serial := s\<rparr>))"

definition bs_handle_switch_three_phases :: "link_env \<Rightarrow> bool \<Rightarrow> yeti \<Rightarrow> yeti" where
  "bs_handle_switch_three_phases env value y = y\<lparr>serial := serial_switchThreePhasesWhileCharging env value (serial y)\<rparr>"

definition bs_handle_evse_replug :: "link_env \<Rightarrow> int \<Rightarrow> yeti \<Rightarrow> yeti" where
  "bs_handle_evse_replug env value y = y\<lparr>serial := serial_replug env value (serial y)\<rparr>"

definition bs_handle_read_pp_ampacity :: "yeti \<Rightarrow> float_t" where
  "bs_handle_read_pp_ampacity y = max_current_A_import (caps y)"

definition bs_handle_get_hw_capabilities :: "yeti \<Rightarrow> HardwareCapabilities" where
  "bs_handle_get_hw_capabilities y = caps y"

definition sim_handle_enable :: "link_env \<Rightarrow> bool \<Rightarrow> yeti \<Rightarrow> yeti" where
  "sim_handle_enable env value y = y\<lparr>serial := serial_enableSimulation env value (serial y)\<rparr>"

definition sim_handle_setSimulationData :: "link_env \<Rightarrow> SimulationData \<Rightarrow> yeti \<Rightarrow> yeti" where
  "sim_handle_setSimulationData env d y = y\<lparr>serial := serial_setSimulationData env d (serial y)\<rparr>"

end
