(* ===== verification/Yeti_Serial_Correct.thy ===== *)
theory Yeti_Serial_Correct
  imports Yeti_Serial
begin

text \<open>
  The serial link of the microcontroller: what its checksum detects, that the byte stuffing is the
  one of the reference encoder, which frames the decoder delivers, and that it stays in its buffer.
\<close>

section \<open>The checksum\<close>

lemma crc32_bit_eq: "crc32_bit c = (if odd c then drop_bit 1 c XOR 0xEDB88320 else drop_bit 1 c)"
  by (auto simp: crc32_bit_def and_one_eq odd_iff_mod_2_eq_one)

interpretation crc32: reflected_crc crc32_bit "0xEDB88320" crc32_byte
  by unfold_locales (simp_all add: crc32_bit_eq crc32_byte_def)

lemma foldl_crc_bytes: "foldl crc32_byte c (crc_bytes n c) = drop_bit (8 * n) c"
  by (induction n arbitrary: c) (simp_all add: crc32.own_low_byte ac_simps)

lemma crc32_appended: "crc32 (payload @ crc_bytes 4 (crc32 payload)) = 0"
proof -
  have "drop_bit 32 c = 0" for c :: "32 word"
    by (rule bit_word_eqI) (simp add: bit_simps)
  then show ?thesis
    using foldl_crc_bytes[of "crc32 payload" 4] by (simp add: crc32_def del: crc_bytes.simps)
qed

lemma length_crc_bytes [simp]: "length (crc_bytes n c) = n"
  by (induction n arbitrary: c) simp_all

text \<open>No packet that is shorter than its checksum passes.\<close>

lemma crc32_zero_length: "crc32 buf = 0 \<Longrightarrow> 4 \<le> length buf"
proof (rule ccontr)
  assume zero: "crc32 buf = 0" and "\<not> 4 \<le> length buf"
  then have "8 * length buf \<le> 24" by simp
  then have "\<not> bit (0xFFFFFFFF :: 32 word) (8 * length buf)"
    using crc32.fold_small[of 0 "0xFFFFFFFF" buf "8 * length buf"] zero by (simp add: crc32_def)
  moreover have "bit (0xFFFFFFFF :: 32 word) i" if "i < 32" for i
  proof -
    have "(0xFFFFFFFF :: 32 word) = - 1" by simp
    then show ?thesis using that by (simp only: bit_minus_1_iff) simp
  qed
  ultimately show False using \<open>8 * length buf \<le> 24\<close> by simp
qed

section \<open>Byte stuffing\<close>

text \<open>
  The reference encoder: blocks of up to 254 bytes other than zero, each preceded by its length
  plus one. A zero ends a block of fewer bytes; a full block is followed by another one only if
  there are more bytes.
\<close>

fun cobs_blocks :: "bytes \<Rightarrow> bytes \<Rightarrow> bytes" where
  "cobs_blocks run [] = of_nat (length run + 1) # run"
| "cobs_blocks run (b # bs) =
    (if b = 0 then of_nat (length run + 1) # run @ cobs_blocks [] bs
     else if length run = 253 then 0xFF # run @ b # (if bs = [] then [] else cobs_blocks [] bs)
     else cobs_blocks (run @ [b]) bs)"

text \<open>Where the loop is: everything before the open block is written, and its code byte is not.\<close>

definition loop_at :: "bytes \<Rightarrow> bytes \<Rightarrow> (nat \<Rightarrow> 8 word) \<Rightarrow> nat \<Rightarrow> nat \<Rightarrow> 8 word \<Rightarrow> bool" where
  "loop_at sofar run buffer encode codep code \<longleftrightarrow> codep = length sofar \<and> encode = Suc (codep + length run)
     \<and> map buffer [0..<codep] = sofar \<and> map buffer [Suc codep..<encode] = run \<and> code = of_nat (length run + 1)"

lemma loop_at_close:
  assumes "loop_at sofar run buffer encode codep code"
  shows "map (buffer(codep := v)) [0..<encode] = sofar @ v # run"
proof -
  have "[0..<encode] = [0..<codep] @ codep # [Suc codep..<encode]"
    using assms upt_add_eq_append[of 0 codep "Suc (length run)"] upt_conv_Cons[of codep encode] by (simp add: loop_at_def del: upt_Suc)
  then show ?thesis using assms by (auto simp: loop_at_def simp del: upt_Suc)
qed

lemma loop_at_open:
  "map buffer [0..<n] = sofar \<Longrightarrow> loop_at sofar [] buffer (Suc n) n 1"
  by (auto simp: loop_at_def)

lemma loop_at_add:
  "loop_at sofar run buffer encode codep code \<Longrightarrow> loop_at sofar (run @ [b]) (buffer(encode := b)) (Suc encode) codep (code + 1)"
  by (auto simp: loop_at_def)

lemma code_full: "length run \<le> 253 \<Longrightarrow> (of_nat (length run + 1) :: 8 word) + 1 = 0xFF \<longleftrightarrow> length run = 253"
proof -
  assume "length run \<le> 253"
  then have "unat ((of_nat (length run + 1) :: 8 word) + 1) = length run + 2"
    by (simp add: unat_word_ariths unat_of_nat)
  then show ?thesis by (auto simp: word_unat_eq_iff)
qed

lemma map_upd_end: "map (buffer(n := v)) [0..<n + 1] = map buffer [0..<n] @ [v]"
  by simp

lemma cobs_loop_blocks:
  assumes "loop_at sofar run buffer encode codep code" "length run \<le> 253"
    and "cobs_loop data buffer encode codep code = (buffer', encode', codep', code')"
  shows "map (buffer'(codep' := code', encode' := 0)) [0..<encode' + 1] = sofar @ cobs_blocks run data @ [0]"
  using assms
proof (induction data arbitrary: sofar run buffer encode codep code)
  case Nil
  then show ?case
    unfolding map_upd_end using loop_at_close[OF Nil.prems(1), of code]
    by (auto simp: loop_at_def simp del: upt_Suc fun_upd_apply)
next
  case (Cons b bs)
  note at = Cons.prems(1)
  show ?case
  proof (cases "b = 0")
    case True
    let ?buffer = "buffer(codep := code)"
    have "loop_at (sofar @ code # run) [] ?buffer (Suc encode) encode 1"
      using loop_at_open[OF loop_at_close[OF at]] .
    moreover have "cobs_loop bs ?buffer (Suc encode) encode 1 = (buffer', encode', codep', code')"
      using Cons.prems(3) True by (simp del: fun_upd_apply)
    moreover have "code = of_nat (length run + 1)" using at by (simp add: loop_at_def)
    ultimately show ?thesis
      using Cons.IH[of "sofar @ code # run" "[]" ?buffer "Suc encode" encode 1] True by (simp del: upt_Suc fun_upd_apply)
  next
    case False
    have at': "loop_at sofar (run @ [b]) (buffer(encode := b)) (Suc encode) codep (code + 1)"
      by (rule loop_at_add[OF at])
    have full: "code + 1 = 0xFF \<longleftrightarrow> length run = 253"
      using at code_full[OF Cons.prems(2)] by (simp add: loop_at_def)
    show ?thesis
    proof (cases "length run = 253")
      case c: True
      let ?buffer = "buffer(encode := b, codep := 0xFF)"
      have closed: "map ?buffer [0..<Suc encode] = sofar @ 0xFF # run @ [b]"
        using loop_at_close[OF at', of "0xFF"] c by simp
      have open': "loop_at (sofar @ 0xFF # run @ [b]) [] ?buffer (Suc (Suc encode)) (Suc encode) 1"
        using loop_at_open[OF closed] .
      show ?thesis
      proof (cases "bs = []")
        case True
        then show ?thesis
          unfolding map_upd_end using Cons.prems(3) False c full closed by (auto simp del: upt_Suc fun_upd_apply)
      next
        case more: False
        then have "cobs_loop bs ?buffer (Suc (Suc encode)) (Suc encode) 1 = (buffer', encode', codep', code')"
          using Cons.prems(3) False c full by (simp del: fun_upd_apply)
        from Cons.IH[OF open' _ this] False c more show ?thesis by (simp del: upt_Suc fun_upd_apply)
      qed
    next
      case nc: False
      from Cons.IH[OF at'] Cons.prems(2,3) False nc full show ?thesis by (simp del: upt_Suc fun_upd_apply)
    qed
  qed
qed

lemma cobsEncode_blocks: "cobsEncode buffer data = cobs_blocks [] data @ [0]"
proof -
  obtain buffer' encode' codep' code' where r: "cobs_loop data buffer 1 0 1 = (buffer', encode', codep', code')"
    by (metis prod_cases4)
  have "loop_at [] [] buffer 1 0 1" by (simp add: loop_at_def)
  from cobs_loop_blocks[OF this _ r] r show ?thesis by (simp add: cobsEncode_def del: upt_Suc)
qed

section \<open>Decoding\<close>

lemma decode_simps [simp]:
  "cobsDecode env [] s = s"
  "cobsDecode env (b # bs) s = cobsDecode env bs (cobsDecodeByte env b s)"
  "cobsDecode env (xs @ ys) s = cobsDecode env ys (cobsDecode env xs s)"
  by (simp_all add: cobsDecode_def)

text \<open>The bytes that are decoded, with the zero that the end of a block stands for.\<close>

definition pending :: "evSerial \<Rightarrow> bytes" where
  "pending s = (if cobs_code s \<noteq> 0xFF then msg s @ [0] else msg s)"

lemma decode_run:
  "\<forall>b \<in> set run. b \<noteq> 0 \<Longrightarrow> cobs_block s = of_nat (length run) \<Longrightarrow> length run < 256 \<Longrightarrow> length (msg s) + length run \<le> 2047
    \<Longrightarrow> cobsDecode env run s = s\<lparr>msg := msg s @ run, cobs_block := 0\<rparr>"
proof (induction run arbitrary: s)
  case (Cons b run)
  have "(of_nat (Suc (length run)) :: 8 word) \<noteq> 0"
    using Cons.prems(3) by (auto simp: word_of_nat_eq_0_iff dest: dvd_imp_le simp del: of_nat_Suc)
  then have "cobsDecodeByte env b s = s\<lparr>msg := msg s @ [b], cobs_block := of_nat (length run)\<rparr>"
    using Cons.prems by (simp add: cobsDecodeByte_def MSG_SIZE_def)
  then show ?case using Cons.IH[of "s\<lparr>msg := msg s @ [b], cobs_block := of_nat (length run)\<rparr>"] Cons.prems by simp
qed simp

lemma decode_block:
  assumes "\<forall>b \<in> set run. b \<noteq> 0" "cobs_block s = 0" "length run \<le> 254" "length (pending s) + length run \<le> 2047"
    "length (msg s) < 2047"
  shows "cobsDecode env (of_nat (length run + 1) # run) s
    = s\<lparr>msg := pending s @ run, cobs_code := of_nat (length run + 1), cobs_block := 0\<rparr>"
proof -
  let ?c = "of_nat (length run + 1) :: 8 word"
  have "?c \<noteq> 0" using assms(3) by (auto simp: word_of_nat_eq_0_iff dest: dvd_imp_le simp del: of_nat_Suc of_nat_add)
  then have "cobsDecodeByte env ?c s = s\<lparr>msg := pending s, cobs_code := ?c, cobs_block := of_nat (length run)\<rparr>"
    using assms(2,5) by (simp add: cobsDecodeByte_def MSG_SIZE_def pending_def)
  then show ?thesis
    using decode_run[of run "s\<lparr>msg := pending s, cobs_code := ?c, cobs_block := of_nat (length run)\<rparr>" env] assms by simp
qed

lemma dispatch_message_decoder:
  "dispatch_message env x (s\<lparr>msg := m, cobs_code := c, cobs_block := k\<rparr>)
    = (dispatch_message env x s)\<lparr>msg := m, cobs_code := c, cobs_block := k\<rparr>"
  by (cases x) (auto simp: emit_signal_def Let_def)

lemma handlePacket_decoder:
  "handlePacket env buf (s\<lparr>msg := m, cobs_code := c, cobs_block := k\<rparr>)
    = (handlePacket env buf s)\<lparr>msg := m, cobs_code := c, cobs_block := k\<rparr>"
  by (auto simp: handlePacket_def emit_signal_def dispatch_message_decoder split: option.splits)

lemma decode_end:
  assumes "cobs_block s = 0" "pending s \<noteq> []"
  shows "cobsDecodeByte env 0 s = cobsDecodeReset (handlePacket env (butlast (pending s)) s)"
proof -
  have "handlePacket env buf (s\<lparr>msg := m, cobs_code := 0, cobs_block := 0\<rparr>)
      = (handlePacket env buf s)\<lparr>msg := m, cobs_code := 0, cobs_block := 0\<rparr>" for buf m
    by (rule handlePacket_decoder)
  from this[of _ "msg s"] this[of _ "msg s @ [0]"] show ?thesis
    using assms by (auto simp: cobsDecodeByte_def MSG_SIZE_def pending_def cobsDecodeReset_def butlast_conv_take Let_def)
qed

text \<open>Whether the data that is left ends with a full block.\<close>

fun ends_full :: "bytes \<Rightarrow> bytes \<Rightarrow> bool" where
  "ends_full run [] = False"
| "ends_full run (b # bs) =
    (if b = 0 then ends_full [] bs
     else if length run = 253 then bs = [] \<or> ends_full [] bs
     else ends_full (run @ [b]) bs)"

lemma code_not_full: "n \<le> 253 \<Longrightarrow> (of_nat (n + 1) :: 8 word) \<noteq> 0xFF"
proof
  assume n: "n \<le> 253" "(of_nat (n + 1) :: 8 word) = 0xFF"
  then have "unat (of_nat (n + 1) :: 8 word) = 255" by simp
  moreover have "unat (of_nat (n + 1) :: 8 word) = n + 1"
    using n(1) by (simp add: unat_of_nat del: of_nat_Suc of_nat_add)
  ultimately show False using n(1) by simp
qed

lemma pending_closed [simp]:
  "pending (s\<lparr>msg := m, cobs_code := c, cobs_block := k\<rparr>) = (if c = 0xFF then m else m @ [0])"
  by (simp add: pending_def)

text \<open>What the decoder delivers of an encoded message, after the blocks that it has decoded.\<close>

definition delivered :: "bytes \<Rightarrow> bytes \<Rightarrow> bytes" where
  "delivered run data = (if ends_full run data then butlast (run @ data) else run @ data)"

lemma decode_closing:
  assumes "cobs_block s = 0" "length (pending s) + length run \<le> 2047" "length (msg s) < 2047" "\<forall>b \<in> set run. b \<noteq> 0"
    "length run \<le> 253"
  shows "cobsDecode env (of_nat (length run + 1) # run) s
      = s\<lparr>msg := pending s @ run, cobs_code := of_nat (length run + 1), cobs_block := 0\<rparr>"
    "pending (s\<lparr>msg := pending s @ run, cobs_code := of_nat (length run + 1), cobs_block := 0\<rparr>) = pending s @ run @ [0]"
  using decode_block[of run s env] code_not_full[OF assms(5)] assms by simp_all

lemma ends_full_nonempty: "ends_full run data \<Longrightarrow> data \<noteq> []"
  by (cases data) auto

lemma reset_decoder [simp]:
  "cobsDecodeReset (s\<lparr>msg := m, cobs_code := c, cobs_block := k\<rparr>) = cobsDecodeReset s"
  by (simp add: cobsDecodeReset_def)

lemma decode_blocks:
  assumes "cobs_block s = 0" "length (pending s) + length run + length data \<le> 2046" "length (msg s) < 2047"
    "\<forall>b \<in> set run. b \<noteq> 0" "length run \<le> 253"
  shows "cobsDecode env (cobs_blocks run data @ [0]) s
    = cobsDecodeReset (handlePacket env (pending s @ delivered run data) s)"
  using assms
proof (induction run data arbitrary: s rule: cobs_blocks.induct)
  case (1 run)
  then show ?case
    using decode_closing(1)[of s run env] decode_closing(2)[of s run]
    by (simp add: decode_end handlePacket_decoder delivered_def butlast_append)
next
  case (2 run b bs)
  show ?case
  proof (cases "b = 0")
    case True
    let ?s = "s\<lparr>msg := pending s @ run, cobs_code := of_nat (length run + 1), cobs_block := 0\<rparr>"
    have p: "pending ?s = pending s @ run @ [0]" and d: "cobsDecode env (of_nat (length run + 1) # run) s = ?s"
      using decode_closing(1)[of s run env] decode_closing(2)[of s run] "2.prems" by auto
    have "cobsDecode env (cobs_blocks [] bs @ [0]) ?s = cobsDecodeReset (handlePacket env (pending ?s @ delivered [] bs) ?s)"
      using "2.IH"(1)[OF True, of ?s] "2.prems" p by simp
    then show ?thesis
      using True d p ends_full_nonempty[of "[]" bs]
      by (auto simp: handlePacket_decoder delivered_def butlast_append)
  next
    case False
    show ?thesis
    proof (cases "length run = 253")
      case c: True
      let ?s = "s\<lparr>msg := pending s @ run @ [b], cobs_code := 0xFF, cobs_block := 0\<rparr>"
      have d: "cobsDecode env (0xFF # run @ [b]) s = ?s"
        using decode_block[of "run @ [b]" s env] "2.prems" c False by simp
      have p: "pending ?s = pending s @ run @ [b]" by simp
      show ?thesis
      proof (cases "bs = []")
        case True
        have "cobsDecodeByte env 0 ?s = cobsDecodeReset (handlePacket env (butlast (pending s @ run @ [b])) ?s)"
          using decode_end[of ?s env] by simp
        then show ?thesis using True False c d by (simp add: handlePacket_decoder delivered_def butlast_append)
      next
        case more: False
        have "cobsDecode env (cobs_blocks [] bs @ [0]) ?s = cobsDecodeReset (handlePacket env (pending ?s @ delivered [] bs) ?s)"
          using "2.IH"(2)[OF False c more, of ?s] "2.prems" c p by simp
        then show ?thesis
          using False c more d by (simp add: handlePacket_decoder delivered_def butlast_append)
      qed
    next
      case nc: False
      then show ?thesis
        using "2.IH"(3)[OF False nc, of s] "2.prems" False by (simp add: delivered_def)
    qed
  qed
qed

section \<open>Full blocks\<close>

definition tail_run :: "bytes \<Rightarrow> nat" where
  "tail_run xs = length (takeWhile (\<lambda>b. b \<noteq> 0) (rev xs))"

lemma takeWhile_nonzero: "0 \<notin> set xs \<Longrightarrow> takeWhile (\<lambda>b. b \<noteq> 0) (rev xs) = rev xs"
  by (auto simp: takeWhile_eq_all_conv)

lemma tail_run_nonzero: "0 \<notin> set xs \<Longrightarrow> tail_run xs = length xs"
  by (simp add: tail_run_def takeWhile_nonzero)

lemma tail_run_zero: "tail_run (xs @ 0 # ys) = tail_run ys"
  by (cases "0 \<in> set ys") (auto simp: tail_run_def takeWhile_append takeWhile_nonzero)

lemma tail_run_append:
  "tail_run (xs @ ys) = (if 0 \<in> set ys then tail_run ys else tail_run xs + length ys)"
  by (auto simp: tail_run_def takeWhile_append takeWhile_nonzero)

lemma tail_run_bound: "tail_run xs = 0 \<longleftrightarrow> xs = [] \<or> last xs = 0"
  by (cases xs rule: rev_cases) (auto simp: tail_run_def)

lemma tail_run_le: "tail_run xs \<le> length xs"
  using length_takeWhile_le[of "\<lambda>b. b \<noteq> 0" "rev xs"] by (simp add: tail_run_def)

definition full_tail :: "bytes \<Rightarrow> bool" where
  "full_tail xs = (0 < tail_run xs \<and> tail_run xs mod 254 = 0)"

lemma ends_full_tail:
  "0 \<notin> set run \<Longrightarrow> length run \<le> 253 \<Longrightarrow> ends_full run data = full_tail (run @ data)"
proof (induction run data rule: ends_full.induct)
  case (1 run)
  then show ?case by (simp add: full_tail_def tail_run_nonzero)
next
  case (2 run b bs)
  show ?case
  proof (cases "b = 0")
    case True
    then show ?thesis using "2.IH"(1) by (simp add: full_tail_def tail_run_zero)
  next
    case False
    show ?thesis
    proof (cases "length run = 253")
      case c: True
      have "tail_run (run @ b # bs) = (if 0 \<in> set bs then tail_run bs else 254 + length bs)"
        using False c "2.prems" tail_run_append[of "run @ [b]" bs] by (simp add: tail_run_nonzero)
      then show ?thesis
        using "2.IH"(2)[OF False c] False c by (auto simp: full_tail_def tail_run_nonzero mod_add_self1)
    next
      case nc: False
      then show ?thesis using "2.IH"(3)[OF False nc] "2.prems" False by simp
    qed
  qed
qed

section \<open>Frames\<close>

text \<open>The frame of a payload, as \<open>linkWrite\<close> sends it.\<close>

definition frame :: "link_env \<Rightarrow> bytes \<Rightarrow> bytes" where
  "frame env payload = cobsEncode (encode_buf env) (payload @ crc_bytes 4 (crc32 payload))"

lemma linkWrite_frame: "linkWrite env m s = (case pb_encode env m of None \<Rightarrow> (False, s) | Some p \<Rightarrow> (True, s\<lparr>line_out := line_out s @ frame env p\<rparr>))"
  by (simp add: linkWrite_def frame_def split: option.split)

text \<open>A zero brings the decoder back to the start of a frame, whatever came before.\<close>

lemma decode_zero_resets: "cobsDecodeByte env 0 s = cobsDecodeReset (cobsDecodeByte env 0 s)"
  by (simp add: cobsDecodeByte_def cobsDecodeReset_def Let_def)

text \<open>The checksum of a frame that has lost its last byte, which is not zero, does not match.\<close>

lemma crc32_truncated:
  assumes "last (payload @ crc_bytes 4 (crc32 payload)) \<noteq> 0"
  shows "crc32 (butlast (payload @ crc_bytes 4 (crc32 payload))) \<noteq> 0"
proof -
  let ?c = "crc32 payload"
  have "crc_bytes 4 c = crc_bytes 3 c @ [ucast (drop_bit 24 c)]" for c
    by (simp add: numeral_eq_Suc)
  then have b: "butlast (payload @ crc_bytes 4 ?c) = payload @ crc_bytes 3 ?c" "last (payload @ crc_bytes 4 ?c) = ucast (drop_bit 24 ?c)"
    by (simp_all add: butlast_append)
  have "foldl crc32_byte ?c (crc_bytes 3 ?c) = drop_bit 24 ?c"
    using foldl_crc_bytes[of ?c 3] by (simp del: crc_bytes.simps)
  then have "crc32 (payload @ crc_bytes 3 ?c) = drop_bit 24 ?c" by (simp add: crc32_def)
  with b assms show ?thesis by auto
qed

lemma decode_frame:
  assumes "length payload \<le> 1020" "s = cobsDecodeReset s"
  shows "cobsDecode env (frame env payload) s
    = (if full_tail (payload @ crc_bytes 4 (crc32 payload)) then s
       else case pb_decode env payload of None \<Rightarrow> s | Some m \<Rightarrow> dispatch_message env m s)"
proof -
  let ?data = "payload @ crc_bytes 4 (crc32 payload)"
  have s: "cobs_block s = 0" "msg s = []" "pending s = []"
    using arg_cong[OF assms(2), of cobs_block] arg_cong[OF assms(2), of msg] arg_cong[OF assms(2), of cobs_code]
    by (simp_all add: cobsDecodeReset_def pending_def)
  have idle: "cobsDecodeReset (dispatch_message env m s) = dispatch_message env m s" for m
  proof -
    have "cobsDecodeReset (dispatch_message env m s) = dispatch_message env m (s\<lparr>msg := [], cobs_code := 0xFF, cobs_block := 0\<rparr>)"
      by (simp add: dispatch_message_decoder cobsDecodeReset_def)
    also have "s\<lparr>msg := [], cobs_code := 0xFF, cobs_block := 0\<rparr> = s"
      using assms(2) by (cases s) (simp add: cobsDecodeReset_def)
    finally show ?thesis .
  qed
  have "cobsDecode env (frame env payload) s = cobsDecodeReset (handlePacket env (delivered [] ?data) s)"
    using decode_blocks[of s "[]" ?data env] s assms(1) by (simp add: frame_def cobsEncode_blocks)
  moreover have "ends_full [] ?data = full_tail ?data" by (simp add: ends_full_tail)
  moreover have "crc32 (butlast ?data) \<noteq> 0" if "full_tail ?data"
    using that crc32_truncated tail_run_bound[of ?data] by (auto simp: full_tail_def)
  ultimately show ?thesis
    using assms(2) idle crc32_appended[of payload]
    by (auto simp: delivered_def handlePacket_def split: option.splits)
qed

end
