(* ===== verification/Yeti_Properties.thy ===== *)
theory Yeti_Properties
  imports Yeti_Driver Yeti_Serial_Correct
begin

text \<open>
  Properties of the link to the microcontroller and of the driver: which frames arrive, that the
  decoder stays within its buffer, what corruption is detected, and the wait for the hardware
  capabilities.
\<close>

section \<open>Frames arrive\<close>

text \<open>
  C26: A frame that follows a zero is delivered whatever the line carried before: its payload reaches
  the decoder of the messages unchanged, and nothing else happens. The exception are frames whose
  bytes end with a run of non-zero bytes that fills its last block of 254: the decoder drops their
  last byte and they are lost.
\<close>

theorem frame_delivered_unless_full_block:
  assumes "length payload \<le> 1020"
  shows "cobsDecode env (garbage @ 0 # frame env payload) s =
    (let s = cobsDecode env (garbage @ [0]) s
     in if full_tail (payload @ crc_bytes 4 (crc32 payload)) then s
        else case pb_decode env payload of None \<Rightarrow> s | Some m \<Rightarrow> dispatch_message env m s)"
proof -
  let ?s = "cobsDecode env (garbage @ [0]) s"
  have "?s = cobsDecodeReset ?s" using decode_zero_resets by simp
  from decode_frame[OF assms this, of env] show ?thesis by (simp add: Let_def split: option.split)
qed

definition sample_link :: link_env where
  "sample_link = \<lparr>pb_encode = (\<lambda>_. Some [1, 2, 0, 3]), pb_decode = (\<lambda>_. Some (LoToHi_event IE_POWER_ON)),
     encode_buf = (\<lambda>_. 7), utc_now = 1000, unix_timestamp = 1\<rparr>"

theorem frame_delivered_unless_full_block_witness:
  "cobsDecode sample_link ([9, 9] @ 0 # frame sample_link [1, 2, 0, 3]) new_evSerial
    = dispatch_message sample_link (LoToHi_event IE_POWER_ON) (cobsDecode sample_link [9, 9, 0] new_evSerial)"
proof -
  have "length ([1, 2, 0, 3] :: bytes) \<le> 1020" by simp
  moreover have "\<not> full_tail ([1, 2, 0, 3] @ crc_bytes 4 (crc32 [1, 2, 0, 3]))"
    using tail_run_le[of "[1, 2, 0, 3] @ crc_bytes 4 (crc32 [1, 2, 0, 3])"] by (auto simp: full_tail_def)
  ultimately show ?thesis
    using frame_delivered_unless_full_block[of "[1, 2, 0, 3]" sample_link "[9, 9]" new_evSerial]
    by (simp add: sample_link_def)
qed

section \<open>The decoder stays in bounds\<close>

lemma dispatch_message_frame [simp]:
  "msg (dispatch_message env m s) = msg s"
  "Read_past_buffer \<in> set (signals (dispatch_message env m s)) \<longleftrightarrow> Read_past_buffer \<in> set (signals s)"
  by (cases m; simp add: emit_signal_def Let_def)+

lemma handlePacket_in_bounds [simp]:
  "Read_past_buffer \<in> set (signals (handlePacket env buf s)) \<longleftrightarrow> Read_past_buffer \<in> set (signals s)"
  using crc32_zero_length[of buf] by (auto simp: handlePacket_def split: option.splits)

definition in_bounds :: "evSerial \<Rightarrow> bool" where
  "in_bounds s \<longleftrightarrow> length (msg s) \<le> 2047 \<and> Read_past_buffer \<notin> set (signals s)"

lemma decode_byte_in_bounds: "in_bounds s \<Longrightarrow> in_bounds (cobsDecodeByte env b s)"
  by (auto simp: in_bounds_def cobsDecodeByte_def cobsDecodeReset_def MSG_SIZE_def Let_def)

interpretation decoder: invariant_system "\<lambda>s. s = new_evSerial" "\<lambda>s b t. t = cobsDecodeByte env b s" in_bounds for env
  by unfold_locales (simp add: new_evSerial_def in_bounds_def, simp add: decode_byte_in_bounds)

lemma decoded_reachable:
  "reach init (\<lambda>s b t. t = cobsDecodeByte env b s) s \<Longrightarrow> reach init (\<lambda>s b t. t = cobsDecodeByte env b s) (cobsDecode env bs s)"
proof (induction bs arbitrary: s)
  case (Cons b bs)
  then show ?case using reach_step[OF Cons.prems, of "cobsDecodeByte env b s" b] by simp
qed simp

text \<open>
  C30: Whatever bytes arrive, the position in the packet buffer of 2048 bytes stays below its end
  before every byte, of which each writes at most one, and the decoder of the messages is never
  given more bytes than the packet has: every packet that passes the checksum holds one.
\<close>

theorem serial_decoder_in_bounds:
  "let s = cobsDecode env bs new_evSerial
   in length (msg s) < 2048 \<and> length (msg (cobsDecodeByte env b s)) \<le> Suc (length (msg s))
      \<and> Read_past_buffer \<notin> set (signals s)"
proof -
  let ?s = "cobsDecode env bs new_evSerial"
  have "reach (\<lambda>s. s = new_evSerial) (\<lambda>s b t. t = cobsDecodeByte env b s) ?s"
    by (intro decoded_reachable reach_init) simp
  then have "in_bounds ?s" by (rule decoder.reach_inv)
  then show ?thesis
    by (auto simp: in_bounds_def cobsDecodeByte_def cobsDecodeReset_def Let_def)
qed

section \<open>Corruption\<close>

text \<open>
  A packet with a valid checksum has none after any single byte of it, payload or checksum, has
  been changed: it is dropped without an effect.
\<close>

theorem corrupted_packet_dropped:
  assumes "crc32 packet = 0" "i < length packet" "b \<noteq> packet ! i"
  shows "handlePacket env (packet[i := b]) s = s"
proof -
  have "crc32 (packet[i := b]) \<noteq> crc32 packet"
    using crc32.fold_single_change[of i packet "0xFFFFFFFF" b] assms(2,3) by (auto simp: crc32_def)
  then show ?thesis using assms(1) by (simp add: handlePacket_def)
qed

theorem corrupted_packet_dropped_witness:
  "let packet = crc_bytes 4 (crc32 [])
   in crc32 packet = 0 \<and> handlePacket sample_link (packet[2 := packet ! 2 + 1]) new_evSerial = new_evSerial"
proof -
  have "crc32 (crc_bytes 4 (crc32 [])) = 0" using crc32_appended[of "[]"] by simp
  with corrupted_packet_dropped[OF this, of 2 "crc_bytes 4 (crc32 []) ! 2 + 1" sample_link new_evSerial] show ?thesis
    by simp
qed

section \<open>The wait for the capabilities\<close>

lemma wait_caps_result:
  "i \<le> 50 \<Longrightarrow> wait_caps seen i = (case filter seen [i..<50] of [] \<Rightarrow> 50 | j # _ \<Rightarrow> j)"
proof (induction seen i rule: wait_caps.induct)
  case (1 seen i)
  show ?case
  proof (cases "i < 50")
    case True
    then have "[i..<50] = i # [i + 1..<50]" by (simp add: upt_conv_Cons)
    then show ?thesis using "1.IH"[OF True] True by (subst wait_caps.simps) auto
  qed (use "1.prems" in \<open>subst wait_caps.simps, simp\<close>)
qed

text \<open>
  C38: The start of the board support fails exactly when the capabilities are seen for the first time
  in the last round of the wait. When they are never received it goes on as if they had been, with
  the limits it began with.
\<close>

theorem missing_capabilities_go_unnoticed:
  "board_support_ready seen = (if seen 49 \<and> (\<forall>i < 49. \<not> seen i) then Inl Caps_not_received else Inr ())"
proof -
  have "filter seen [0..<50] = filter seen [0..<49] @ (if seen 49 then [49] else [])"
    using upt_Suc_append[of 0 49] by simp
  then have "wait_caps seen 0 = 49 \<longleftrightarrow> seen 49 \<and> filter seen [0..<49] = []"
    using wait_caps_result[of 0 seen] filter_set[of seen "[0..<49]"]
    by (cases "filter seen [0..<49]") (auto dest!: arg_cong[of _ _ set])
  moreover have "filter seen [0..<49] = [] \<longleftrightarrow> (\<forall>i < 49. \<not> seen i)" by (auto simp: filter_empty_conv)
  ultimately show ?thesis by (simp add: board_support_ready_def)
qed

theorem missing_capabilities_go_unnoticed_witness:
  "board_support_ready (\<lambda>_. False) = Inr () \<and> board_support_ready (\<lambda>i. i = 49) = Inl Caps_not_received"
  by (simp add: missing_capabilities_go_unnoticed)

end
