(* ===== verification/Nfc_Reader.thy ===== *)
theory Nfc_Reader
  imports Auth_Connector "HOL-Library.Word"
begin

text \<open>
  The token provider for the PN532 reader (\<open>modules/PN532TokenProvider\<close>): the frames of its serial
  protocol, the thread that reads them, the promises through which the answers reach the main loop
  and the tokens that it publishes. A result is \<open>Inl\<close> when the code throws. The debug output is not
  modelled.
\<close>

unbundle bit_operations_syntax

section \<open>Messages and state\<close>

record FirmwareVersion =
  fw_ic :: "8 word"
  fw_ver :: "8 word"
  fw_rev :: "8 word"
  fw_support :: "8 word"

record TargetData =
  tg :: "8 word"
  sens_res_msb :: "8 word"
  sens_res_lsb :: "8 word"
  sens_res :: "16 word"
  sel_res :: "8 word"
  nfcid_length :: "8 word"
  nfcid :: "8 word list"
  ats :: "8 word list"

record InListPassiveTargetResponse =
  nbtg :: "8 word"
  target_data :: "TargetData list"

record firmware_response =
  fw_valid :: bool
  fw_message :: "FirmwareVersion option"

record target_response =
  target_valid :: bool
  target_message :: InListPassiveTargetResponse

datatype 'a promise = No_promise | Waiting | Satisfied 'a

datatype pn532_error = Promise_already_satisfied

text \<open>
  \<open>rxbuf\<close> is the buffer that the calls of \<open>read\<close> fill; it keeps what earlier calls have left.
\<close>

record pn532 =
  start_of_packet :: nat
  packet_length :: nat
  preamble_start_seen :: bool
  preamble_seen :: bool
  first_data :: bool
  data_length_checksum_valid :: bool
  tfi :: "8 word"
  command_code :: "8 word"
  pdata :: "8 word list"
  rxbuf :: "nat \<Rightarrow> 8 word"
  configure_sam_promise :: "bool promise"
  get_firmware_version_promise :: "firmware_response promise"
  in_list_passive_target_promise :: "target_response promise"
  serial_written :: "8 word list"

definition COMMAND_GET_FIRMWARE_VERSION :: "8 word" where "COMMAND_GET_FIRMWARE_VERSION = 0x02"
definition COMMAND_GET_FIRMWARE_VERSION_RESPONSE :: "8 word" where "COMMAND_GET_FIRMWARE_VERSION_RESPONSE = 0x03"
definition COMMAND_SAM_CONFIGURATION :: "8 word" where "COMMAND_SAM_CONFIGURATION = 0x14"
definition COMMAND_SAM_CONFIGURATION_RESPONSE :: "8 word" where "COMMAND_SAM_CONFIGURATION_RESPONSE = 0x15"
definition COMMAND_IN_LIST_PASSIVE_TARGET :: "8 word" where "COMMAND_IN_LIST_PASSIVE_TARGET = 0x4a"
definition COMMAND_IN_LIST_PASSIVE_TARGET_RESPONSE :: "8 word" where "COMMAND_IN_LIST_PASSIVE_TARGET_RESPONSE = 0x4b"

definition resetDataRead :: "pn532 \<Rightarrow> pn532" where
  "resetDataRead p = p\<lparr>start_of_packet := 0, packet_length := 0, preamble_start_seen := False, preamble_seen := False,
     first_data := True, data_length_checksum_valid := False, tfi := 0, command_code := 0, pdata := []\<rparr>"

section \<open>Answers\<close>

definition set_value :: "'a promise \<Rightarrow> 'a \<Rightarrow> (pn532_error, 'a promise) result" where
  "set_value pr v = (case pr of Satisfied _ \<Rightarrow> Inl Promise_already_satisfied | _ \<Rightarrow> Inr (Satisfied v))"

definition firmware_answer :: "8 word list \<Rightarrow> firmware_response" where
  "firmware_answer d =
    (case d of
       [a, b, c, e] \<Rightarrow> \<lparr>fw_valid = True, fw_message = Some \<lparr>fw_ic = a, fw_ver = b, fw_rev = c, fw_support = e\<rparr>\<rparr>
     | _ \<Rightarrow> \<lparr>fw_valid = False, fw_message = None\<rparr>)"

definition parse_ats :: "8 word list \<Rightarrow> nat \<Rightarrow> 8 word list" where
  "parse_ats d pos =
    (if length d \<ge> pos + 1 \<and> length d \<ge> pos + unat (d ! pos) then take (unat (d ! pos)) (drop pos d) else [])"

definition parseInListPassiveTargetResponse :: "8 word list \<Rightarrow> target_response" where
  "parseInListPassiveTargetResponse d =
    (if length d \<ge> 6 then
       if d ! 0 = 1 then
         let t = \<lparr>tg = d ! 1, sens_res_msb = d ! 2, sens_res_lsb = d ! 3,
                  sens_res = push_bit 8 (ucast (d ! 2)) + ucast (d ! 3), sel_res = d ! 4, nfcid_length = d ! 5,
                  nfcid = [], ats = []\<rparr>;
             n = unat (nfcid_length t);
             ok = (length d \<ge> 6 + n);
             t = (if ok then t\<lparr>nfcid := take n (drop 6 d), ats := parse_ats d (6 + n)\<rparr> else t)
         in \<lparr>target_valid = ok, target_message = \<lparr>nbtg = d ! 0, target_data = [t]\<rparr>\<rparr>
       else \<lparr>target_valid = False, target_message = \<lparr>nbtg = d ! 0, target_data = []\<rparr>\<rparr>
     else \<lparr>target_valid = False, target_message = \<lparr>nbtg = 0, target_data = []\<rparr>\<rparr>)"

definition handle_response :: "8 word \<Rightarrow> 8 word list \<Rightarrow> pn532 \<Rightarrow> (pn532_error, pn532) result" where
  "handle_response cc d p =
    (if cc = COMMAND_GET_FIRMWARE_VERSION_RESPONSE \<and> get_firmware_version_promise p \<noteq> No_promise then
       bind_res (set_value (get_firmware_version_promise p) (firmware_answer d))
         (\<lambda>v. Inr (p\<lparr>get_firmware_version_promise := v\<rparr>))
     else if cc = COMMAND_SAM_CONFIGURATION_RESPONSE \<and> configure_sam_promise p \<noteq> No_promise then
       bind_res (set_value (configure_sam_promise p) True) (\<lambda>v. Inr (p\<lparr>configure_sam_promise := v\<rparr>))
     else if cc = COMMAND_IN_LIST_PASSIVE_TARGET_RESPONSE \<and> in_list_passive_target_promise p \<noteq> No_promise then
       bind_res (set_value (in_list_passive_target_promise p) (parseInListPassiveTargetResponse d))
         (\<lambda>v. Inr (p\<lparr>in_list_passive_target_promise := v\<rparr>))
     else Inr p)"

text \<open>The data of a complete packet with its checksum and postamble.\<close>

definition parseData :: "pn532 \<Rightarrow> (pn532_error, pn532) result" where
  "parseData p =
    (let d = pdata p
     in if last d = 0 \<and> length d \<ge> 2 then
          let d = butlast d; chk = last d; d = butlast d; p = p\<lparr>pdata := d\<rparr>
          in if tfi p + command_code p + chk + sum_list d = 0 then handle_response (command_code p) d p else Inr p
        else Inr p)"

section \<open>Reading\<close>

text \<open>The loop over the indices of the bytes that were read, up to the preamble of a packet.\<close>

fun scan :: "(nat \<Rightarrow> 8 word) \<Rightarrow> nat \<Rightarrow> nat list \<Rightarrow> pn532 \<Rightarrow> pn532" where
  "scan buf n [] p = p"
| "scan buf n (i # js) p =
    (if \<not> preamble_seen p then
       if preamble_start_seen p \<and> buf i = 0xFF then
         let p = p\<lparr>preamble_seen := True, start_of_packet := i + 1\<rparr>
         in if start_of_packet p + 1 \<ge> n then scan buf n js p
            else p\<lparr>packet_length := unat (buf (start_of_packet p)),
                   data_length_checksum_valid := data_length_checksum_valid p
                     \<or> (unat (buf (start_of_packet p)) + unat (buf (start_of_packet p + 1))) mod 256 = 0\<rparr>
       else scan buf n js (p\<lparr>preamble_start_seen := (buf i = 0)\<rparr>)
     else scan buf n js (p\<lparr>pdata := pdata p @ [buf i]\<rparr>))"

text \<open>One round of the reading thread with the bytes that \<open>read\<close> returns.\<close>

definition take_first_data :: "nat \<Rightarrow> pn532 \<Rightarrow> pn532" where
  "take_first_data n p =
    (if first_data p
     then p\<lparr>tfi := rxbuf p (start_of_packet p + 2), command_code := rxbuf p (start_of_packet p + 3), first_data := False,
            pdata := pdata p @ map (rxbuf p) [start_of_packet p + 4..<n]\<rparr>
     else p)"

definition read_chunk :: "8 word list \<Rightarrow> pn532 \<Rightarrow> (pn532_error, pn532) result" where
  "read_chunk chunk p =
    (if chunk = [] then Inr p
     else
       let n = length chunk;
           p = p\<lparr>rxbuf := \<lambda>i. if i < n then chunk ! i else rxbuf p i\<rparr>;
           p = scan (rxbuf p) n [0..<n] p
       in if packet_length p = 0 then Inr (resetDataRead p)
          else if \<not> data_length_checksum_valid p then Inr (resetDataRead p)
          else
            let p = take_first_data n p
            in if length (pdata p) < packet_length p then Inr p
               else bind_res (parseData p) (\<lambda>p. Inr (resetDataRead p)))"

section \<open>Commands\<close>

definition host_to_pn532 :: "8 word" where "host_to_pn532 = 0xd4"

definition serialWriteCommand :: "8 word list \<Rightarrow> pn532 \<Rightarrow> pn532" where
  "serialWriteCommand d p =
    (let data_copy = d @ [host_to_pn532];
         len = of_nat (length data_copy) :: 8 word;
         data_length_checksum = (NOT len) + 1;
         inverse = (NOT (sum_list data_copy)) + 1
     in p\<lparr>serial_written := serial_written p
            @ [0x00, 0x00, 0xff, len, data_length_checksum, host_to_pn532] @ d @ [inverse, 0x00]\<rparr>)"

definition configureSAM :: "pn532 \<Rightarrow> pn532" where
  "configureSAM p =
     serialWriteCommand [COMMAND_SAM_CONFIGURATION, 0x01, 0x00, 0x01] (p\<lparr>configure_sam_promise := Waiting\<rparr>)"

definition getFirmwareVersion :: "pn532 \<Rightarrow> pn532" where
  "getFirmwareVersion p =
     serialWriteCommand [COMMAND_GET_FIRMWARE_VERSION] (p\<lparr>get_firmware_version_promise := Waiting\<rparr>)"

definition inListPassiveTarget :: "pn532 \<Rightarrow> pn532" where
  "inListPassiveTarget p =
     serialWriteCommand [COMMAND_IN_LIST_PASSIVE_TARGET, 0x01, 0x00] (p\<lparr>in_list_passive_target_promise := Waiting\<rparr>)"

definition pn532_reset :: "pn532 \<Rightarrow> pn532" where
  "pn532_reset p = p\<lparr>serial_written := serial_written p @ [0x55, 0x55] @ replicate 14 0\<rparr>"

section \<open>Tokens\<close>

definition hex_digit :: "nat \<Rightarrow> char" where
  "hex_digit d = (if d < 10 then char_of (48 + d) else char_of (87 + d))"

definition getNFCID :: "TargetData \<Rightarrow> string" where
  "getNFCID t = concat (map (\<lambda>b. [hex_digit (unat b div 16), hex_digit (unat b mod 16)]) (nfcid t))"

text \<open>What the main loop publishes for an answer.\<close>

definition published_tokens :: "target_response \<Rightarrow> ProvidedIdToken list" where
  "published_tokens r =
    (if target_valid r
     then map (\<lambda>t. \<lparr>id_token = getNFCID t, token_type = TT_RFID, token_connectors = None, prevalidated = None\<rparr>)
            (target_data (target_message r))
     else [])"

end
