(* ===== verification/Nfc_Properties.thy ===== *)
theory Nfc_Properties
  imports Nfc_Reader
begin

text \<open>
  Properties of the token provider for the PN532 reader: the frames it writes and reads, the way
  from a card to its token, and what repeated answers do to the thread that reads.
\<close>

section \<open>Reading a frame\<close>

text \<open>A frame of the reader with its two checksums.\<close>

definition response_frame :: "8 word \<Rightarrow> 8 word \<Rightarrow> 8 word list \<Rightarrow> 8 word list" where
  "response_frame t cc d =
    (let len = of_nat (length d + 2)
     in [0x00, 0x00, 0xFF, len, - len, t, cc] @ d @ [- (t + cc + sum_list d), 0x00])"

lemma resetDataRead_idle: "resetDataRead p = p \<Longrightarrow> pdata p = [] \<and> \<not> preamble_seen p \<and> \<not> preamble_start_seen p
    \<and> first_data p \<and> packet_length p = 0 \<and> \<not> data_length_checksum_valid p"
  by (cases p) (simp add: resetDataRead_def)

lemma scan_data: "preamble_seen p \<Longrightarrow> scan buf n js p = p\<lparr>pdata := pdata p @ map buf js\<rparr>"
  by (induction js arbitrary: p) simp_all

lemma length_checksum: "(unat (w :: 8 word) + unat (- w)) mod 256 = 0"
proof -
  have "unat (w + - w) = 0" by simp
  then show ?thesis unfolding unat_word_ariths by simp
qed

lemma upt_7: "7 \<le> n \<Longrightarrow> [0..<n] = [0, 1, 2] @ [3..<n]"
  using upt_conv_Cons[of 0 n] upt_conv_Cons[of 1 n] upt_conv_Cons[of 2 n] by (simp add: numeral_2_eq_2 numeral_3_eq_3)

text \<open>
  The first chunk with the header of a frame: the length, the identifier and the command are taken
  from it, with the data that it has.
\<close>

definition header_read :: "8 word \<Rightarrow> 8 word \<Rightarrow> 8 word list \<Rightarrow> 8 word list \<Rightarrow> pn532 \<Rightarrow> pn532 \<Rightarrow> bool" where
  "header_read t cc d e p q \<longleftrightarrow> (\<exists>buf. q = p\<lparr>rxbuf := buf, start_of_packet := 3, packet_length := length d + 2,
     preamble_start_seen := True, preamble_seen := True, first_data := False, data_length_checksum_valid := True,
     tfi := t, command_code := cc, pdata := e\<rparr>)"

lemma header_read_fields:
  assumes "header_read t cc d e p q"
  shows "pdata q = e" "packet_length q = length d + 2" "preamble_seen q" "\<not> first_data q" "data_length_checksum_valid q"
    "tfi q = t" "command_code q = cc" "in_list_passive_target_promise q = in_list_passive_target_promise p"
    "configure_sam_promise q = configure_sam_promise p" "get_firmware_version_promise q = get_firmware_version_promise p"
    "packet_length q \<noteq> 0"
  using assms by (auto simp: header_read_def)

lemma response_frame_nth:
  assumes "length d \<le> 253"
  shows "response_frame t cc d ! 0 = 0" "response_frame t cc d ! Suc 0 = 0" "response_frame t cc d ! 2 = 0xFF"
    "response_frame t cc d ! 3 = of_nat (length d + 2)" "response_frame t cc d ! 4 = - of_nat (length d + 2)"
    "response_frame t cc d ! 5 = t" "response_frame t cc d ! 6 = cc"
    "drop 7 (response_frame t cc d) = d @ [- (t + cc + sum_list d), 0]" "length (response_frame t cc d) = length d + 9"
  by (simp_all add: response_frame_def Let_def nth_Cons' numeral_eq_Suc del: of_nat_add)

lemma scan_header:
  assumes "7 \<le> n" "resetDataRead p = p" "buf 0 = 0" "buf 1 = 0" "buf 2 = 0xFF" "buf 3 = of_nat l" "buf 4 = - of_nat l" "l \<le> 255"
  shows "scan buf n [0..<n] p = p\<lparr>preamble_start_seen := True, preamble_seen := True, start_of_packet := 3, packet_length := l,
     data_length_checksum_valid := True\<rparr>"
proof -
  have "unat (of_nat l :: 8 word) = l" using assms(8) by (simp add: unat_of_nat)
  then show ?thesis
    using assms resetDataRead_idle[OF assms(2)] length_checksum[of "of_nat l"] unfolding upt_7[OF assms(1)]
    by (simp add: Let_def)
qed

text \<open>What happens with the data that the header was read with or that arrived later.\<close>

definition finish :: "pn532 \<Rightarrow> (pn532_error, pn532) result" where
  "finish q = (if length (pdata q) < packet_length q then Inr q else bind_res (parseData q) (\<lambda>p. Inr (resetDataRead p)))"

lemma read_chunk_first:
  assumes "c \<noteq> []" "length c = k" "(\<lambda>i. if i < k then c ! i else rxbuf p i) = buf"
    "scan buf k [0..<k] (p\<lparr>rxbuf := buf\<rparr>) = p1" "packet_length p1 \<noteq> 0" "data_length_checksum_valid p1"
  shows "read_chunk c p = finish (take_first_data k p1)"
  using assms by (simp add: read_chunk_def Let_def finish_def)

lemma read_header_chunk:
  assumes "resetDataRead p = p" "length d \<le> 253" "7 \<le> k" "k \<le> length (response_frame t cc d)"
  shows "\<exists>q. header_read t cc d (take (k - 7) (drop 7 (response_frame t cc d))) p q
    \<and> read_chunk (take k (response_frame t cc d)) p = finish q"
proof -
  let ?f = "response_frame t cc d"
  let ?buf = "\<lambda>i. if i < k then ?f ! i else rxbuf p i"
  let ?p = "p\<lparr>rxbuf := ?buf\<rparr>"
  have idle: "resetDataRead ?p = ?p" using assms(1) by (cases p) (simp add: resetDataRead_def)
  have buf: "(\<lambda>i. if i < k then take k ?f ! i else rxbuf p i) = ?buf" by (auto simp: fun_eq_iff)
  have sc: "scan ?buf k [0..<k] ?p = ?p\<lparr>preamble_start_seen := True, preamble_seen := True, start_of_packet := 3,
      packet_length := length d + 2, data_length_checksum_valid := True\<rparr>"
    using assms(3) response_frame_nth[OF assms(2), of t cc] assms(2)
    by (intro scan_header[OF assms(3) idle]) simp_all
  have data: "map ?buf [7..<k] = take (k - 7) (drop 7 ?f)"
    using assms(3,4) by (intro nth_equalityI) auto
  let ?q = "p\<lparr>rxbuf := ?buf, start_of_packet := 3, packet_length := length d + 2,
     preamble_start_seen := True, preamble_seen := True, first_data := False, data_length_checksum_valid := True,
     tfi := t, command_code := cc, pdata := take (k - 7) (drop 7 ?f)\<rparr>"
  have len: "length (take k ?f) = k" "take k ?f \<noteq> []" using assms(3,4) by auto
  have "take_first_data k (?p\<lparr>preamble_start_seen := True, preamble_seen := True, start_of_packet := 3,
      packet_length := length d + 2, data_length_checksum_valid := True\<rparr>) = ?q"
    using assms(3) data response_frame_nth[OF assms(2), of t cc] resetDataRead_idle[OF assms(1)]
    by (cases p) (simp add: take_first_data_def)
  moreover have "read_chunk (take k ?f) p = finish (take_first_data k (?p\<lparr>preamble_start_seen := True, preamble_seen := True,
      start_of_packet := 3, packet_length := length d + 2, data_length_checksum_valid := True\<rparr>))"
    by (rule read_chunk_first[OF len(2,1) buf sc]) simp_all
  ultimately have "read_chunk (take k ?f) p = finish ?q" by simp
  moreover have "header_read t cc d (take (k - 7) (drop 7 ?f)) p ?q" by (auto simp: header_read_def)
  ultimately show ?thesis by blast
qed

lemma read_data_chunk:
  assumes "header_read t cc d e p q" "rest \<noteq> []"
  shows "\<exists>q'. header_read t cc d (e @ rest) p q' \<and> read_chunk rest q = finish q'"
proof -
  let ?buf = "\<lambda>i. if i < length rest then rest ! i else rxbuf q i"
  have data: "map ?buf [0..<length rest] = rest" by (intro nth_equalityI) simp_all
  let ?q = "q\<lparr>rxbuf := ?buf, pdata := e @ rest\<rparr>"
  have "read_chunk rest q = finish ?q"
    using header_read_fields[OF assms(1)] assms(2)
    by (simp add: read_chunk_def Let_def scan_data data take_first_data_def finish_def del: upt_Suc)
  moreover have "header_read t cc d (e @ rest) p ?q"
    using assms(1) by (auto simp: header_read_def intro!: exI[of _ ?buf])
  ultimately show ?thesis by blast
qed

lemma finish_complete:
  assumes "header_read t cc d (d @ [- (t + cc + sum_list d), 0]) p q"
  shows "finish q = bind_res (handle_response cc d (q\<lparr>pdata := d\<rparr>)) (\<lambda>p. Inr (resetDataRead p))"
  using header_read_fields[OF assms] by (simp add: finish_def parseData_def Let_def butlast_append)

lemma read_frame:
  assumes "resetDataRead p = p" "length d \<le> 253" "7 \<le> k" "k \<le> length (response_frame t cc d)"
  shows "\<exists>q. header_read t cc d d p q
    \<and> bind_res (read_chunk (take k (response_frame t cc d)) p) (read_chunk (drop k (response_frame t cc d)))
       = bind_res (handle_response cc d q) (\<lambda>p. Inr (resetDataRead p))"
proof -
  let ?f = "response_frame t cc d" and ?all = "d @ [- (t + cc + sum_list d), 0]"
  have f: "drop 7 ?f = ?all" "length ?f = length d + 9" using response_frame_nth[OF assms(2)] by simp_all
  obtain q where q: "header_read t cc d (take (k - 7) ?all) p q" "read_chunk (take k ?f) p = finish q"
    using read_header_chunk[OF assms] f by auto
  have "\<exists>q. header_read t cc d ?all p q \<and> bind_res (read_chunk (take k ?f) p) (read_chunk (drop k ?f)) = finish q"
  proof (cases "k = length ?f")
    case True
    have "bind_res (finish q) (read_chunk []) = finish q"
      by (cases "finish q") (simp_all add: read_chunk_def)
    then show ?thesis using q f True by (intro exI[of _ q]) simp
  next
    case False
    then have "length (take (k - 7) ?all) < length d + 2" "drop k ?f \<noteq> []" using assms(3,4) f by auto
    then have "length (pdata q) < packet_length q" by (simp only: header_read_fields(1,2)[OF q(1)])
    then have "finish q = Inr q" by (simp add: finish_def)
    moreover have "drop k ?f = drop (k - 7) (drop 7 ?f)" using assms(3) by simp
    then have "take (k - 7) ?all @ drop k ?f = ?all" by (simp only: f(1) append_take_drop_id)
    ultimately show ?thesis using read_data_chunk[OF q(1) \<open>drop k ?f \<noteq> []\<close>] q(2) by auto
  qed
  then obtain q' where q': "header_read t cc d ?all p q'"
    "bind_res (read_chunk (take k ?f) p) (read_chunk (drop k ?f)) = finish q'" by blast
  have "header_read t cc d d p (q'\<lparr>pdata := d\<rparr>)" using q'(1) by (auto simp: header_read_def)
  then show ?thesis using q'(2) finish_complete[OF q'(1)] by auto
qed

section \<open>Writing a frame\<close>

text \<open>A command is written as a frame with the same two checksums.\<close>

lemma command_is_frame:
  assumes "d \<noteq> []"
  shows "serialWriteCommand d p = p\<lparr>serial_written := serial_written p @ response_frame host_to_pn532 (hd d) (tl d)\<rparr>"
proof -
  obtain c e where d: "d = c # e" using assms by (cases d) auto
  have "NOT w + 1 = - w" for w :: "8 word" by (simp add: minus_eq_not_plus_1)
  then show ?thesis by (simp add: serialWriteCommand_def response_frame_def d Let_def algebra_simps)
qed

section \<open>From a card to its token\<close>

lemma hex_digit_inj: "a < 16 \<Longrightarrow> b < 16 \<Longrightarrow> hex_digit a = hex_digit b \<Longrightarrow> a = b"
  by (auto simp: hex_digit_def split: if_splits dest!: arg_cong[of _ _ "of_char :: char \<Rightarrow> nat"])

lemma hex_byte_inj:
  assumes "hex_digit (unat a div 16) = hex_digit (unat (b :: 8 word) div 16)" "hex_digit (unat a mod 16) = hex_digit (unat b mod 16)"
  shows "a = b"
proof -
  have "unat w < 256" for w :: "8 word" using unsigned_less[of w] by simp
  then have "unat a div 16 < 16" "unat b div 16 < 16" by (simp_all add: less_mult_imp_div_less)
  then have "unat a div 16 = unat b div 16" "unat a mod 16 = unat b mod 16"
    using assms by (auto intro: hex_digit_inj)
  then have "unat a = unat b" by (metis div_mult_mod_eq)
  then show ?thesis by (simp add: word_unat_eq_iff)
qed

lemma hex_bytes_inj:
  "concat (map (\<lambda>b :: 8 word. [hex_digit (unat b div 16), hex_digit (unat b mod 16)]) xs)
    = concat (map (\<lambda>b. [hex_digit (unat b div 16), hex_digit (unat b mod 16)]) ys) \<Longrightarrow> xs = ys"
proof (induction xs arbitrary: ys)
  case Nil
  then show ?case by (cases ys) auto
next
  case (Cons x xs)
  then obtain y ys' where ys: "ys = y # ys'" by (cases ys) auto
  with Cons.prems have "x = y" by (auto intro: hex_byte_inj)
  with Cons ys show ?case by auto
qed

text \<open>The answer of the reader for one card.\<close>

definition card_data :: "8 word \<Rightarrow> 8 word \<Rightarrow> 8 word \<Rightarrow> 8 word \<Rightarrow> 8 word list \<Rightarrow> 8 word list \<Rightarrow> 8 word list" where
  "card_data t msb lsb sel uid rest = [1, t, msb, lsb, sel, of_nat (length uid)] @ uid @ rest"

lemma card_parsed:
  assumes "length uid \<le> 255"
  shows "\<exists>a. published_tokens (parseInListPassiveTargetResponse (card_data t msb lsb sel uid rest))
     = [\<lparr>id_token = getNFCID a, token_type = TT_RFID, token_connectors = None, prevalidated = None\<rparr>] \<and> nfcid a = uid"
proof -
  have "unat (of_nat (length uid) :: 8 word) = length uid" using assms by (simp add: unat_of_nat)
  then show ?thesis
    by (simp add: card_data_def parseInListPassiveTargetResponse_def published_tokens_def Let_def nth_Cons' numeral_eq_Suc)
       (rule exI, rule conjI[OF refl], simp)
qed


definition idle_pn532 :: pn532 where
  "idle_pn532 = \<lparr>start_of_packet = 0, packet_length = 0, preamble_start_seen = False, preamble_seen = False, first_data = True,
     data_length_checksum_valid = False, tfi = 0, command_code = 0, pdata = [], rxbuf = (\<lambda>_. 0),
     configure_sam_promise = No_promise, get_firmware_version_promise = No_promise,
     in_list_passive_target_promise = No_promise, serial_written = []\<rparr>"


section \<open>Repeated answers\<close>

lemma answered_twice:
  assumes "configure_sam_promise p \<noteq> No_promise" "handle_response COMMAND_SAM_CONFIGURATION_RESPONSE d p = Inr p'"
    "configure_sam_promise q = configure_sam_promise p'"
  shows "handle_response COMMAND_SAM_CONFIGURATION_RESPONSE e q = Inl Promise_already_satisfied"
  using assms
  by (auto simp: handle_response_def set_value_def COMMAND_GET_FIRMWARE_VERSION_RESPONSE_def
      COMMAND_SAM_CONFIGURATION_RESPONSE_def split: promise.splits)

text \<open>
  C39: When the configuration of the secure access module is retried because the first answer is late,
  and the reader answers both commands, the second answer throws in the thread that reads: the
  promise of the retry is satisfied by the answer to the first command.
\<close>

theorem late_answer_ends_reader:
  assumes "resetDataRead p = p"
  shows "\<exists>p'. read_chunk (response_frame t COMMAND_SAM_CONFIGURATION_RESPONSE []) (configureSAM (configureSAM p)) = Inr p'
    \<and> read_chunk (response_frame t COMMAND_SAM_CONFIGURATION_RESPONSE []) p' = Inl Promise_already_satisfied"
proof -
  let ?cc = COMMAND_SAM_CONFIGURATION_RESPONSE and ?p = "configureSAM (configureSAM p)"
  let ?f = "response_frame t ?cc []"
  have f: "take (length ?f) ?f = ?f" "drop (length ?f) ?f = []" "7 \<le> length ?f" by (simp_all add: response_frame_def Let_def)
  have one: "\<exists>q. header_read t ?cc [] [] p q \<and> read_chunk ?f p = bind_res (handle_response ?cc [] q) (\<lambda>p. Inr (resetDataRead p))"
    if "resetDataRead p = p" for p
    using read_frame[OF that, of "[]" "length ?f" t ?cc] f
    by (auto simp: read_chunk_def[of "[]"] bind_res_def split: sum.splits)
  have p: "resetDataRead ?p = ?p" "configure_sam_promise ?p = Waiting"
    using assms by (cases p; simp add: configureSAM_def serialWriteCommand_def Let_def resetDataRead_def)+
  obtain q where q: "header_read t ?cc [] [] ?p q" "read_chunk ?f ?p = bind_res (handle_response ?cc [] q) (\<lambda>p. Inr (resetDataRead p))"
    using one[OF p(1)] by blast
  have w: "configure_sam_promise q = Waiting" using header_read_fields(9)[OF q(1)] p(2) by simp
  then have h: "handle_response ?cc [] q = Inr (q\<lparr>configure_sam_promise := Satisfied True\<rparr>)"
    by (simp add: handle_response_def set_value_def COMMAND_GET_FIRMWARE_VERSION_RESPONSE_def COMMAND_SAM_CONFIGURATION_RESPONSE_def)
  let ?p' = "resetDataRead (q\<lparr>configure_sam_promise := Satisfied True\<rparr>)"
  have "resetDataRead ?p' = ?p'" "configure_sam_promise ?p' = Satisfied True" by (simp_all add: resetDataRead_def)
  from one[OF this(1)] this(2) obtain q' where q': "header_read t ?cc [] [] ?p' q'"
    "read_chunk ?f ?p' = bind_res (handle_response ?cc [] q') (\<lambda>p. Inr (resetDataRead p))" by blast
  have "configure_sam_promise q' = configure_sam_promise (q\<lparr>configure_sam_promise := Satisfied True\<rparr>)"
    using header_read_fields(9)[OF q'(1)] by (simp add: resetDataRead_def)
  from answered_twice[OF _ h this] w have "handle_response ?cc [] q' = Inl Promise_already_satisfied" by simp
  then show ?thesis using q(2) q'(2) h by simp
qed

theorem late_answer_ends_reader_witness:
  "\<exists>p'. read_chunk (response_frame 0xD5 COMMAND_SAM_CONFIGURATION_RESPONSE []) p' = Inl Promise_already_satisfied"
proof -
  have "resetDataRead idle_pn532 = idle_pn532" by (simp add: resetDataRead_def idle_pn532_def)
  from late_answer_ends_reader[OF this] show ?thesis by blast
qed

end
