(* ===== verification/Generic_Powermeter.thy ===== *)
theory Generic_Powermeter
  imports Energy_Types Serial_Modbus
begin

text \<open>
  The driver for power meters that are described by a file (\<open>modules/GenericPowermeter\<close>): the assignment
  of registers from the loaded document, the reading of the registers through the serial
  communication hub and the conversion of their contents. The hub is a parameter; so is the value
  that a bit pattern stands for which is no number.
\<close>

section \<open>Documents\<close>

text \<open>The JSON value that the file is loaded as. \<open>None\<close> when an access throws.\<close>

datatype json =
    JNull | JBool bool | JInt int | JFloat float_t | JString string | JArray "json list" | JObject "(string \<times> json) list"

fun json_at :: "json \<Rightarrow> string \<Rightarrow> json option" where
  "json_at (JObject kvs) k = map_of kvs k"
| "json_at j k = None"

definition json_contains :: "json \<Rightarrow> string \<Rightarrow> bool" where
  "json_contains j k = (json_at j k \<noteq> None)"

text \<open>Values of different types are compared by the order of their types.\<close>

fun json_positive :: "json \<Rightarrow> bool" where
  "json_positive (JInt n) = (n > 0)"
| "json_positive (JFloat x) = (x > 0)"
| "json_positive JNull = False"
| "json_positive (JBool b) = False"
| "json_positive j = True"

fun json_word :: "json \<Rightarrow> 'a::len word option" where
  "json_word (JInt n) = Some (of_int n)"
| "json_word (JFloat x) = Some (of_int (if x < 0 then \<lceil>x\<rceil> else \<lfloor>x\<rfloor>))"
| "json_word (JBool b) = Some (if b then 1 else 0)"
| "json_word j = None"

fun json_float :: "json \<Rightarrow> float_t option" where
  "json_float (JInt n) = Some (of_int n)"
| "json_float (JFloat x) = Some x"
| "json_float (JBool b) = Some (if b then 1 else 0)"
| "json_float j = None"

section \<open>Registers\<close>

datatype PowermeterRegisters =
    ENERGY_WH_IMPORT_TOTAL | ENERGY_WH_IMPORT_L1 | ENERGY_WH_IMPORT_L2 | ENERGY_WH_IMPORT_L3 |
    ENERGY_WH_EXPORT_TOTAL | ENERGY_WH_EXPORT_L1 | ENERGY_WH_EXPORT_L2 | ENERGY_WH_EXPORT_L3 |
    POWER_W_TOTAL | POWER_W_L1 | POWER_W_L2 | POWER_W_L3 | VOLTAGE_V_DC | VOLTAGE_V_L1 | VOLTAGE_V_L2 |
    VOLTAGE_V_L3 | REACTIVE_POWER_VAR_TOTAL | REACTIVE_POWER_VAR_L1 | REACTIVE_POWER_VAR_L2 |
    REACTIVE_POWER_VAR_L3 | CURRENT_A_DC | CURRENT_A_L1 | CURRENT_A_L2 | CURRENT_A_L3 |
    FREQUENCY_HZ_L1 | FREQUENCY_HZ_L2 | FREQUENCY_HZ_L3

definition pm_registers :: "PowermeterRegisters list" where
  "pm_registers = [ENERGY_WH_IMPORT_TOTAL, ENERGY_WH_IMPORT_L1, ENERGY_WH_IMPORT_L2, ENERGY_WH_IMPORT_L3,
     ENERGY_WH_EXPORT_TOTAL, ENERGY_WH_EXPORT_L1, ENERGY_WH_EXPORT_L2, ENERGY_WH_EXPORT_L3,
     POWER_W_TOTAL, POWER_W_L1, POWER_W_L2, POWER_W_L3, VOLTAGE_V_DC, VOLTAGE_V_L1, VOLTAGE_V_L2,
     VOLTAGE_V_L3, REACTIVE_POWER_VAR_TOTAL, REACTIVE_POWER_VAR_L1, REACTIVE_POWER_VAR_L2,
     REACTIVE_POWER_VAR_L3, CURRENT_A_DC, CURRENT_A_L1, CURRENT_A_L2, CURRENT_A_L3, FREQUENCY_HZ_L1,
     FREQUENCY_HZ_L2, FREQUENCY_HZ_L3]"

definition NUM_PM_REGISTERS :: nat where "NUM_PM_REGISTERS = length pm_registers"

definition register_index :: "PowermeterRegisters \<Rightarrow> nat" where
  "register_index r = length (takeWhile (\<lambda>q. q \<noteq> r) pm_registers)"

datatype ModbusFunctionType = READ_HOLDING_REGISTER | READ_INPUT_REGISTER | REGISTER_TYPE_UNDEFINED

record RegisterData =
  multiplier :: float_t
  reg_type :: PowermeterRegisters
  start_register :: "16 word"
  start_register_function :: ModbusFunctionType
  exponent_register :: "16 word"
  exponent_register_function :: ModbusFunctionType
  num_registers :: "16 word"

definition select_modbus_function :: "8 word \<Rightarrow> ModbusFunctionType option" where
  "select_modbus_function c =
    (if c = 0x03 then Some READ_HOLDING_REGISTER else if c = 0x04 then Some READ_INPUT_REGISTER else None)"

section \<open>Assignment of registers\<close>

definition json_function :: "json \<Rightarrow> string \<Rightarrow> ModbusFunctionType option" where
  "json_function j k = Option.bind (Option.bind (json_at j k) json_word) select_modbus_function"

definition register_entry :: "json \<Rightarrow> PowermeterRegisters \<Rightarrow> RegisterData option" where
  "register_entry j t =
    (case (Option.bind (json_at j ''start_register'') json_word, json_function j ''function_code_start_reg'',
           Option.bind (json_at j ''num_registers'') json_word, Option.bind (json_at j ''exponent_register'') json_word,
           json_function j ''function_code_exp_reg'', Option.bind (json_at j ''multiplier'') json_float) of
       (Some s, Some sf, Some n, Some e, Some ef, Some m) \<Rightarrow>
         Some \<lparr>multiplier = m, reg_type = t, start_register = s, start_register_function = sf, exponent_register = e,
               exponent_register_function = ef, num_registers = n\<rparr>
     | _ \<Rightarrow> None)"

definition sublevel_type :: "PowermeterRegisters \<Rightarrow> nat \<Rightarrow> PowermeterRegisters" where
  "sublevel_type t offset = pm_registers ! ((register_index t + offset) mod NUM_PM_REGISTERS)"

text \<open>The registers that a level of a quantity adds, none unless it has a positive number of them.\<close>

definition assign_level :: "json \<Rightarrow> PowermeterRegisters \<Rightarrow> RegisterData list option" where
  "assign_level j t =
    (case json_at j ''num_registers'' of
       None \<Rightarrow> None
     | Some n \<Rightarrow> if json_positive n then map_option (\<lambda>d. [d]) (register_entry j t) else Some [])"

definition assign_register_sublevel_data :: "json \<Rightarrow> PowermeterRegisters \<Rightarrow> string \<Rightarrow> nat \<Rightarrow> RegisterData list option" where
  "assign_register_sublevel_data j t sublevel offset =
    (case json_at j sublevel of None \<Rightarrow> Some [] | Some l \<Rightarrow> assign_level l (sublevel_type t offset))"

text \<open>Adds what the steps yield until one of them throws; the first result tells whether none did.\<close>

fun add_until_thrown :: "RegisterData list option list \<Rightarrow> RegisterData list \<Rightarrow> bool \<times> RegisterData list" where
  "add_until_thrown [] cfg = (True, cfg)"
| "add_until_thrown (None # rs) cfg = (False, cfg)"
| "add_until_thrown (Some ds # rs) cfg = add_until_thrown rs (cfg @ ds)"

definition assign_register_data ::
    "json \<Rightarrow> PowermeterRegisters \<Rightarrow> string \<Rightarrow> RegisterData list \<Rightarrow> bool \<times> RegisterData list" where
  "assign_register_data registers t selector cfg =
    (case json_at registers selector of
       None \<Rightarrow> (True, cfg)
     | Some j \<Rightarrow>
         add_until_thrown
           [assign_level j t, assign_register_sublevel_data j t ''L1'' 1, assign_register_sublevel_data j t ''L2'' 2,
            assign_register_sublevel_data j t ''L3'' 3] cfg)"

definition selectors :: "(PowermeterRegisters \<times> string) list" where
  "selectors = [(ENERGY_WH_IMPORT_TOTAL, ''energy_Wh_import''), (ENERGY_WH_EXPORT_TOTAL, ''energy_Wh_export''),
     (POWER_W_TOTAL, ''power_W''), (VOLTAGE_V_DC, ''voltage_V''), (REACTIVE_POWER_VAR_TOTAL, ''reactive_power_VAR''),
     (CURRENT_A_DC, ''current_A''), (FREQUENCY_HZ_L1, ''frequency_Hz'')]"

text \<open>Every selector is tried; the flag tells whether all of them succeeded.\<close>

definition init_register_assignments :: "json \<Rightarrow> bool \<times> RegisterData list" where
  "init_register_assignments registers =
     fold (\<lambda>(t, selector) (ok, cfg). let (ok', cfg) = assign_register_data registers t selector cfg in (ok \<and> ok', cfg))
       selectors (True, [])"

section \<open>Values\<close>

definition no_values :: phase_values where
  "no_values = \<lparr>pv_total = None, pv_DC = None, pv_L1 = None, pv_L2 = None, pv_L3 = None, pv_N = None\<rparr>"

definition values_of :: "phase_values option \<Rightarrow> phase_values" where
  "values_of q = (case q of None \<Rightarrow> no_values | Some q \<Rightarrow> q)"

fun default_value :: "PowermeterRegisters \<Rightarrow> Powermeter \<Rightarrow> Powermeter" where
  "default_value ENERGY_WH_IMPORT_TOTAL p = p\<lparr>energy_Wh_import := (energy_Wh_import p)\<lparr>pv_total := Some 0\<rparr>\<rparr>"
| "default_value ENERGY_WH_IMPORT_L1 p = p\<lparr>energy_Wh_import := (energy_Wh_import p)\<lparr>pv_L1 := Some 0\<rparr>\<rparr>"
| "default_value ENERGY_WH_IMPORT_L2 p = p\<lparr>energy_Wh_import := (energy_Wh_import p)\<lparr>pv_L2 := Some 0\<rparr>\<rparr>"
| "default_value ENERGY_WH_IMPORT_L3 p = p\<lparr>energy_Wh_import := (energy_Wh_import p)\<lparr>pv_L3 := Some 0\<rparr>\<rparr>"
| "default_value ENERGY_WH_EXPORT_TOTAL p = p\<lparr>energy_Wh_export := Some ((values_of (energy_Wh_export p))\<lparr>pv_total := Some 0\<rparr>)\<rparr>"
| "default_value ENERGY_WH_EXPORT_L1 p = p\<lparr>energy_Wh_export := Some ((values_of (energy_Wh_export p))\<lparr>pv_L1 := Some 0\<rparr>)\<rparr>"
| "default_value ENERGY_WH_EXPORT_L2 p = p\<lparr>energy_Wh_export := Some ((values_of (energy_Wh_export p))\<lparr>pv_L2 := Some 0\<rparr>)\<rparr>"
| "default_value ENERGY_WH_EXPORT_L3 p = p\<lparr>energy_Wh_export := Some ((values_of (energy_Wh_export p))\<lparr>pv_L3 := Some 0\<rparr>)\<rparr>"
| "default_value POWER_W_TOTAL p = p\<lparr>power_W := Some ((values_of (power_W p))\<lparr>pv_total := Some 0\<rparr>)\<rparr>"
| "default_value POWER_W_L1 p = p\<lparr>power_W := Some ((values_of (power_W p))\<lparr>pv_L1 := Some 0\<rparr>)\<rparr>"
| "default_value POWER_W_L2 p = p\<lparr>power_W := Some ((values_of (power_W p))\<lparr>pv_L2 := Some 0\<rparr>)\<rparr>"
| "default_value POWER_W_L3 p = p\<lparr>power_W := Some ((values_of (power_W p))\<lparr>pv_L3 := Some 0\<rparr>)\<rparr>"
| "default_value VOLTAGE_V_DC p = p\<lparr>voltage_V := Some ((values_of (voltage_V p))\<lparr>pv_DC := Some 0\<rparr>)\<rparr>"
| "default_value VOLTAGE_V_L1 p = p\<lparr>voltage_V := Some ((values_of (voltage_V p))\<lparr>pv_L1 := Some 0\<rparr>)\<rparr>"
| "default_value VOLTAGE_V_L2 p = p\<lparr>voltage_V := Some ((values_of (voltage_V p))\<lparr>pv_L2 := Some 0\<rparr>)\<rparr>"
| "default_value VOLTAGE_V_L3 p = p\<lparr>voltage_V := Some ((values_of (voltage_V p))\<lparr>pv_L3 := Some 0\<rparr>)\<rparr>"
| "default_value REACTIVE_POWER_VAR_TOTAL p = p\<lparr>VAR := Some ((values_of (VAR p))\<lparr>pv_total := Some 0\<rparr>)\<rparr>"
| "default_value REACTIVE_POWER_VAR_L1 p = p\<lparr>VAR := Some ((values_of (VAR p))\<lparr>pv_L1 := Some 0\<rparr>)\<rparr>"
| "default_value REACTIVE_POWER_VAR_L2 p = p\<lparr>VAR := Some ((values_of (VAR p))\<lparr>pv_L2 := Some 0\<rparr>)\<rparr>"
| "default_value REACTIVE_POWER_VAR_L3 p = p\<lparr>VAR := Some ((values_of (VAR p))\<lparr>pv_L3 := Some 0\<rparr>)\<rparr>"
| "default_value CURRENT_A_DC p = p\<lparr>current_A := Some ((values_of (current_A p))\<lparr>pv_DC := Some 0\<rparr>)\<rparr>"
| "default_value CURRENT_A_L1 p = p\<lparr>current_A := Some ((values_of (current_A p))\<lparr>pv_L1 := Some 0\<rparr>)\<rparr>"
| "default_value CURRENT_A_L2 p = p\<lparr>current_A := Some ((values_of (current_A p))\<lparr>pv_L2 := Some 0\<rparr>)\<rparr>"
| "default_value CURRENT_A_L3 p = p\<lparr>current_A := Some ((values_of (current_A p))\<lparr>pv_L3 := Some 0\<rparr>)\<rparr>"
| "default_value FREQUENCY_HZ_L1 p = p\<lparr>frequency_Hz := Some ((values_of (frequency_Hz p))\<lparr>pv_L1 := Some 0\<rparr>)\<rparr>"
| "default_value FREQUENCY_HZ_L2 p = p\<lparr>frequency_Hz := Some ((values_of (frequency_Hz p))\<lparr>pv_L2 := Some 0\<rparr>)\<rparr>"
| "default_value FREQUENCY_HZ_L3 p = p\<lparr>frequency_Hz := Some ((values_of (frequency_Hz p))\<lparr>pv_L3 := Some 0\<rparr>)\<rparr>"

definition init_default_values :: "string \<Rightarrow> string \<Rightarrow> RegisterData list \<Rightarrow> Powermeter \<Rightarrow> Powermeter" where
  "init_default_values now mod_id cfg p =
     fold (\<lambda>r. default_value (reg_type r)) cfg (p\<lparr>pm_timestamp := now, meter_id := Some mod_id\<rparr>)"

text \<open>\<open>None\<close> when the value of an optional is taken that has none.\<close>

fun store_value :: "PowermeterRegisters \<Rightarrow> float_t \<Rightarrow> Powermeter \<Rightarrow> Powermeter option" where
  "store_value ENERGY_WH_IMPORT_TOTAL v p = Some (p\<lparr>energy_Wh_import := (energy_Wh_import p)\<lparr>pv_total := Some v\<rparr>\<rparr>)"
| "store_value ENERGY_WH_IMPORT_L1 v p = Some (p\<lparr>energy_Wh_import := (energy_Wh_import p)\<lparr>pv_L1 := Some v\<rparr>\<rparr>)"
| "store_value ENERGY_WH_IMPORT_L2 v p = Some (p\<lparr>energy_Wh_import := (energy_Wh_import p)\<lparr>pv_L2 := Some v\<rparr>\<rparr>)"
| "store_value ENERGY_WH_IMPORT_L3 v p = Some (p\<lparr>energy_Wh_import := (energy_Wh_import p)\<lparr>pv_L3 := Some v\<rparr>\<rparr>)"
| "store_value ENERGY_WH_EXPORT_TOTAL v p = map_option (\<lambda>q. p\<lparr>energy_Wh_export := Some (q\<lparr>pv_total := Some v\<rparr>)\<rparr>) (energy_Wh_export p)"
| "store_value ENERGY_WH_EXPORT_L1 v p = map_option (\<lambda>q. p\<lparr>energy_Wh_export := Some (q\<lparr>pv_L1 := Some v\<rparr>)\<rparr>) (energy_Wh_export p)"
| "store_value ENERGY_WH_EXPORT_L2 v p = map_option (\<lambda>q. p\<lparr>energy_Wh_export := Some (q\<lparr>pv_L2 := Some v\<rparr>)\<rparr>) (energy_Wh_export p)"
| "store_value ENERGY_WH_EXPORT_L3 v p = map_option (\<lambda>q. p\<lparr>energy_Wh_export := Some (q\<lparr>pv_L3 := Some v\<rparr>)\<rparr>) (energy_Wh_export p)"
| "store_value POWER_W_TOTAL v p = map_option (\<lambda>q. p\<lparr>power_W := Some (q\<lparr>pv_total := Some v\<rparr>)\<rparr>) (power_W p)"
| "store_value POWER_W_L1 v p = map_option (\<lambda>q. p\<lparr>power_W := Some (q\<lparr>pv_L1 := Some v\<rparr>)\<rparr>) (power_W p)"
| "store_value POWER_W_L2 v p = map_option (\<lambda>q. p\<lparr>power_W := Some (q\<lparr>pv_L2 := Some v\<rparr>)\<rparr>) (power_W p)"
| "store_value POWER_W_L3 v p = map_option (\<lambda>q. p\<lparr>power_W := Some (q\<lparr>pv_L3 := Some v\<rparr>)\<rparr>) (power_W p)"
| "store_value VOLTAGE_V_DC v p = map_option (\<lambda>q. p\<lparr>voltage_V := Some (q\<lparr>pv_DC := Some v\<rparr>)\<rparr>) (voltage_V p)"
| "store_value VOLTAGE_V_L1 v p = map_option (\<lambda>q. p\<lparr>voltage_V := Some (q\<lparr>pv_L1 := Some v\<rparr>)\<rparr>) (voltage_V p)"
| "store_value VOLTAGE_V_L2 v p = map_option (\<lambda>q. p\<lparr>voltage_V := Some (q\<lparr>pv_L2 := Some v\<rparr>)\<rparr>) (voltage_V p)"
| "store_value VOLTAGE_V_L3 v p = map_option (\<lambda>q. p\<lparr>voltage_V := Some (q\<lparr>pv_L3 := Some v\<rparr>)\<rparr>) (voltage_V p)"
| "store_value REACTIVE_POWER_VAR_TOTAL v p = map_option (\<lambda>q. p\<lparr>VAR := Some (q\<lparr>pv_total := Some v\<rparr>)\<rparr>) (VAR p)"
| "store_value REACTIVE_POWER_VAR_L1 v p = map_option (\<lambda>q. p\<lparr>VAR := Some (q\<lparr>pv_L1 := Some v\<rparr>)\<rparr>) (VAR p)"
| "store_value REACTIVE_POWER_VAR_L2 v p = map_option (\<lambda>q. p\<lparr>VAR := Some (q\<lparr>pv_L2 := Some v\<rparr>)\<rparr>) (VAR p)"
| "store_value REACTIVE_POWER_VAR_L3 v p = map_option (\<lambda>q. p\<lparr>VAR := Some (q\<lparr>pv_L3 := Some v\<rparr>)\<rparr>) (VAR p)"
| "store_value CURRENT_A_DC v p = map_option (\<lambda>q. p\<lparr>current_A := Some (q\<lparr>pv_DC := Some v\<rparr>)\<rparr>) (current_A p)"
| "store_value CURRENT_A_L1 v p = map_option (\<lambda>q. p\<lparr>current_A := Some (q\<lparr>pv_L1 := Some v\<rparr>)\<rparr>) (current_A p)"
| "store_value CURRENT_A_L2 v p = map_option (\<lambda>q. p\<lparr>current_A := Some (q\<lparr>pv_L2 := Some v\<rparr>)\<rparr>) (current_A p)"
| "store_value CURRENT_A_L3 v p = map_option (\<lambda>q. p\<lparr>current_A := Some (q\<lparr>pv_L3 := Some v\<rparr>)\<rparr>) (current_A p)"
| "store_value FREQUENCY_HZ_L1 v p = map_option (\<lambda>q. p\<lparr>frequency_Hz := Some (q\<lparr>pv_L1 := Some v\<rparr>)\<rparr>) (frequency_Hz p)"
| "store_value FREQUENCY_HZ_L2 v p = map_option (\<lambda>q. p\<lparr>frequency_Hz := Some (q\<lparr>pv_L2 := Some v\<rparr>)\<rparr>) (frequency_Hz p)"
| "store_value FREQUENCY_HZ_L3 v p = map_option (\<lambda>q. p\<lparr>frequency_Hz := Some (q\<lparr>pv_L3 := Some v\<rparr>)\<rparr>) (frequency_Hz p)"

section \<open>Reading\<close>

datatype pm_error = Unsupported_register_count | Empty_optional | Empty_vector

text \<open>The single precision number with the given bits; \<open>special\<close> stands for infinities and not-a-numbers.\<close>

definition ieee_single :: "(32 word \<Rightarrow> float_t) \<Rightarrow> 32 word \<Rightarrow> float_t" where
  "ieee_single special w =
    (let e = unat (drop_bit 23 w) mod 256;
         m = of_nat (unat (take_bit 23 w)) :: float_t;
         s = (if bit w 31 then - 1 else 1) :: float_t
     in if e = 255 then special w
        else if e = 0 then s * m / 2 ^ 149
        else s * (2 ^ 23 + m) * 2 ^ e / 2 ^ 150)"

definition scale10 :: "int \<Rightarrow> float_t" where
  "scale10 e = (if e \<ge> 0 then 10 ^ nat e else 1 / 10 ^ nat (- e))"

definition merge_register_values_into_element ::
    "(32 word \<Rightarrow> float_t) \<Rightarrow> RegisterData \<Rightarrow> int \<Rightarrow> hub_result \<Rightarrow> (pm_error, float_t) result" where
  "merge_register_values_into_element special reg_data e reg_message =
    (case result_value reg_message of
       None \<Rightarrow> Inr 0
     | Some vs \<Rightarrow>
         let scaled = (\<lambda>w. Inr (ieee_single special w * multiplier reg_data * scale10 e))
         in if num_registers reg_data = 1 \<and> length vs = 1 then scaled (of_int (vs ! 0))
            else if num_registers reg_data = 2 \<and> length vs = 2 then scaled (push_bit 16 (of_int (vs ! 0)) + of_int (vs ! 1))
            else Inl Unsupported_register_count)"

definition pm_process_response ::
    "(32 word \<Rightarrow> float_t) \<Rightarrow> RegisterData \<Rightarrow> hub_result \<Rightarrow> hub_result option \<Rightarrow> Powermeter \<Rightarrow> (pm_error, Powermeter) result" where
  "pm_process_response special reg register_message exponent_message p =
    (if status_code register_message = Success then
       (case Option.bind exponent_message result_value of
          Some [] \<Rightarrow> Inl Empty_vector
        | es \<Rightarrow>
            let e = (case es of Some (v # _) \<Rightarrow> sint (of_int v :: 16 word) | _ \<Rightarrow> 0)
            in case store_value (reg_type reg) 0 p of
                 None \<Rightarrow> Inl Empty_optional
               | Some _ \<Rightarrow>
                   bind_res (merge_register_values_into_element special reg e register_message)
                     (\<lambda>v. case store_value (reg_type reg) v p of None \<Rightarrow> Inl Empty_optional | Some p \<Rightarrow> Inr p))
     else Inr p)"

record pm_conf =
  powermeter_device_id :: int
  modbus_base_address :: int

record pm_hub =
  call_read_holding :: "int \<Rightarrow> int \<Rightarrow> int \<Rightarrow> hub_result"
  call_read_input :: "int \<Rightarrow> int \<Rightarrow> int \<Rightarrow> hub_result"

definition read_with :: "pm_hub \<Rightarrow> pm_conf \<Rightarrow> ModbusFunctionType \<Rightarrow> 16 word \<Rightarrow> 16 word \<Rightarrow> hub_result option" where
  "read_with hub conf f reg n =
    (case f of
       READ_HOLDING_REGISTER \<Rightarrow> Some (call_read_holding hub (powermeter_device_id conf) (uint reg) (uint n))
     | READ_INPUT_REGISTER \<Rightarrow>
         Some (call_read_input hub (powermeter_device_id conf) (uint reg - modbus_base_address conf) (uint n))
     | REGISTER_TYPE_UNDEFINED \<Rightarrow> None)"

text \<open>The answer that is there when no register is read: its status is the first of the enumeration.\<close>

definition no_answer :: hub_result where
  "no_answer = \<lparr>status_code = Success, result_value = None\<rparr>"

definition readRegister ::
    "(32 word \<Rightarrow> float_t) \<Rightarrow> pm_hub \<Rightarrow> pm_conf \<Rightarrow> RegisterData \<Rightarrow> Powermeter \<Rightarrow> (pm_error, Powermeter) result" where
  "readRegister special hub conf reg p =
    (let register_response =
           (case read_with hub conf (start_register_function reg) (start_register reg) (num_registers reg) of
              None \<Rightarrow> no_answer | Some r \<Rightarrow> r);
         exponent_response =
           (if exponent_register reg \<noteq> 0
            then read_with hub conf (exponent_register_function reg) (exponent_register reg) (num_registers reg) else None)
     in pm_process_response special reg register_response exponent_response p)"

fun read_registers ::
    "(32 word \<Rightarrow> float_t) \<Rightarrow> pm_hub \<Rightarrow> pm_conf \<Rightarrow> RegisterData list \<Rightarrow> Powermeter \<Rightarrow> (pm_error, Powermeter) result" where
  "read_registers special hub conf [] p = Inr p"
| "read_registers special hub conf (r # rs) p =
     bind_res (readRegister special hub conf r p) (read_registers special hub conf rs)"

text \<open>One round of the reading thread; the result is published.\<close>

definition read_powermeter_values ::
    "(32 word \<Rightarrow> float_t) \<Rightarrow> pm_hub \<Rightarrow> pm_conf \<Rightarrow> string \<Rightarrow> RegisterData list \<Rightarrow> Powermeter \<Rightarrow> (pm_error, Powermeter) result" where
  "read_powermeter_values special hub conf now cfg p =
     bind_res (read_registers special hub conf cfg p) (\<lambda>p. Inr (p\<lparr>pm_timestamp := now\<rparr>))"

end
