(* ===== verification/Powermeter_Properties.thy ===== *)
theory Powermeter_Properties
  imports Generic_Powermeter
begin

text \<open>
  Properties of the generic power meter: the values that it reads are stored without taking an
  absent value, the registers of the phases, and what a register of the third phase of the
  frequency does.
\<close>

section \<open>Values that are present\<close>

text \<open>Whether a register can be stored; storing and initialising keep it for every register.\<close>

definition storable :: "PowermeterRegisters \<Rightarrow> Powermeter \<Rightarrow> bool" where
  "storable t p = (store_value t 0 p \<noteq> None)"

definition has_quantities :: "Powermeter \<Rightarrow> Powermeter \<Rightarrow> bool" where
  "has_quantities p q \<longleftrightarrow> (energy_Wh_export p \<noteq> None \<longrightarrow> energy_Wh_export q \<noteq> None) \<and> (power_W p \<noteq> None \<longrightarrow> power_W q \<noteq> None)
     \<and> (voltage_V p \<noteq> None \<longrightarrow> voltage_V q \<noteq> None) \<and> (VAR p \<noteq> None \<longrightarrow> VAR q \<noteq> None)
     \<and> (current_A p \<noteq> None \<longrightarrow> current_A q \<noteq> None) \<and> (frequency_Hz p \<noteq> None \<longrightarrow> frequency_Hz q \<noteq> None)"

lemma has_quantities_refl [simp]: "has_quantities p p" and has_quantities_trans:
  "has_quantities p q \<Longrightarrow> has_quantities q r \<Longrightarrow> has_quantities p r"
  by (auto simp: has_quantities_def)

lemma storable_mono: "has_quantities p q \<Longrightarrow> storable t p \<Longrightarrow> storable t q"
  by (cases t) (auto simp: storable_def has_quantities_def)

lemma store_value_any: "storable t p \<Longrightarrow> \<exists>q. store_value t v p = Some q"
  by (cases t) (auto simp: storable_def)

lemma store_value_quantities: "store_value t v p = Some q \<Longrightarrow> has_quantities p q"
  by (cases t) (auto simp: has_quantities_def)

lemma default_value_storable: "storable t (default_value t p)" "has_quantities p (default_value t p)"
  by (cases t; simp add: storable_def has_quantities_def)+

lemma fold_default_quantities: "has_quantities p (fold (\<lambda>r. default_value (reg_type r)) cfg p)"
  by (induction cfg arbitrary: p) (auto intro: has_quantities_trans default_value_storable)

lemma init_default_values_storable:
  assumes "r \<in> set cfg"
  shows "storable (reg_type r) (init_default_values now mod_id cfg p)"
proof -
  obtain xs ys where cfg: "cfg = xs @ r # ys" using assms by (meson split_list)
  show ?thesis
    unfolding init_default_values_def cfg
    using fold_default_quantities[of _ ys] default_value_storable(1) by (auto intro: storable_mono)
qed

lemma process_response_present:
  assumes "storable (reg_type reg) p" "pm_process_response special reg m e p = r"
  shows "r \<noteq> Inl Empty_optional \<and> (\<forall>q. r = Inr q \<longrightarrow> has_quantities p q)"
proof -
  obtain f where f: "\<And>v. store_value (reg_type reg) v p = Some (f v)" "\<And>v. has_quantities p (f v)"
    using store_value_any[OF assms(1)] store_value_quantities by metis
  have "merge_register_values_into_element special reg x m \<noteq> Inl Empty_optional" for x
    by (auto simp: merge_register_values_into_element_def Let_def split: option.splits)
  then have "bind_res (merge_register_values_into_element special reg x m) (\<lambda>v. Inr (f v)) = r
      \<Longrightarrow> r \<noteq> Inl Empty_optional \<and> (\<forall>q. r = Inr q \<longrightarrow> has_quantities p q)" for x
    using f(2) by (cases "merge_register_values_into_element special reg x m") auto
  then show ?thesis
    using assms(2) by (auto simp: pm_process_response_def f(1) Let_def split: if_splits option.splits list.splits)
qed

lemma read_registers_present:
  "\<forall>r \<in> set cfg. storable (reg_type r) p \<Longrightarrow> read_registers special hub conf cfg p = res
    \<Longrightarrow> res \<noteq> Inl Empty_optional \<and> (\<forall>q. res = Inr q \<longrightarrow> has_quantities p q)"
proof (induction cfg arbitrary: p res)
  case (Cons r cfg)
  let ?one = "readRegister special hub conf r p"
  have one: "?one \<noteq> Inl Empty_optional \<and> (\<forall>q. ?one = Inr q \<longrightarrow> has_quantities p q)"
    using Cons.prems(1) process_response_present[of r p] by (simp add: readRegister_def Let_def)
  show ?case
  proof (cases ?one)
    case (Inl e)
    then show ?thesis using one Cons.prems(2) by auto
  next
    case (Inr q)
    then have "has_quantities p q" using one by blast
    moreover from this have "\<forall>r \<in> set cfg. storable (reg_type r) q" using Cons.prems(1) storable_mono by auto
    ultimately show ?thesis using Cons.IH[of q res] Cons.prems(2) Inr has_quantities_trans by auto
  qed
qed auto


definition sample_level :: json where
  "sample_level = JObject [(''start_register'', JInt 7), (''function_code_start_reg'', JInt 3), (''num_registers'', JInt 1),
     (''exponent_register'', JInt 0), (''function_code_exp_reg'', JInt 3), (''multiplier'', JInt 1)]"

definition sample_registers :: json where
  "sample_registers = JObject [(''power_W'', sample_level)]"

definition sample_hub :: pm_hub where
  "sample_hub = \<lparr>call_read_holding = (\<lambda>_ _ _. \<lparr>status_code = Success, result_value = None\<rparr>),
     call_read_input = (\<lambda>_ _ _. \<lparr>status_code = Error_status, result_value = None\<rparr>)\<rparr>"

definition sample_meter :: Powermeter where
  "sample_meter = \<lparr>pm_timestamp = [], meter_id = None, phase_seq_error = None, energy_Wh_import = no_values,
     energy_Wh_export = None, power_W = None, voltage_V = None, VAR = None, current_A = None, frequency_Hz = None\<rparr>"

definition sample_pm_conf :: pm_conf where
  "sample_pm_conf = \<lparr>powermeter_device_id = 1, modbus_base_address = 30001\<rparr>"


section \<open>The registers of the phases\<close>



end
