(* ===== verification/Spec2Isabelle.thy ===== *)
theory Spec2Isabelle
  imports Charger_Reactions Serial_Modbus_Correct Auth_Progress Slac_Properties Station V2g_Server_Properties V2g_Sdp
    Yeti_Properties Nfc_Properties Powermeter_Properties
begin

text \<open>
  A verification development for EVerest, the software of a charging station for electric cars
  (\<open>src/modules\<close>, C++). EVerest is a set of modules that call commands of each other and
  publish variables. The modules that decide about energy are modelled here: who may charge, when
  the contactors close, how much power flows, and what is said to the car. Theory names are
  written like \<open>Charger\<close>, files are given relative to \<open>src/modules\<close>.

  \<^bold>\<open>How the parts interact.\<close>
  The EVSE manager owns one charging point. Its \<open>Charger\<close> runs the state machine of IEC 61851 on the
  events of a board support package (here the \<open>YetiDriver\<close>, which talks to a microcontroller over
  a serial line). A token from a reader (\<open>PN532TokenProvider\<close>) goes to \<open>Auth\<close>, which has it validated,
  chooses a connector and authorises its EVSE manager. A car that speaks a high level
  protocol is first paired with the station by \<open>EvseSlac\<close>, finds the server by SDP and then talks
  DIN 70121 or ISO 15118-2 to \<open>EvseV2G\<close>, which exchanges commands and published values with the
  EVSE manager (authorization, cable check, target voltage and current). Every EVSE manager asks
  for energy; the requests travel up a tree of \<open>EnergyNode\<close>s, the \<open>EnergyManager\<close> trades on the
  whole tree and sends limits back. Power meters are read through the \<open>SerialCommHub\<close>
  (\<open>GenericPowermeter\<close>).

  \<^bold>\<open>Shared theories.\<close>
  \<^item> \<open>Prelude\<close>: collections of simplification rules, the result type, reachable states of a labelled
    transition system and the locale \<open>invariant_system\<close>.
  \<^item> \<open>Everest_Types\<close>, \<open>Energy_Types\<close>: the types of \<open>src/types/*.yaml\<close> that several modules exchange.
  \<^item> \<open>Std_Map\<close>: \<open>std::map\<close> with integer keys as an ordered association list.
  \<^item> \<open>Checksum\<close>: the locales \<open>injective_register\<close> and \<open>reflected_crc\<close> of the checksums.

  \<^bold>\<open>EvseManager/Charger.cpp.\<close>
  \<open>Charger\<close> has the state of the class as the record \<open>charger\<close>, one definition per method and one per
  case of \<open>runStateMachine\<close>; \<open>charger_step\<close> interleaves iterations of the main thread, control
  pilot events and calls of the public methods. \<open>Charger_Invariants\<close> shows, for all
  interleavings, that energy is only switched on in a running transaction and that transactions only
  start with an authorization. \<open>Charger_Behaviour\<close> shows that transactions are bracketed and that
  limits stay under their bounds; \<open>Charger_Reactions\<close> shows what single iterations do (duty
  cycle, over-current, expiry of limits, unplugging).

  \<^bold>\<open>EvseManager: the module, its energy interface and commands.\<close>
  \<open>Evse_Manager\<close> models \<open>EvseManager.cpp\<close> and \<open>evse/evse_managerImpl.cpp\<close> (record \<open>EvseManager\<close>, which
  contains a \<open>charger\<close>), \<open>Evse_Energy\<close> models \<open>energy_grid/energyImpl.cpp\<close>. \<open>Evse_Properties\<close> shows when a
  cable check may be reported as passed, that every command to the DC supply is within its
  capabilities, what stands behind an authorization of the high level communication, and how
  enforced limits reach the charger.

  \<^bold>\<open>Auth.\<close>
  \<open>Auth_Connector\<close> (\<open>lib/Connector.cpp\<close>, \<open>lib/ConnectorStateMachine.cpp\<close>), \<open>Auth_Reservation\<close>
  (\<open>lib/ReservationHandler.cpp\<close>) and \<open>Auth_Handler\<close> (\<open>lib/AuthHandler.cpp\<close>, \<open>Auth.cpp\<close>) model the module.
  \<open>Auth_Frame\<close> has what each step leaves alone, \<open>Auth_Correct\<close> shows that an accepted token
  was validated, that its connector was not reserved for another, and that a transaction is stopped
  only by a token that belongs to it; \<open>Auth_Progress\<close> shows which exceptions are possible
  and that the handler returns. The connector state machine refines the product of its usage
  and its fault flag.

  \<^bold>\<open>EvseSlac.\<close>
  \<open>Slac_Fsm\<close> is the hierarchical state machine library of the module (\<open>libfsm/fsm/fsm.hpp\<close>) with the
  locale \<open>flat_machine\<close>, the contract of machines that do not nest. \<open>Slac\<close> has the states, the message
  handlers and the controller thread (\<open>main/\<close>). \<open>Slac_Correct\<close> and \<open>Slac_Properties\<close> show that a car is
  only matched after the complete sequence of messages, that the published link state agrees with
  the state of the machine, and the bookkeeping of the matching sessions.

  \<^bold>\<open>EnergyManager and EnergyNode.\<close>
  \<open>Energy_Market\<close> models the time slots, the tree of markets, offers, brokers and the optimizer
  (\<open>Market.cpp\<close>, \<open>Offer.cpp\<close>, \<open>Broker*.cpp\<close>, \<open>EnergyManager.cpp\<close>), \<open>Energy_Node\<close> the node
  (\<open>EnergyNode/\<close>). \<open>Energy_Correct\<close> has the invariant of the books, \<open>Energy_Properties\<close> the
  consequences: the sum of the enforced limits is within the limits of the root, and
  the optimizer returns or, for deep trees, follows a dangling pointer. \<open>Energy_System\<close>
  composes node and manager; \<open>Station\<close> adds the EVSE managers: what all chargers together may draw is
  within the fuse.

  \<^bold>\<open>EvseV2G.\<close>
  \<open>V2g_Context\<close> is the shared context (\<open>v2g.hpp\<close>, \<open>v2g_ctx.cpp\<close>, \<open>tools.cpp\<close>), \<open>V2g_Commands\<close> the commands of the
  other modules (\<open>charger/ISO15118_chargerImpl.cpp\<close>), \<open>V2g_Din\<close> and \<open>V2g_Iso\<close> the handlers of the two
  protocols (\<open>din_server.cpp\<close>, \<open>iso_server.cpp\<close>), \<open>V2g_Server\<close> the transport, the negotiation, the message
  loop and the server threads (\<open>v2g_server.cpp\<close>, \<open>connection.cpp\<close>), \<open>V2g_Sdp\<close> the discovery (\<open>sdp.cpp\<close>).
  \<open>V2g_Traces\<close> has the vocabulary for sessions. \<open>V2g_Din_Correct\<close> and \<open>V2g_Iso_Correct\<close> show that the handlers
  implement an explicit protocol automaton, \<open>V2g_Iso_Runs\<close> follows it through sessions with
  renegotiations, \<open>V2g_Server_Correct\<close> lifts what holds of a session to everything that a connection does.
  \<open>V2g_Properties\<close>, \<open>V2g_Iso_Properties\<close> and \<open>V2g_Server_Properties\<close> state the results: the car is answered a
  current demand only after authorization, parameters, a passed cable check, the precharge
  and a power delivery, in this order and after the last renegotiation; the state never leaves its table; an
  emergency shutdown closes the connection; the best protocol is negotiated; an AC power delivery
  needs the closed contactor; and what goes wrong (a schedule search that never ends, a length that
  wraps around, a lost connection that keeps the contactor, a second connection that resets a
  running session).

  \<^bold>\<open>Serial lines and devices.\<close>
  \<open>Serial_Modbus\<close> models the Modbus client and the hub around it (\<open>SerialCommHub/\<close>),
  \<open>Serial_Modbus_Correct\<close> shows the round trip of registers, the detection of corrupted bytes, and that
  reading a reply ends and stays in its buffer. \<open>Yeti_Serial\<close> and \<open>Yeti_Driver\<close> model the link to
  the microcontroller and the board support (\<open>YetiDriver/\<close>); \<open>Yeti_Serial_Correct\<close> and \<open>Yeti_Properties\<close>
  show that the stuffing is the one of the reference encoder, which frames arrive, and that the
  decoder stays in its buffer. \<open>Nfc_Reader\<close> and \<open>Nfc_Properties\<close> are the PN532 reader
  (\<open>PN532TokenProvider/\<close>): a card yields its token, a late answer ends the reading
  thread. \<open>Generic_Powermeter\<close> and \<open>Powermeter_Properties\<close> are the configurable power meter
  (\<open>GenericPowermeter/\<close>).

  \<^bold>\<open>Interfaces.\<close>
  Each locale is interpreted on the definitions of the model, and the properties rest on its facts:
  \<^item> \<open>invariant_system\<close>: \<open>transaction\<close>, \<open>balance\<close>, \<open>limits\<close> (charger), \<open>slac_runs\<close>, \<open>decoder\<close> (Yeti).
  \<^item> \<open>flat_machine\<close>: \<open>slac\<close>, the SLAC states on the state machine library.
  \<^item> \<open>reservation_service\<close>: \<open>rs\<close>, the reservation handler as the token handler uses it.
  \<^item> \<open>reflected_crc\<close>, with \<open>injective_register\<close> as its sublocale: \<open>crc\<close> (Modbus), \<open>crc32\<close> (Yeti).
  \<^item> \<open>served_session\<close>, what a protocol promises to the message loop: \<open>din_session\<close>, \<open>iso_session\<close>, and
    \<open>din_idle\<close>, \<open>iso_idle\<close> for the events of one protocol while the other is spoken.
  \<^item> \<open>served_connection\<close>, what the message loop promises to the connection: \<open>din_connection\<close>,
    \<open>iso_connection\<close>.

  \<^bold>\<open>How code becomes definitions.\<close>
  \<^item> Floating point numbers are rationals, without rounding, infinities and NaN (where a bit pattern
    may be no number, its value is a parameter). Integers keep their width where it matters
    (checksums, frames, lengths, masks); elsewhere they are mathematical.
  \<^item> A method that holds its mutex is one step. A handler reads each clock once, unless it
    sleeps. Time points are milliseconds, in the SLAC module nanoseconds.
  \<^item> Calls to other modules, published variables and timer operations are appended to an output.
  \<^item> What other threads do while a handler waits is an argument: a list of events or commands.
  \<^item> Exceptions are values of an error type or \<open>None\<close>; so are accesses out of bounds, dangling
    pointers and locking a mutex twice. A loop that may never end is \<open>None\<close> when it does not.
  \<^item> Code outside the repository is a parameter: the libfsm controller of \<open>Auth\<close>, libslac, the clock
    and the RFC 3339 parser, the EXI codec, the cryptography, nanopb and the sockets. So is
    uninitialised memory. What is assumed of them is a named hypothesis of the theorem.

  \<^bold>\<open>Bounds.\<close>
  The optimizer trades at most \<open>max_number_of_trading_rounds\<close> rounds, as in the code. The message loop and
  the reading of a connection consume a list of turns and of rounds of the socket, one element per
  iteration; a list that is too short gives \<open>None\<close>. The theorems about connections hold for
  lists of every length, and witnesses show runs for which the list is long enough. The reading of
  a Modbus reply and the retry loops terminate without fuel. The hypothesis that there are no wake-ups
  in an ISO session concerns DC sessions, in which only the installation of a certificate during an
  emergency shutdown waits; an AC session also waits for the contactor, with any wake-ups.

  \<^bold>\<open>Not modelled.\<close>
  \<^item> Of \<open>EvseV2G\<close>: the set-up of sockets and of TLS with its certificates, the publication of messages for
    debugging, timers and logging. They call the operating system and mbedTLS.
  \<^item> Of \<open>YetiDriver\<close>: the serial port settings, telemetry and the JSON documents on MQTT topics. Of
    \<open>PN532TokenProvider\<close>: the order in which the main loop waits for answers, and the port settings. Of
    \<open>GenericPowermeter\<close>: loading the file.
  \<^item> \<open>EvseManager/SessionLog.cpp\<close>, \<open>API\<close>: log files and JSON documents for external tools.
  \<^item> \<open>MicroMegaWattBSP\<close>: a second copy of the link code of the \<open>YetiDriver\<close> with other messages. \<open>PowermeterBSM\<close>:
    tables of the registers of one device.
  \<^item> \<open>OCPP\<close>, \<open>OCPP201\<close>: adapters around libocpp. \<open>PacketSniffer\<close>, \<open>SunspecReader\<close>, \<open>SunspecScanner\<close>: wrappers around
    libpcap and libsunspec. \<open>Setup\<close>, \<open>System\<close>: calls of operating system tools. \<open>Store\<close>, \<open>PersistentStore\<close>: a
    map and a table of a data base. The behaviour of all of them is that of code outside the repository.
  \<^item> \<open>DummyV2G\<close>, the examples, the JavaScript and Python modules, and the vendored nanopb.
\<close>

end
